(* ===== verification/Prelude.thy ===== *)
theory Prelude
  imports Main "HOL-Library.Finite_Map" "HOL-Library.Sublist" "HOL-Library.Word"
begin

text \<open>
  The vocabulary every component shares.
  \<^item> Outcomes of Go code: a value, an error value, or a run-time panic. Errors are caught by
    \<^verbatim>\<open>if err != nil\<close>; a panic is not, so it is a third constructor.
  \<^item> Computations over a state, with the sequencing that \<^verbatim>\<open>if err != nil { return err }\<close>
    expresses, and the frame calculus that says what a computation leaves alone.
  \<^item> Go maps: a finite map or nil; reads of a nil map give the zero value, writes to one panic.
  \<^item> The parts of \<^verbatim>\<open>strings\<close>, \<^verbatim>\<open>strconv\<close> and \<^verbatim>\<open>fmt\<close> the sources use. A Go string is a
    sequence of bytes, as HOL's \<^typ>\<open>string\<close> is.
\<close>

named_theorems outcome_simps "evaluation of outcomes and computations"
named_theorems label_simps "lookup in the label maps the providers build"

section \<open>Outcomes\<close>

datatype go_error =
    NotFound string
  | Conflict string
  | OtherError string

primrec IsNotFound :: "go_error \<Rightarrow> bool" where
  "IsNotFound (NotFound _) = True"
| "IsNotFound (Conflict _) = False"
| "IsNotFound (OtherError _) = False"

primrec IsConflict :: "go_error \<Rightarrow> bool" where
  "IsConflict (NotFound _) = False"
| "IsConflict (Conflict _) = True"
| "IsConflict (OtherError _) = False"

text \<open>The text of an error, \<^verbatim>\<open>err.Error()\<close>.\<close>

primrec error_text :: "go_error \<Rightarrow> string" where
  "error_text (NotFound msg) = msg"
| "error_text (Conflict msg) = msg"
| "error_text (OtherError msg) = msg"

datatype 'a outcome =
    Ok 'a
  | Err go_error
  | Panic string

primrec is_Ok :: "'a outcome \<Rightarrow> bool" where
  "is_Ok (Ok _) = True"
| "is_Ok (Err _) = False"
| "is_Ok (Panic _) = False"

primrec is_Panic :: "'a outcome \<Rightarrow> bool" where
  "is_Panic (Ok _) = False"
| "is_Panic (Err _) = False"
| "is_Panic (Panic _) = True"

lemma is_Ok_iff: "is_Ok r \<longleftrightarrow> (\<exists>x. r = Ok x)"
  by (cases r) auto

lemma is_Panic_iff: "is_Panic r \<longleftrightarrow> (\<exists>p. r = Panic p)"
  by (cases r) auto

primrec obind :: "'a outcome \<Rightarrow> ('a \<Rightarrow> 'b outcome) \<Rightarrow> 'b outcome" where
  "obind (Ok x) f = f x"
| "obind (Err e) f = Err e"
| "obind (Panic p) f = Panic p"

lemma obind_eq_Ok: "obind m f = Ok y \<longleftrightarrow> (\<exists>x. m = Ok x \<and> f x = Ok y)"
  by (cases m) auto

lemma obind_eq_Err: "obind m f = Err e \<longleftrightarrow> m = Err e \<or> (\<exists>x. m = Ok x \<and> f x = Err e)"
  by (cases m) auto

lemma obind_not_Err:
  "(\<And>e. m \<noteq> Err e) \<Longrightarrow> (\<And>x e. f x \<noteq> Err e) \<Longrightarrow> obind m f \<noteq> Err e"
  by (cases m) auto

lemma obind_assoc: "obind (obind m f) g = obind m (\<lambda>x. obind (f x) g)"
  by (cases m) auto

lemma obind_Ok_right [simp]: "obind m Ok = m"
  by (cases m) auto

text \<open>Dereferencing a pointer, indexing a slice: the two run-time checks of the sources.\<close>

primrec deref :: "'a option \<Rightarrow> 'a outcome" where
  "deref None = Panic ''nil pointer dereference''"
| "deref (Some x) = Ok x"

lemma deref_eq_Ok [simp]: "deref p = Ok x \<longleftrightarrow> p = Some x"
  by (cases p) auto

lemma deref_not_Err [simp]: "deref p \<noteq> Err e"
  by (cases p) auto

definition index :: "'a list \<Rightarrow> int \<Rightarrow> 'a outcome" where
  "index xs i =
     (if 0 \<le> i \<and> i < int (length xs) then Ok (xs ! nat i) else Panic ''index out of range'')"

lemma index_eq_Ok: "index xs i = Ok x \<longleftrightarrow> 0 \<le> i \<and> i < int (length xs) \<and> x = xs ! nat i"
  by (auto simp: index_def)

lemma index_Ok_in_set: "index xs i = Ok x \<Longrightarrow> x \<in> set xs"
  by (auto simp: index_def split: if_splits)

lemma index_not_Err [simp]: "index xs i \<noteq> Err e"
  by (simp add: index_def)

section \<open>Computations\<close>

type_synonym ('s, 'a) comp = "'s \<Rightarrow> 'a outcome \<times> 's"

definition ret :: "'a \<Rightarrow> ('s, 'a) comp" where
  "ret x = (\<lambda>s. (Ok x, s))"

definition fail :: "go_error \<Rightarrow> ('s, 'a) comp" where
  "fail e = (\<lambda>s. (Err e, s))"

definition lift_outcome :: "'a outcome \<Rightarrow> ('s, 'a) comp" where
  "lift_outcome r = (\<lambda>s. (r, s))"

definition bindM :: "('s, 'a) comp \<Rightarrow> ('a \<Rightarrow> ('s, 'b) comp) \<Rightarrow> ('s, 'b) comp" where
  "bindM m k = (\<lambda>s. case m s of (r, t) \<Rightarrow>
     (case r of Ok x \<Rightarrow> k x t | Err e \<Rightarrow> (Err e, t) | Panic p \<Rightarrow> (Panic p, t)))"

text \<open>
  \<^verbatim>\<open>v, err := f()\<close> where the code inspects the error itself: the error becomes a value,
  a panic still propagates.
\<close>

definition attempt :: "('s, 'a) comp \<Rightarrow> ('s, go_error + 'a) comp" where
  "attempt m = (\<lambda>s. case m s of (r, t) \<Rightarrow>
     (case r of Ok x \<Rightarrow> (Ok (Inr x), t) | Err e \<Rightarrow> (Ok (Inl e), t) | Panic p \<Rightarrow> (Panic p, t)))"

definition gets :: "('s \<Rightarrow> 'a) \<Rightarrow> ('s, 'a) comp" where
  "gets f = (\<lambda>s. (Ok (f s), s))"

definition modify :: "('s \<Rightarrow> 's) \<Rightarrow> ('s, unit) comp" where
  "modify f = (\<lambda>s. (Ok (), f s))"

text \<open>\<^verbatim>\<open>for _, x := range xs\<close> with an early return on error, and the same with a variable
  the body updates.\<close>

primrec forM :: "('a \<Rightarrow> ('s, unit) comp) \<Rightarrow> 'a list \<Rightarrow> ('s, unit) comp" where
  "forM f [] = ret ()"
| "forM f (x # xs) = bindM (f x) (\<lambda>_. forM f xs)"

primrec foldMc :: "('b \<Rightarrow> 'a \<Rightarrow> ('s, 'b) comp) \<Rightarrow> 'b \<Rightarrow> 'a list \<Rightarrow> ('s, 'b) comp" where
  "foldMc f b [] = ret b"
| "foldMc f b (x # xs) = bindM (f b x) (\<lambda>b'. foldMc f b' xs)"

lemma ret_run [simp, outcome_simps]: "ret x s = (Ok x, s)"
  by (simp add: ret_def)

lemma fail_run [simp, outcome_simps]: "fail e s = (Err e, s)"
  by (simp add: fail_def)

lemma lift_outcome_run [simp, outcome_simps]: "lift_outcome r s = (r, s)"
  by (simp add: lift_outcome_def)

lemma gets_run [simp, outcome_simps]: "gets f s = (Ok (f s), s)"
  by (simp add: gets_def)

lemma modify_run [simp, outcome_simps]: "modify f s = (Ok (), f s)"
  by (simp add: modify_def)

lemma bindM_Ok: "m s = (Ok x, t) \<Longrightarrow> bindM m k s = k x t"
  by (simp add: bindM_def)

lemma bindM_Err: "m s = (Err e, t) \<Longrightarrow> bindM m k s = (Err e, t)"
  by (simp add: bindM_def)

lemma bindM_Panic: "m s = (Panic p, t) \<Longrightarrow> bindM m k s = (Panic p, t)"
  by (simp add: bindM_def)

lemma bindM_simps [simp]:
  "bindM (ret x) k = k x"
  "bindM (fail e) k = fail e"
  "bindM (gets f) k = (\<lambda>s. k (f s) s)"
  "bindM (modify g) k' = (\<lambda>s. k' () (g s))"
  "bindM (lift_outcome (Ok x)) k = k x"
  by (auto simp: bindM_def)

lemma bindM_eq_Ok:
  "bindM m k s = (Ok y, u) \<longleftrightarrow> (\<exists>x t. m s = (Ok x, t) \<and> k x t = (Ok y, u))"
  by (auto simp: bindM_def split: prod.splits outcome.splits)

lemma attempt_eq_Ok:
  "attempt m s = (Ok y, t) \<longleftrightarrow>
     (\<exists>x. y = Inr x \<and> m s = (Ok x, t)) \<or> (\<exists>e. y = Inl e \<and> m s = (Err e, t))"
  by (auto simp: attempt_def split: prod.splits outcome.splits)

lemma attempt_not_Err: "attempt m s \<noteq> (Err e, t)"
  by (auto simp: attempt_def split: prod.splits outcome.splits)

lemma forM_append: "forM f (xs @ ys) s = bindM (forM f xs) (\<lambda>_. forM f ys) s"
  by (induction xs arbitrary: s)
     (auto simp: bindM_def split: prod.splits outcome.splits)

section \<open>Frames: what a computation leaves alone\<close>

text \<open>
  \<open>stays R m\<close>: every run of \<open>m\<close>, whatever its outcome, ends in a state \<open>R\<close>-related to
  the one it started in. For a reflexive and transitive \<open>R\<close> ("these fields are unchanged",
  "this log only grows") the property is closed under sequencing, branching and loops, so the
  frame of a handler follows from the frames of the calls it makes.
\<close>

definition stays :: "('s \<Rightarrow> 's \<Rightarrow> bool) \<Rightarrow> ('s, 'a) comp \<Rightarrow> bool" where
  "stays R m \<longleftrightarrow> (\<forall>s. R s (snd (m s)))"

lemma staysI: "(\<And>s r t. m s = (r, t) \<Longrightarrow> R s t) \<Longrightarrow> stays R m"
  by (simp add: stays_def) (metis prod.collapse)

lemma staysD: "stays R m \<Longrightarrow> m s = (r, t) \<Longrightarrow> R s t"
  by (simp add: stays_def) (metis snd_conv)

locale frame_rel =
  fixes R :: "'s \<Rightarrow> 's \<Rightarrow> bool"
  assumes frame_refl: "R s s"
    and frame_trans: "R s t \<Longrightarrow> R t u \<Longrightarrow> R s u"
begin

lemma stays_ret: "stays R (ret x)"
  by (simp add: stays_def frame_refl)

lemma stays_fail: "stays R (fail e)"
  by (simp add: stays_def frame_refl)

lemma stays_lift: "stays R (lift_outcome r)"
  by (simp add: stays_def frame_refl)

lemma stays_gets: "stays R (gets f)"
  by (simp add: stays_def frame_refl)

lemma stays_modify: "(\<And>s. R s (f s)) \<Longrightarrow> stays R (modify f)"
  by (simp add: stays_def)

lemma stays_bindM_value:
  assumes m: "stays R m" and k: "\<And>x s t. m s = (Ok x, t) \<Longrightarrow> stays R (k x)"
  shows "stays R (bindM m k)"
proof (rule staysI)
  fix s r u
  assume run: "bindM m k s = (r, u)"
  obtain r1 t where m1: "m s = (r1, t)" by fastforce
  have st: "R s t" by (rule staysD [OF m m1])
  show "R s u"
  proof (cases r1)
    case (Ok x)
    with run m1 have "k x t = (r, u)" by (simp add: bindM_def)
    then have "R t u" using k [of s x t] m1 Ok by (blast dest: staysD)
    with st show ?thesis by (rule frame_trans)
  qed (use run m1 st in \<open>auto simp: bindM_def\<close>)
qed

lemma stays_bindM: "stays R m \<Longrightarrow> (\<And>x. stays R (k x)) \<Longrightarrow> stays R (bindM m k)"
  by (rule stays_bindM_value)

lemma stays_attempt: "stays R m \<Longrightarrow> stays R (attempt m)"
  by (auto simp: stays_def attempt_def split: prod.splits outcome.splits) (metis snd_conv)+

lemma stays_forM: "(\<And>x. stays R (f x)) \<Longrightarrow> stays R (forM f xs)"
  by (induction xs) (simp_all add: stays_ret stays_bindM)

lemma stays_foldMc: "(\<And>b x. stays R (f b x)) \<Longrightarrow> stays R (foldMc f b xs)"
  by (induction xs arbitrary: b) (simp_all add: stays_ret stays_bindM)

lemma stays_if: "stays R m \<Longrightarrow> stays R n \<Longrightarrow> stays R (if b then m else n)"
  by simp

lemma stays_case_option:
  "stays R m \<Longrightarrow> (\<And>x. stays R (k x)) \<Longrightarrow>
   stays R (case v of None \<Rightarrow> m | Some x \<Rightarrow> k x)"
  by (cases v) auto

lemma stays_case_sum:
  "(\<And>e. stays R (f e)) \<Longrightarrow> (\<And>x. stays R (k x)) \<Longrightarrow>
   stays R (case v of Inl e \<Rightarrow> f e | Inr x \<Rightarrow> k x)"
  by (cases v) auto

lemma stays_case_prod:
  "(\<And>a b. stays R (k a b)) \<Longrightarrow> stays R (case v of (a, b) \<Rightarrow> k a b)"
  by (cases v) auto

lemmas stays_rules =
  stays_ret stays_fail stays_lift stays_gets stays_bindM stays_attempt
  stays_forM stays_foldMc stays_if stays_case_option stays_case_sum
  stays_case_prod

end

section \<open>Go maps\<close>

text \<open>
  \<open>None\<close> is the nil map. \<^verbatim>\<open>m[k]\<close> on a missing key or a nil map is the zero value of the
  element type; \<^verbatim>\<open>m[k] = v\<close> on a nil map panics. Code that just made a map works on the
  finite map itself.
\<close>

type_synonym 'v gomap = "(string, 'v) fmap option"

definition contents :: "'v gomap \<Rightarrow> (string, 'v) fmap" where
  "contents m = (case m of None \<Rightarrow> fmempty | Some f \<Rightarrow> f)"

definition mlookup :: "'v gomap \<Rightarrow> string \<Rightarrow> 'v option" where
  "mlookup m k = fmlookup (contents m) k"

definition fmget :: "(string, string) fmap \<Rightarrow> string \<Rightarrow> string" where
  "fmget f k = (case fmlookup f k of None \<Rightarrow> '''' | Some v \<Rightarrow> v)"

definition mget :: "string gomap \<Rightarrow> string \<Rightarrow> string" where
  "mget m k = fmget (contents m) k"

definition mset :: "string \<Rightarrow> 'v \<Rightarrow> 'v gomap \<Rightarrow> 'v gomap outcome" where
  "mset k v m = (case m of None \<Rightarrow> Panic ''assignment to entry in nil map''
                 | Some f \<Rightarrow> Ok (Some (fmupd k v f)))"

text \<open>\<^verbatim>\<open>maps.Equal\<close> and \<^verbatim>\<open>maps.Copy\<close> of the standard library: a nil map equals an empty one,
  and copying nothing into a nil map does not write to it.\<close>

definition maps_Equal :: "'v gomap \<Rightarrow> 'v gomap \<Rightarrow> bool" where
  "maps_Equal a b \<longleftrightarrow> contents a = contents b"

definition maps_Copy :: "'v gomap \<Rightarrow> 'v gomap \<Rightarrow> 'v gomap outcome" where
  "maps_Copy dst src =
     (case dst of
        None \<Rightarrow> (if contents src = fmempty then Ok None
                 else Panic ''assignment to entry in nil map'')
      | Some f \<Rightarrow> Ok (Some (fmadd f (contents src))))"

lemma contents_simps [simp]: "contents None = fmempty" "contents (Some f) = f"
  by (simp_all add: contents_def)

lemma mlookup_simps [simp]: "mlookup None k = None" "mlookup (Some f) k = fmlookup f k"
  by (simp_all add: mlookup_def)

lemma mget_simps [simp]: "mget None k = ''''" "mget (Some f) k = fmget f k"
  by (simp_all add: mget_def fmget_def)

lemma fmget_upd [simp]: "fmget (fmupd k v f) k' = (if k = k' then v else fmget f k')"
  by (simp add: fmget_def)

lemma fmget_empty [simp]: "fmget fmempty k = ''''"
  by (simp add: fmget_def)

lemma mset_eq_Ok: "mset k v m = Ok m' \<longleftrightarrow> (\<exists>f. m = Some f \<and> m' = Some (fmupd k v f))"
  by (auto simp: mset_def split: option.splits)

lemma mset_Some [simp]: "mset k v (Some f) = Ok (Some (fmupd k v f))"
  by (simp add: mset_def)

lemma mset_not_Err [simp]: "mset k v m \<noteq> Err e"
  by (simp add: mset_def split: option.splits)

lemma fmlookup_add_opt [simp]:
  "fmlookup (fmadd m n) k = (case fmlookup n k of None \<Rightarrow> fmlookup m k | Some v \<Rightarrow> Some v)"
  by (auto simp: fmlookup_add fmlookup_dom_iff split: option.splits)

declare fmlookup_add [simp del]

text \<open>A label selector selects a set of labels when every pair of it is among them.\<close>

definition selects :: "(string, string) fmap \<Rightarrow> (string, string) fmap \<Rightarrow> bool" where
  "selects sel labels \<longleftrightarrow> fmsubset sel labels"

lemma selects_iff:
  "selects sel labels \<longleftrightarrow> (\<forall>k v. fmlookup sel k = Some v \<longrightarrow> fmlookup labels k = Some v)"
  by (auto simp: selects_def fmsubset_alt_def fmpred_iff)

lemma selects_empty [simp]: "selects fmempty l"
  by (simp add: selects_iff)

lemma selects_refl [simp]: "selects l l"
  by (simp add: selects_iff)

lemma selects_trans: "selects a b \<Longrightarrow> selects b c \<Longrightarrow> selects a c"
  by (simp add: selects_iff)

lemma selects_upd:
  "fmlookup f k = None \<Longrightarrow> selects (fmupd k v f) l \<longleftrightarrow> fmlookup l k = Some v \<and> selects f l"
  by (auto simp: selects_iff)

section \<open>Mapping an outcome over a list\<close>

primrec omap :: "('a \<Rightarrow> 'b outcome) \<Rightarrow> 'a list \<Rightarrow> 'b list outcome" where
  "omap f [] = Ok []"
| "omap f (x # xs) = obind (f x) (\<lambda>y. obind (omap f xs) (\<lambda>ys. Ok (y # ys)))"

lemma omap_all_Ok: "(\<And>x. x \<in> set xs \<Longrightarrow> f x = Ok (g x)) \<Longrightarrow> omap f xs = Ok (map g xs)"
  by (induction xs) simp_all

end
