(* ===== verification/GoStrings.thy ===== *)
theory GoStrings
  imports Prelude
begin

text \<open>
  The functions of \<^verbatim>\<open>strings\<close>, \<^verbatim>\<open>strconv\<close> and \<^verbatim>\<open>fmt\<close> the operator calls: decimal printing
  and parsing of integers, \<^verbatim>\<open>Split\<close>, \<^verbatim>\<open>SplitN\<close> with a limit of two, \<^verbatim>\<open>Join\<close>, \<^verbatim>\<open>TrimSpace\<close> and
  \<^verbatim>\<open>ToLower\<close>, with the round trips the components rely on. \<^verbatim>\<open>fmt.Sprintf\<close> with \<^verbatim>\<open>%s\<close> and
  \<^verbatim>\<open>%d\<close> is concatenation with \<open>Itoa\<close> of the number.
\<close>

section \<open>Decimal numbers\<close>

definition digit :: "nat \<Rightarrow> char" where
  "digit n = char_of (48 + n)"

definition is_digit :: "char \<Rightarrow> bool" where
  "is_digit c \<longleftrightarrow> 48 \<le> (of_char c :: nat) \<and> (of_char c :: nat) \<le> 57"

fun nat_digits :: "nat \<Rightarrow> string" where
  "nat_digits n = (if n < 10 then [digit n] else nat_digits (n div 10) @ [digit (n mod 10)])"

declare nat_digits.simps [simp del]

definition dec_value :: "string \<Rightarrow> nat" where
  "dec_value s = foldl (\<lambda>a c. 10 * a + (of_char c - 48)) 0 s"

definition Itoa :: "int \<Rightarrow> string" where
  "Itoa i = (if i < 0 then CHR ''-'' # nat_digits (nat (- i)) else nat_digits (nat i))"

definition FormatBool :: "bool \<Rightarrow> string" where
  "FormatBool b = (if b then ''true'' else ''false'')"

text \<open>\<^verbatim>\<open>strconv.ParseInt(s, 10, 64)\<close>: an optional sign, at least one digit, and the result in the
  range of a 64-bit signed integer.\<close>

definition ParseInt64 :: "string \<Rightarrow> go_error + int" where
  "ParseInt64 s =
     (let (neg, ds) = (case s of [] \<Rightarrow> (False, [])
                       | c # cs \<Rightarrow> (if c = CHR ''-'' then (True, cs)
                                    else if c = CHR ''+'' then (False, cs) else (False, s)));
          v = (if neg then - int (dec_value ds) else int (dec_value ds))
      in if ds = [] \<or> \<not> list_all is_digit ds then Inl (OtherError ''invalid syntax'')
         else if v < - (2 ^ 63) \<or> 2 ^ 63 \<le> v then Inl (OtherError ''value out of range'')
         else Inr v)"

lemma of_char_digit: "n < 10 \<Longrightarrow> (of_char (digit n) :: nat) = 48 + n"
  by (simp add: digit_def)

lemma is_digit_digit: "n < 10 \<Longrightarrow> is_digit (digit n)"
  by (simp add: is_digit_def of_char_digit)

lemma nat_digits_nonempty: "nat_digits n \<noteq> []"
  by (subst nat_digits.simps) simp

lemma nat_digits_digits: "list_all is_digit (nat_digits n)"
proof (induction n rule: nat_digits.induct)
  case (1 n)
  then show ?case
    by (subst nat_digits.simps) (auto simp: is_digit_digit)
qed

lemma dec_value_snoc: "dec_value (s @ [c]) = 10 * dec_value s + (of_char c - 48)"
  by (simp add: dec_value_def)

lemma dec_value_nat_digits: "dec_value (nat_digits n) = n"
proof (induction n rule: nat_digits.induct)
  case (1 n)
  show ?case
  proof (cases "n < 10")
    case True
    then show ?thesis
      by (subst nat_digits.simps) (simp add: dec_value_def of_char_digit)
  next
    case False
    with "1.IH" have "dec_value (nat_digits (n div 10)) = n div 10" by simp
    with False show ?thesis
      by (subst nat_digits.simps) (simp add: dec_value_snoc of_char_digit)
  qed
qed

lemma nat_digits_inj: "nat_digits m = nat_digits n \<Longrightarrow> m = n"
  by (metis dec_value_nat_digits)

lemma nat_digits_no_sign: "c = CHR ''-'' \<or> c = CHR ''+'' \<Longrightarrow> nat_digits n \<noteq> c # cs"
proof
  assume c: "c = CHR ''-'' \<or> c = CHR ''+''" and eq: "nat_digits n = c # cs"
  have "is_digit c" using nat_digits_digits [of n] unfolding eq by simp
  with c show False by (auto simp: is_digit_def)
qed

lemma Itoa_inj: "Itoa i = Itoa j \<longleftrightarrow> i = j"
proof
  assume eq: "Itoa i = Itoa j"
  show "i = j"
  proof (cases "i < 0"; cases "j < 0")
    assume "i < 0" "j < 0"
    with eq have "nat (- i) = nat (- j)" by (auto simp: Itoa_def dest: nat_digits_inj)
    with \<open>i < 0\<close> \<open>j < 0\<close> show ?thesis by simp
  next
    assume "\<not> i < 0" "\<not> j < 0"
    with eq have "nat i = nat j" by (auto simp: Itoa_def dest: nat_digits_inj)
    with \<open>\<not> i < 0\<close> \<open>\<not> j < 0\<close> show ?thesis by simp
  qed (use eq nat_digits_no_sign in \<open>auto simp: Itoa_def; metis\<close>)+
qed simp

lemma Itoa_nonempty [simp]: "Itoa i \<noteq> []"
  by (simp add: Itoa_def nat_digits_nonempty)

lemma Itoa_chars: "c \<in> set (Itoa i) \<Longrightarrow> is_digit c \<or> c = CHR ''-''"
  using nat_digits_digits by (auto simp: Itoa_def list_all_iff split: if_splits)

lemma ParseInt64_Itoa:
  assumes "- (2 ^ 63) \<le> i" and "i < 2 ^ 63"
  shows "ParseInt64 (Itoa i) = Inr i"
proof (cases "i < 0")
  case True
  with assms show ?thesis
    by (simp add: Itoa_def ParseInt64_def nat_digits_nonempty nat_digits_digits dec_value_nat_digits)
next
  case False
  obtain c cs where ds: "nat_digits (nat i) = c # cs"
    by (meson list.exhaust nat_digits_nonempty)
  with nat_digits_no_sign have sign: "c \<noteq> CHR ''-''" "c \<noteq> CHR ''+''" by blast+
  have digs: "is_digit c \<and> list_all is_digit cs"
    using nat_digits_digits [of "nat i"] unfolding ds by simp
  have val: "dec_value (c # cs) = nat i"
    using dec_value_nat_digits [of "nat i"] unfolding ds .
  from False assms show ?thesis
    by (simp add: Itoa_def ds ParseInt64_def sign digs val)
qed

section \<open>Split and Join\<close>

text \<open>\<^verbatim>\<open>strings.Split(s, sep)\<close> for a separator of one byte, \<^verbatim>\<open>strings.SplitN(s, sep, 2)\<close> for one,
  and \<^verbatim>\<open>strings.Join\<close>.\<close>

fun Split :: "char \<Rightarrow> string \<Rightarrow> string list" where
  "Split c [] = [[]]"
| "Split c (x # xs) =
     (if x = c then [] # Split c xs
      else (case Split c xs of [] \<Rightarrow> [[x]] | y # ys \<Rightarrow> (x # y) # ys))"

definition SplitN2 :: "char \<Rightarrow> string \<Rightarrow> string list" where
  "SplitN2 c s =
     (if c \<in> set s then [takeWhile (\<lambda>x. x \<noteq> c) s, tl (dropWhile (\<lambda>x. x \<noteq> c) s)] else [s])"

fun Join :: "string list \<Rightarrow> string \<Rightarrow> string" where
  "Join [] sep = []"
| "Join [x] sep = x"
| "Join (x # y # zs) sep = x @ sep @ Join (y # zs) sep"

lemma Split_nonempty [simp]: "Split c s \<noteq> []"
  by (cases s) (auto split: list.splits)

lemma Split_fresh: "c \<notin> set s \<Longrightarrow> Split c s = [s]"
  by (induction s) auto

lemma Split_append_sep: "c \<notin> set x \<Longrightarrow> Split c (x @ c # s) = x # Split c s"
  by (induction x) auto

lemma Split_Join:
  "xs \<noteq> [] \<Longrightarrow> \<forall>x \<in> set xs. c \<notin> set x \<Longrightarrow> Split c (Join xs [c]) = xs"
  by (induction xs "[c]" rule: Join.induct) (auto simp: Split_fresh Split_append_sep)

lemma Join_Cons: "xs \<noteq> [] \<Longrightarrow> Join (x # xs) sep = x @ sep @ Join xs sep"
  by (cases xs) auto

lemma Join_Split: "Join (Split c s) [c] = s"
proof (induction s)
  case (Cons x s)
  obtain y ys where sp: "Split c s = y # ys" by (meson Split_nonempty list.exhaust)
  with Cons show ?case by (cases ys) (auto simp: Join_Cons)
qed simp

lemma Split_parts_fresh: "x \<in> set (Split c s) \<Longrightarrow> c \<notin> set x"
proof (induction s arbitrary: x)
  case (Cons a s)
  obtain y ys where sp: "Split c s = y # ys" by (meson Split_nonempty list.exhaust)
  with Cons show ?case by (auto split: if_splits)
qed simp

lemma hd_Split: "hd (Split c s) = takeWhile (\<lambda>x. x \<noteq> c) s"
proof (induction s)
  case (Cons a s)
  obtain y ys where sp: "Split c s = y # ys" by (meson Split_nonempty list.exhaust)
  with Cons show ?case by auto
qed simp

lemma length_Split: "length (Split c s) = Suc (count_list s c)"
proof (induction s)
  case (Cons a s)
  obtain y ys where sp: "Split c s = y # ys" by (meson Split_nonempty list.exhaust)
  with Cons show ?case by auto
qed simp

lemma SplitN2_pair: "c \<notin> set n \<Longrightarrow> SplitN2 c (n @ c # v) = [n, v]"
  by (induction n) (auto simp: SplitN2_def)

lemma length_SplitN2: "length (SplitN2 c s) = (if c \<in> set s then 2 else 1)"
  by (simp add: SplitN2_def)

section \<open>TrimSpace and ToLower\<close>

text \<open>
  The byte sequences (in UTF-8) of the code points \<^verbatim>\<open>unicode.IsSpace\<close> accepts: the six ASCII
  ones, U+0085, U+00A0, U+1680, U+2000 to U+200A, U+2028, U+2029, U+202F, U+205F and U+3000.
\<close>

definition space_seqs :: "string list" where
  "space_seqs =
     [[CHR 0x09], [CHR 0x0A], [CHR 0x0B], [CHR 0x0C], [CHR 0x0D], [CHR 0x20],
      [CHR 0xC2, CHR 0x85], [CHR 0xC2, CHR 0xA0], [CHR 0xE1, CHR 0x9A, CHR 0x80],
      [CHR 0xE2, CHR 0x80, CHR 0x80], [CHR 0xE2, CHR 0x80, CHR 0x81],
      [CHR 0xE2, CHR 0x80, CHR 0x82], [CHR 0xE2, CHR 0x80, CHR 0x83],
      [CHR 0xE2, CHR 0x80, CHR 0x84], [CHR 0xE2, CHR 0x80, CHR 0x85],
      [CHR 0xE2, CHR 0x80, CHR 0x86], [CHR 0xE2, CHR 0x80, CHR 0x87],
      [CHR 0xE2, CHR 0x80, CHR 0x88], [CHR 0xE2, CHR 0x80, CHR 0x89],
      [CHR 0xE2, CHR 0x80, CHR 0x8A], [CHR 0xE2, CHR 0x80, CHR 0xA8],
      [CHR 0xE2, CHR 0x80, CHR 0xA9], [CHR 0xE2, CHR 0x80, CHR 0xAF],
      [CHR 0xE2, CHR 0x81, CHR 0x9F], [CHR 0xE3, CHR 0x80, CHR 0x80]]"

lemma space_seqs_nonempty: "p \<in> set space_seqs \<Longrightarrow> p \<noteq> []"
  by (auto simp: space_seqs_def)

function TrimLeft :: "string \<Rightarrow> string" where
  "TrimLeft s = (case find (\<lambda>p. prefix p s) space_seqs of
                   None \<Rightarrow> s | Some p \<Rightarrow> TrimLeft (drop (length p) s))"
  by pat_completeness auto
termination
proof (relation "measure length")
  fix s p
  assume "find (\<lambda>p. prefix p s) space_seqs = Some p"
  then have "p \<in> set space_seqs" "prefix p s"
    by (auto simp: find_Some_iff)
  then have "0 < length p" "length p \<le> length s"
    by (auto dest: space_seqs_nonempty prefix_length_le)
  then have "length s - length p < length s" by linarith
  then show "(drop (length p) s, s) \<in> measure length" by simp
qed simp

function TrimRight :: "string \<Rightarrow> string" where
  "TrimRight s = (case find (\<lambda>p. suffix p s) space_seqs of
                    None \<Rightarrow> s | Some p \<Rightarrow> TrimRight (take (length s - length p) s))"
  by pat_completeness auto
termination
proof (relation "measure length")
  fix s p
  assume "find (\<lambda>p. suffix p s) space_seqs = Some p"
  then have "p \<in> set space_seqs" "suffix p s"
    by (auto simp: find_Some_iff)
  then have "0 < length p" "length p \<le> length s"
    by (auto dest: space_seqs_nonempty suffix_length_le)
  then have "length s - length p < length s" by linarith
  then show "(take (length s - length p) s, s) \<in> measure length" by simp
qed simp

declare TrimLeft.simps [simp del] TrimRight.simps [simp del]

definition TrimSpace :: "string \<Rightarrow> string" where
  "TrimSpace s = TrimRight (TrimLeft s)"

text \<open>The letters of ASCII; no other code point has an ASCII letter of the words the sources
  compare with as its lower case.\<close>

definition lower_char :: "char \<Rightarrow> char" where
  "lower_char c = (let n = (of_char c :: nat) in if 65 \<le> n \<and> n \<le> 90 then char_of (n + 32) else c)"

definition ToLower :: "string \<Rightarrow> string" where
  "ToLower s = map lower_char s"

lemma TrimLeft_stop: "\<forall>p \<in> set space_seqs. \<not> prefix p (TrimLeft s)"
proof (induction s rule: TrimLeft.induct)
  case (1 s)
  show ?case
  proof (cases "find (\<lambda>p. prefix p s) space_seqs")
    case None
    then have "\<forall>p \<in> set space_seqs. \<not> prefix p s" by (simp add: find_None_iff)
    with None show ?thesis by (simp add: TrimLeft.simps [of s])
  next
    case (Some p)
    with "1.IH" show ?thesis by (subst TrimLeft.simps) simp
  qed
qed

lemma TrimRight_stop: "\<forall>p \<in> set space_seqs. \<not> suffix p (TrimRight s)"
proof (induction s rule: TrimRight.induct)
  case (1 s)
  show ?case
  proof (cases "find (\<lambda>p. suffix p s) space_seqs")
    case None
    then have "\<forall>p \<in> set space_seqs. \<not> suffix p s" by (simp add: find_None_iff)
    with None show ?thesis by (simp add: TrimRight.simps [of s])
  next
    case (Some p)
    with "1.IH" show ?thesis by (subst TrimRight.simps) simp
  qed
qed

lemma TrimRight_prefix: "prefix (TrimRight s) s"
proof (induction s rule: TrimRight.induct)
  case (1 s)
  show ?case
  proof (cases "find (\<lambda>p. suffix p s) space_seqs")
    case None
    then show ?thesis by (subst TrimRight.simps) simp
  next
    case (Some p)
    with "1.IH" show ?thesis
      by (subst TrimRight.simps) (metis option.simps(5) prefix_order.trans take_is_prefix)
  qed
qed

lemma TrimSpace_no_leading: "p \<in> set space_seqs \<Longrightarrow> \<not> prefix p (TrimSpace s)"
  using TrimLeft_stop TrimRight_prefix unfolding TrimSpace_def by (meson prefix_order.trans)

lemma TrimSpace_no_trailing: "p \<in> set space_seqs \<Longrightarrow> \<not> suffix p (TrimSpace s)"
  using TrimRight_stop unfolding TrimSpace_def by blast

lemma TrimSpace_id:
  assumes "\<And>p. p \<in> set space_seqs \<Longrightarrow> \<not> prefix p s \<and> \<not> suffix p s"
  shows "TrimSpace s = s"
proof -
  from assms have "find (\<lambda>p. prefix p s) space_seqs = None" "find (\<lambda>p. suffix p s) space_seqs = None"
    by (auto simp: find_None_iff)
  then show ?thesis
    by (simp add: TrimSpace_def TrimLeft.simps [of s] TrimRight.simps [of s])
qed

lemma TrimSpace_idem: "TrimSpace (TrimSpace s) = TrimSpace s"
  by (rule TrimSpace_id) (simp add: TrimSpace_no_leading TrimSpace_no_trailing)

end
