(* ===== verification/KubeTypes.thy ===== *)
theory KubeTypes
  imports GoStrings
begin

text \<open>
  The Kubernetes objects the operator builds, reads and writes (\<^verbatim>\<open>k8s.io/api\<close>,
  \<^verbatim>\<open>k8s.io/apimachinery\<close>): one record per struct with the fields the sources touch, under a
  prefix per struct. Structs the operator only copies from the custom resource into a pod
  (resource requirements, tolerations, pod security contexts) are opaque values. A pointer field
  is an \<open>option\<close>; \<^verbatim>\<open>int32\<close> is a 32-bit word.
\<close>

type_synonym int32 = "32 word"

datatype quantity = Quantity string
datatype resource_requirements = ResourceRequirements string
datatype toleration = Toleration string
datatype pod_security_context = PodSecurityContext string
datatype list_meta = ListMeta string

section \<open>Metadata\<close>

record OwnerReference =
  or_APIVersion :: string
  or_Kind :: string
  or_Name :: string
  or_Controller :: "bool option"

record ObjectMeta =
  om_Name :: string
  om_Namespace :: string
  om_Labels :: "string gomap"
  om_Annotations :: "string gomap"
  om_ResourceVersion :: string
  om_Generation :: int
  om_OwnerReferences :: "OwnerReference list"

text \<open>A composite literal that sets name, namespace, labels and annotations; every other field
  has its zero value.\<close>

definition new_meta :: "string \<Rightarrow> string \<Rightarrow> string gomap \<Rightarrow> string gomap \<Rightarrow> ObjectMeta" where
  "new_meta name ns labels annotations =
     \<lparr>om_Name = name, om_Namespace = ns, om_Labels = labels, om_Annotations = annotations,
      om_ResourceVersion = '''', om_Generation = 0, om_OwnerReferences = []\<rparr>"

lemma new_meta_simps [simp]:
  "om_Name (new_meta n ns l a) = n"
  "om_Namespace (new_meta n ns l a) = ns"
  "om_Labels (new_meta n ns l a) = l"
  "om_Annotations (new_meta n ns l a) = a"
  "om_ResourceVersion (new_meta n ns l a) = ''''"
  "om_OwnerReferences (new_meta n ns l a) = []"
  by (simp_all add: new_meta_def)

section \<open>Services, service accounts, claims\<close>

record ServicePort =
  sp_Name :: string
  sp_Port :: int32
  sp_Protocol :: string

record Service =
  svc_Meta :: ObjectMeta
  svc_Ports :: "ServicePort list"
  svc_Selector :: "string gomap"
  svc_ClusterIP :: string
  svc_Type :: string
  svc_PublishNotReadyAddresses :: bool
  svc_ExternalIPs :: "string list"

record ServiceAccount =
  sa_Meta :: ObjectMeta

record PersistentVolumeClaim =
  pvc_Meta :: ObjectMeta
  pvc_AccessModes :: "string list"
  pvc_StorageRequest :: quantity
  pvc_VolumeName :: string
  pvc_Selector :: "string gomap option"
  pvc_StorageClassName :: "string option"

section \<open>Pods and deployments\<close>

record EnvVar =
  ev_Name :: string
  ev_Value :: string
  ev_FieldRef :: "string option"

record KeyToPath =
  kp_Key :: string
  kp_Path :: string

record SecretProjection =
  pr_SecretName :: string
  pr_Items :: "KeyToPath list"

datatype VolumeSource =
    EmptyDir "quantity option"
  | ClaimVolume string
  | SecretVolume string
  | ConfigMapVolume string "KeyToPath list"
  | ProjectedVolume int32 "SecretProjection list"

record Volume =
  vol_Name :: string
  vol_Source :: VolumeSource

record VolumeMount =
  vm_Name :: string
  vm_MountPath :: string
  vm_ReadOnly :: bool

record ContainerPort =
  cp_Name :: string
  cp_ContainerPort :: int32
  cp_Protocol :: string

datatype ProbeHandler =
    NoHandler
  | ExecProbe "string list"
  | HTTPGetProbe string int32 string
  | TCPSocketProbe int32

record Probe =
  pb_Handler :: ProbeHandler
  pb_InitialDelaySeconds :: int32
  pb_TimeoutSeconds :: int32
  pb_PeriodSeconds :: int32
  pb_SuccessThreshold :: int32
  pb_FailureThreshold :: int32

record SecurityContext =
  sc_AllowPrivilegeEscalation :: "bool option"
  sc_ReadOnlyRootFilesystem :: "bool option"
  sc_DropCapabilities :: "string list"

record Container =
  ct_Name :: string
  ct_Image :: string
  ct_Command :: "string list"
  ct_Args :: "string list"
  ct_Ports :: "ContainerPort list"
  ct_Env :: "EnvVar list"
  ct_Resources :: "resource_requirements option"
  ct_VolumeMounts :: "VolumeMount list"
  ct_LivenessProbe :: "Probe option"
  ct_ReadinessProbe :: "Probe option"
  ct_ImagePullPolicy :: string
  ct_SecurityContext :: "SecurityContext option"

record NodeSelectorRequirement =
  nsr_Key :: string
  nsr_Operator :: string
  nsr_Values :: "string list"

record NodeAffinity =
  na_RequiredTerms :: "NodeSelectorRequirement list list"
  na_Preferred :: string

record Affinity =
  af_NodeAffinity :: "NodeAffinity option"
  af_PodAffinity :: string

record PodSpec =
  ps_Volumes :: "Volume list"
  ps_InitContainers :: "Container list"
  ps_Containers :: "Container list"
  ps_SecurityContext :: pod_security_context
  ps_Hostname :: string
  ps_Subdomain :: string
  ps_ServiceAccountName :: string
  ps_Affinity :: Affinity
  ps_Tolerations :: "toleration list"
  ps_PriorityClassName :: string

record PodTemplateSpec =
  pt_Labels :: "string gomap"
  pt_Annotations :: "string gomap"
  pt_Spec :: PodSpec

record Deployment =
  dp_Meta :: ObjectMeta
  dp_Strategy :: string
  dp_Replicas :: "int32 option"
  dp_Selector :: "string gomap"
  dp_Template :: PodTemplateSpec
  dp_ReadyReplicas :: int32
  dp_UpdatedReplicas :: int32

text \<open>The values of \<^verbatim>\<open>Secret.Data\<close> are byte slices; the sources tell a nil slice from an empty one
  nowhere (every test also asks for a non-empty string), so a value is a string.\<close>

record Secret =
  sec_Meta :: ObjectMeta
  sec_Data :: "string gomap"

record Pod =
  pod_Meta :: ObjectMeta
  pod_Phase :: string

definition zero_meta :: ObjectMeta where
  "zero_meta = new_meta '''' '''' None None"

definition zero_secret :: Secret where
  "zero_secret = \<lparr>sec_Meta = zero_meta, sec_Data = None\<rparr>"

abbreviation env_value :: "string \<Rightarrow> string \<Rightarrow> EnvVar" where
  "env_value n v \<equiv> \<lparr>ev_Name = n, ev_Value = v, ev_FieldRef = None\<rparr>"

abbreviation env_field :: "string \<Rightarrow> string \<Rightarrow> EnvVar" where
  "env_field n p \<equiv> \<lparr>ev_Name = n, ev_Value = '''', ev_FieldRef = Some p\<rparr>"

abbreviation tcp_port :: "string \<Rightarrow> int32 \<Rightarrow> ServicePort" where
  "tcp_port n p \<equiv> \<lparr>sp_Name = n, sp_Port = p, sp_Protocol = ''TCP''\<rparr>"

abbreviation container_tcp :: "int32 \<Rightarrow> ContainerPort" where
  "container_tcp p \<equiv> \<lparr>cp_Name = '''', cp_ContainerPort = p, cp_Protocol = ''TCP''\<rparr>"

abbreviation volume :: "string \<Rightarrow> VolumeSource \<Rightarrow> Volume" where
  "volume n src \<equiv> \<lparr>vol_Name = n, vol_Source = src\<rparr>"

abbreviation mount :: "string \<Rightarrow> string \<Rightarrow> VolumeMount" where
  "mount n p \<equiv> \<lparr>vm_Name = n, vm_MountPath = p, vm_ReadOnly = False\<rparr>"

section \<open>Well-formed pod specifications\<close>

text \<open>
  What the API server demands of the volumes of a pod: distinct volume names, and in every
  container each mount names a declared volume and no mount path is used twice.
\<close>

definition volumes_ok :: "Volume list \<Rightarrow> VolumeMount list \<Rightarrow> bool" where
  "volumes_ok vs ms \<longleftrightarrow>
     distinct (map vol_Name vs) \<and> distinct (map vm_MountPath ms) \<and>
     set (map vm_Name ms) \<subseteq> set (map vol_Name vs)"

definition pod_volumes_ok :: "PodSpec \<Rightarrow> bool" where
  "pod_volumes_ok p \<longleftrightarrow>
     distinct (map vol_Name (ps_Volumes p)) \<and>
     list_all (\<lambda>c. volumes_ok (ps_Volumes p) (ct_VolumeMounts c))
       (ps_InitContainers p @ ps_Containers p)"

lemma volumes_ok_append:
  "volumes_ok (vs @ [v]) (ms @ [m]) \<longleftrightarrow>
     volumes_ok (vs @ [v]) ms \<and> vm_MountPath m \<notin> set (map vm_MountPath ms) \<and>
     vm_Name m \<in> set (map vol_Name (vs @ [v]))"
  by (auto simp: volumes_ok_def)

end
