(* ===== verification/ApiTypes.thy ===== *)
theory ApiTypes
  imports KubeTypes
begin

text \<open>
  The custom resource, \<^verbatim>\<open>operator/api/v1/zookeeperservice_types.go\<close>: one record per struct, in
  the order of the source, with a prefix per struct because record fields share a name space.
  Go's \<^verbatim>\<open>int\<close> fields (replica counts, heap sizes, timeouts in seconds, ports) are \<^typ>\<open>int\<close>: the
  operator only compares, counts up to and prints them, and never computes past 64 bits.
\<close>

record Storage =
  st_Volumes :: "string list"
  st_Nodes :: "string list"
  st_Labels :: "string list"
  st_ClassName :: "string list"
  st_Size :: string

record SnapshotStorage =
  ss_PersistentVolumeType :: string
  ss_PersistentVolumeName :: string
  ss_PersistentVolumeClaimName :: string
  ss_NodeName :: string
  ss_VolumeSize :: string
  ss_PersistentVolumeLabel :: string
  ss_StorageClass :: "string option"
  ss_NfsServer :: string
  ss_NfsPath :: string

record Ssl =
  ssl_CipherSuites :: "string list"
  ssl_EnableTwoWaySsl :: bool
  ssl_AllowNonencryptedAccess :: bool

record Diagnostics =
  dg_Mode :: string
  dg_AgentService :: string

record ZooKeeper =
  zk_DockerImage :: string
  zk_Affinity :: Affinity
  zk_Tolerations :: "toleration list"
  zk_PriorityClassName :: string
  zk_Replicas :: int
  zk_Storage :: Storage
  zk_SnapshotStorage :: SnapshotStorage
  zk_HeapSize :: int
  zk_Resources :: resource_requirements
  zk_SecretName :: string
  zk_QuorumAuthEnabled :: bool
  zk_Ssl :: Ssl
  zk_SecurityContext :: pod_security_context
  zk_JolokiaPort :: int32
  zk_EnvironmentVariables :: "string list"
  zk_RollingUpdate :: bool
  zk_CustomLabels :: "string gomap"
  zk_Diagnostics :: Diagnostics
  zk_AuditEnabled :: bool

record S3 =
  s3_Enabled :: bool
  s3_Url :: string
  s3_Bucket :: string
  s3_SecretName :: string
  s3_SslVerify :: bool
  s3_SslSecretName :: string
  s3_SslCert :: string

record Monitoring =
  mon_DockerImage :: string
  mon_Affinity :: Affinity
  mon_Tolerations :: "toleration list"
  mon_PriorityClassName :: string
  mon_Resources :: resource_requirements
  mon_MonitoringType :: string
  mon_ZooKeeperHost :: string
  mon_ZooKeeperBackupDaemonHost :: string
  mon_SecretName :: string
  mon_ZooKeeperJolokiaPort :: int32
  mon_SecurityContext :: pod_security_context
  mon_CustomLabels :: "string gomap"
  mon_ZooKeeperVolumes :: string
  mon_NeedToCleanInfluxDb :: bool
  mon_SmDbHost :: string
  mon_SmDbName :: string

record SecretPaths =
  paths_Monitoring :: "string gomap"

record VaultSecretManagement =
  vsm_DockerImage :: string
  vsm_Enabled :: bool
  vsm_Path :: string
  vsm_Url :: string
  vsm_Role :: string
  vsm_Method :: string
  vsm_PasswordGenerationMechanism :: string
  vsm_WritePolicies :: bool
  vsm_SecretPaths :: SecretPaths

record PVC =
  pvcc_Annotations :: "string gomap"

record ZooKeeperSsl =
  zssl_Enabled :: bool
  zssl_SecretName :: string

record Global =
  g_WaitForPodsReady :: bool
  g_PodsReadyTimeout :: int
  g_CustomLabels :: "string gomap"
  g_DefaultLabels :: "string gomap"
  g_ZooKeeperSsl :: ZooKeeperSsl
  g_PVC :: PVC

record BackupDaemonSsl =
  bssl_Enabled :: bool
  bssl_SecretName :: string

record IntegrationTests =
  it_ServiceName :: string
  it_WaitForResult :: bool
  it_Timeout :: int
  it_RandomRunTrigger :: string

record BackupDaemon =
  bd_DockerImage :: string
  bd_Affinity :: Affinity
  bd_Tolerations :: "toleration list"
  bd_PriorityClassName :: string
  bd_BackupStorage :: SnapshotStorage
  bd_Resources :: resource_requirements
  bd_BackupSchedule :: string
  bd_S3 :: "S3 option"
  bd_EvictionPolicy :: string
  bd_IPv6 :: bool
  bd_ZooKeeperHost :: string
  bd_ZooKeeperPort :: int
  bd_SecretName :: string
  bd_SecurityContext :: pod_security_context
  bd_CustomLabels :: "string gomap"
  bd_BackupDaemonSsl :: BackupDaemonSsl

record ZooKeeperServiceSpec =
  spec_Global :: "Global option"
  spec_ZooKeeper :: "ZooKeeper option"
  spec_Monitoring :: "Monitoring option"
  spec_BackupDaemon :: "BackupDaemon option"
  spec_VaultSecretManagement :: "VaultSecretManagement option"
  spec_IntegrationTests :: "IntegrationTests option"

record StatusCondition =
  cond_Type :: string
  cond_Status :: string
  cond_Reason :: string
  cond_Message :: string
  cond_LastTransitionTime :: string

record ZooKeeperStatus =
  zs_Servers :: "string list"

record MonitoringStatus =
  ms_Nodes :: "string list"

record BackupDaemonStatus =
  bs_Nodes :: "string list"

record PVCStatus =
  pvcs_Annotations :: "string gomap"

record VaultSecretManagementStatus =
  vs_SecretVersions :: "int gomap"

record ZooKeeperServiceStatus =
  status_ZooKeeperStatus :: ZooKeeperStatus
  status_MonitoringStatus :: MonitoringStatus
  status_BackupDaemonStatus :: BackupDaemonStatus
  status_PVCStatus :: PVCStatus
  status_VaultSecretManagementStatus :: VaultSecretManagementStatus
  status_Conditions :: "StatusCondition list"

record ZooKeeperService =
  cr_APIVersion :: string
  cr_Kind :: string
  cr_Meta :: ObjectMeta
  cr_Spec :: ZooKeeperServiceSpec
  cr_Status :: ZooKeeperServiceStatus

record ZooKeeperServiceList =
  sl_APIVersion :: string
  sl_Kind :: string
  sl_Meta :: list_meta
  sl_Items :: "ZooKeeperService list"

abbreviation cr_Name :: "ZooKeeperService \<Rightarrow> string" where
  "cr_Name cr \<equiv> om_Name (cr_Meta cr)"

abbreviation cr_Namespace :: "ZooKeeperService \<Rightarrow> string" where
  "cr_Namespace cr \<equiv> om_Namespace (cr_Meta cr)"

abbreviation set_conditions :: "StatusCondition list \<Rightarrow> ZooKeeperService \<Rightarrow> ZooKeeperService" where
  "set_conditions cs cr \<equiv> cr\<lparr>cr_Status := (cr_Status cr)\<lparr>status_Conditions := cs\<rparr>\<rparr>"

text \<open>The global section, which most of the code dereferences without a check.\<close>

definition global :: "ZooKeeperService \<Rightarrow> Global outcome" where
  "global cr = deref (spec_Global (cr_Spec cr))"

end
