(* ===== verification/Hash.thy ===== *)
theory Hash
  imports GoStrings
begin

text \<open>
  \<^verbatim>\<open>operator/util/hash.go\<close>: the hexadecimal SHA-256 digest of an object's JSON encoding, by
  which the reconcilers notice that a section of the custom resource changed. SHA-256 is
  written out as FIPS 180-4 defines it, on 32-bit words, and is executable. The JSON encoder is a
  parameter: it walks structs of \<^verbatim>\<open>k8s.io/api\<close> that have encoders of their own.
\<close>

unbundle bit_operations_syntax

type_synonym u32 = "32 word"

definition rotr :: "nat \<Rightarrow> u32 \<Rightarrow> u32" where
  "rotr n x = (drop_bit n x) OR (push_bit (32 - n) x)"

definition small_sigma0 :: "u32 \<Rightarrow> u32" where
  "small_sigma0 x = rotr 7 x XOR rotr 18 x XOR drop_bit 3 x"

definition small_sigma1 :: "u32 \<Rightarrow> u32" where
  "small_sigma1 x = rotr 17 x XOR rotr 19 x XOR drop_bit 10 x"

definition big_sigma0 :: "u32 \<Rightarrow> u32" where
  "big_sigma0 x = rotr 2 x XOR rotr 13 x XOR rotr 22 x"

definition big_sigma1 :: "u32 \<Rightarrow> u32" where
  "big_sigma1 x = rotr 6 x XOR rotr 11 x XOR rotr 25 x"

definition Ch :: "u32 \<Rightarrow> u32 \<Rightarrow> u32 \<Rightarrow> u32" where
  "Ch x y z = (x AND y) XOR (NOT x AND z)"

definition Maj :: "u32 \<Rightarrow> u32 \<Rightarrow> u32 \<Rightarrow> u32" where
  "Maj x y z = (x AND y) XOR (x AND z) XOR (y AND z)"

text \<open>
  The constants of the standard are the first 32 bits of the fractional parts of roots of the first
  primes: cube roots for the rounds, square roots for the initial state. They are computed here, by
  an integer root that decides one bit after the other.
\<close>

fun iroot :: "nat \<Rightarrow> nat \<Rightarrow> int \<Rightarrow> int \<Rightarrow> int" where
  "iroot k 0 n r = r"
| "iroot k (Suc b) n r = iroot k b n (if (r + 2 ^ b) ^ k \<le> n then r + 2 ^ b else r)"

definition small_primes :: "int list" where
  "small_primes = filter (\<lambda>n. list_all (\<lambda>d. n = d \<or> n mod d \<noteq> 0) [2, 3, 5, 7, 11, 13, 17]) [2..311]"

definition root_fraction :: "nat \<Rightarrow> int \<Rightarrow> u32" where
  "root_fraction k p = word_of_int (iroot k 35 (p * 2 ^ (32 * k)) 0)"

definition round_constants :: "u32 list" where
  "round_constants = map (root_fraction 3) small_primes"

datatype hash_state = HS u32 u32 u32 u32 u32 u32 u32 u32

definition initial_hash :: hash_state where
  "initial_hash =
     HS (root_fraction 2 2) (root_fraction 2 3) (root_fraction 2 5) (root_fraction 2 7)
        (root_fraction 2 11) (root_fraction 2 13) (root_fraction 2 17) (root_fraction 2 19)"

lemma iroot_floor:
  assumes "0 \<le> r" and "r ^ k \<le> n" and "n < (r + 2 ^ b) ^ k"
  shows "iroot k b n r ^ k \<le> n \<and> n < (iroot k b n r + 1) ^ k"
  using assms
proof (induction b arbitrary: r)
  case 0
  then show ?case by simp
next
  case (Suc b)
  have "r + 2 ^ b + 2 ^ b = r + 2 ^ Suc b" by simp
  with Suc show ?case by (cases "(r + 2 ^ b) ^ k \<le> n") (simp_all add: add.assoc)
qed

lemma root_fraction_floor:
  assumes "0 < k" and "0 \<le> p" and "p < 8 ^ k"
  shows "\<exists>q. root_fraction k p = word_of_int q \<and> q ^ k \<le> p * 2 ^ (32 * k) \<and> p * 2 ^ (32 * k) < (q + 1) ^ k"
proof -
  have "(0 + 2 ^ 35) ^ k = 8 ^ k * (2 :: int) ^ (32 * k)"
    by (simp add: power_mult flip: power_mult_distrib)
  with assms have "p * 2 ^ (32 * k) < (0 + 2 ^ 35) ^ k" by (metis mult_strict_right_mono zero_less_numeral zero_less_power)
  moreover have "0 ^ k \<le> p * 2 ^ (32 * k)" using assms by (simp add: zero_power)
  ultimately show ?thesis
    using iroot_floor [of 0 k "p * 2 ^ (32 * k)" 35] unfolding root_fraction_def by blast
qed

text \<open>Padding: a one bit, zeros up to 56 modulo 64, and the length in bits as eight bytes.\<close>

definition be_bytes :: "nat \<Rightarrow> int \<Rightarrow> int list" where
  "be_bytes k n = map (\<lambda>i. (n div 256 ^ i) mod 256) (rev [0..<k])"

definition pad :: "int list \<Rightarrow> int list" where
  "pad bs = (let n = length bs; z = (55 + 64 - n mod 64) mod 64
             in bs @ 128 # replicate z 0 @ be_bytes 8 (8 * int n))"

definition be_word :: "int list \<Rightarrow> u32" where
  "be_word bs = word_of_int (foldl (\<lambda>a b. 256 * a + b) 0 bs)"

fun chunks :: "nat \<Rightarrow> 'a list \<Rightarrow> 'a list list" where
  "chunks k xs = (if k = 0 \<or> xs = [] then [] else take k xs # chunks k (drop k xs))"

declare chunks.simps [simp del]

text \<open>The message schedule, kept newest word first.\<close>

fun extend :: "nat \<Rightarrow> u32 list \<Rightarrow> u32 list" where
  "extend 0 ws = ws"
| "extend (Suc n) ws =
     extend n ((small_sigma1 (ws ! 1) + ws ! 6 + small_sigma0 (ws ! 14) + ws ! 15) # ws)"

definition schedule :: "int list \<Rightarrow> u32 list" where
  "schedule block = rev (extend 48 (rev (map be_word (chunks 4 block))))"

fun round_step :: "hash_state \<Rightarrow> u32 \<times> u32 \<Rightarrow> hash_state" where
  "round_step (HS a b c d e f g h) (k, w) =
     (let t1 = h + big_sigma1 e + Ch e f g + k + w;
          t2 = big_sigma0 a + Maj a b c
      in HS (t1 + t2) a b c (d + t1) e f g)"

fun add_state :: "hash_state \<Rightarrow> hash_state \<Rightarrow> hash_state" where
  "add_state (HS a b c d e f g h) (HS a' b' c' d' e' f' g' h') =
     HS (a + a') (b + b') (c + c') (d + d') (e + e') (f + f') (g + g') (h + h')"

definition compress :: "hash_state \<Rightarrow> int list \<Rightarrow> hash_state" where
  "compress st block = add_state st (foldl round_step st (zip round_constants (schedule block)))"

fun state_words :: "hash_state \<Rightarrow> u32 list" where
  "state_words (HS a b c d e f g h) = [a, b, c, d, e, f, g, h]"

definition Sum256 :: "string \<Rightarrow> u32 list" where
  "Sum256 msg = state_words (foldl compress initial_hash (chunks 64 (pad (map of_char msg))))"

text \<open>\<^verbatim>\<open>fmt.Sprintf("%x", sum)\<close>: two lower-case hexadecimal digits per byte.\<close>

definition hex_digit :: "int \<Rightarrow> char" where
  "hex_digit n = ''0123456789abcdef'' ! nat n"

definition hex_word :: "u32 \<Rightarrow> string" where
  "hex_word w = map (\<lambda>i. hex_digit ((uint w div 16 ^ i) mod 16)) (rev [0..<8])"

definition hex_digest :: "string \<Rightarrow> string" where
  "hex_digest msg = concat (map hex_word (Sum256 msg))"

definition Hash :: "('o \<Rightarrow> go_error + string) \<Rightarrow> 'o \<Rightarrow> string outcome" where
  "Hash Marshal o' =
     (case Marshal o' of Inl e \<Rightarrow> Err e | Inr bytes \<Rightarrow> Ok (hex_digest bytes))"

lemma length_hex_word [simp]: "length (hex_word w) = 8"
  by (simp add: hex_word_def)

lemma length_Sum256 [simp]: "length (Sum256 msg) = 8"
  by (cases "foldl compress initial_hash (chunks 64 (pad (map of_char msg)))")
     (simp add: Sum256_def)

lemma length_concat_const: "\<forall>x \<in> set xs. length x = n \<Longrightarrow> length (concat xs) = n * length xs"
  by (induction xs) auto

lemma length_hex_digest [simp]: "length (hex_digest msg) = 64"
  using length_concat_const [of "map hex_word (Sum256 msg)" 8] by (simp add: hex_digest_def)

lemma hex_digest_nonempty [simp]: "hex_digest msg \<noteq> []"
  using length_hex_digest [of msg] by (metis list.size(3) zero_neq_numeral)

lemma hex_digit_range:
  assumes "0 \<le> n" and "n < 16"
  shows "hex_digit n \<in> set ''0123456789abcdef''"
  using assms unfolding hex_digit_def by (intro nth_mem) simp

lemma hex_digest_chars: "set (hex_digest msg) \<subseteq> set ''0123456789abcdef''"
  proof -
  have "set (hex_word w) \<subseteq> set ''0123456789abcdef''" for w
    unfolding hex_word_def by (simp only: set_map image_subset_iff) (simp only: hex_digit_range pos_mod_bound pos_mod_sign zero_less_numeral simp_thms ball_simps, simp)
  then show ?thesis unfolding hex_digest_def by fastforce
qed

lemma Hash_eq_Ok: "Hash m o' = Ok h \<longleftrightarrow> (\<exists>b. m o' = Inr b \<and> h = hex_digest b)"
  by (auto simp: Hash_def split: sum.splits)

lemma Hash_no_panic: "Hash m o' \<noteq> Panic p"
  by (simp add: Hash_def split: sum.splits)

text \<open>
  \<^verbatim>\<open>Hash\<close> returns 64 lower-case hexadecimal digits, or the error of the JSON encoder; it never
  panics and never returns the empty string, which is what an absent entry of \<^verbatim>\<open>ResourceHashes\<close> reads as.
\<close>

theorem Hash_shape:
  "case Hash m x of
     Ok h \<Rightarrow> length h = 64 \<and> set h \<subseteq> set ''0123456789abcdef'' \<and> h \<noteq> ''''
   | Err e \<Rightarrow> m x = Inl e
   | Panic p \<Rightarrow> False"
  using hex_digest_chars hex_digest_nonempty by (auto simp: Hash_def split: sum.split)

end
