(* ===== verification/Util.thy ===== *)
theory Util
  imports Hash KubeTypes
begin

text \<open>
  \<^verbatim>\<open>operator/util/numbers.go\<close> and \<^verbatim>\<open>operator/util/util.go\<close>. Labels are joined so that the second
  map wins; the loops that do it visit the keys in an order Go does not fix, and
  \<open>insert_all_fmadd\<close> shows that the order does not matter.
\<close>

definition Min :: "int32 \<Rightarrow> int32 \<Rightarrow> int32" where
  "Min a b = (if a <s b then a else b)"

definition JoinMaps :: "string gomap \<Rightarrow> string gomap \<Rightarrow> (string, string) fmap" where
  "JoinMaps sideMap mainMap = fmadd (contents sideMap) (contents mainMap)"

definition insert_all :: "(string \<times> string) list \<Rightarrow> (string, string) fmap \<Rightarrow> (string, string) fmap" where
  "insert_all es m = fold (\<lambda>(k, v). fmupd k v) es m"

lemma insert_all_lookup:
  "distinct (map fst es) \<Longrightarrow>
   fmlookup (insert_all es m) k = (case map_of es k of None \<Rightarrow> fmlookup m k | Some v \<Rightarrow> Some v)"
proof (induction es arbitrary: m)
  case (Cons e es)
  obtain k' v where e: "e = (k', v)" by fastforce
  from Cons.prems e have "distinct (map fst es)" "k' \<notin> fst ` set es" by auto
  then have "map_of es k' = None" by (simp add: map_of_eq_None_iff)
  with Cons.IH [OF \<open>distinct (map fst es)\<close>, of "fmupd k' v m"] e show ?case
    by (auto simp: insert_all_def split: option.splits)
qed (simp add: insert_all_def)

lemma insert_all_fmadd:
  assumes "distinct (map fst es)" and "fmlookup f = map_of es"
  shows "insert_all es m = fmadd m f"
  by (rule fmap_ext) (simp add: insert_all_lookup assms fmlookup_add_opt)

lemma JoinMaps_lookup [label_simps]:
  "fmlookup (JoinMaps a b) k = (case mlookup b k of None \<Rightarrow> mlookup a k | Some v \<Rightarrow> Some v)"
  unfolding JoinMaps_def mlookup_def by simp

lemma sint_Min: "sint (Min a b) = min (sint a) (sint b)"
  by (simp add: Min_def word_sless_alt)

end
