(* ===== verification/Environment.thy ===== *)
theory Environment
  imports ApiTypes Util
begin

text \<open>
  The operator's state and everything outside the repository it talks to.

  The state is what the Go code keeps: the custom resource a reconciliation works on (shared by
  pointer between the controller, the component reconcilers and the resource providers), the two
  maps of \<^verbatim>\<open>ZooKeeperServiceReconciler\<close>, and the package variables \<^verbatim>\<open>globalSpecHash\<close> and
  \<^verbatim>\<open>vaultClient\<close>; plus the \<open>world\<close> (API server, Vault, clock), of an arbitrary type.

  The environment is one field per function the sources call in third-party packages: the
  controller-runtime client (one field per verb and object kind the code uses), apimachinery and
  client-go helpers, the Vault client, the password library and the JSON encoder. Nothing is assumed
  of a field unless a named hypothesis says so. A client call that writes returns the object
  as the server stored it, because the Go client decodes the response into its argument.
\<close>

section \<open>Vault values\<close>

datatype jval =
    JNull
  | JBool bool
  | JNumber string
  | JString string
  | JArray "jval list"
  | JObject "(string \<times> jval) list"

record vault_client =
  vc_Address :: string
  vc_Token :: string

record vault_secret =
  vsec_Data :: "(string \<times> jval) list"
  vsec_AuthToken :: "string option"

record http_response =
  rsp_StatusCode :: int
  rsp_Body :: string

datatype password_generator = PasswordGen string

section \<open>The operator's state\<close>

record 'w opstate =
  world :: 'w
  op_cr :: ZooKeeperService
  ResourceVersions :: "(string, string) fmap"
  ResourceHashes :: "(string, string) fmap"
  globalSpecHash :: string
  vaultClient :: "vault_client option"

type_synonym ('w, 'a) op = "('w opstate, 'a) comp"

text \<open>A call out of the process: an error or a value, and the world after it.\<close>

type_synonym ('w, 'a) ext = "'w \<Rightarrow> (go_error + 'a) \<times> 'w"

record 'w env =
  Get_ZooKeeperService :: "string \<Rightarrow> string \<Rightarrow> ('w, ZooKeeperService) ext"
  Update_Status :: "ZooKeeperService \<Rightarrow> ('w, ZooKeeperService) ext"
  Get_Service :: "string \<Rightarrow> string \<Rightarrow> ('w, Service) ext"
  Create_Service :: "Service \<Rightarrow> ('w, Service) ext"
  Update_Service :: "Service \<Rightarrow> ('w, Service) ext"
  Get_ServiceAccount :: "string \<Rightarrow> string \<Rightarrow> ('w, ServiceAccount) ext"
  Create_ServiceAccount :: "ServiceAccount \<Rightarrow> ('w, ServiceAccount) ext"
  Get_PVC :: "string \<Rightarrow> string \<Rightarrow> ('w, PersistentVolumeClaim) ext"
  Create_PVC :: "PersistentVolumeClaim \<Rightarrow> ('w, PersistentVolumeClaim) ext"
  Update_PVC :: "PersistentVolumeClaim \<Rightarrow> ('w, PersistentVolumeClaim) ext"
  Get_Deployment :: "string \<Rightarrow> string \<Rightarrow> ('w, Deployment) ext"
  Create_Deployment :: "Deployment \<Rightarrow> ('w, Deployment) ext"
  Update_Deployment :: "Deployment \<Rightarrow> ('w, Deployment) ext"
  List_Deployments :: "string \<Rightarrow> (string, string) fmap \<Rightarrow> ('w, Deployment list) ext"
  Get_Secret :: "string \<Rightarrow> string \<Rightarrow> ('w, Secret) ext"
  Update_Secret :: "Secret \<Rightarrow> ('w, Secret) ext"
  List_Pods :: "string option \<Rightarrow> (string, string) fmap \<Rightarrow> ('w, Pod list) ext"
  SetControllerReference :: "ZooKeeperService \<Rightarrow> ObjectMeta \<Rightarrow> go_error + ObjectMeta"
  GetControllerOf :: "ObjectMeta \<Rightarrow> OwnerReference option"
  ParseGroupVersion :: "string \<Rightarrow> go_error + string \<times> string"
  MustParse :: "string \<Rightarrow> quantity option"
  RetryOnConflict :: "('w, unit) op \<Rightarrow> ('w, unit) op"
  PollUntilContextTimeout :: "int \<Rightarrow> int \<Rightarrow> bool \<Rightarrow> ('w, bool) op \<Rightarrow> ('w, unit) op"
  Sleep :: "int \<Rightarrow> 'w \<Rightarrow> 'w"
  Now :: "'w \<Rightarrow> string \<times> 'w"
  Marshal_Spec :: "ZooKeeperServiceSpec \<Rightarrow> go_error + string"
  Marshal_Global :: "Global option \<Rightarrow> go_error + string"
  Marshal_ZooKeeper :: "ZooKeeper option \<Rightarrow> go_error + string"
  Marshal_Monitoring :: "Monitoring option \<Rightarrow> go_error + string"
  Marshal_BackupDaemon :: "BackupDaemon option \<Rightarrow> go_error + string"
  BearerToken :: "'w \<Rightarrow> string"
  Vault_NewClient :: "string \<Rightarrow> go_error + vault_client"
  Vault_Write :: "vault_client \<Rightarrow> string \<Rightarrow> (string \<times> jval) list \<Rightarrow> ('w, vault_secret option) ext"
  Vault_Read :: "vault_client \<Rightarrow> string \<Rightarrow> ('w, vault_secret option) ext"
  Vault_GetPolicy :: "vault_client \<Rightarrow> string \<Rightarrow> ('w, string) ext"
  Vault_PutPolicy :: "vault_client \<Rightarrow> string \<Rightarrow> string \<Rightarrow> ('w, unit) ext"
  Vault_EncodeBody :: "jval \<Rightarrow> go_error + string"
  Vault_RawRequest :: "vault_client \<Rightarrow> string \<Rightarrow> string \<Rightarrow> string option \<Rightarrow> 'w \<Rightarrow>
     (http_response option \<times> go_error option) \<times> 'w"
  Decode_StringMap :: "string \<Rightarrow> go_error + (string, string) fmap"
  Decode_Object :: "string \<Rightarrow> go_error + (string \<times> jval) list option"
  Password_NewGenerator :: "string \<Rightarrow> go_error + password_generator"
  Password_Generate :: "password_generator \<Rightarrow> int \<Rightarrow> int \<Rightarrow> int \<Rightarrow> bool \<Rightarrow> bool \<Rightarrow> ('w, string) ext"

section \<open>Calls from the operator\<close>

definition ext :: "('w, 'a) ext \<Rightarrow> ('w, 'a) op" where
  "ext f = (\<lambda>s. case f (world s) of (r, w) \<Rightarrow>
     (case r of Inl e \<Rightarrow> (Err e, s\<lparr>world := w\<rparr>) | Inr x \<Rightarrow> (Ok x, s\<lparr>world := w\<rparr>)))"

definition ext_pure :: "go_error + 'a \<Rightarrow> ('w, 'a) op" where
  "ext_pure r = (\<lambda>s. case r of Inl e \<Rightarrow> (Err e, s) | Inr x \<Rightarrow> (Ok x, s))"

definition ext_total :: "('w \<Rightarrow> 'a \<times> 'w) \<Rightarrow> ('w, 'a) op" where
  "ext_total f = (\<lambda>s. case f (world s) of (x, w) \<Rightarrow> (Ok x, s\<lparr>world := w\<rparr>))"

definition sleep :: "'w env \<Rightarrow> int \<Rightarrow> ('w, unit) op" where
  "sleep c d = modify (\<lambda>s. s\<lparr>world := Sleep c d (world s)\<rparr>)"

lemma ext_run:
  "ext f s = (r, t) \<longleftrightarrow>
     (\<exists>v w. f (world s) = (v, w) \<and> t = s\<lparr>world := w\<rparr> \<and>
            r = (case v of Inl e \<Rightarrow> Err e | Inr x \<Rightarrow> Ok x))"
  by (auto simp: ext_def split: prod.splits sum.splits)

lemma ext_eq_Ok: "ext f s = (Ok x, t) \<longleftrightarrow> (\<exists>w. f (world s) = (Inr x, w) \<and> t = s\<lparr>world := w\<rparr>)"
  by (auto simp: ext_def split: prod.splits sum.splits)

lemma ext_eq_Err: "ext f s = (Err e, t) \<longleftrightarrow> (\<exists>w. f (world s) = (Inl e, w) \<and> t = s\<lparr>world := w\<rparr>)"
  by (auto simp: ext_def split: prod.splits sum.splits)

lemma ext_not_Panic [simp]: "ext f s \<noteq> (Panic p, t)"
  by (auto simp: ext_def split: prod.splits sum.splits)

lemma ext_pure_simps [simp]: "ext_pure (Inl e) = fail e" "ext_pure (Inr x) = ret x"
  by (auto simp: ext_pure_def)

lemma ext_pure_eq_Ok: "ext_pure r s = (Ok x, t) \<longleftrightarrow> r = Inr x \<and> t = s"
  by (cases r) auto

section \<open>Documented behaviour of the two control operators\<close>

text \<open>
  \<^verbatim>\<open>retry.RetryOnConflict\<close> runs its argument, and runs it again while it fails with a conflict
  and attempts are left; it returns what the last run returned. Between two runs time passes, so the
  world may be any other.
\<close>

inductive retried :: "('w, unit) op \<Rightarrow> 'w opstate \<Rightarrow> unit outcome \<Rightarrow> 'w opstate \<Rightarrow> bool"
  for f :: "('w, unit) op" where
  last_run: "f s = (r, t) \<Longrightarrow> retried f s r t"
| run_again: "f s = (Err e, t) \<Longrightarrow> IsConflict e \<Longrightarrow> retried f (t\<lparr>world := w\<rparr>) r u \<Longrightarrow>
     retried f s r u"

definition retry_documented :: "'w env \<Rightarrow> bool" where
  "retry_documented c \<longleftrightarrow>
     (\<forall>f s. retried f s (fst (RetryOnConflict c f s)) (snd (RetryOnConflict c f s)))"

text \<open>
  \<^verbatim>\<open>wait.PollUntilContextTimeout\<close> runs its condition until it returns true, an error, or the
  timeout is over: nil is returned only when the condition returned true; the error of a failing
  condition is returned as it is.
\<close>

inductive polled :: "('w, bool) op \<Rightarrow> 'w opstate \<Rightarrow> unit outcome \<Rightarrow> 'w opstate \<Rightarrow> bool"
  for cond :: "('w, bool) op" where
  poll_done: "cond s = (Ok True, t) \<Longrightarrow> polled cond s (Ok ()) t"
| poll_error: "cond s = (Err e, t) \<Longrightarrow> polled cond s (Err e) t"
| poll_panic: "cond s = (Panic p, t) \<Longrightarrow> polled cond s (Panic p) t"
| poll_again: "cond s = (Ok False, t) \<Longrightarrow> polled cond (t\<lparr>world := w\<rparr>) r u \<Longrightarrow> polled cond s r u"
| poll_timeout: "polled cond s (Err (OtherError ''context deadline exceeded'')) (s\<lparr>world := w\<rparr>)"

definition poll_documented :: "'w env \<Rightarrow> bool" where
  "poll_documented c \<longleftrightarrow>
     (\<forall>i d im cond s. polled cond s (fst (PollUntilContextTimeout c i d im cond s))
                                    (snd (PollUntilContextTimeout c i d im cond s)))"

definition control_documented :: "'w env \<Rightarrow> bool" where
  "control_documented c \<longleftrightarrow> retry_documented c \<and> poll_documented c"

lemma retriedI: "retry_documented c \<Longrightarrow> RetryOnConflict c f s = (r, t) \<Longrightarrow> retried f s r t"
  unfolding retry_documented_def by (metis fst_conv snd_conv)

lemma polledI:
  "poll_documented c \<Longrightarrow> PollUntilContextTimeout c i d im cond s = (r, t) \<Longrightarrow> polled cond s r t"
  unfolding poll_documented_def by (metis fst_conv snd_conv)

inductive_cases polled_OkE: "polled cond s (Ok ()) t"

lemma polled_Ok_last:
  "polled cond s (Ok ()) t \<Longrightarrow> \<exists>u. cond u = (Ok True, t)"
proof (induction s "Ok () :: unit outcome" t rule: polled.induct)
  case (poll_done s t)
  then show ?case by blast
next
  case (poll_again s t w u)
  then show ?case by blast
qed

lemma retried_last: "retried f s r t \<Longrightarrow> \<exists>u. f u = (r, t)"
  by (induction rule: retried.induct) blast+

section \<open>Frames over the world\<close>

text \<open>
  A frame that does not look at the world is respected by every call out of the process, and by the
  control operators when their argument respects it.
\<close>

locale world_frame = frame_rel R for R :: "'w opstate \<Rightarrow> 'w opstate \<Rightarrow> bool" +
  assumes frame_world: "R s (s\<lparr>world := w\<rparr>)"
begin

lemma stays_ext: "stays R (ext f)"
  by (rule staysI) (auto simp: ext_run frame_world)

lemma stays_ext_pure: "stays R (ext_pure r)"
  by (cases r) (simp_all add: stays_fail stays_ret)

lemma stays_ext_total: "stays R (ext_total f)"
  by (rule staysI) (auto simp: ext_total_def frame_world split: prod.splits)

lemma stays_sleep: "stays R (sleep c d)"
  unfolding sleep_def by (rule stays_modify) (rule frame_world)

lemma stays_retry:
  assumes doc: "control_documented c" and f: "stays R f"
  shows "stays R (RetryOnConflict c f)"
proof (rule staysI)
  fix s r t
  assume "RetryOnConflict c f s = (r, t)"
  with doc have "retried f s r t" by (auto simp: control_documented_def intro: retriedI)
  then show "R s t"
  proof (induction rule: retried.induct)
    case (last_run s r t)
    then show ?case by (rule staysD [OF f])
  next
    case (run_again s e t w r u)
    from run_again.hyps(1) have "R s t" by (rule staysD [OF f])
    with frame_world run_again.IH show ?case by (blast intro: frame_trans)
  qed
qed

lemma stays_poll:
  assumes doc: "control_documented c" and cond: "stays R cond"
  shows "stays R (PollUntilContextTimeout c i d im cond)"
proof (rule staysI)
  fix s r t
  assume "PollUntilContextTimeout c i d im cond s = (r, t)"
  with doc have "polled cond s r t" by (auto simp: control_documented_def intro: polledI)
  then show "R s t"
  proof (induction rule: polled.induct)
    case (poll_again s t w r u)
    from poll_again.hyps(1) have "R s t" by (rule staysD [OF cond])
    with frame_world poll_again.IH show ?case by (blast intro: frame_trans)
  qed (use staysD [OF cond] frame_world in blast)+
qed

lemmas world_rules = stays_rules stays_ext stays_ext_pure stays_ext_total stays_sleep

end

section \<open>Computations that change the world only\<close>

definition only_world :: "'w opstate \<Rightarrow> 'w opstate \<Rightarrow> bool" where
  "only_world s t \<longleftrightarrow> t = s\<lparr>world := world t\<rparr>"

interpretation ow: world_frame "only_world :: 'w opstate \<Rightarrow> 'w opstate \<Rightarrow> bool"
proof unfold_locales
  fix s t u :: "'w opstate"
  show "only_world s t \<Longrightarrow> only_world t u \<Longrightarrow> only_world s u"
    by (cases s; cases t; cases u) (simp add: only_world_def)
qed (simp_all add: only_world_def)

lemma only_worldD:
  assumes "only_world s t"
  shows "op_cr t = op_cr s" "ResourceVersions t = ResourceVersions s"
    "ResourceHashes t = ResourceHashes s" "globalSpecHash t = globalSpecHash s"
    "vaultClient t = vaultClient s"
  using assms by (cases s; cases t; simp add: only_world_def)+

text \<open>A poll that returns nil ended with a run of its condition that returned true, and a retried
  computation with a run of its own: the first one, unless that one met a conflict.\<close>

lemma polled_Ok_run:
  assumes "polled cond s (Ok ()) t" and "stays only_world cond"
  shows "\<exists>u. cond u = (Ok True, t) \<and> only_world s u"
  using assms(1)
proof (induction s "Ok () :: unit outcome" t rule: polled.induct)
  case (poll_done s t)
  then show ?case by (auto simp: only_world_def)
next
  case (poll_again s t w u)
  have "only_world s (t\<lparr>world := w\<rparr>)"
    using ow.frame_trans [OF staysD [OF assms(2) poll_again.hyps(1)] ow.frame_world] .
  with poll_again.hyps(3) show ?case by (blast intro: ow.frame_trans)
qed

definition conflicting :: "('w, unit) op \<Rightarrow> 'w \<Rightarrow> bool" where
  "conflicting f w \<longleftrightarrow> (\<exists>s e t. world s = w \<and> f s = (Err e, t) \<and> IsConflict e)"

lemma retried_run: "retried f s r t \<Longrightarrow> \<exists>u. f u = (r, t) \<and> (u = s \<or> conflicting f (world s))"
  by (induction rule: retried.induct) (auto simp: conflicting_def)

text \<open>Every frame that does not look at the world contains this one.\<close>

context world_frame
begin

lemma stays_only_world: "stays only_world m \<Longrightarrow> stays R m"
  unfolding stays_def by (metis only_world_def frame_world)

end

end
