(* ===== verification/ServiceProvider.thy ===== *)
theory ServiceProvider
  imports Environment
begin

text \<open>
  The builders every component shares: \<^verbatim>\<open>operator/controllers/provider/zookeeperservice_provider.go\<close>
  (labels, services, service accounts, claims, environment variables, volumes),
  \<^verbatim>\<open>secrets_provider.go\<close> (projected secret volumes) and \<^verbatim>\<open>vault_provider.go\<close> (Vault policies, roles
  and the references a pod resolves at start). \<^verbatim>\<open>resource.MustParse\<close> panics on text that is not a
  quantity: the parameter \<open>mp\<close> is its parser.
\<close>

section \<open>Labels, services, service accounts\<close>

definition GetZooKeeperSelectorLabels :: "string \<Rightarrow> (string, string) fmap" where
  "GetZooKeeperSelectorLabels serviceName =
     fmupd ''clusterName'' serviceName (fmupd ''component'' ''zookeeper'' fmempty)"

definition GetZooKeeperLabels :: "string \<Rightarrow> string gomap \<Rightarrow> (string, string) fmap" where
  "GetZooKeeperLabels serviceName defaultLabels =
     (let labels = fmupd ''name'' serviceName (fmupd ''app.kubernetes.io/name'' serviceName fmempty)
      in JoinMaps (Some (JoinMaps (Some labels) (Some (GetZooKeeperSelectorLabels serviceName))))
           defaultLabels)"

definition newServiceForCR ::
  "string \<Rightarrow> string \<Rightarrow> string gomap \<Rightarrow> string gomap \<Rightarrow> ServicePort list \<Rightarrow> Service" where
  "newServiceForCR serviceName namespace labels selectorLabels ports =
     \<lparr>svc_Meta = new_meta serviceName namespace labels None, svc_Ports = ports,
      svc_Selector = selectorLabels, svc_ClusterIP = '''', svc_Type = '''',
      svc_PublishNotReadyAddresses = False, svc_ExternalIPs = []\<rparr>"

definition NewServiceAccount :: "string \<Rightarrow> string \<Rightarrow> ServiceAccount" where
  "NewServiceAccount serviceAccountName namespace =
     \<lparr>sa_Meta = new_meta serviceAccountName namespace None None\<rparr>"

section \<open>Persistent volume claims\<close>

definition SnapshotsPersistentVolumeClaimPattern :: "string \<Rightarrow> string" where
  "SnapshotsPersistentVolumeClaimPattern name = ''pvc-'' @ name @ ''-snapshots''"

definition NewPersistentVolumeClaim ::
  "(string \<Rightarrow> quantity option) \<Rightarrow> string \<Rightarrow> string \<Rightarrow> string gomap \<Rightarrow> string gomap \<Rightarrow> bool \<Rightarrow> string \<Rightarrow>
   string gomap option \<Rightarrow> string option \<Rightarrow> string \<Rightarrow> PersistentVolumeClaim outcome" where
  "NewPersistentVolumeClaim mp persistentVolumeClaimName namespace labels annotations shared
     persistentVolumeName labelSelector storageClassName volumeSize =
     (case mp volumeSize of
        None \<Rightarrow> Panic ''cannot parse quantity''
      | Some q \<Rightarrow>
          (let accessMode = (if shared then ''ReadWriteMany'' else ''ReadWriteOnce'');
               claim0 =
                 \<lparr>pvc_Meta = new_meta persistentVolumeClaimName namespace labels annotations,
                  pvc_AccessModes = [accessMode], pvc_StorageRequest = q, pvc_VolumeName = '''',
                  pvc_Selector = None, pvc_StorageClassName = None\<rparr>;
               claim1 =
                 (if persistentVolumeName \<noteq> '''' then claim0\<lparr>pvc_VolumeName := persistentVolumeName\<rparr>
                  else if labelSelector \<noteq> None then claim0\<lparr>pvc_Selector := labelSelector\<rparr>
                  else claim0\<lparr>pvc_StorageClassName := storageClassName\<rparr>)
           in Ok (if persistentVolumeName \<noteq> '''' \<or> labelSelector \<noteq> None
                  then (if storageClassName \<noteq> None then claim1\<lparr>pvc_StorageClassName := storageClassName\<rparr>
                        else claim1\<lparr>pvc_StorageClassName := Some ''''\<rparr>)
                  else claim1)))"

text \<open>The nil claim is \<open>Ok None\<close>. A label that has no \<^verbatim>\<open>=\<close> makes the index into the split label
  panic.\<close>

definition ProcessNonSharedPersistentVolumeClaim ::
  "(string \<Rightarrow> quantity option) \<Rightarrow> string \<Rightarrow> string \<Rightarrow> string \<Rightarrow> string option \<Rightarrow> string \<Rightarrow> string \<Rightarrow>
   string gomap \<Rightarrow> string gomap \<Rightarrow> PersistentVolumeClaim option outcome" where
  "ProcessNonSharedPersistentVolumeClaim mp persistentVolumeClaimName persistentVolumeName
     persistentVolumeLabel storageClassName storageSize namespace labels annotations =
     (let build = (\<lambda>labelSelector.
            obind (NewPersistentVolumeClaim mp persistentVolumeClaimName namespace labels annotations
                     False persistentVolumeName labelSelector storageClassName storageSize)
              (\<lambda>claim. Ok (Some claim)))
      in if persistentVolumeName \<noteq> '''' then build None
         else if persistentVolumeLabel \<noteq> '''' then
           (let keyValue = Split (CHR ''='') persistentVolumeLabel
            in obind (index keyValue 0) (\<lambda>k. obind (index keyValue 1) (\<lambda>v.
                 build (Some (Some (fmupd k v fmempty))))))
         else if storageClassName = None then Ok None
         else build None)"

section \<open>Environment variables, volumes, security context\<close>

fun buildEnvs :: "EnvVar list \<Rightarrow> string list \<Rightarrow> EnvVar list" where
  "buildEnvs envVars [] = envVars"
| "buildEnvs envVars (envVar # additionalEnvs) =
     (case SplitN2 (CHR ''='') envVar of
        [n, v] \<Rightarrow>
          (let name = TrimSpace n
           in if length name > 0
              then buildEnvs (envVars @ [env_value name (TrimSpace v)]) additionalEnvs
              else buildEnvs envVars additionalEnvs)
      | _ \<Rightarrow> buildEnvs envVars additionalEnvs)"

definition getDefaultContainerSecurityContext :: SecurityContext where
  "getDefaultContainerSecurityContext =
     \<lparr>sc_AllowPrivilegeEscalation = Some False, sc_ReadOnlyRootFilesystem = Some True,
      sc_DropCapabilities = [''ALL'']\<rparr>"

definition getTmpVolume :: "(string \<Rightarrow> quantity option) \<Rightarrow> string \<Rightarrow> Volume outcome" where
  "getTmpVolume mp sizeLimitQuantity =
     (case mp sizeLimitQuantity of None \<Rightarrow> Panic ''cannot parse quantity''
      | Some q \<Rightarrow> Ok (volume ''tmp'' (EmptyDir (Some q))))"

definition getTmpVolumeMount :: VolumeMount where
  "getTmpVolumeMount = mount ''tmp'' ''/tmp''"

definition getVarLogVolume :: "(string \<Rightarrow> quantity option) \<Rightarrow> Volume outcome" where
  "getVarLogVolume mp =
     (case mp ''10Mi'' of None \<Rightarrow> Panic ''cannot parse quantity''
      | Some q \<Rightarrow> Ok (volume ''var-log'' (EmptyDir (Some q))))"

definition getVarLogVolumeMount :: VolumeMount where
  "getVarLogVolumeMount = mount ''var-log'' ''/var/log''"

text \<open>The node affinity that pins a pod to one host.\<close>

definition hostname_affinity :: "string \<Rightarrow> NodeAffinity" where
  "hostname_affinity node =
     \<lparr>na_RequiredTerms = [[\<lparr>nsr_Key = ''kubernetes.io/hostname'', nsr_Operator = ''In'',
                             nsr_Values = [node]\<rparr>]],
      na_Preferred = ''''\<rparr>"

section \<open>Projected secrets\<close>

definition AutoRestartAnnotation :: string where
  "AutoRestartAnnotation = ''zookeeperservice.netcracker.com/auto-restart''"

definition ResourceVersionAnnotation :: "string \<Rightarrow> string" where
  "ResourceVersionAnnotation secretName = secretName @ ''/resource-version''"

definition GetPodSecretsMountPath :: "string \<Rightarrow> string" where
  "GetPodSecretsMountPath service = ''/etc/secrets/'' @ service @ ''-pod-secrets''"

text \<open>\<^verbatim>\<open>0644\<close> in octal.\<close>

definition getPodSecretsDefaultMode :: int32 where
  "getPodSecretsDefaultMode = 420"

record ProjectedSecretSource =
  pss_SecretName :: string
  pss_Items :: "KeyToPath list"

fun projectedSources :: "ProjectedSecretSource list \<Rightarrow> SecretProjection list" where
  "projectedSources [] = []"
| "projectedSources (source # sources) =
     (if pss_SecretName source = '''' \<or> length (pss_Items source) = 0 then projectedSources sources
      else \<lparr>pr_SecretName = pss_SecretName source, pr_Items = pss_Items source\<rparr> #
           projectedSources sources)"

definition NewPodSecretsProjectedVolume :: "string \<Rightarrow> ProjectedSecretSource list \<Rightarrow> Volume" where
  "NewPodSecretsProjectedVolume volumeName sources =
     volume volumeName (ProjectedVolume getPodSecretsDefaultMode (projectedSources sources))"

definition NewPodSecretsVolumeMount :: "string \<Rightarrow> string \<Rightarrow> VolumeMount" where
  "NewPodSecretsVolumeMount volumeName mountPath =
     \<lparr>vm_Name = volumeName, vm_MountPath = mountPath, vm_ReadOnly = True\<rparr>"

definition SecretKeyToPath :: "string \<Rightarrow> string \<Rightarrow> KeyToPath" where
  "SecretKeyToPath key path = \<lparr>kp_Key = key, kp_Path = path\<rparr>"

section \<open>Vault\<close>

abbreviation dq :: string where "dq \<equiv> [CHR 0x22]"
abbreviation nl :: string where "nl \<equiv> [CHR 0x0A]"
abbreviation tab :: string where "tab \<equiv> [CHR 0x09]"

definition IsVaultSecretManagementEnabled :: "ZooKeeperService \<Rightarrow> bool" where
  "IsVaultSecretManagementEnabled cr =
     (case spec_VaultSecretManagement (cr_Spec cr) of None \<Rightarrow> False | Some v \<Rightarrow> vsm_Enabled v)"

definition vault_section :: "ZooKeeperService \<Rightarrow> VaultSecretManagement outcome" where
  "vault_section cr = deref (spec_VaultSecretManagement (cr_Spec cr))"

definition getVaultSecretEnvVarSource ::
  "string \<Rightarrow> ZooKeeperService \<Rightarrow> string \<Rightarrow> string \<Rightarrow> string outcome" where
  "getVaultSecretEnvVarSource serviceName cr secret key =
     obind (vault_section cr) (\<lambda>v.
       Ok (''vault:/'' @ vsm_Path v @ ''/data/'' @ serviceName @ ''.'' @ cr_Namespace cr @ ''/'' @
           secret @ ''#'' @ key))"

definition getVaultConnectionEnvVars :: "string \<Rightarrow> ZooKeeperService \<Rightarrow> EnvVar list outcome" where
  "getVaultConnectionEnvVars serviceName cr =
     obind (vault_section cr) (\<lambda>v.
       Ok [env_value ''VAULT_SKIP_VERIFY'' ''True'',
           env_value ''VAULT_ADDR'' (vsm_Url v),
           env_value ''VAULT_PATH'' (vsm_Method v),
           env_value ''VAULT_ROLE'' (serviceName @ ''.'' @ cr_Namespace cr @ ''-role''),
           env_value ''VAULT_IGNORE_MISSING_SECRETS'' ''False''])"

definition getVaultInitContainer :: "ZooKeeperService \<Rightarrow> Container outcome" where
  "getVaultInitContainer cr =
     obind (vault_section cr) (\<lambda>v.
       Ok \<lparr>ct_Name = ''copy-vault-env'', ct_Image = vsm_DockerImage v,
           ct_Command = [''sh'', ''-c'', ''cp /usr/local/bin/vault-env /vault/''], ct_Args = [],
           ct_Ports = [], ct_Env = [], ct_Resources = None,
           ct_VolumeMounts = [mount ''vault-env'' ''/vault''], ct_LivenessProbe = None,
           ct_ReadinessProbe = None, ct_ImagePullPolicy = ''IfNotPresent'',
           ct_SecurityContext = Some getDefaultContainerSecurityContext\<rparr>)"

definition BuildVaultRole :: "string \<Rightarrow> ZooKeeperService \<Rightarrow> string list \<Rightarrow> jval" where
  "BuildVaultRole serviceAccountName cr policyNames =
     JObject [(''bound_service_account_names'', JString serviceAccountName),
              (''bound_service_account_namespaces'', JString (cr_Namespace cr)),
              (''policies'', JArray (map JString policyNames)),
              (''ttl'', JString ''30m'')]"

text \<open>One stanza of a policy in Vault's policy language: read and list on a path.\<close>

definition policy_stanza :: "string \<Rightarrow> string" where
  "policy_stanza path =
     ''path '' @ dq @ path @ dq @ '' '' @ nl @ ''{'' @ nl @ tab @ ''capabilities = ['' @
     dq @ ''read'' @ dq @ '', '' @ dq @ ''list'' @ dq @ '']'' @ nl @ ''}''"

definition BuildVaultPolicy :: "string \<Rightarrow> ZooKeeperService \<Rightarrow> string list \<Rightarrow> string outcome" where
  "BuildVaultPolicy serviceName cr secretNamePatterns =
     obind (omap (\<lambda>secretNamePattern.
              obind (vault_section cr) (\<lambda>v.
                Ok (policy_stanza (vsm_Path v @ ''/data/'' @ serviceName @ ''.'' @ cr_Namespace cr @
                      ''/'' @ secretNamePattern))))
            secretNamePatterns)
       (\<lambda>policies. Ok (Join policies nl))"

definition BuildVaultPolicyForPath :: "string list \<Rightarrow> string" where
  "BuildVaultPolicyForPath paths = Join (map policy_stanza paths) nl"

definition BuildVaultPasswordPolicy :: jval where
  "BuildVaultPasswordPolicy =
     JObject [(''policy'', JString (
       ''length = 10'' @
       ''rule '' @ dq @ ''charset'' @ dq @ '' {'' @
       tab @ ''charset = '' @ dq @ ''abcdefghijklmnopqrstuvwxyz'' @ dq @
       tab @ ''min-chars = 3'' @
       ''}'' @
       ''rule '' @ dq @ ''charset'' @ dq @ '' {'' @
       tab @ ''charset = '' @ dq @ ''ABCDEFGHIJKLMNOPQRSTUVWXYZ'' @ dq @
       tab @ ''min-chars = 3'' @
       ''}'' @
       ''rule '' @ dq @ ''charset'' @ dq @ '' {'' @
       tab @ tab @ ''charset = '' @ dq @ ''0123456789'' @ dq @
       tab @ ''min-chars = 1'' @
       ''}'' @
       ''rule '' @ dq @ ''charset'' @ dq @ '' {'' @
       tab @ ''charset = '' @ dq @ ''_!'' @
       tab @ ''min-chars = 1'' @
       ''}''))]"

text \<open>
  \<^verbatim>\<open>regexp.MustCompile("(vault:/)(.*)(#.*)").ReplaceAllString(path, "$2")\<close>. A dot does not match a
  newline, so no match crosses a line. In a line the match starts at the leftmost \<^verbatim>\<open>vault:/\<close> with
  a \<^verbatim>\<open>#\<close> somewhere after it, the first group of dots runs to the last \<^verbatim>\<open>#\<close> and the second to
  the end of the line; a line without such a match stays as it is.
\<close>

definition upto_last_hash :: "string \<Rightarrow> string" where
  "upto_last_hash s = rev (tl (dropWhile (\<lambda>c. c \<noteq> CHR ''#'') (rev s)))"

fun replace_in_line :: "string \<Rightarrow> string" where
  "replace_in_line [] = []"
| "replace_in_line (c # cs) =
     (if prefix ''vault:/'' (c # cs) \<and> CHR ''#'' \<in> set (drop 7 (c # cs))
      then upto_last_hash (drop 7 (c # cs))
      else c # replace_in_line cs)"

definition ReplaceVaultRefs :: "string \<Rightarrow> string" where
  "ReplaceVaultRefs path = Join (map replace_in_line (Split (CHR 0x0A) path)) nl"

definition GetVaultSecretForPath :: "string gomap \<Rightarrow> string \<Rightarrow> string" where
  "GetVaultSecretForPath secretPathsForComponent key =
     (if secretPathsForComponent \<noteq> None \<and> prefix ''vault:/'' (mget secretPathsForComponent key)
      then ReplaceVaultRefs (mget secretPathsForComponent key) else '''')"

section \<open>Properties\<close>

subsection \<open>Labels\<close>

lemma selector_lookup [label_simps]:
  "fmlookup (GetZooKeeperSelectorLabels n) k =
     (if k = ''clusterName'' then Some n else if k = ''component'' then Some ''zookeeper'' else None)"
  by (auto simp: GetZooKeeperSelectorLabels_def)

lemma zookeeper_labels_lookup [label_simps]:
  "fmlookup (GetZooKeeperLabels n d) k =
     (case mlookup d k of
        Some v \<Rightarrow> Some v
      | None \<Rightarrow> (if k = ''clusterName'' then Some n else if k = ''component'' then Some ''zookeeper''
                 else if k = ''name'' then Some n else if k = ''app.kubernetes.io/name'' then Some n
                 else None))"
  by (auto simp: GetZooKeeperLabels_def Let_def label_simps split: option.splits)

subsection \<open>Claims\<close>

lemma NewPersistentVolumeClaim_panics_iff:
  "is_Panic (NewPersistentVolumeClaim mp n ns l a sh pv sel sc sz) \<longleftrightarrow> mp sz = None"
  by (auto simp: NewPersistentVolumeClaim_def Let_def split: option.splits)

lemma NewPersistentVolumeClaim_cases:
  "NewPersistentVolumeClaim mp n ns l a sh pv sel sc sz =
     (case mp sz of
        None \<Rightarrow> Panic ''cannot parse quantity''
      | Some q \<Rightarrow> Ok
          \<lparr>pvc_Meta = new_meta n ns l a,
           pvc_AccessModes = [if sh then ''ReadWriteMany'' else ''ReadWriteOnce''],
           pvc_StorageRequest = q, pvc_VolumeName = pv,
           pvc_Selector = (if pv = '''' then sel else None),
           pvc_StorageClassName =
             (if pv = '''' \<and> sel = None then sc
              else Some (case sc of None \<Rightarrow> '''' | Some c \<Rightarrow> c))\<rparr>)"
  by (auto simp: NewPersistentVolumeClaim_def Let_def split: option.splits)

lemma NewPersistentVolumeClaim_name:
  "NewPersistentVolumeClaim mp n ns l a sh pv sel sc sz = Ok claim \<Longrightarrow> pvc_Meta claim = new_meta n ns l a"
  by (auto simp: NewPersistentVolumeClaim_cases split: option.splits)

lemma ProcessNonShared_nil_iff:
  "ProcessNonSharedPersistentVolumeClaim mp n pv lab sc sz ns l a = Ok None \<longleftrightarrow>
     pv = '''' \<and> lab = '''' \<and> sc = None"
  by (auto simp: ProcessNonSharedPersistentVolumeClaim_def Let_def obind_eq_Ok)

lemma ProcessNonShared_name:
  "ProcessNonSharedPersistentVolumeClaim mp n pv lab sc sz ns l a = Ok (Some claim) \<Longrightarrow>
   pvc_Meta claim = new_meta n ns l a \<and> pvc_AccessModes claim = [''ReadWriteOnce'']"
  by (auto simp: ProcessNonSharedPersistentVolumeClaim_def NewPersistentVolumeClaim_cases Let_def
      obind_eq_Ok split: if_splits option.splits)

subsection \<open>Environment variables\<close>

definition parse_env :: "string \<Rightarrow> EnvVar list" where
  "parse_env e =
     (if CHR ''='' \<in> set e \<and> TrimSpace (takeWhile (\<lambda>x. x \<noteq> CHR ''='') e) \<noteq> ''''
      then [env_value (TrimSpace (takeWhile (\<lambda>x. x \<noteq> CHR ''='') e))
                      (TrimSpace (tl (dropWhile (\<lambda>x. x \<noteq> CHR ''='') e)))]
      else [])"

lemma buildEnvs_parse: "buildEnvs es xs = es @ concat (map parse_env xs)"
  by (induction xs arbitrary: es) (auto simp: parse_env_def SplitN2_def Let_def)

lemma parse_env_pair:
  assumes "CHR ''='' \<notin> set n" and "TrimSpace n = n" and "TrimSpace v = v" and "n \<noteq> ''''"
  shows "parse_env (n @ ''='' @ v) = [env_value n v]"
proof -
  have "takeWhile (\<lambda>x. x \<noteq> CHR ''='') (n @ ''='' @ v) = n"
       "tl (dropWhile (\<lambda>x. x \<noteq> CHR ''='') (n @ ''='' @ v)) = v"
    using SplitN2_pair [OF assms(1), of v] by (simp_all add: SplitN2_def)
  with assms show ?thesis by (simp add: parse_env_def)
qed

subsection \<open>Vault references\<close>

lemma upto_last_hash_split:
  assumes "CHR ''#'' \<notin> set k"
  shows "upto_last_hash (p @ CHR ''#'' # k) = p"
proof -
  have "dropWhile (\<lambda>c. c \<noteq> CHR ''#'') (rev k @ CHR ''#'' # rev p) = CHR ''#'' # rev p"
    using assms by (subst dropWhile_append2) auto
  then show ?thesis by (simp add: upto_last_hash_def)
qed

lemma ReplaceVaultRefs_ref:
  assumes "CHR 0x0A \<notin> set p \<union> set k" and "CHR ''#'' \<notin> set k"
  shows "ReplaceVaultRefs (''vault:/'' @ p @ ''#'' @ k) = p"
proof -
  have "CHR 0x0A \<notin> set (''vault:/'' @ p @ ''#'' @ k)" using assms(1) by simp
  then have "Split (CHR 0x0A) (''vault:/'' @ p @ ''#'' @ k) = [''vault:/'' @ p @ ''#'' @ k]"
    by (rule Split_fresh)
  moreover have "replace_in_line (''vault:/'' @ p @ ''#'' @ k) = p"
    using upto_last_hash_split [OF assms(2), of p] by simp
  ultimately show ?thesis by (simp only: ReplaceVaultRefs_def list.map Join.simps)
qed

lemma policy_stanza_quotes_even: "even (count_list (policy_stanza p) (CHR 0x22) + count_list p (CHR 0x22))"
  by (simp add: policy_stanza_def)

section \<open>The parts of a pod a deployment builder collects\<close>

text \<open>The three slices the deployment builders append to, and the appends they share.\<close>

record pod_parts =
  pp_Env :: "EnvVar list"
  pp_Volumes :: "Volume list"
  pp_Mounts :: "VolumeMount list"

definition add_parts :: "EnvVar list \<Rightarrow> Volume list \<Rightarrow> VolumeMount list \<Rightarrow> pod_parts \<Rightarrow> pod_parts" where
  "add_parts es vs ms p =
     \<lparr>pp_Env = pp_Env p @ es, pp_Volumes = pp_Volumes p @ vs, pp_Mounts = pp_Mounts p @ ms\<rparr>"

definition addVaultParts :: "string \<Rightarrow> ZooKeeperService \<Rightarrow> pod_parts \<Rightarrow> pod_parts outcome" where
  "addVaultParts serviceName cr p =
     (if IsVaultSecretManagementEnabled cr
      then obind (getVaultConnectionEnvVars serviceName cr) (\<lambda>es.
             Ok (add_parts es [volume ''vault-env'' (EmptyDir None)] [mount ''vault-env'' ''/vault''] p))
      else Ok p)"

definition vaultInitContainers :: "ZooKeeperService \<Rightarrow> Container list outcome" where
  "vaultInitContainers cr =
     (if IsVaultSecretManagementEnabled cr
      then obind (getVaultInitContainer cr) (\<lambda>ct. Ok [ct]) else Ok [])"

lemma add_parts_simps [simp]:
  "pp_Env (add_parts es vs ms p) = pp_Env p @ es"
  "pp_Volumes (add_parts es vs ms p) = pp_Volumes p @ vs"
  "pp_Mounts (add_parts es vs ms p) = pp_Mounts p @ ms"
  by (simp_all add: add_parts_def)

lemma vault_enabled_section:
  "IsVaultSecretManagementEnabled cr \<Longrightarrow> \<exists>v. vault_section cr = Ok v \<and> vsm_Enabled v"
  by (auto simp: IsVaultSecretManagementEnabled_def vault_section_def split: option.splits)

text \<open>
  The table of a pod under construction: the volume names in order, each mounted at its path. The
  volumes of a builder are well formed when its table has distinct names and distinct paths.
\<close>

definition parts_table :: "(string \<times> string) list \<Rightarrow> pod_parts \<Rightarrow> bool" where
  "parts_table T p \<longleftrightarrow>
     map vol_Name (pp_Volumes p) = map fst T \<and>
     map (\<lambda>m. (vm_Name m, vm_MountPath m)) (pp_Mounts p) = T"

lemma parts_table_volumes_ok:
  assumes "parts_table T p" and "distinct (map fst T)" and "distinct (map snd T)"
  shows "volumes_ok (pp_Volumes p) (pp_Mounts p)"
proof -
  from assms(1) have "map vm_Name (pp_Mounts p) = map fst T" "map vm_MountPath (pp_Mounts p) = map snd T"
    by (auto simp: parts_table_def)
  with assms show ?thesis by (simp only: volumes_ok_def parts_table_def) simp
qed

text \<open>A table with optional rows is a subsequence of the full one, whose rows are compared once.\<close>

lemma subseq_optional: "subseq (if c then U else []) U"
  by simp

lemma table_distinct:
  "subseq T U \<Longrightarrow> distinct (map f U) \<Longrightarrow> distinct (map f T)"
  by (auto simp: subseq_conv_nths nths_map [symmetric])

lemmas table_subseq = list_emb_append_mono subseq_optional subseq_order.order_refl

lemma parts_table_add:
  "parts_table T p \<Longrightarrow> map vol_Name vs = map fst U \<Longrightarrow>
   map (\<lambda>m. (vm_Name m, vm_MountPath m)) ms = U \<Longrightarrow> parts_table (T @ U) (add_parts es vs ms p)"
  by (auto simp: parts_table_def)

lemma parts_table_add_env: "parts_table T p \<Longrightarrow> parts_table T (add_parts es [] [] p)"
  by (simp add: parts_table_def)

lemma parts_table_if:
  "(c \<Longrightarrow> parts_table (T @ U) p) \<Longrightarrow> (\<not> c \<Longrightarrow> parts_table T q) \<Longrightarrow>
   parts_table (T @ (if c then U else [])) (if c then p else q)"
  by simp

lemma parts_table_vault:
  assumes "addVaultParts n cr p = Ok p'" and "parts_table T p"
  shows "parts_table (T @ (if IsVaultSecretManagementEnabled cr then [(''vault-env'', ''/vault'')] else [])) p'"
  using assms by (auto simp: addVaultParts_def obind_eq_Ok intro: parts_table_add split: if_splits)

lemma vaultInitContainers_mounts:
  assumes "vaultInitContainers cr = Ok ics"
    and "IsVaultSecretManagementEnabled cr \<Longrightarrow> ''vault-env'' \<in> set (map vol_Name vs)"
    and "distinct (map vol_Name vs)"
  shows "list_all (\<lambda>c. volumes_ok vs (ct_VolumeMounts c)) ics"
  using assms
  by (auto simp: vaultInitContainers_def getVaultInitContainer_def volumes_ok_def obind_eq_Ok
      split: if_splits)

text \<open>Each step only appends: what it found stays in front.\<close>

lemma prefix_add_parts [intro]: "prefix (pp_Volumes p) (pp_Volumes (add_parts es vs ms p))"
  by simp

lemma prefix_addVaultParts:
  "addVaultParts n cr p = Ok p' \<Longrightarrow> prefix (pp_Volumes p) (pp_Volumes p')"
  by (auto simp: addVaultParts_def obind_eq_Ok split: if_splits)

lemma prefix_hd: "prefix xs ys \<Longrightarrow> xs \<noteq> [] \<Longrightarrow> hd ys = hd xs"
  by (auto simp: prefix_def)

text \<open>A pod with one container and Vault's init container is well formed when its table is.\<close>

lemma parts_table_pod:
  assumes "parts_table T p" and "distinct (map fst T)" and "distinct (map snd T)"
    and "vaultInitContainers cr = Ok ics"
    and "IsVaultSecretManagementEnabled cr \<Longrightarrow> ''vault-env'' \<in> fst ` set T"
    and "ps_Volumes s = pp_Volumes p" and "ps_InitContainers s = ics"
    and "ps_Containers s = [c]" and "ct_VolumeMounts c = pp_Mounts p"
  shows "pod_volumes_ok s"
proof -
  have ok: "volumes_ok (pp_Volumes p) (pp_Mounts p)" using assms(1-3) by (rule parts_table_volumes_ok)
  then have dist: "distinct (map vol_Name (pp_Volumes p))" by (simp add: volumes_ok_def)
  from assms(1) have "map vol_Name (pp_Volumes p) = map fst T" by (simp add: parts_table_def)
  then have names: "set (map vol_Name (pp_Volumes p)) = fst ` set T" by (simp only: set_map)
  have "list_all (\<lambda>c. volumes_ok (pp_Volumes p) (ct_VolumeMounts c)) ics"
    by (rule vaultInitContainers_mounts [OF assms(4)]) (use assms(5) names dist in simp_all)
  with ok dist assms(6-9) show ?thesis by (simp add: pod_volumes_ok_def)
qed

section \<open>The interface of a workload provider\<close>

text \<open>
  Every provider builds a deployment and a service for one workload. Its contract: the
  deployment carries the workload's name, one replica, the workload's service account and selector;
  its pods carry the labels of the workload joined over the custom labels; the service selects with
  the same selector; and the labels of the workload agree with its selector except where the
  default labels of the custom resource override a key the provider does not pin.
\<close>

locale workload =
  fixes wname :: "ZooKeeperService \<Rightarrow> string"
    and account :: "ZooKeeperService \<Rightarrow> string"
    and selector :: "ZooKeeperService \<Rightarrow> (string, string) fmap"
    and pinned :: "string set"
    and labels :: "ZooKeeperService \<Rightarrow> Global \<Rightarrow> (string, string) fmap"
    and custom :: "ZooKeeperService \<Rightarrow> string gomap"
    and service :: "ZooKeeperService \<Rightarrow> Service outcome"
    and deployment :: "(string \<Rightarrow> quantity option) \<Rightarrow> ZooKeeperService \<Rightarrow> Deployment outcome"
  assumes deployment_shape:
      "deployment mp cr = Ok d \<Longrightarrow>
         om_Name (dp_Meta d) = wname cr \<and> om_Namespace (dp_Meta d) = cr_Namespace cr \<and>
         dp_Replicas d = Some 1 \<and> dp_Strategy d = ''Recreate'' \<and>
         dp_Selector d = Some (selector cr) \<and>
         ps_ServiceAccountName (pt_Spec (dp_Template d)) = account cr"
    and template_labels:
      "deployment mp cr = Ok d \<Longrightarrow> spec_Global (cr_Spec cr) = Some g \<Longrightarrow>
         pt_Labels (dp_Template d) =
           Some (JoinMaps (Some (JoinMaps (g_CustomLabels g) (custom cr))) (Some (labels cr g)))"
    and needs_global: "deployment mp cr = Ok d \<Longrightarrow> spec_Global (cr_Spec cr) \<noteq> None"
    and service_shape:
      "service cr = Ok s \<Longrightarrow>
         om_Name (svc_Meta s) = wname cr \<and> om_Namespace (svc_Meta s) = cr_Namespace cr \<and>
         svc_Selector s = Some (selector cr)"
    and labels_of_selector:
      "fmlookup (selector cr) k = Some v \<Longrightarrow>
         fmlookup (labels cr g) k =
           (if k \<in> pinned then Some v
            else case mlookup (g_DefaultLabels g) k of None \<Rightarrow> Some v | Some v' \<Rightarrow> Some v')"
begin

definition no_override :: "ZooKeeperService \<Rightarrow> Global \<Rightarrow> bool" where
  "no_override cr g \<longleftrightarrow>
     (\<forall>k v. fmlookup (selector cr) k = Some v \<longrightarrow> k \<notin> pinned \<longrightarrow>
            mlookup (g_DefaultLabels g) k \<in> {None, Some v})"

lemma template_lookup:
  assumes "deployment mp cr = Ok d" and "spec_Global (cr_Spec cr) = Some g"
    and "fmlookup (selector cr) k = Some v"
  shows "mlookup (pt_Labels (dp_Template d)) k =
     (if k \<in> pinned then Some v
      else case mlookup (g_DefaultLabels g) k of None \<Rightarrow> Some v | Some v' \<Rightarrow> Some v')"
  using template_labels [OF assms(1,2)] labels_of_selector [OF assms(3), of g]
  by (auto simp: label_simps split: option.splits)

lemma selects_own_pods_iff:
  assumes d: "deployment mp cr = Ok d" and g: "spec_Global (cr_Spec cr) = Some g"
  shows "selects (contents (dp_Selector d)) (contents (pt_Labels (dp_Template d))) \<longleftrightarrow> no_override cr g"
proof -
  have sel: "contents (dp_Selector d) = selector cr"
    using deployment_shape [OF d] by simp
  have "fmlookup (contents (pt_Labels (dp_Template d))) k = Some v \<longleftrightarrow>
        (k \<notin> pinned \<longrightarrow> mlookup (g_DefaultLabels g) k \<in> {None, Some v})"
    if "fmlookup (selector cr) k = Some v" for k v
    using template_lookup [OF d g that] by (auto simp: mlookup_def split: option.splits)
  then show ?thesis
    unfolding sel selects_iff no_override_def by blast
qed

lemma service_selects_pods:
  assumes d: "deployment mp cr = Ok d" and s: "service cr = Ok s"
    and g: "spec_Global (cr_Spec cr) = Some g" and ok: "no_override cr g"
  shows "svc_Selector s = dp_Selector d \<and> om_Name (svc_Meta s) = om_Name (dp_Meta d) \<and>
         selects (contents (svc_Selector s)) (contents (pt_Labels (dp_Template d)))"
  using selects_own_pods_iff [OF d g] deployment_shape [OF d] service_shape [OF s] ok by simp

end

section \<open>Claims, environment variables and Vault references\<close>

text \<open>
  The claim of a server. With a volume name the claim is bound to that volume; without one, a label
  \<^verbatim>\<open>key=value\<close> makes it select volumes by that label. The storage class is always written out, empty
  when none is given, so that the default class of the cluster never provisions another volume. No
  claim is built exactly when there is no volume, no label and no class.
\<close>

theorem claim_binding:
  assumes "ProcessNonSharedPersistentVolumeClaim mp n pv lab sc sz ns l a = Ok r"
  shows "case r of
      None \<Rightarrow> pv = '''' \<and> lab = '''' \<and> sc = None
    | Some claim \<Rightarrow>
        om_Name (pvc_Meta claim) = n \<and> om_Namespace (pvc_Meta claim) = ns \<and>
        pvc_VolumeName claim = pv \<and>
        pvc_Selector claim =
          (if pv = '''' \<and> lab \<noteq> ''''
           then Some (Some (fmupd (Split (CHR ''='') lab ! 0) (Split (CHR ''='') lab ! 1) fmempty)) else None) \<and>
        pvc_StorageClassName claim = Some (case sc of None \<Rightarrow> '''' | Some cls \<Rightarrow> cls)"
  using assms
  by (auto simp: ProcessNonSharedPersistentVolumeClaim_def NewPersistentVolumeClaim_cases Let_def
      obind_eq_Ok index_eq_Ok new_meta_def split: if_splits option.splits)

theorem claim_binding_witness:
  "\<exists>claim. ProcessNonSharedPersistentVolumeClaim (\<lambda>q. Some (Quantity q)) ''pvc'' '''' ''node=n1'' None ''1Gi''
       ''zk'' None None = Ok (Some claim) \<and>
     pvc_Selector claim = Some (Some (fmupd ''node'' ''n1'' fmempty)) \<and> pvc_StorageClassName claim = Some ''''"
proof -
  have "\<exists>claim. ProcessNonSharedPersistentVolumeClaim (\<lambda>q. Some (Quantity q)) ''pvc'' '''' ''node=n1'' None
      ''1Gi'' ''zk'' None None = Ok (Some claim)"
    by (simp add: ProcessNonSharedPersistentVolumeClaim_def NewPersistentVolumeClaim_cases index_def Let_def)
  then obtain claim where claim: "ProcessNonSharedPersistentVolumeClaim (\<lambda>q. Some (Quantity q)) ''pvc'' ''''
      ''node=n1'' None ''1Gi'' ''zk'' None None = Ok (Some claim)" ..
  from claim_binding [OF claim] claim show ?thesis by simp
qed

text \<open>
  The environment variables of the custom resource survive the parser: a list of \<^verbatim>\<open>NAME=value\<close>
  with trimmed parts, a name that is not empty and has no \<^verbatim>\<open>=\<close>, is appended as those pairs, in order;
  the value may contain further \<^verbatim>\<open>=\<close>.
\<close>

theorem buildEnvs_roundtrip:
  assumes "\<forall>(n, v) \<in> set ps. n \<noteq> '''' \<and> CHR ''='' \<notin> set n \<and> TrimSpace n = n \<and> TrimSpace v = v"
  shows "buildEnvs es (map (\<lambda>(n, v). n @ ''='' @ v) ps) = es @ map (\<lambda>(n, v). env_value n v) ps"
proof -
  have "concat (map parse_env (map (\<lambda>(n, v). n @ ''='' @ v) ps)) = map (\<lambda>(n, v). env_value n v) ps"
    using assms by (induction ps) (auto simp: parse_env_pair simp del: append.simps)
  then show ?thesis by (simp add: buildEnvs_parse)
qed

theorem buildEnvs_roundtrip_witness:
  "buildEnvs [] [''JVM=-Da=b'', ''ID=1''] = [env_value ''JVM'' ''-Da=b'', env_value ''ID'' ''1'']"
proof -
  have trim: "TrimSpace s = s" if "s \<in> {''JVM'', ''-Da=b'', ''ID'', ''1''}" for s
    by (rule TrimSpace_id) (use that in \<open>auto simp: space_seqs_def suffix_def prefix_def Cons_eq_append_conv\<close>)
  have "\<forall>(n, v) \<in> set [(''JVM'', ''-Da=b''), (''ID'', ''1'')].
      n \<noteq> '''' \<and> CHR ''='' \<notin> set n \<and> TrimSpace n = n \<and> TrimSpace v = v"
    by (simp add: trim)
  from buildEnvs_roundtrip [OF this, of "[]"] show ?thesis by simp
qed

text \<open>
  A Vault reference \<^verbatim>\<open>vault:/path#key\<close> of the custom resource gives back its path, when the key has no
  second \<^verbatim>\<open>#\<close> and neither part has a line break.
\<close>

theorem vault_reference_path:
  assumes "mlookup m key = Some (''vault:/'' @ p @ ''#'' @ k)"
    and "CHR 0x0A \<notin> set p \<union> set k" and "CHR ''#'' \<notin> set k"
  shows "GetVaultSecretForPath m key = p"
proof -
  from assms(1) have "mget m key = ''vault:/'' @ p @ ''#'' @ k" and "m \<noteq> None"
    by (cases m; auto simp: mget_def fmget_def mlookup_def contents_def)+
  then show ?thesis
    using ReplaceVaultRefs_ref [OF assms(2,3)] by (simp add: GetVaultSecretForPath_def)
qed

theorem vault_reference_path_witness:
  "GetVaultSecretForPath (Some (fmupd ''user'' ''vault:/secret/zk#name'' fmempty)) ''user'' = ''secret/zk''"
  using vault_reference_path
    [of "Some (fmupd ''user'' ''vault:/secret/zk#name'' fmempty)" "''user''" "''secret/zk''" "''name''"]
  by (simp add: mlookup_def)

end
