(* ===== verification/Conditions.thy ===== *)
theory Conditions
  imports Environment
begin

text \<open>
  \<^verbatim>\<open>operator/controllers/condition.go\<close>: the conditions in the status of the custom resource.
  \<^verbatim>\<open>addCondition\<close> keeps one condition per reason; seen as a map from reasons to conditions it is an
  insertion that leaves an equal condition (up to its time) alone.
\<close>

section \<open>Definitions\<close>

definition statusTrue :: string where "statusTrue = ''True''"

definition statusFalse :: string where "statusFalse = ''False''"

definition typeSuccessful :: string where "typeSuccessful = ''Successful''"

definition typeReady :: string where "typeReady = ''Ready''"

definition typeFailed :: string where "typeFailed = ''Failed''"

definition typeInProgress :: string where "typeInProgress = ''In progress''"

text \<open>Durations are counted in seconds.\<close>

definition waitingInterval :: int where "waitingInterval = 10"

definition NewCondition :: "string \<Rightarrow> string \<Rightarrow> string \<Rightarrow> string \<Rightarrow> StatusCondition" where
  "NewCondition conditionStatus conditionType conditionReason conditionMessage =
     \<lparr>cond_Type = conditionType, cond_Status = conditionStatus, cond_Reason = conditionReason,
      cond_Message = conditionMessage, cond_LastTransitionTime = ''''\<rparr>"

fun addCondition :: "StatusCondition list \<Rightarrow> StatusCondition \<Rightarrow> StatusCondition list" where
  "addCondition [] condition = [condition]"
| "addCondition (currentCondition # rest) condition =
     (if cond_Reason condition = cond_Reason currentCondition
      then (if cond_Type condition \<noteq> cond_Type currentCondition \<or>
               cond_Status condition \<noteq> cond_Status currentCondition \<or>
               cond_Message condition \<noteq> cond_Message currentCondition
            then condition # rest else currentCondition # rest)
      else currentCondition # addCondition rest condition)"

text \<open>\<^verbatim>\<open>Status().Update\<close> decodes the stored object into the custom resource; when it fails the
  custom resource keeps the conditions written to it.\<close>

definition updateConditions :: "'w env \<Rightarrow> StatusCondition \<Rightarrow> ('w, unit) op" where
  "updateConditions c condition =
     bindM (ext_total (Now c)) (\<lambda>now.
     bindM (modify (\<lambda>s. s\<lparr>op_cr := set_conditions
              (addCondition (status_Conditions (cr_Status (op_cr s)))
                 (condition\<lparr>cond_LastTransitionTime := now\<rparr>)) (op_cr s)\<rparr>)) (\<lambda>_.
     bindM (gets op_cr) (\<lambda>cr.
     bindM (ext (Update_Status c cr)) (\<lambda>cr'.
     modify (\<lambda>s. s\<lparr>op_cr := cr'\<rparr>)))))"

fun anyFailed :: "StatusCondition list \<Rightarrow> bool" where
  "anyFailed [] = False"
| "anyFailed (condition # rest) = (if cond_Type condition = ''Failed'' then True else anyFailed rest)"

definition hasFailedConditions :: "ZooKeeperService \<Rightarrow> bool" where
  "hasFailedConditions cr = anyFailed (status_Conditions (cr_Status cr))"

section \<open>The conditions as a map\<close>

definition cond_view :: "StatusCondition list \<Rightarrow> string \<rightharpoonup> StatusCondition" where
  "cond_view cs = map_of (map (\<lambda>c. (cond_Reason c, c)) cs)"

definition same_condition :: "StatusCondition \<Rightarrow> StatusCondition \<Rightarrow> bool" where
  "same_condition a b \<longleftrightarrow>
     cond_Type a = cond_Type b \<and> cond_Status a = cond_Status b \<and> cond_Message a = cond_Message b"

text \<open>The specification: an insertion that keeps an entry saying the same.\<close>

definition put_condition ::
  "StatusCondition \<Rightarrow> (string \<rightharpoonup> StatusCondition) \<Rightarrow> (string \<rightharpoonup> StatusCondition)" where
  "put_condition c m =
     (case m (cond_Reason c) of
        Some d \<Rightarrow> (if same_condition c d then m else m(cond_Reason c \<mapsto> c))
      | None \<Rightarrow> m(cond_Reason c \<mapsto> c))"

section \<open>Properties\<close>

lemma cond_view_simps [simp]:
  "cond_view [] = Map.empty"
  "cond_view (d # ds) = (cond_view ds)(cond_Reason d \<mapsto> d)"
  by (simp_all add: cond_view_def)

lemma cond_view_None: "cond_view cs r = None \<longleftrightarrow> r \<notin> cond_Reason ` set cs"
  by (induction cs) auto

lemma cond_view_SomeD: "cond_view cs r = Some c \<Longrightarrow> c \<in> set cs \<and> cond_Reason c = r"
  by (induction cs) (auto split: if_splits)

lemma addCondition_reasons:
  "cond_Reason ` set (addCondition cs c) = insert (cond_Reason c) (cond_Reason ` set cs)"
  by (induction cs) auto

lemma addCondition_view: "cond_view (addCondition cs c) = put_condition c (cond_view cs)"
  by (induction cs) (auto simp: put_condition_def same_condition_def fun_eq_iff split: option.splits)

lemma addCondition_order:
  "map cond_Reason (addCondition cs c) =
     (if cond_Reason c \<in> cond_Reason ` set cs then map cond_Reason cs
      else map cond_Reason cs @ [cond_Reason c])"
  by (induction cs) auto

lemma addCondition_distinct:
  "distinct (map cond_Reason cs) \<Longrightarrow> distinct (map cond_Reason (addCondition cs c))"
  by (simp add: addCondition_order)

lemma addCondition_idem: "addCondition (addCondition cs c) c = addCondition cs c"
  by (induction cs) auto

lemma addCondition_entry:
  "\<exists>d. cond_view (addCondition cs c) (cond_Reason c) = Some d \<and> same_condition c d"
  by (auto simp: addCondition_view put_condition_def same_condition_def split: option.splits)

lemma addCondition_ne [simp]: "addCondition cs c \<noteq> []"
  by (cases cs) auto

lemma anyFailed_iff: "anyFailed cs \<longleftrightarrow> (\<exists>c \<in> set cs. cond_Type c = typeFailed)"
  by (induction cs) (auto simp: typeFailed_def)

lemma in_addCondition:
  "d \<in> set (addCondition cs c) \<Longrightarrow> d = c \<or> d \<in> set cs"
  by (induction cs) (auto split: if_splits)

lemma anyFailed_addCondition:
  assumes "distinct (map cond_Reason cs)"
  shows "anyFailed (addCondition cs c) \<longleftrightarrow>
     cond_Type c = typeFailed \<or> (\<exists>d \<in> set cs. cond_Reason d \<noteq> cond_Reason c \<and> cond_Type d = typeFailed)"
  using assms
proof (induction cs)
  case (Cons d ds)
  then show ?case by (cases "cond_Reason c = cond_Reason d") (auto simp: anyFailed_iff image_iff, metis+)
qed (simp add: typeFailed_def)

subsection \<open>The condition update as a step of the operator\<close>

text \<open>
  What the API documents of \<^verbatim>\<open>Status().Update\<close>: the stored object has the identity and the
  status it was sent. Its specification is the server's: changes to it are ignored.
\<close>

definition status_documented :: "'w env \<Rightarrow> bool" where
  "status_documented c \<longleftrightarrow>
     (\<forall>cr w cr' w'. Update_Status c cr w = (Inr cr', w') \<longrightarrow>
        cr_Status cr' = cr_Status cr \<and> cr_Name cr' = cr_Name cr \<and> cr_Namespace cr' = cr_Namespace cr)"

lemma status_documentedD:
  assumes "status_documented c" and "Update_Status c cr w = (Inr cr', w')"
  shows "cr_Status cr' = cr_Status cr"
    "cr_Name cr' = cr_Name cr" "cr_Namespace cr' = cr_Namespace cr"
  using assms unfolding status_documented_def by blast+

definition conditions_of :: "'w opstate \<Rightarrow> StatusCondition list" where
  "conditions_of s = status_Conditions (cr_Status (op_cr s))"

lemma updateConditions_run:
  assumes "updateConditions c cond s = (r, t)"
  obtains now w1 where "Now c (world s) = (now, w1)"
    "r = Ok () \<or> (\<exists>e. r = Err e)"
    "ResourceVersions t = ResourceVersions s" "ResourceHashes t = ResourceHashes s"
    "globalSpecHash t = globalSpecHash s" "vaultClient t = vaultClient s"
    "(\<exists>e. r = Err e) \<Longrightarrow>
       op_cr t = set_conditions (addCondition (conditions_of s) (cond\<lparr>cond_LastTransitionTime := now\<rparr>)) (op_cr s)"
    "r = Ok () \<Longrightarrow>
       Update_Status c (set_conditions (addCondition (conditions_of s) (cond\<lparr>cond_LastTransitionTime := now\<rparr>)) (op_cr s)) w1
         = (Inr (op_cr t), world t)"
proof -
  obtain now w1 where now: "Now c (world s) = (now, w1)" by fastforce
  from assms show thesis
    by (intro that [OF now])
       (auto simp: updateConditions_def ext_total_def ext_def bindM_def conditions_of_def now
        split: prod.splits sum.splits)
qed

lemma updateConditions_Ok:
  assumes "updateConditions c cond s = (Ok (), t)" and doc: "status_documented c"
  obtains now where
    "conditions_of t = addCondition (conditions_of s) (cond\<lparr>cond_LastTransitionTime := now\<rparr>)"
    "cr_Name (op_cr t) = cr_Name (op_cr s)"
    "cr_Namespace (op_cr t) = cr_Namespace (op_cr s)"
    "cr_Status (op_cr t) = (cr_Status (op_cr s))\<lparr>status_Conditions := conditions_of t\<rparr>"
  using assms(1)
proof (rule updateConditions_run)
  fix now w1
  assume "Ok () = Ok () \<Longrightarrow>
    Update_Status c (set_conditions (addCondition (conditions_of s) (cond\<lparr>cond_LastTransitionTime := now\<rparr>)) (op_cr s)) w1
         = (Inr (op_cr t), world t)"
  then have "Update_Status c (set_conditions (addCondition (conditions_of s)
      (cond\<lparr>cond_LastTransitionTime := now\<rparr>)) (op_cr s)) w1 = (Inr (op_cr t), world t)" by simp
  from status_documentedD [OF doc this] show thesis
    by (intro that [of now]) (simp_all add: conditions_of_def)
qed

text \<open>Whether or not the update succeeds, the custom resource in memory has the condition.\<close>

lemma updateConditions_conditions:
  assumes run: "updateConditions c cond s = (r, t)" and doc: "status_documented c"
  shows "\<exists>now. conditions_of t = addCondition (conditions_of s) (cond\<lparr>cond_LastTransitionTime := now\<rparr>)"
proof (cases "r = Ok ()")
  case True
  with run have "updateConditions c cond s = (Ok (), t)" by simp
  then show ?thesis by (rule updateConditions_Ok [OF _ doc]) blast
next
  case False
  from run show ?thesis
    by (rule updateConditions_run) (use False in \<open>auto simp: conditions_of_def\<close>)
qed

text \<open>
  C14. The list of conditions implements a table indexed by reason: adding a condition puts it there,
  keeping the old entry (with its transition time) when type, status and message are the same. The
  reasons keep their order, a new one comes last, and adding twice is adding once.
\<close>

theorem addCondition_refines_table:
  "cond_view (addCondition cs c) = put_condition c (cond_view cs) \<and>
   map cond_Reason (addCondition cs c) =
     (if cond_Reason c \<in> cond_Reason ` set cs then map cond_Reason cs
      else map cond_Reason cs @ [cond_Reason c]) \<and>
   addCondition (addCondition cs c) c = addCondition cs c"
  using addCondition_view addCondition_order addCondition_idem by simp

end
