(* ===== verification/ServiceReconciler.thy ===== *)
theory ServiceReconciler
  imports ServiceProvider Conditions
begin

text \<open>
  \<^verbatim>\<open>operator/controllers/zookeeperservice_reconciler.go\<close> and \<^verbatim>\<open>deployment_secret_restart.go\<close>: the
  methods of \<^verbatim>\<open>ZooKeeperServiceReconciler\<close> every component reconciler calls to bring one object of
  the cluster to its desired form. A Get takes the name first, then the namespace.
\<close>

section \<open>Services and service accounts\<close>

abbreviation discard :: "('s, 'a) comp \<Rightarrow> ('s, unit) comp" where
  "discard m \<equiv> bindM m (\<lambda>_. ret ())"

definition service_update :: "Service \<Rightarrow> Service \<Rightarrow> Service" where
  "service_update service foundService =
     (let service1 = service\<lparr>svc_Meta := (svc_Meta service)
            \<lparr>om_ResourceVersion := om_ResourceVersion (svc_Meta foundService)\<rparr>\<rparr>
      in if svc_Type foundService = ''ClusterIP''
         then service1\<lparr>svc_ClusterIP := svc_ClusterIP foundService\<rparr> else service1)"

definition createOrUpdateService :: "'w env \<Rightarrow> Service \<Rightarrow> ('w, unit) op" where
  "createOrUpdateService c service =
     bindM (attempt (ext (Get_Service c (om_Name (svc_Meta service)) (om_Namespace (svc_Meta service)))))
       (\<lambda>r. case r of
          Inl err \<Rightarrow> (if IsNotFound err then discard (ext (Create_Service c service)) else fail err)
        | Inr foundService \<Rightarrow> discard (ext (Update_Service c (service_update service foundService))))"

definition createServiceAccount :: "'w env \<Rightarrow> ServiceAccount \<Rightarrow> ('w, unit) op" where
  "createServiceAccount c serviceAccount =
     bindM (attempt (ext (Get_ServiceAccount c (om_Name (sa_Meta serviceAccount))
                            (om_Namespace (sa_Meta serviceAccount)))))
       (\<lambda>r. case r of
          Inl err \<Rightarrow> (if IsNotFound err then discard (ext (Create_ServiceAccount c serviceAccount))
                      else fail err)
        | Inr _ \<Rightarrow> ret ())"

section \<open>Persistent volume claims\<close>

text \<open>The annotations of the found claim after the update: the new ones copied over, and those the
  status still lists but the new claim no longer has removed.\<close>

definition mergeAnnotations ::
  "string gomap \<Rightarrow> string gomap \<Rightarrow> string gomap \<Rightarrow> string gomap outcome" where
  "mergeAnnotations found new recorded =
     obind (maps_Copy found new) (\<lambda>copied.
       Ok (map_option
            (fmfilter (\<lambda>key. \<not> (mlookup recorded key \<noteq> None \<and> mlookup new key = None))) copied))"

definition updatePersistentVolumeClaim ::
  "'w env \<Rightarrow> PersistentVolumeClaim \<Rightarrow> PersistentVolumeClaim \<Rightarrow> ('w, unit) op" where
  "updatePersistentVolumeClaim c foundPersistentVolumeClaim persistentVolumeClaim =
     bindM (gets op_cr) (\<lambda>cr.
     let recorded = pvcs_Annotations (status_PVCStatus (cr_Status cr));
         new = om_Annotations (pvc_Meta persistentVolumeClaim)
     in if maps_Equal new recorded then ret ()
        else bindM (lift_outcome (mergeAnnotations
                      (om_Annotations (pvc_Meta foundPersistentVolumeClaim)) new recorded))
               (\<lambda>annotations. discard (ext (Update_PVC c
                  (foundPersistentVolumeClaim\<lparr>pvc_Meta :=
                     (pvc_Meta foundPersistentVolumeClaim)\<lparr>om_Annotations := annotations\<rparr>\<rparr>)))))"

definition createPersistentVolumeClaim :: "'w env \<Rightarrow> PersistentVolumeClaim \<Rightarrow> ('w, unit) op" where
  "createPersistentVolumeClaim c persistentVolumeClaim =
     bindM (attempt (ext (Get_PVC c (om_Name (pvc_Meta persistentVolumeClaim))
                            (om_Namespace (pvc_Meta persistentVolumeClaim)))))
       (\<lambda>r. case r of
          Inl err \<Rightarrow> (if IsNotFound err then discard (ext (Create_PVC c persistentVolumeClaim))
                      else fail err)
        | Inr found \<Rightarrow> updatePersistentVolumeClaim c found persistentVolumeClaim)"

definition findPersistentVolumeClaim :: "'w env \<Rightarrow> string \<Rightarrow> string \<Rightarrow> ('w, PersistentVolumeClaim) op" where
  "findPersistentVolumeClaim c name namespace = ext (Get_PVC c name namespace)"

section \<open>Deployments\<close>

definition deployment_update :: "Deployment \<Rightarrow> Deployment \<Rightarrow> Deployment" where
  "deployment_update deployment foundDeployment =
     deployment\<lparr>dp_Meta := (dp_Meta deployment)
       \<lparr>om_ResourceVersion := om_ResourceVersion (dp_Meta foundDeployment)\<rparr>\<rparr>"

definition updateFoundDeployment :: "'w env \<Rightarrow> Deployment \<Rightarrow> ('w, unit) op" where
  "updateFoundDeployment c deployment =
     bindM (ext (Get_Deployment c (om_Name (dp_Meta deployment)) (om_Namespace (dp_Meta deployment))))
       (\<lambda>foundDeployment.
          discard (ext (Update_Deployment c (deployment_update deployment foundDeployment))))"

definition createOrUpdateDeployment :: "'w env \<Rightarrow> Deployment \<Rightarrow> ('w, unit) op" where
  "createOrUpdateDeployment c deployment =
     bindM (attempt (ext (Get_Deployment c (om_Name (dp_Meta deployment))
                            (om_Namespace (dp_Meta deployment)))))
       (\<lambda>r. case r of
          Inl err \<Rightarrow> (if IsNotFound err then discard (ext (Create_Deployment c deployment)) else fail err)
        | Inr _ \<Rightarrow> RetryOnConflict c (updateFoundDeployment c deployment))"

definition findDeployment :: "'w env \<Rightarrow> string \<Rightarrow> string \<Rightarrow> ('w, Deployment) op" where
  "findDeployment c name namespace = ext (Get_Deployment c name namespace)"

definition findDeploymentList :: "'w env \<Rightarrow> string \<Rightarrow> (string, string) fmap \<Rightarrow> ('w, Deployment list) op" where
  "findDeploymentList c namespace deploymentLabels = ext (List_Deployments c namespace deploymentLabels)"

definition isDeploymentReady :: "'w env \<Rightarrow> string \<Rightarrow> string \<Rightarrow> ('w, bool) op" where
  "isDeploymentReady c deploymentName namespace =
     bindM (attempt (findDeployment c deploymentName namespace)) (\<lambda>r. case r of
        Inl _ \<Rightarrow> ret False
      | Inr deployment \<Rightarrow>
          (let availableReplicas = Min (dp_ReadyReplicas deployment) (dp_UpdatedReplicas deployment)
           in bindM (lift_outcome (deref (dp_Replicas deployment)))
                (\<lambda>replicas. ret (replicas = availableReplicas))))"

definition scaleFoundDeployment :: "'w env \<Rightarrow> string \<Rightarrow> int32 \<Rightarrow> string \<Rightarrow> ('w, unit) op" where
  "scaleFoundDeployment c name replicas namespace =
     bindM (findDeployment c name namespace) (\<lambda>foundDeployment.
       discard (ext (Update_Deployment c (foundDeployment\<lparr>dp_Replicas := Some replicas\<rparr>))))"

definition scaleDeployment :: "'w env \<Rightarrow> string \<Rightarrow> int32 \<Rightarrow> string \<Rightarrow> ('w, unit) op" where
  "scaleDeployment c name replicas namespace =
     RetryOnConflict c (scaleFoundDeployment c name replicas namespace)"

section \<open>Secrets\<close>

definition updateSecret :: "'w env \<Rightarrow> Secret \<Rightarrow> ('w, Secret) op" where
  "updateSecret c secret =
     bindM (ext (Get_Secret c (om_Name (sec_Meta secret)) (om_Namespace (sec_Meta secret))))
       (\<lambda>_. ext (Update_Secret c secret))"

definition findSecret :: "'w env \<Rightarrow> string \<Rightarrow> string \<Rightarrow> ('w, Secret) op" where
  "findSecret c name namespace = ext (Get_Secret c name namespace)"

definition cleanSecretData :: "'w env \<Rightarrow> Secret \<Rightarrow> ('w, Secret) op" where
  "cleanSecretData c secret = ext (Update_Secret c (secret\<lparr>sec_Data := None\<rparr>))"

definition secretContainsKey :: "Secret \<Rightarrow> string \<Rightarrow> bool" where
  "secretContainsKey secret key \<longleftrightarrow>
     sec_Data secret \<noteq> None \<and> mlookup (sec_Data secret) key \<noteq> None \<and> mget (sec_Data secret) key \<noteq> ''''"

definition referSameObject ::
  "'w env \<Rightarrow> string \<Rightarrow> string \<Rightarrow> string \<Rightarrow> string \<Rightarrow> string \<Rightarrow> string \<Rightarrow> bool" where
  "referSameObject c aName aGroup aKind bName bGroup bKind =
     (case ParseGroupVersion c aGroup of
        Inl _ \<Rightarrow> False
      | Inr aGV \<Rightarrow> (case ParseGroupVersion c bGroup of
          Inl _ \<Rightarrow> False
        | Inr bGV \<Rightarrow> fst aGV = fst bGV \<and> aKind = bKind \<and> aName = bName))"

text \<open>The owner references \<^verbatim>\<open>watchSecret\<close> hands to \<^verbatim>\<open>SetControllerReference\<close>.\<close>

definition releaseOwner :: "'w env \<Rightarrow> ZooKeeperService \<Rightarrow> ObjectMeta \<Rightarrow> ObjectMeta" where
  "releaseOwner c cr meta =
     (case GetControllerOf c meta of
        None \<Rightarrow> meta
      | Some existing \<Rightarrow>
          (if \<not> referSameObject c (or_Name existing) (or_APIVersion existing) (or_Kind existing)
                  (cr_Name cr) (cr_APIVersion cr) (cr_Kind cr)
           then meta\<lparr>om_OwnerReferences := []\<rparr> else meta))"

definition watchSecret :: "'w env \<Rightarrow> string \<Rightarrow> ('w, Secret) op" where
  "watchSecret c secretName =
     bindM (gets op_cr) (\<lambda>cr.
     bindM (findSecret c secretName (cr_Namespace cr)) (\<lambda>secret.
     bindM (ext_pure (SetControllerReference c cr (releaseOwner c cr (sec_Meta secret)))) (\<lambda>meta.
     updateSecret c (secret\<lparr>sec_Meta := meta\<rparr>))))"

section \<open>Pods\<close>

definition findPodList :: "'w env \<Rightarrow> string \<Rightarrow> (string, string) fmap \<Rightarrow> ('w, Pod list) op" where
  "findPodList c namespace podLabels = ext (List_Pods c (Some namespace) podLabels)"

text \<open>The second \<^verbatim>\<open>List\<close> decodes into the same object and names no namespace.\<close>

definition getPodsForDeployment :: "'w env \<Rightarrow> string \<Rightarrow> ('w, Pod list) op" where
  "getPodsForDeployment c deploymentName =
     bindM (gets op_cr) (\<lambda>cr. bindM (lift_outcome (global cr)) (\<lambda>g.
     bindM (findPodList c (cr_Namespace cr) (GetZooKeeperLabels (cr_Name cr) (g_DefaultLabels g)))
       (\<lambda>_. ext (List_Pods c None (fmupd ''name'' deploymentName fmempty)))))"

definition getPodNames :: "Pod list \<Rightarrow> string list" where
  "getPodNames pods = map (\<lambda>pod. mget (om_Labels (pod_Meta pod)) ''name'') pods"

section \<open>The claim for snapshots\<close>

definition processSnapshotsPersistentVolumeClaim ::
  "'w env \<Rightarrow> SnapshotStorage \<Rightarrow> ('w, PersistentVolumeClaim option) op" where
  "processSnapshotsPersistentVolumeClaim c storage =
     bindM (gets op_cr) (\<lambda>cr.
     let claimName = (if ss_PersistentVolumeClaimName storage = ''''
                      then SnapshotsPersistentVolumeClaimPattern (cr_Name cr)
                      else ss_PersistentVolumeClaimName storage)
     in bindM (lift_outcome (global cr)) (\<lambda>g.
        let snapshotsLabels = Some (GetZooKeeperLabels (cr_Name cr) (g_DefaultLabels g));
            annotations = pvcc_Annotations (g_PVC g)
        in if ss_PersistentVolumeType storage = ''standalone'' then
             lift_outcome (ProcessNonSharedPersistentVolumeClaim (MustParse c) claimName
               (ss_PersistentVolumeName storage) (ss_PersistentVolumeLabel storage)
               (ss_StorageClass storage) (ss_VolumeSize storage) (cr_Namespace cr)
               snapshotsLabels annotations)
           else if ss_PersistentVolumeType storage = ''predefined_claim'' then
             bindM (findPersistentVolumeClaim c claimName (cr_Namespace cr)) (\<lambda>claim. ret (Some claim))
           else if ss_PersistentVolumeType storage = ''predefined'' then
             (if ss_PersistentVolumeName storage = ''''
              then fail (OtherError ''parameter 'persistentVolumeName' must be specified for 'predefined' persistent volume type'')
              else bindM (lift_outcome (NewPersistentVolumeClaim (MustParse c) claimName (cr_Namespace cr)
                     snapshotsLabels annotations True (ss_PersistentVolumeName storage) None
                     (ss_StorageClass storage) (ss_VolumeSize storage))) (\<lambda>claim. ret (Some claim)))
           else if ss_PersistentVolumeType storage = ''storage_class'' then
             bindM (lift_outcome (NewPersistentVolumeClaim (MustParse c) claimName (cr_Namespace cr)
                snapshotsLabels annotations True '''' None
                (ss_StorageClass storage) (ss_VolumeSize storage))) (\<lambda>claim. ret (Some claim))
           else ret None))"

section \<open>Restart annotations\<close>

definition secretVersionChanged :: "(string, string) fmap \<Rightarrow> Secret option \<Rightarrow> bool" where
  "secretVersionChanged versions secret =
     (case secret of
        None \<Rightarrow> False
      | Some sec \<Rightarrow> om_Name (sec_Meta sec) \<noteq> '''' \<and>
          fmget versions (om_Name (sec_Meta sec)) \<noteq> om_ResourceVersion (sec_Meta sec))"

text \<open>One turn of the loop, and the loop; the second component is the variable \<^verbatim>\<open>modified\<close>.\<close>

definition annotateSecret :: "Secret option \<Rightarrow> Deployment \<times> bool \<Rightarrow> Deployment \<times> bool" where
  "annotateSecret secret dm =
     (case dm of (deployment, modified) \<Rightarrow>
      (case secret of
         None \<Rightarrow> dm
       | Some sec \<Rightarrow>
           (if om_Name (sec_Meta sec) = '''' then dm
            else if om_Annotations (sec_Meta sec) = None \<or>
                    mget (om_Annotations (sec_Meta sec)) AutoRestartAnnotation \<noteq> ''true'' then dm
            else
              let annotationName = ResourceVersionAnnotation (om_Name (sec_Meta sec));
                  annotations = contents (pt_Annotations (dp_Template deployment));
                  deployment1 = deployment\<lparr>dp_Template := (dp_Template deployment)
                                  \<lparr>pt_Annotations := Some annotations\<rparr>\<rparr>
              in if fmget annotations annotationName = om_ResourceVersion (sec_Meta sec)
                 then (deployment1, modified)
                 else (deployment1\<lparr>dp_Template := (dp_Template deployment1)
                         \<lparr>pt_Annotations := Some (fmupd annotationName
                            (om_ResourceVersion (sec_Meta sec)) annotations)\<rparr>\<rparr>, True))))"

definition applyAutoRestartSecretAnnotations ::
  "Deployment \<Rightarrow> Secret option list \<Rightarrow> Deployment \<times> bool" where
  "applyAutoRestartSecretAnnotations deployment secrets = fold annotateSecret secrets (deployment, False)"

definition restartAnnotationsOnce ::
  "'w env \<Rightarrow> string \<Rightarrow> string \<Rightarrow> Secret option list \<Rightarrow> ('w, unit) op" where
  "restartAnnotationsOnce c namespace deploymentName secrets =
     bindM (attempt (ext (Get_Deployment c deploymentName namespace))) (\<lambda>r. case r of
        Inl err \<Rightarrow> (if IsNotFound err then ret () else fail err)
      | Inr deployment \<Rightarrow>
          (case applyAutoRestartSecretAnnotations deployment secrets of (deployment1, modified) \<Rightarrow>
             (if \<not> modified then ret () else discard (ext (Update_Deployment c deployment1)))))"

definition updateDeploymentSecretRestartAnnotations ::
  "'w env \<Rightarrow> string \<Rightarrow> string \<Rightarrow> Secret option list \<Rightarrow> ('w, unit) op" where
  "updateDeploymentSecretRestartAnnotations c namespace deploymentName secrets =
     RetryOnConflict c (restartAnnotationsOnce c namespace deploymentName secrets)"

section \<open>Frames\<close>

text \<open>None of these methods changes the operator's own state.\<close>

lemma stays_createOrUpdateService: "stays only_world (createOrUpdateService c service)"
  unfolding createOrUpdateService_def Let_def by (intro ow.world_rules)

lemma stays_createServiceAccount: "stays only_world (createServiceAccount c sa)"
  unfolding createServiceAccount_def by (intro ow.world_rules)

lemma stays_createPersistentVolumeClaim: "stays only_world (createPersistentVolumeClaim c pvc)"
  unfolding createPersistentVolumeClaim_def updatePersistentVolumeClaim_def Let_def
  by (intro ow.world_rules)

lemma stays_findDeployment: "stays only_world (findDeployment c name ns)"
  unfolding findDeployment_def by (rule ow.stays_ext)

lemma stays_createOrUpdateDeployment:
  "control_documented c \<Longrightarrow> stays only_world (createOrUpdateDeployment c d)"
  unfolding createOrUpdateDeployment_def updateFoundDeployment_def
  by (intro ow.world_rules ow.stays_retry)

lemma stays_findDeploymentList: "stays only_world (findDeploymentList c ns l)"
  unfolding findDeploymentList_def by (rule ow.stays_ext)

lemma stays_isDeploymentReady: "stays only_world (isDeploymentReady c name ns)"
  unfolding isDeploymentReady_def Let_def by (intro ow.world_rules stays_findDeployment)

lemma stays_scaleDeployment:
  "control_documented c \<Longrightarrow> stays only_world (scaleDeployment c name n ns)"
  unfolding scaleDeployment_def scaleFoundDeployment_def
  by (intro ow.world_rules ow.stays_retry stays_findDeployment)

lemma stays_updateSecret: "stays only_world (updateSecret c sec)"
  unfolding updateSecret_def by (intro ow.world_rules)

lemma stays_findSecret: "stays only_world (findSecret c name ns)"
  unfolding findSecret_def by (rule ow.stays_ext)

lemma stays_cleanSecretData: "stays only_world (cleanSecretData c sec)"
  unfolding cleanSecretData_def by (rule ow.stays_ext)

lemma stays_watchSecret: "stays only_world (watchSecret c name)"
  unfolding watchSecret_def by (intro ow.world_rules stays_findSecret stays_updateSecret)

lemma stays_findPodList: "stays only_world (findPodList c ns l)"
  unfolding findPodList_def by (rule ow.stays_ext)

lemma stays_getPodsForDeployment: "stays only_world (getPodsForDeployment c name)"
  unfolding getPodsForDeployment_def by (intro ow.world_rules stays_findPodList)

lemma stays_processSnapshotsPersistentVolumeClaim:
  "stays only_world (processSnapshotsPersistentVolumeClaim c storage)"
  unfolding processSnapshotsPersistentVolumeClaim_def findPersistentVolumeClaim_def Let_def
  by (intro ow.world_rules)

lemma stays_updateDeploymentSecretRestartAnnotations:
  "control_documented c \<Longrightarrow> stays only_world (updateDeploymentSecretRestartAnnotations c ns name secs)"
  unfolding updateDeploymentSecretRestartAnnotations_def restartAnnotationsOnce_def
  by (intro ow.world_rules ow.stays_retry)

lemmas service_frames =
  stays_createOrUpdateService stays_createServiceAccount stays_createPersistentVolumeClaim
  stays_findDeployment stays_createOrUpdateDeployment stays_findDeploymentList stays_isDeploymentReady
  stays_scaleDeployment stays_updateSecret stays_findSecret stays_cleanSecretData stays_watchSecret
  stays_findPodList stays_getPodsForDeployment stays_processSnapshotsPersistentVolumeClaim
  stays_updateDeploymentSecretRestartAnnotations

section \<open>Objects that are brought to a desired form\<close>

text \<open>
  The contract of a create-or-update method: when it returns nil, the last thing it did was a
  successful write of the desired object, up to the fields the server owns.
\<close>

locale applied_object =
  fixes apply_to :: "'w env \<Rightarrow> 'o \<Rightarrow> ('w, unit) op"
    and create :: "'w env \<Rightarrow> 'o \<Rightarrow> ('w, 'o) ext"
    and update :: "'w env \<Rightarrow> 'o \<Rightarrow> ('w, 'o) ext"
    and server_owned :: "'o \<Rightarrow> 'o \<Rightarrow> bool"
  assumes owned_refl: "server_owned d d"
    and applied: "control_documented c \<Longrightarrow> apply_to c d s = (Ok (), t) \<Longrightarrow>
      \<exists>w x. create c d w = (Inr x, world t) \<or> (\<exists>d'. server_owned d d' \<and> update c d' w = (Inr x, world t))"
    and no_panic: "control_documented c \<Longrightarrow> apply_to c d s \<noteq> (Panic p, t)"
begin

lemma written:
  assumes "control_documented c" and "apply_to c d s = (Ok (), t)"
  obtains d' w x where "server_owned d d'" "create c d' w = (Inr x, world t) \<or> update c d' w = (Inr x, world t)"
  using applied [OF assms] owned_refl by blast

end

definition service_owned :: "Service \<Rightarrow> Service \<Rightarrow> bool" where
  "service_owned a b \<longleftrightarrow>
     b = a\<lparr>svc_Meta := (svc_Meta a)\<lparr>om_ResourceVersion := om_ResourceVersion (svc_Meta b)\<rparr>,
           svc_ClusterIP := svc_ClusterIP b\<rparr>"

definition deployment_owned :: "Deployment \<Rightarrow> Deployment \<Rightarrow> bool" where
  "deployment_owned a b \<longleftrightarrow>
     b = a\<lparr>dp_Meta := (dp_Meta a)\<lparr>om_ResourceVersion := om_ResourceVersion (dp_Meta b)\<rparr>\<rparr>"

lemma service_update_owned: "service_owned d (service_update d found)"
  by (simp add: service_owned_def service_update_def Let_def)

lemma discard_run: "discard m s = (r, t) \<longleftrightarrow>
    (\<exists>x. m s = (Ok x, t) \<and> r = Ok ()) \<or> (\<exists>e. m s = (Err e, t) \<and> r = Err e) \<or>
    (\<exists>p. m s = (Panic p, t) \<and> r = Panic p)"
  by (auto simp: bindM_def split: prod.splits outcome.splits)

lemma discard_ext_Ok:
  "discard (ext f) s = (Ok (), t) \<longleftrightarrow> (\<exists>x. f (world s) = (Inr x, world t)) \<and> only_world s t"
  by (auto simp: bindM_eq_Ok ext_eq_Ok only_world_def)

interpretation svca: applied_object createOrUpdateService Create_Service Update_Service service_owned
proof unfold_locales
  fix c :: "'w env" and d s t
  assume "createOrUpdateService c d s = (Ok (), t)"
  then show "\<exists>w x. Create_Service c d w = (Inr x, world t) \<or>
      (\<exists>d'. service_owned d d' \<and> Update_Service c d' w = (Inr x, world t))" (is ?goal)
  proof -
    from \<open>createOrUpdateService c d s = (Ok (), t)\<close> obtain r u where
      rest: "(case r of
          Inl err \<Rightarrow> (if IsNotFound err then discard (ext (Create_Service c d)) else fail err)
        | Inr found \<Rightarrow> discard (ext (Update_Service c (service_update d found)))) u = (Ok (), t)"
      unfolding createOrUpdateService_def by (auto simp only: bindM_eq_Ok)
    show ?goal
    proof (cases r)
      case (Inl err)
      with rest show ?thesis by (auto simp: discard_ext_Ok split: if_splits)
    next
      case (Inr found)
      with rest obtain x where "Update_Service c (service_update d found) (world u) = (Inr x, world t)"
        by (auto simp: discard_ext_Ok)
      with service_update_owned [of d found] show ?thesis by blast
    qed
  qed
next
  fix c :: "'w env" and d s p t
  show "createOrUpdateService c d s \<noteq> (Panic p, t)"
    by (auto simp: createOrUpdateService_def bindM_def attempt_def ext_def Let_def
        split: prod.splits sum.splits if_splits)
qed (simp add: service_owned_def)

interpretation dpa: applied_object createOrUpdateDeployment Create_Deployment Update_Deployment deployment_owned
proof unfold_locales
  fix c :: "'w env" and d s t
  assume doc: "control_documented c" and run: "createOrUpdateDeployment c d s = (Ok (), t)"
  have upd: "\<exists>w x d'. deployment_owned d d' \<and> Update_Deployment c d' w = (Inr x, world t)"
    if "RetryOnConflict c (updateFoundDeployment c d) u = (Ok (), t)" for u
  proof -
    from doc that have "retried (updateFoundDeployment c d) u (Ok ()) t"
      by (auto simp: control_documented_def intro: retriedI)
    then obtain v where "updateFoundDeployment c d v = (Ok (), t)" using retried_last by blast
    then obtain found w' x where
      "Update_Deployment c (deployment_update d found) w' = (Inr x, world t)"
      unfolding updateFoundDeployment_def
      by (auto simp: bindM_eq_Ok [of "ext (Get_Deployment _ _ _)"] discard_ext_Ok)
    moreover have "deployment_owned d (deployment_update d found)"
      by (simp add: deployment_owned_def deployment_update_def)
    ultimately show ?thesis by blast
  qed
  from run obtain r :: "go_error + Deployment" and u where
      rest: "(case r of
          Inl err \<Rightarrow> (if IsNotFound err then discard (ext (Create_Deployment c d)) else fail err)
        | Inr _ \<Rightarrow> RetryOnConflict c (updateFoundDeployment c d)) u = (Ok (), t)"
    unfolding createOrUpdateDeployment_def by (auto simp only: bindM_eq_Ok)
  show "\<exists>w x. Create_Deployment c d w = (Inr x, world t) \<or>
      (\<exists>d'. deployment_owned d d' \<and> Update_Deployment c d' w = (Inr x, world t))"
  proof (cases r)
    case (Inl err)
    with rest show ?thesis by (auto simp: discard_ext_Ok split: if_splits)
  next
    case (Inr found)
    with rest upd [of u] show ?thesis by auto
  qed
next
  fix c :: "'w env" and d s p t
  assume doc: "control_documented c"
  have once: "updateFoundDeployment c d v \<noteq> (Panic p, t)" for v
    by (auto simp: updateFoundDeployment_def bindM_def ext_def split: prod.splits sum.splits)
  have "RetryOnConflict c (updateFoundDeployment c d) u \<noteq> (Panic p, t)" for u
    using doc once retried_last [of "updateFoundDeployment c d" u "Panic p" t]
    by (auto simp: control_documented_def dest: retriedI)
  then show "createOrUpdateDeployment c d s \<noteq> (Panic p, t)"
    by (auto simp: createOrUpdateDeployment_def bindM_def attempt_def ext_def
        split: prod.splits sum.splits if_splits)
qed (simp add: deployment_owned_def)

section \<open>Properties\<close>

subsection \<open>Annotations of claims\<close>

lemma mergeAnnotations_Ok_iff:
  "(\<exists>m. mergeAnnotations found new recorded = Ok m) \<longleftrightarrow> found \<noteq> None \<or> contents new = fmempty"
  by (auto simp: mergeAnnotations_def maps_Copy_def obind_eq_Ok split: option.splits)

lemma mergeAnnotations_lookup:
  assumes "mergeAnnotations found new recorded = Ok m"
  shows "mlookup m k =
    (case mlookup new k of
       Some v \<Rightarrow> Some v
     | None \<Rightarrow> if mlookup recorded k \<noteq> None then None else mlookup found k)"
proof (cases found)
  case None
  with assms have "contents new = fmempty" "m = None"
    by (auto simp: mergeAnnotations_def maps_Copy_def obind_eq_Ok split: if_splits)
  with None show ?thesis by (simp add: mlookup_def)
next
  case (Some f)
  with assms show ?thesis
    by (auto simp: mergeAnnotations_def maps_Copy_def mlookup_def obind_eq_Ok split: option.splits)
qed

subsection \<open>Readiness\<close>

lemma isDeploymentReady_run:
  "isDeploymentReady c name ns s =
     (case Get_Deployment c name ns (world s) of (r, w) \<Rightarrow>
        (case r of
           Inl _ \<Rightarrow> Ok False
         | Inr d \<Rightarrow> (case dp_Replicas d of
             None \<Rightarrow> Panic ''nil pointer dereference''
           | Some n \<Rightarrow> Ok (sint n = min (sint (dp_ReadyReplicas d)) (sint (dp_UpdatedReplicas d)))),
         s\<lparr>world := w\<rparr>))"
  by (auto simp: isDeploymentReady_def findDeployment_def attempt_def ext_def bindM_def
      signed_word_eqI sint_Min [symmetric] split: prod.splits sum.splits option.splits)

subsection \<open>Restart annotations\<close>

definition eligible :: "Secret option \<Rightarrow> bool" where
  "eligible secret =
     (case secret of None \<Rightarrow> False
      | Some sec \<Rightarrow> om_Name (sec_Meta sec) \<noteq> '''' \<and>
          mget (om_Annotations (sec_Meta sec)) AutoRestartAnnotation = ''true'')"

text \<open>The annotations a list of secrets asks for.\<close>

definition wanted :: "Secret option list \<Rightarrow> (string \<times> string) list" where
  "wanted secrets =
     map (\<lambda>secret. (ResourceVersionAnnotation (om_Name (sec_Meta (the secret))),
                    om_ResourceVersion (sec_Meta (the secret)))) (filter eligible secrets)"

definition annotations_of :: "Deployment \<Rightarrow> (string, string) fmap" where
  "annotations_of d = contents (pt_Annotations (dp_Template d))"

definition without_annotations :: "Deployment \<Rightarrow> Deployment" where
  "without_annotations d = d\<lparr>dp_Template := (dp_Template d)\<lparr>pt_Annotations := None\<rparr>\<rparr>"

definition consistent :: "(string \<times> string) list \<Rightarrow> bool" where
  "consistent ws \<longleftrightarrow> (\<forall>k v v'. (k, v) \<in> set ws \<longrightarrow> (k, v') \<in> set ws \<longrightarrow> v = v')"

lemma wanted_Cons: "wanted (x # xs) = wanted [x] @ wanted xs"
  by (simp add: wanted_def)

lemma annotateSecret_skip: "\<not> eligible x \<Longrightarrow> annotateSecret x dm = dm"
  by (auto simp: annotateSecret_def eligible_def split: prod.splits option.splits)

lemma annotateSecret_eligible:
  assumes "eligible x" and "wanted [x] = [(k, v)]" and "annotateSecret x (d, m) = (d', m')"
  shows "fmget (annotations_of d') k' = (if k' = k then v else fmget (annotations_of d) k')"
    and "m' \<longleftrightarrow> m \<or> fmget (annotations_of d) k \<noteq> v"
    and "without_annotations d' = without_annotations d"
proof -
  from assms(1) obtain sec where x: "x = Some sec" "om_Name (sec_Meta sec) \<noteq> ''''"
    "mget (om_Annotations (sec_Meta sec)) AutoRestartAnnotation = ''true''"
    by (cases x) (auto simp: eligible_def)
  then have "om_Annotations (sec_Meta sec) \<noteq> None" by (cases "om_Annotations (sec_Meta sec)") auto
  note x = x this
  with assms(1,2) have kv: "k = ResourceVersionAnnotation (om_Name (sec_Meta sec))"
    "v = om_ResourceVersion (sec_Meta sec)"
    by (auto simp: wanted_def)
  show "fmget (annotations_of d') k' = (if k' = k then v else fmget (annotations_of d) k')"
    "m' \<longleftrightarrow> m \<or> fmget (annotations_of d) k \<noteq> v"
    "without_annotations d' = without_annotations d"
    using assms(3) x unfolding kv
    by (auto simp: annotateSecret_def annotations_of_def without_annotations_def Let_def split: if_splits)
qed

lemma wanted_single: "eligible x \<Longrightarrow> \<exists>k v. wanted [x] = [(k, v)]"
  by (simp add: wanted_def)

lemma annotate_all:
  assumes "fold annotateSecret xs (d, m) = (d', m')" and "consistent (wanted xs)"
  shows "(\<forall>k v. (k, v) \<in> set (wanted xs) \<longrightarrow> fmget (annotations_of d') k = v) \<and>
     (\<forall>k. k \<notin> fst ` set (wanted xs) \<longrightarrow> fmget (annotations_of d') k = fmget (annotations_of d) k) \<and>
     (m' \<longleftrightarrow> m \<or> (\<exists>k v. (k, v) \<in> set (wanted xs) \<and> fmget (annotations_of d) k \<noteq> v)) \<and>
     without_annotations d' = without_annotations d"
  using assms
proof (induction xs arbitrary: d m)
  case Nil
  then show ?case by (simp add: wanted_def)
next
  case (Cons x xs)
  obtain d1 m1 where step: "annotateSecret x (d, m) = (d1, m1)" by fastforce
  from Cons.prems(2) have cons: "consistent (wanted xs)"
    by (subst (asm) wanted_Cons) (auto simp: consistent_def)
  from Cons.prems(1) step have "fold annotateSecret xs (d1, m1) = (d', m')" by simp
  note IH = Cons.IH [OF this cons]
  note IH1 = IH [THEN conjunct1, rule_format] and IH2 = IH [THEN conjunct2, THEN conjunct1, rule_format]
    and IH3 = IH [THEN conjunct2, THEN conjunct2, THEN conjunct1]
    and IH4 = IH [THEN conjunct2, THEN conjunct2, THEN conjunct2]
  show ?case
  proof (cases "eligible x")
    case False
    then have "d1 = d" "m1 = m" "wanted (x # xs) = wanted xs"
      using step annotateSecret_skip [of x "(d, m)"] by (simp_all add: wanted_def)
    with IH show ?thesis by simp
  next
    case True
    then obtain k v where kv: "wanted [x] = [(k, v)]" using wanted_single by blast
    then have W: "wanted (x # xs) = (k, v) # wanted xs" by (subst wanted_Cons) simp
    note fx = annotateSecret_eligible [OF True kv step]
    have same: "b = v" if "(k, b) \<in> set (wanted xs)" for b
      using Cons.prems(2) that unfolding W consistent_def by auto
    have k: "fmget (annotations_of d') k = v"
    proof (cases "k \<in> fst ` set (wanted xs)")
      case True
      then obtain b where b: "(k, b) \<in> set (wanted xs)" by (metis imageE prod.collapse)
      with IH1 [OF b] same [OF b] show ?thesis by simp
    qed (use IH2 [of k] fx(1) in simp)
    have "fmget (annotations_of d1) a \<noteq> b \<longleftrightarrow> a \<noteq> k \<and> fmget (annotations_of d) a \<noteq> b"
      if "(a, b) \<in> set (wanted xs)" for a b
      using that same fx(1) by (cases "a = k") simp_all
    then have m: "m' \<longleftrightarrow> m1 \<or> (\<exists>a b. (a, b) \<in> set (wanted xs) \<and> a \<noteq> k \<and> fmget (annotations_of d) a \<noteq> b)"
      using IH3 by metis
    show ?thesis
    proof (intro conjI allI impI)
      fix a b assume "(a, b) \<in> set (wanted (x # xs))"
      with IH1 k show "fmget (annotations_of d') a = b" by (auto simp: W)
    next
      fix a assume "a \<notin> fst ` set (wanted (x # xs))"
      with IH2 [of a] fx(1) show "fmget (annotations_of d') a = fmget (annotations_of d) a" by (simp add: W)
    next
      show "m' \<longleftrightarrow> m \<or> (\<exists>a b. (a, b) \<in> set (wanted (x # xs)) \<and> fmget (annotations_of d) a \<noteq> b)"
        unfolding m fx(2) W list.set insert_iff prod.inject using same by metis
    qed (use IH4 fx(3) in simp)
  qed
qed

text \<open>Different secrets ask for different annotations.\<close>

lemma ResourceVersionAnnotation_inj:
  "ResourceVersionAnnotation a = ResourceVersionAnnotation b \<longleftrightarrow> a = b"
  by (simp add: ResourceVersionAnnotation_def)

end
