(* ===== verification/VaultClient.thy ===== *)
theory VaultClient
  imports ServiceReconciler
begin

text \<open>
  \<^verbatim>\<open>operator/controllers/vault_client.go\<close> and \<^verbatim>\<open>operator/util/password.go\<close>: the calls to Vault and the
  two password generators. The Vault API client is a parameter; a call through a nil client, a nil
  response or a failed type assertion panics, as in Go. A value of the Go interface
  \<^verbatim>\<open>PasswordGenerator\<close> is its only method.
\<close>

section \<open>The client\<close>

definition client :: "('w, vault_client) op" where
  "client = bindM (gets vaultClient) (\<lambda>vc. lift_outcome (deref vc))"

definition vault :: "('w, VaultSecretManagement) op" where
  "vault = bindM (gets op_cr) (\<lambda>cr. lift_outcome (vault_section cr))"

definition checkVaultConnectionParameters :: "VaultSecretManagement \<Rightarrow> go_error option" where
  "checkVaultConnectionParameters v =
     (if vsm_Url v = '''' then Some (OtherError ''vault: Vault connection URL is empty'')
      else if vsm_Method v = '''' then Some (OtherError ''vault: Vault authentication method is empty'')
      else if vsm_Role v = '''' then Some (OtherError ''vault: Vault operator role is empty'')
      else if vsm_Path v = '''' then Some (OtherError ''vault: Vault secret store path is empty'')
      else None)"

definition login :: "'w env \<Rightarrow> VaultSecretManagement \<Rightarrow> ('w, string) op" where
  "login c v =
     bindM (gets (\<lambda>s. BearerToken c (world s))) (\<lambda>jwtToken.
     let options = [(''jwt'', JString jwtToken), (''role'', JString (vsm_Role v))];
         loginPath = ''/auth/'' @ vsm_Method v @ ''/login''
     in bindM (ext_pure (Vault_NewClient c (vsm_Url v))) (\<lambda>cl.
        bindM (ext (Vault_Write c cl loginPath options)) (\<lambda>clientToken.
        lift_outcome (obind (deref clientToken) (\<lambda>sec. deref (vsec_AuthToken sec))))))"

definition InitVaultClient :: "'w env \<Rightarrow> ('w, unit) op" where
  "InitVaultClient c =
     bindM vault (\<lambda>v.
     case checkVaultConnectionParameters v of
       Some err \<Rightarrow> fail err
     | None \<Rightarrow>
         bindM (ext_pure (Vault_NewClient c (vsm_Url v))) (\<lambda>cl.
         bindM (login c v) (\<lambda>clientToken.
         modify (\<lambda>s. s\<lparr>vaultClient := Some (cl\<lparr>vc_Token := clientToken\<rparr>)\<rparr>))))"

section \<open>Secrets\<close>

text \<open>\<^verbatim>\<open>x.(json.Number).Int64()\<close>, and the map behind \<^verbatim>\<open>x.(map[string]interface{})\<close>.\<close>

definition asInt64 :: "jval option \<Rightarrow> int outcome" where
  "asInt64 x = (case x of
       Some (JNumber n) \<Rightarrow> (case ParseInt64 n of Inl e \<Rightarrow> Err e | Inr i \<Rightarrow> Ok i)
     | _ \<Rightarrow> Panic ''interface conversion'')"

definition asObject :: "jval option \<Rightarrow> (string \<times> jval) list outcome" where
  "asObject x = (case x of Some (JObject m) \<Rightarrow> Ok m | _ \<Rightarrow> Panic ''interface conversion'')"

definition asString :: "jval option \<Rightarrow> string outcome" where
  "asString x = (case x of Some (JString s) \<Rightarrow> Ok s | _ \<Rightarrow> Panic ''interface conversion'')"

definition is_nil :: "jval option \<Rightarrow> bool" where
  "is_nil x = (case x of None \<Rightarrow> True | Some v \<Rightarrow> v = JNull)"

definition WriteVaultSecret :: "'w env \<Rightarrow> string \<Rightarrow> string \<Rightarrow> (string \<times> jval) list \<Rightarrow> ('w, int) op" where
  "WriteVaultSecret c path secretName secret =
     (let secretPath = path @ ''/data/'' @ secretName in
      bindM client (\<lambda>cl.
      bindM (ext (Vault_Write c cl secretPath [(''data'', JObject secret)])) (\<lambda>vaultSecret.
      lift_outcome (obind (deref vaultSecret) (\<lambda>vs. asInt64 (map_of (vsec_Data vs) ''version''))))))"

definition ReadVaultSecret :: "'w env \<Rightarrow> string \<Rightarrow> string \<Rightarrow> ('w, (string \<times> jval) list option) op" where
  "ReadVaultSecret c path secretName =
     (let secretPath = path @ ''/data/'' @ secretName in
      bindM client (\<lambda>cl.
      bindM (ext (Vault_Read c cl secretPath)) (\<lambda>vaultSecret.
      case vaultSecret of
        None \<Rightarrow> ret None
      | Some vs \<Rightarrow> lift_outcome (obind (asObject (map_of (vsec_Data vs) ''data'')) (\<lambda>m. Ok (Some m))))))"

section \<open>Policies and roles\<close>

definition ReadVaultPolicy :: "'w env \<Rightarrow> string \<Rightarrow> ('w, string) op" where
  "ReadVaultPolicy c policyName = bindM client (\<lambda>cl. ext (Vault_GetPolicy c cl policyName))"

definition WriteVaultPolicy :: "'w env \<Rightarrow> string \<Rightarrow> string \<Rightarrow> ('w, unit) op" where
  "WriteVaultPolicy c policyName policy = bindM client (\<lambda>cl. ext (Vault_PutPolicy c cl policyName policy))"

definition raw :: "'w env \<Rightarrow> string \<Rightarrow> string \<Rightarrow> string option \<Rightarrow>
    ('w, http_response option \<times> go_error option) op" where
  "raw c verb path body = bindM client (\<lambda>cl. ext_total (Vault_RawRequest c cl verb path body))"

text \<open>The error of the request is bound to an inner variable: the outer one, nil by then, is
  returned.\<close>

definition WriteVaultPasswordPolicy :: "'w env \<Rightarrow> string \<Rightarrow> jval \<Rightarrow> ('w, unit) op" where
  "WriteVaultPasswordPolicy c policyName policy =
     bindM client (\<lambda>_.
     bindM (ext_pure (Vault_EncodeBody c policy)) (\<lambda>body.
     discard (raw c ''PUT'' (''/v1/sys/policies/password/'' @ policyName) (Some body))))"

definition GeneratePasswordForPolicy :: "'w env \<Rightarrow> string \<Rightarrow> ('w, string) op" where
  "GeneratePasswordForPolicy c policyName =
     bindM (raw c ''GET'' (''/v1/sys/policies/password/'' @ policyName @ ''/generate'') None)
       (\<lambda>(response, err).
          case err of
            Some e \<Rightarrow> fail e
          | None \<Rightarrow>
              (case response of
                 None \<Rightarrow> fail (OtherError (''vault: Cannot generate password for policy: '' @ policyName))
               | Some rsp \<Rightarrow>
                   bindM (ext_pure (Decode_StringMap c (rsp_Body rsp)))
                     (\<lambda>respJson. ret (fmget respJson ''password''))))"

definition WriteVaultAuthRole :: "'w env \<Rightarrow> string \<Rightarrow> jval \<Rightarrow> ('w, unit) op" where
  "WriteVaultAuthRole c roleName role =
     bindM vault (\<lambda>v.
     bindM client (\<lambda>_.
     bindM (ext_pure (Vault_EncodeBody c role)) (\<lambda>body.
     bindM (raw c ''POST'' (''/v1/auth/'' @ vsm_Method v @ ''/role/'' @ roleName) (Some body))
       (\<lambda>(_, err). case err of Some e \<Rightarrow> fail e | None \<Rightarrow> ret ()))))"

definition ReadVaultAuthRole :: "'w env \<Rightarrow> string \<Rightarrow> ('w, (string \<times> jval) list option) op" where
  "ReadVaultAuthRole c roleName =
     bindM vault (\<lambda>v.
     bindM (raw c ''GET'' (''/v1/auth/'' @ vsm_Method v @ ''/role/'' @ roleName) None)
       (\<lambda>(response, err).
          if (case response of None \<Rightarrow> False | Some rsp \<Rightarrow> rsp_StatusCode rsp = 404) then ret None
          else case err of
            Some e \<Rightarrow> fail e
          | None \<Rightarrow> bindM (lift_outcome (deref response))
                      (\<lambda>rsp. ext_pure (Decode_Object c (rsp_Body rsp)))))"

section \<open>Password generators\<close>

type_synonym 'w PasswordGenerator = "('w, string) op"

definition VaultPasswordGenerator_Generate :: "'w env \<Rightarrow> string \<Rightarrow> 'w PasswordGenerator" where
  "VaultPasswordGenerator_Generate c passwordPolicyName = GeneratePasswordForPolicy c passwordPolicyName"

definition NewVaultPasswordGenerator :: "'w env \<Rightarrow> ('w, 'w PasswordGenerator) op" where
  "NewVaultPasswordGenerator c =
     bindM (gets op_cr) (\<lambda>cr.
     let passwordGenerationPolicyName = cr_Name cr @ ''.'' @ cr_Namespace cr @ ''-password-policy''
     in bindM (WriteVaultPasswordPolicy c passwordGenerationPolicyName BuildVaultPasswordPolicy) (\<lambda>_.
        ret (VaultPasswordGenerator_Generate c passwordGenerationPolicyName)))"

definition OperatorPasswordGenerator_Generate :: "'w env \<Rightarrow> password_generator \<Rightarrow> 'w PasswordGenerator" where
  "OperatorPasswordGenerator_Generate c generator = ext (Password_Generate c generator 10 1 1 False False)"

definition NewOperatorPasswordGenerator :: "'w env \<Rightarrow> ('w, 'w PasswordGenerator) op" where
  "NewOperatorPasswordGenerator c =
     bindM (ext_pure (Password_NewGenerator c ''_!''))
       (\<lambda>generator. ret (OperatorPasswordGenerator_Generate c generator))"

section \<open>Frames\<close>

lemma stays_client: "stays only_world client"
  unfolding client_def by (intro ow.world_rules)

lemma stays_vault: "stays only_world vault"
  unfolding vault_def by (intro ow.world_rules)

lemma stays_raw: "stays only_world (raw c verb path body)"
  unfolding raw_def by (intro ow.world_rules stays_client)

lemma stays_WriteVaultSecret: "stays only_world (WriteVaultSecret c path n sec)"
  unfolding WriteVaultSecret_def Let_def by (intro ow.world_rules stays_client)

lemma stays_ReadVaultSecret: "stays only_world (ReadVaultSecret c path n)"
  unfolding ReadVaultSecret_def Let_def by (intro ow.world_rules stays_client)

lemma stays_ReadVaultPolicy: "stays only_world (ReadVaultPolicy c n)"
  unfolding ReadVaultPolicy_def by (intro ow.world_rules stays_client)

lemma stays_WriteVaultPolicy: "stays only_world (WriteVaultPolicy c n p)"
  unfolding WriteVaultPolicy_def by (intro ow.world_rules stays_client)

lemma stays_WriteVaultPasswordPolicy: "stays only_world (WriteVaultPasswordPolicy c n p)"
  unfolding WriteVaultPasswordPolicy_def by (intro ow.world_rules stays_client stays_raw)

lemma stays_GeneratePasswordForPolicy: "stays only_world (GeneratePasswordForPolicy c n)"
  unfolding GeneratePasswordForPolicy_def by (intro ow.world_rules stays_raw)

lemma stays_WriteVaultAuthRole: "stays only_world (WriteVaultAuthRole c n role)"
  unfolding WriteVaultAuthRole_def by (intro ow.world_rules stays_client stays_vault stays_raw)

lemma stays_ReadVaultAuthRole: "stays only_world (ReadVaultAuthRole c n)"
  unfolding ReadVaultAuthRole_def by (intro ow.world_rules stays_vault stays_raw)

lemma stays_NewVaultPasswordGenerator: "stays only_world (NewVaultPasswordGenerator c)"
  unfolding NewVaultPasswordGenerator_def Let_def
  by (intro ow.world_rules stays_WriteVaultPasswordPolicy)

lemma stays_NewOperatorPasswordGenerator: "stays only_world (NewOperatorPasswordGenerator c)"
  unfolding NewOperatorPasswordGenerator_def by (intro ow.world_rules)

lemmas vault_frames =
  stays_client stays_vault stays_raw stays_WriteVaultSecret stays_ReadVaultSecret
  stays_ReadVaultPolicy stays_WriteVaultPolicy stays_WriteVaultAuthRole stays_ReadVaultAuthRole
  stays_NewVaultPasswordGenerator stays_NewOperatorPasswordGenerator

end
