(* ===== verification/Samples.thy ===== *)
theory Samples
  imports ApiTypes
begin

text \<open>
  Custom resources the witnesses of the library use: an empty one, one with three ZooKeeper servers,
  one with every component, and one whose secrets are in Vault.
\<close>

section \<open>A custom resource to run on\<close>

definition demo_global :: Global where
  "demo_global = \<lparr>g_WaitForPodsReady = False, g_PodsReadyTimeout = 30, g_CustomLabels = None,
     g_DefaultLabels = None, g_ZooKeeperSsl = \<lparr>zssl_Enabled = False, zssl_SecretName = ''''\<rparr>,
     g_PVC = \<lparr>pvcc_Annotations = None\<rparr>\<rparr>"

definition demo_spec :: ZooKeeperServiceSpec where
  "demo_spec = \<lparr>spec_Global = Some demo_global, spec_ZooKeeper = None, spec_Monitoring = None,
     spec_BackupDaemon = None, spec_VaultSecretManagement = None, spec_IntegrationTests = None\<rparr>"

definition demo_status :: ZooKeeperServiceStatus where
  "demo_status = \<lparr>status_ZooKeeperStatus = \<lparr>zs_Servers = []\<rparr>, status_MonitoringStatus = \<lparr>ms_Nodes = []\<rparr>,
     status_BackupDaemonStatus = \<lparr>bs_Nodes = []\<rparr>, status_PVCStatus = \<lparr>pvcs_Annotations = None\<rparr>,
     status_VaultSecretManagementStatus = \<lparr>vs_SecretVersions = None\<rparr>, status_Conditions = []\<rparr>"

definition demo_cr :: ZooKeeperService where
  "demo_cr = \<lparr>cr_APIVersion = ''netcracker.com/v1'', cr_Kind = ''ZooKeeperService'',
     cr_Meta = new_meta ''zookeeper'' ''zk'' None None, cr_Spec = demo_spec, cr_Status = demo_status\<rparr>"

definition demo_zookeeper :: ZooKeeper where
  "demo_zookeeper = \<lparr>zk_DockerImage = ''zookeeper:3'',
     zk_Affinity = \<lparr>af_NodeAffinity = None, af_PodAffinity = ''''\<rparr>, zk_Tolerations = [],
     zk_PriorityClassName = '''', zk_Replicas = 3,
     zk_Storage = \<lparr>st_Volumes = [''pv-1'', ''pv-2'', ''pv-3''], st_Nodes = [''n1'', ''n2'', ''n3''],
       st_Labels = [], st_ClassName = [], st_Size = ''1Gi''\<rparr>,
     zk_SnapshotStorage = \<lparr>ss_PersistentVolumeType = '''', ss_PersistentVolumeName = '''',
       ss_PersistentVolumeClaimName = '''', ss_NodeName = '''', ss_VolumeSize = '''',
       ss_PersistentVolumeLabel = '''', ss_StorageClass = None, ss_NfsServer = '''', ss_NfsPath = ''''\<rparr>,
     zk_HeapSize = 256, zk_Resources = ResourceRequirements '''', zk_SecretName = ''zookeeper-secret'',
     zk_QuorumAuthEnabled = False,
     zk_Ssl = \<lparr>ssl_CipherSuites = [], ssl_EnableTwoWaySsl = False, ssl_AllowNonencryptedAccess = True\<rparr>,
     zk_SecurityContext = PodSecurityContext '''', zk_JolokiaPort = 9087,
     zk_EnvironmentVariables = [], zk_RollingUpdate = False, zk_CustomLabels = None,
     zk_Diagnostics = \<lparr>dg_Mode = '''', dg_AgentService = ''''\<rparr>, zk_AuditEnabled = False\<rparr>"

definition demo_zk_cr :: ZooKeeperService where
  "demo_zk_cr = demo_cr\<lparr>cr_Spec := demo_spec\<lparr>spec_ZooKeeper := Some demo_zookeeper\<rparr>\<rparr>"

definition demo_storage :: SnapshotStorage where
  "demo_storage = \<lparr>ss_PersistentVolumeType = ''storage_class'', ss_PersistentVolumeName = '''',
     ss_PersistentVolumeClaimName = '''', ss_NodeName = '''', ss_VolumeSize = ''1Gi'',
     ss_PersistentVolumeLabel = '''', ss_StorageClass = Some ''nfs'', ss_NfsServer = '''', ss_NfsPath = ''''\<rparr>"

definition demo_backupDaemon :: BackupDaemon where
  "demo_backupDaemon = \<lparr>bd_DockerImage = ''backup-daemon:1'',
     bd_Affinity = \<lparr>af_NodeAffinity = None, af_PodAffinity = ''''\<rparr>, bd_Tolerations = [],
     bd_PriorityClassName = '''', bd_BackupStorage = demo_storage,
     bd_Resources = ResourceRequirements '''', bd_BackupSchedule = ''0 0 * * *'', bd_S3 = None,
     bd_EvictionPolicy = '''', bd_IPv6 = False, bd_ZooKeeperHost = ''zookeeper'', bd_ZooKeeperPort = 2181,
     bd_SecretName = ''backup-secret'', bd_SecurityContext = PodSecurityContext '''',
     bd_CustomLabels = None,
     bd_BackupDaemonSsl = \<lparr>bssl_Enabled = True, bssl_SecretName = ''backup-tls''\<rparr>\<rparr>"

definition demo_monitoring :: Monitoring where
  "demo_monitoring = \<lparr>mon_DockerImage = ''monitoring:1'',
     mon_Affinity = \<lparr>af_NodeAffinity = None, af_PodAffinity = ''''\<rparr>, mon_Tolerations = [],
     mon_PriorityClassName = '''', mon_Resources = ResourceRequirements '''',
     mon_MonitoringType = ''prometheus'', mon_ZooKeeperHost = ''zookeeper'',
     mon_ZooKeeperBackupDaemonHost = ''zookeeper-backup-daemon'', mon_SecretName = ''monitoring-secret'',
     mon_ZooKeeperJolokiaPort = 9087, mon_SecurityContext = PodSecurityContext '''',
     mon_CustomLabels = None, mon_ZooKeeperVolumes = '''', mon_NeedToCleanInfluxDb = False,
     mon_SmDbHost = '''', mon_SmDbName = ''''\<rparr>"

definition demo_vault :: VaultSecretManagement where
  "demo_vault = \<lparr>vsm_DockerImage = ''vault-env:1'', vsm_Enabled = True, vsm_Path = ''secret'',
     vsm_Url = ''http://vault:8200'', vsm_Role = ''operator'', vsm_Method = ''kubernetes'',
     vsm_PasswordGenerationMechanism = ''operator'', vsm_WritePolicies = False,
     vsm_SecretPaths = \<lparr>paths_Monitoring = None\<rparr>\<rparr>"

text \<open>All sections but the integration tests, and the same with Vault's secrets.\<close>

definition demo_full_cr :: ZooKeeperService where
  "demo_full_cr = demo_cr\<lparr>cr_Spec := demo_spec\<lparr>spec_ZooKeeper := Some demo_zookeeper,
     spec_Monitoring := Some demo_monitoring, spec_BackupDaemon := Some demo_backupDaemon\<rparr>\<rparr>"

definition demo_vault_cr :: ZooKeeperService where
  "demo_vault_cr = demo_full_cr\<lparr>cr_Spec := (cr_Spec demo_full_cr)
     \<lparr>spec_VaultSecretManagement := Some demo_vault\<rparr>\<rparr>"

lemmas demo_defs = demo_vault_cr_def demo_full_cr_def demo_zk_cr_def demo_cr_def demo_spec_def
  demo_status_def demo_global_def demo_zookeeper_def demo_backupDaemon_def demo_monitoring_def
  demo_storage_def demo_vault_def

end
