(* ===== verification/ZooKeeperProvider.thy ===== *)
theory ZooKeeperProvider
  imports ServiceProvider Samples
begin

text \<open>
  \<^verbatim>\<open>operator/controllers/provider/zookeeper_provider.go\<close>: the services, claim and deployment of a
  ZooKeeper server. The provider holds the custom resource and a pointer into its spec, so its
  methods are functions of the custom resource. The deployment builder is cut where the source
  appends: base parts, pod secrets, diagnostics, Vault, TLS.
\<close>

section \<open>Names\<close>

definition persistentVolumeClaimPattern :: "string \<Rightarrow> int \<Rightarrow> string" where
  "persistentVolumeClaimPattern name i = ''pvc-'' @ name @ ''-'' @ Itoa i"

definition server_name :: "string \<Rightarrow> int \<Rightarrow> string" where
  "server_name name serverId = name @ ''-'' @ Itoa serverId"

definition domain_name :: "string \<Rightarrow> string" where
  "domain_name name = name @ ''-server''"

definition zk_section :: "ZooKeeperService \<Rightarrow> ZooKeeper outcome" where
  "zk_section cr = deref (spec_ZooKeeper (cr_Spec cr))"

definition zrp_GetServiceName :: "ZooKeeperService \<Rightarrow> string" where
  "zrp_GetServiceName cr = cr_Name cr"

definition zrp_GetServiceAccountName :: "ZooKeeperService \<Rightarrow> string" where
  "zrp_GetServiceAccountName cr = zrp_GetServiceName cr"

section \<open>Services\<close>

definition NewZooKeeperClientServiceForCR :: "ZooKeeperService \<Rightarrow> Service outcome" where
  "NewZooKeeperClientServiceForCR cr =
     obind (global cr) (\<lambda>g.
       let zooKeeperLabels = GetZooKeeperLabels (cr_Name cr) (g_DefaultLabels g);
           selectorLabels = GetZooKeeperSelectorLabels (cr_Name cr);
           ports = [tcp_port ''zookeeper-client'' 2181,
                    tcp_port ''nonencrypted-zookeeper-client'' 2182]
       in Ok (newServiceForCR (cr_Name cr) (cr_Namespace cr) (Some zooKeeperLabels)
                (Some selectorLabels) ports))"

definition NewZooKeeperDomainServiceForCR :: "ZooKeeperService \<Rightarrow> Service outcome" where
  "NewZooKeeperDomainServiceForCR cr =
     obind (global cr) (\<lambda>g.
       let serviceName = domain_name (cr_Name cr);
           zooKeeperLabels =
             fmupd ''app.kubernetes.io/instance'' (''zookeper'' @ ''-'' @ cr_Namespace cr)
               (GetZooKeeperLabels (cr_Name cr) (g_DefaultLabels g));
           selectorLabels = GetZooKeeperSelectorLabels (cr_Name cr);
           ports = [tcp_port ''zookeeper-client'' 2181,
                    tcp_port ''nonencrypted-zookeeper-client'' 2182,
                    tcp_port ''zookeeper-followers'' 2888,
                    tcp_port ''zookeeper-election'' 3888,
                    tcp_port ''zookeeper-backup'' 8081]
       in Ok ((newServiceForCR serviceName (cr_Namespace cr) (Some zooKeeperLabels)
                 (Some selectorLabels) ports)
              \<lparr>svc_ClusterIP := ''None'', svc_PublishNotReadyAddresses := True\<rparr>))"

definition NewZooKeeperServerServiceForCR :: "ZooKeeperService \<Rightarrow> int \<Rightarrow> Service outcome" where
  "NewZooKeeperServerServiceForCR cr serverId =
     obind (global cr) (\<lambda>g. obind (zk_section cr) (\<lambda>spec.
       let serviceName = server_name (cr_Name cr) serverId;
           zooKeeperLabels =
             fmupd ''name'' serviceName (GetZooKeeperLabels (cr_Name cr) (g_DefaultLabels g));
           selectorLabels = fmupd ''name'' serviceName (GetZooKeeperSelectorLabels (cr_Name cr));
           ports = [tcp_port ''zookeeper-client'' 2181,
                    tcp_port ''nonencrypted-zookeeper-client'' 2182,
                    tcp_port ''zookeeper-followers'' 2888,
                    tcp_port ''zookeeper-election'' 3888,
                    tcp_port ''zookeeper-backup'' 8081,
                    tcp_port ''zookeeper-jolokia'' (zk_JolokiaPort spec),
                    tcp_port ''prometheus-http'' 8080]
       in Ok (newServiceForCR serviceName (cr_Namespace cr) (Some zooKeeperLabels)
                (Some selectorLabels) ports)))"

section \<open>The claim of a server\<close>

definition NewZooKeeperPersistentVolumeClaimForCR ::
  "(string \<Rightarrow> quantity option) \<Rightarrow> ZooKeeperService \<Rightarrow> int \<Rightarrow> PersistentVolumeClaim option outcome" where
  "NewZooKeeperPersistentVolumeClaimForCR mp cr serverId =
     obind (zk_section cr) (\<lambda>spec.
     let storage = zk_Storage spec in
     obind (if length (st_Volumes storage) > 0 then index (st_Volumes storage) (serverId - 1)
            else Ok '''') (\<lambda>persistentVolumeName.
     obind (if length (st_Labels storage) > 0 then index (st_Labels storage) (serverId - 1)
            else Ok '''') (\<lambda>persistentVolumeLabel.
     obind (if length (st_ClassName storage) > 0
            then (if int (length (st_ClassName storage)) = zk_Replicas spec
                  then obind (index (st_ClassName storage) (serverId - 1)) (\<lambda>cn. Ok (Some cn))
                  else obind (index (st_ClassName storage) 0) (\<lambda>cn. Ok (Some cn)))
            else Ok None) (\<lambda>storageClassName.
     obind (global cr) (\<lambda>g.
     let persistentVolumeClaimName = persistentVolumeClaimPattern (cr_Name cr) serverId;
         labels = fmupd ''cloud-backuper.netcracker.com/exclude-from-physical-backup'' ''true''
                    (GetZooKeeperLabels (cr_Name cr) (g_DefaultLabels g))
     in ProcessNonSharedPersistentVolumeClaim mp persistentVolumeClaimName persistentVolumeName
          persistentVolumeLabel storageClassName (st_Size storage) (cr_Namespace cr) (Some labels)
          (pvcc_Annotations (g_PVC g)))))))"

section \<open>The deployment of a server\<close>

definition GetZooKeeperCustomLabels ::
  "ZooKeeperService \<Rightarrow> (string, string) fmap \<Rightarrow> (string, string) fmap outcome" where
  "GetZooKeeperCustomLabels cr zooKeeperLabels =
     obind (global cr) (\<lambda>g. obind (zk_section cr) (\<lambda>spec.
       Ok (JoinMaps (Some (JoinMaps (g_CustomLabels g) (zk_CustomLabels spec)))
             (Some zooKeeperLabels))))"

definition zrp_getCommand :: "ZooKeeperService \<Rightarrow> string list" where
  "zrp_getCommand cr = (if IsVaultSecretManagementEnabled cr then [''/vault/vault-env''] else [])"

definition zrp_getArgs :: "ZooKeeperService \<Rightarrow> string list" where
  "zrp_getArgs cr =
     (if IsVaultSecretManagementEnabled cr
      then [''/sbin/tini'', ''--'', ''/docker-entrypoint.sh'', ''start''] else [])"

definition zrp_getInitContainers :: "ZooKeeperService \<Rightarrow> Container list outcome" where
  "zrp_getInitContainers cr = vaultInitContainers cr"

definition zrp_getExecCommand :: "ZooKeeperService \<Rightarrow> string list \<Rightarrow> ProbeHandler" where
  "zrp_getExecCommand cr originalCommand =
     ExecProbe (if IsVaultSecretManagementEnabled cr then [''/vault/vault-env''] @ originalCommand
                else originalCommand)"

definition zrp_getSecretEnvs :: "ZooKeeperService \<Rightarrow> EnvVar list outcome" where
  "zrp_getSecretEnvs cr =
     (if IsVaultSecretManagementEnabled cr
      then omap (\<lambda>(name, secret, key).
             obind (getVaultSecretEnvVarSource (zrp_GetServiceName cr) cr secret key)
               (\<lambda>ref. Ok (env_value name ref)))
             [(''ADMIN_USERNAME'', ''admin-credentials'', ''username''),
              (''ADMIN_PASSWORD'', ''admin-credentials'', ''password''),
              (''CLIENT_USERNAME'', ''client-credentials'', ''username''),
              (''CLIENT_PASSWORD'', ''client-credentials'', ''password''),
              (''ADDITIONAL_USERS'', ''additional-users'', ''users'')]
      else Ok [])"

definition getZooKeeperAffinityRules :: "ZooKeeper \<Rightarrow> int \<Rightarrow> Affinity outcome" where
  "getZooKeeperAffinityRules spec serverId =
     (if length (st_Nodes (zk_Storage spec)) > 0
      then obind (index (st_Nodes (zk_Storage spec)) (serverId - 1)) (\<lambda>node.
             Ok ((zk_Affinity spec)\<lparr>af_NodeAffinity := Some (hostname_affinity node)\<rparr>))
      else Ok (zk_Affinity spec))"

definition server_livenessProbe :: "ZooKeeperService \<Rightarrow> Probe" where
  "server_livenessProbe cr =
     \<lparr>pb_Handler = zrp_getExecCommand cr [''./bin/zkHealth.sh'', ''liveness-probe''],
      pb_InitialDelaySeconds = 20, pb_TimeoutSeconds = 20, pb_PeriodSeconds = 20,
      pb_SuccessThreshold = 1, pb_FailureThreshold = 5\<rparr>"

definition server_readinessProbe :: "ZooKeeperService \<Rightarrow> Probe" where
  "server_readinessProbe cr =
     \<lparr>pb_Handler = zrp_getExecCommand cr [''./bin/zkHealth.sh'', ''readiness-probe''],
      pb_InitialDelaySeconds = 40, pb_TimeoutSeconds = 20, pb_PeriodSeconds = 20,
      pb_SuccessThreshold = 1, pb_FailureThreshold = 5\<rparr>"

definition dataVolumeSource :: "ZooKeeperService \<Rightarrow> ZooKeeper \<Rightarrow> int \<Rightarrow> VolumeSource" where
  "dataVolumeSource cr spec serverId =
     (if length (st_Volumes (zk_Storage spec)) > 0 \<or> length (st_Labels (zk_Storage spec)) > 0 \<or>
         length (st_ClassName (zk_Storage spec)) > 0
      then ClaimVolume (persistentVolumeClaimPattern (cr_Name cr) serverId)
      else EmptyDir None)"

definition backupVolumeSource :: "ZooKeeperService \<Rightarrow> ZooKeeper \<Rightarrow> VolumeSource" where
  "backupVolumeSource cr spec =
     (let storage = zk_SnapshotStorage spec in
      if ss_PersistentVolumeType storage = '''' \<or> ss_PersistentVolumeType storage = ''standalone''
      then EmptyDir None
      else ClaimVolume (if ss_PersistentVolumeClaimName storage = ''''
                        then SnapshotsPersistentVolumeClaimPattern (cr_Name cr)
                        else ss_PersistentVolumeClaimName storage))"

definition server_envVars :: "ZooKeeperService \<Rightarrow> ZooKeeper \<Rightarrow> int \<Rightarrow> EnvVar list" where
  "server_envVars cr spec serverId =
     [env_value ''SERVER_NAME'' (cr_Name cr),
      env_value ''SERVER_ID'' (Itoa serverId),
      env_value ''SERVER_DOMAIN'' (domain_name (cr_Name cr)),
      env_field ''SERVER_NAMESPACE'' ''metadata.namespace'',
      env_value ''SERVER_COUNT'' (Itoa (zk_Replicas spec)),
      env_value ''HEAP_OPTS''
        (''-Xms'' @ Itoa (zk_HeapSize spec) @ ''m -Xmx'' @ Itoa (zk_HeapSize spec) @ ''m''),
      env_value ''QUORUM_AUTH_ENABLED'' (FormatBool (zk_QuorumAuthEnabled spec)),
      env_value ''JOLOKIA_PORT'' (Itoa (sint (zk_JolokiaPort spec))),
      env_value ''AUDIT_ENABLED'' (FormatBool (zk_AuditEnabled spec))]"

definition server_baseParts ::
  "(string \<Rightarrow> quantity option) \<Rightarrow> ZooKeeperService \<Rightarrow> ZooKeeper \<Rightarrow> int \<Rightarrow> pod_parts outcome" where
  "server_baseParts mp cr spec serverId =
     obind (zrp_getSecretEnvs cr) (\<lambda>secretEnvs. obind (getTmpVolume mp ''32Mi'') (\<lambda>tmp.
       Ok \<lparr>pp_Env = server_envVars cr spec serverId @ secretEnvs,
           pp_Volumes = [volume ''data'' (dataVolumeSource cr spec serverId),
                         volume ''log'' (EmptyDir None),
                         volume ''backup-storage'' (backupVolumeSource cr spec),
                         tmp],
           pp_Mounts = [mount ''data'' ''/var/opt/zookeeper/data'',
                        mount ''log'' ''/opt/zookeeper/log'',
                        mount ''backup-storage'' ''/opt/zookeeper/backup-storage'',
                        getTmpVolumeMount]\<rparr>))"

definition server_secretParts :: "ZooKeeperService \<Rightarrow> ZooKeeper \<Rightarrow> pod_parts \<Rightarrow> pod_parts" where
  "server_secretParts cr spec p =
     (if \<not> IsVaultSecretManagementEnabled cr \<and> zk_SecretName spec \<noteq> ''''
      then (let podSecretsMount = GetPodSecretsMountPath ''zookeeper'' in
            add_parts [env_value ''ZOOKEEPER_SECRETS_DIR'' podSecretsMount]
              [NewPodSecretsProjectedVolume ''zookeeper-pod-secrets''
                 [\<lparr>pss_SecretName = zk_SecretName spec,
                   pss_Items = [SecretKeyToPath ''admin-username'' ''admin-username'',
                                SecretKeyToPath ''admin-password'' ''admin-password'',
                                SecretKeyToPath ''client-username'' ''client-username'',
                                SecretKeyToPath ''client-password'' ''client-password'',
                                SecretKeyToPath ''additional-users'' ''additional-users'']\<rparr>]]
              [NewPodSecretsVolumeMount ''zookeeper-pod-secrets'' podSecretsMount] p)
      else p)"

definition server_diagnosticParts :: "ZooKeeperService \<Rightarrow> ZooKeeper \<Rightarrow> pod_parts \<Rightarrow> pod_parts" where
  "server_diagnosticParts cr spec p =
     (let diagnosticMode = dg_Mode (zk_Diagnostics spec) in
      if diagnosticMode = ''dev'' \<or> diagnosticMode = ''prod''
      then add_parts [env_field ''CLOUD_NAMESPACE'' ''metadata.namespace'',
                      env_value ''MICROSERVICE_NAME'' (zrp_GetServiceName cr),
                      env_value ''NC_DIAGNOSTIC_MODE'' diagnosticMode,
                      env_value ''NC_DIAGNOSTIC_AGENT_SERVICE''
                        (dg_AgentService (zk_Diagnostics spec))] [] [] p
      else p)"

definition server_sslParts :: "Global \<Rightarrow> ZooKeeper \<Rightarrow> pod_parts \<Rightarrow> pod_parts" where
  "server_sslParts g spec p =
     (if zssl_Enabled (g_ZooKeeperSsl g) \<and> zssl_SecretName (g_ZooKeeperSsl g) \<noteq> ''''
      then add_parts
             [env_value ''ENABLE_SSL'' ''true'',
              env_value ''SSL_CIPHER_SUITES'' (Join (ssl_CipherSuites (zk_Ssl spec)) '',''),
              env_value ''ENABLE_2WAY_SSL'' (FormatBool (ssl_EnableTwoWaySsl (zk_Ssl spec))),
              env_value ''ALLOW_NONENCRYPTED_ACCESS''
                (FormatBool (ssl_AllowNonencryptedAccess (zk_Ssl spec)))]
             [volume ''ssl-certs'' (SecretVolume (zssl_SecretName (g_ZooKeeperSsl g)))]
             [mount ''ssl-certs'' ''/opt/zookeeper/tls''] p
      else p)"

definition server_parts ::
  "(string \<Rightarrow> quantity option) \<Rightarrow> ZooKeeperService \<Rightarrow> Global \<Rightarrow> ZooKeeper \<Rightarrow> int \<Rightarrow> pod_parts outcome" where
  "server_parts mp cr g spec serverId =
     obind (server_baseParts mp cr spec serverId) (\<lambda>p0.
     obind (addVaultParts (zrp_GetServiceName cr) cr
              (server_diagnosticParts cr spec (server_secretParts cr spec p0))) (\<lambda>p1.
     Ok (server_sslParts g spec p1)))"

definition server_labels :: "ZooKeeperService \<Rightarrow> Global \<Rightarrow> int \<Rightarrow> (string, string) fmap" where
  "server_labels cr g serverId =
     fmupd ''app.kubernetes.io/instance'' (cr_Name cr @ ''-'' @ cr_Namespace cr)
       (fmupd ''app.kubernetes.io/technology'' ''java-others''
         (fmupd ''name'' (server_name (cr_Name cr) serverId)
           (GetZooKeeperLabels (cr_Name cr) (g_DefaultLabels g))))"

definition server_selectorLabels :: "ZooKeeperService \<Rightarrow> int \<Rightarrow> (string, string) fmap" where
  "server_selectorLabels cr serverId =
     fmupd ''name'' (server_name (cr_Name cr) serverId) (GetZooKeeperSelectorLabels (cr_Name cr))"

definition server_container :: "ZooKeeperService \<Rightarrow> ZooKeeper \<Rightarrow> pod_parts \<Rightarrow> Container" where
  "server_container cr spec p =
     \<lparr>ct_Name = ''zookeeper'', ct_Image = zk_DockerImage spec,
      ct_Command = zrp_getCommand cr, ct_Args = zrp_getArgs cr,
      ct_Ports = [container_tcp 2181, container_tcp 2182, container_tcp 2888, container_tcp 3888,
                  container_tcp (zk_JolokiaPort spec), container_tcp 8080],
      ct_Env = buildEnvs (pp_Env p) (zk_EnvironmentVariables spec),
      ct_Resources = Some (zk_Resources spec), ct_VolumeMounts = pp_Mounts p,
      ct_LivenessProbe = Some (server_livenessProbe cr),
      ct_ReadinessProbe = Some (server_readinessProbe cr), ct_ImagePullPolicy = ''Always'',
      ct_SecurityContext = Some getDefaultContainerSecurityContext\<rparr>"

definition NewServerDeploymentForCR ::
  "(string \<Rightarrow> quantity option) \<Rightarrow> ZooKeeperService \<Rightarrow> int \<Rightarrow> Deployment outcome" where
  "NewServerDeploymentForCR mp cr serverId =
     obind (global cr) (\<lambda>g. obind (zk_section cr) (\<lambda>spec.
     let deploymentName = server_name (cr_Name cr) serverId;
         zooKeeperLabels = server_labels cr g serverId
     in
     obind (GetZooKeeperCustomLabels cr zooKeeperLabels) (\<lambda>zooKeeperCustomLabels.
     obind (server_parts mp cr g spec serverId) (\<lambda>p.
     obind (zrp_getInitContainers cr) (\<lambda>initContainers.
     obind (getZooKeeperAffinityRules spec serverId) (\<lambda>affinity.
     Ok \<lparr>dp_Meta = new_meta deploymentName (cr_Namespace cr) (Some zooKeeperLabels) None,
         dp_Strategy = ''Recreate'', dp_Replicas = Some 1,
         dp_Selector = Some (server_selectorLabels cr serverId),
         dp_Template =
           \<lparr>pt_Labels = Some zooKeeperCustomLabels, pt_Annotations = None,
            pt_Spec =
              \<lparr>ps_Volumes = pp_Volumes p, ps_InitContainers = initContainers,
               ps_Containers = [server_container cr spec p],
               ps_SecurityContext = zk_SecurityContext spec, ps_Hostname = deploymentName,
               ps_Subdomain = domain_name (cr_Name cr),
               ps_ServiceAccountName = zrp_GetServiceAccountName cr, ps_Affinity = affinity,
               ps_Tolerations = zk_Tolerations spec,
               ps_PriorityClassName = zk_PriorityClassName spec\<rparr>\<rparr>,
         dp_ReadyReplicas = 0, dp_UpdatedReplicas = 0\<rparr>))))))"

section \<open>Properties\<close>

lemma server_name_inj: "server_name n i = server_name n j \<longleftrightarrow> i = j"
  by (simp add: server_name_def Itoa_inj)

lemma claim_name_inj: "persistentVolumeClaimPattern n i = persistentVolumeClaimPattern n j \<longleftrightarrow> i = j"
  by (simp add: persistentVolumeClaimPattern_def Itoa_inj)

text \<open>Vault's part never panics: it is only built when the section is there.\<close>

lemma addVaultParts_Ok: "\<exists>p'. addVaultParts n cr p = Ok p'"
  by (auto simp: addVaultParts_def getVaultConnectionEnvVars_def dest!: vault_enabled_section)

lemma vaultInitContainers_Ok: "\<exists>cs. vaultInitContainers cr = Ok cs"
  by (auto simp: vaultInitContainers_def getVaultInitContainer_def dest!: vault_enabled_section)

lemma zrp_getSecretEnvs_Ok: "\<exists>es. zrp_getSecretEnvs cr = Ok es"
  by (auto simp: zrp_getSecretEnvs_def getVaultSecretEnvVarSource_def dest!: vault_enabled_section)

lemma server_parts_Ok_iff:
  "(\<exists>p. server_parts mp cr g spec i = Ok p) \<longleftrightarrow> mp ''32Mi'' \<noteq> None"
proof -
  obtain es where es: "zrp_getSecretEnvs cr = Ok es" using zrp_getSecretEnvs_Ok by blast
  show ?thesis
    using addVaultParts_Ok
    by (auto simp: server_parts_def server_baseParts_def es getTmpVolume_def obind_eq_Ok
        split: option.splits)
qed

lemma NewServerDeployment_fields:
  assumes "NewServerDeploymentForCR mp cr i = Ok d"
  shows "\<exists>g spec p ics af. spec_Global (cr_Spec cr) = Some g \<and> spec_ZooKeeper (cr_Spec cr) = Some spec \<and>
     server_parts mp cr g spec i = Ok p \<and> vaultInitContainers cr = Ok ics \<and>
     getZooKeeperAffinityRules spec i = Ok af \<and>
     d = \<lparr>dp_Meta = new_meta (server_name (cr_Name cr) i) (cr_Namespace cr)
                      (Some (server_labels cr g i)) None,
          dp_Strategy = ''Recreate'', dp_Replicas = Some 1,
          dp_Selector = Some (server_selectorLabels cr i),
          dp_Template =
            \<lparr>pt_Labels = Some (JoinMaps (Some (JoinMaps (g_CustomLabels g) (zk_CustomLabels spec)))
                                 (Some (server_labels cr g i))),
             pt_Annotations = None,
             pt_Spec =
               \<lparr>ps_Volumes = pp_Volumes p, ps_InitContainers = ics,
                ps_Containers = [server_container cr spec p],
                ps_SecurityContext = zk_SecurityContext spec,
                ps_Hostname = server_name (cr_Name cr) i, ps_Subdomain = domain_name (cr_Name cr),
                ps_ServiceAccountName = cr_Name cr, ps_Affinity = af,
                ps_Tolerations = zk_Tolerations spec,
                ps_PriorityClassName = zk_PriorityClassName spec\<rparr>\<rparr>,
          dp_ReadyReplicas = 0, dp_UpdatedReplicas = 0\<rparr>"
  using assms
  by (auto simp: NewServerDeploymentForCR_def global_def zk_section_def GetZooKeeperCustomLabels_def
      zrp_getInitContainers_def zrp_GetServiceAccountName_def zrp_GetServiceName_def Let_def
      obind_eq_Ok)

definition zk_custom :: "ZooKeeperService \<Rightarrow> string gomap" where
  "zk_custom cr = (case spec_ZooKeeper (cr_Spec cr) of None \<Rightarrow> None | Some spec \<Rightarrow> zk_CustomLabels spec)"

interpretation zkw: workload
  "\<lambda>cr. server_name (cr_Name cr) i" zrp_GetServiceAccountName "\<lambda>cr. server_selectorLabels cr i"
  "{''name''}" "\<lambda>cr g. server_labels cr g i" zk_custom
  "\<lambda>cr. NewZooKeeperServerServiceForCR cr i" "\<lambda>mp cr. NewServerDeploymentForCR mp cr i"
  for i :: int
proof unfold_locales
  fix mp cr d
  assume "NewServerDeploymentForCR mp cr i = Ok d"
  from NewServerDeployment_fields [OF this] show
    "om_Name (dp_Meta d) = server_name (cr_Name cr) i \<and> om_Namespace (dp_Meta d) = cr_Namespace cr \<and>
     dp_Replicas d = Some 1 \<and> dp_Strategy d = ''Recreate'' \<and>
     dp_Selector d = Some (server_selectorLabels cr i) \<and>
     ps_ServiceAccountName (pt_Spec (dp_Template d)) = zrp_GetServiceAccountName cr"
    by (auto simp: zrp_GetServiceAccountName_def zrp_GetServiceName_def)
next
  fix mp cr d g
  assume "NewServerDeploymentForCR mp cr i = Ok d" and "spec_Global (cr_Spec cr) = Some g"
  with NewServerDeployment_fields [OF this(1)] show
    "pt_Labels (dp_Template d) =
       Some (JoinMaps (Some (JoinMaps (g_CustomLabels g) (zk_custom cr))) (Some (server_labels cr g i)))"
    by (auto simp: zk_custom_def)
next
  fix mp cr d
  assume "NewServerDeploymentForCR mp cr i = Ok d"
  from NewServerDeployment_fields [OF this] show "spec_Global (cr_Spec cr) \<noteq> None" by auto
next
  fix cr s
  assume "NewZooKeeperServerServiceForCR cr i = Ok s"
  then show "om_Name (svc_Meta s) = server_name (cr_Name cr) i \<and>
      om_Namespace (svc_Meta s) = cr_Namespace cr \<and>
      svc_Selector s = Some (server_selectorLabels cr i)"
    by (auto simp: NewZooKeeperServerServiceForCR_def newServiceForCR_def server_selectorLabels_def
        obind_eq_Ok Let_def)
next
  fix cr k v g
  assume "fmlookup (server_selectorLabels cr i) k = Some v"
  then show "fmlookup (server_labels cr g i) k =
      (if k \<in> {''name''} then Some v
       else case mlookup (g_DefaultLabels g) k of None \<Rightarrow> Some v | Some v' \<Rightarrow> Some v')"
    by (auto simp: server_selectorLabels_def server_labels_def label_simps split: if_splits option.splits)
qed

subsection \<open>The volumes of a server pod\<close>

definition server_table :: "ZooKeeperService \<Rightarrow> Global \<Rightarrow> ZooKeeper \<Rightarrow> (string \<times> string) list" where
  "server_table cr g spec =
     ((([(''data'', ''/var/opt/zookeeper/data''), (''log'', ''/opt/zookeeper/log''),
         (''backup-storage'', ''/opt/zookeeper/backup-storage''), (''tmp'', ''/tmp'')]
      @ (if \<not> IsVaultSecretManagementEnabled cr \<and> zk_SecretName spec \<noteq> ''''
         then [(''zookeeper-pod-secrets'', ''/etc/secrets/zookeeper-pod-secrets'')] else []))
      @ (if IsVaultSecretManagementEnabled cr then [(''vault-env'', ''/vault'')] else []))
      @ (if zssl_Enabled (g_ZooKeeperSsl g) \<and> zssl_SecretName (g_ZooKeeperSsl g) \<noteq> ''''
         then [(''ssl-certs'', ''/opt/zookeeper/tls'')] else []))"

lemma server_baseParts_table:
  "server_baseParts mp cr spec i = Ok p \<Longrightarrow>
   parts_table [(''data'', ''/var/opt/zookeeper/data''), (''log'', ''/opt/zookeeper/log''),
     (''backup-storage'', ''/opt/zookeeper/backup-storage''), (''tmp'', ''/tmp'')] p"
  by (auto simp: server_baseParts_def parts_table_def getTmpVolume_def getTmpVolumeMount_def
      obind_eq_Ok split: option.splits)

lemma server_secretParts_table:
  "parts_table T p \<Longrightarrow>
   parts_table (T @ (if \<not> IsVaultSecretManagementEnabled cr \<and> zk_SecretName spec \<noteq> ''''
         then [(''zookeeper-pod-secrets'', ''/etc/secrets/zookeeper-pod-secrets'')] else []))
     (server_diagnosticParts cr spec (server_secretParts cr spec p))"
  by (auto simp: server_diagnosticParts_def server_secretParts_def GetPodSecretsMountPath_def
        NewPodSecretsProjectedVolume_def NewPodSecretsVolumeMount_def Let_def
      intro!: parts_table_add_env parts_table_add)

lemma server_parts_table:
  assumes "server_parts mp cr g spec i = Ok p"
  shows "parts_table (server_table cr g spec) p"
proof -
  from assms obtain p0 p1 where p0: "server_baseParts mp cr spec i = Ok p0" and
    p1: "addVaultParts (zrp_GetServiceName cr) cr
           (server_diagnosticParts cr spec (server_secretParts cr spec p0)) = Ok p1" and
    p: "p = server_sslParts g spec p1"
    by (auto simp: server_parts_def obind_eq_Ok)
  note vault = parts_table_vault [OF p1 server_secretParts_table [OF server_baseParts_table [OF p0]]]
  show ?thesis
    unfolding server_table_def p server_sslParts_def
    by (intro parts_table_if parts_table_add vault) simp_all
qed

lemma server_table_subseq:
  "subseq (server_table cr g spec)
     [(''data'', ''/var/opt/zookeeper/data''), (''log'', ''/opt/zookeeper/log''),
      (''backup-storage'', ''/opt/zookeeper/backup-storage''), (''tmp'', ''/tmp''),
      (''zookeeper-pod-secrets'', ''/etc/secrets/zookeeper-pod-secrets''), (''vault-env'', ''/vault''),
      (''ssl-certs'', ''/opt/zookeeper/tls'')]" (is "subseq _ ?U")
proof -
  have "?U = ((([(''data'', ''/var/opt/zookeeper/data''), (''log'', ''/opt/zookeeper/log''),
         (''backup-storage'', ''/opt/zookeeper/backup-storage''), (''tmp'', ''/tmp'')]
      @ [(''zookeeper-pod-secrets'', ''/etc/secrets/zookeeper-pod-secrets'')])
      @ [(''vault-env'', ''/vault'')]) @ [(''ssl-certs'', ''/opt/zookeeper/tls'')])"
    by simp
  then show ?thesis unfolding server_table_def by (simp only:) (intro table_subseq)
qed

text \<open>
  C8. The pod of a ZooKeeper server is one Kubernetes accepts in its volumes: no two volumes share a
  name, every mount of every container names a declared volume, and no container mounts two volumes
  at the same path, whatever the combination of secrets, Vault, TLS and diagnostics.
\<close>

theorem server_pod_volumes_ok:
  assumes "NewServerDeploymentForCR mp cr i = Ok d"
  shows "pod_volumes_ok (pt_Spec (dp_Template d))"
proof -
  from NewServerDeployment_fields [OF assms] obtain g spec p ics where
    p: "server_parts mp cr g spec i = Ok p" and ics: "vaultInitContainers cr = Ok ics" and
    d: "ps_Volumes (pt_Spec (dp_Template d)) = pp_Volumes p"
       "ps_InitContainers (pt_Spec (dp_Template d)) = ics"
       "ps_Containers (pt_Spec (dp_Template d)) = [server_container cr spec p]"
    by auto
  note tab = table_distinct [OF server_table_subseq [of cr g spec]]
  show ?thesis
  proof (rule parts_table_pod [OF server_parts_table [OF p] _ _ ics _ d])
    show "distinct (map fst (server_table cr g spec))" by (rule tab) simp
    show "distinct (map snd (server_table cr g spec))" by (rule tab) simp
    show "''vault-env'' \<in> fst ` set (server_table cr g spec)" if "IsVaultSecretManagementEnabled cr"
      using that by (simp add: server_table_def image_Un)
  qed (simp add: server_container_def)
qed

lemma data_volume_of_parts:
  assumes "server_parts mp cr g spec i = Ok p"
  shows "hd (pp_Volumes p) = volume ''data'' (dataVolumeSource cr spec i)"
proof -
  from assms obtain p0 p1 where p0: "server_baseParts mp cr spec i = Ok p0" and
    p1: "addVaultParts (zrp_GetServiceName cr) cr
           (server_diagnosticParts cr spec (server_secretParts cr spec p0)) = Ok p1" and
    p: "p = server_sslParts g spec p1"
    by (auto simp: server_parts_def obind_eq_Ok)
  have "prefix (pp_Volumes p0) (pp_Volumes (server_diagnosticParts cr spec (server_secretParts cr spec p0)))"
    by (simp add: server_diagnosticParts_def server_secretParts_def Let_def)
  also have "prefix \<dots> (pp_Volumes p1)" using p1 by (rule prefix_addVaultParts)
  also have "prefix \<dots> (pp_Volumes p)" by (simp add: p server_sslParts_def)
  finally show ?thesis using p0 by (auto simp: server_baseParts_def obind_eq_Ok dest!: prefix_hd)
qed

subsection \<open>When the builders panic\<close>

lemma NewServerDeployment_Ok_iff:
  "(\<exists>d. NewServerDeploymentForCR mp cr i = Ok d) \<longleftrightarrow>
     spec_Global (cr_Spec cr) \<noteq> None \<and> mp ''32Mi'' \<noteq> None \<and>
     (\<exists>spec. spec_ZooKeeper (cr_Spec cr) = Some spec \<and>
        (st_Nodes (zk_Storage spec) = [] \<or>
         1 \<le> i \<and> i \<le> int (length (st_Nodes (zk_Storage spec)))))" (is "?L \<longleftrightarrow> ?R")
proof
  assume ?L
  then obtain d where d: "NewServerDeploymentForCR mp cr i = Ok d" by blast
  from NewServerDeployment_fields [OF d] obtain g spec p af where
    g: "spec_Global (cr_Spec cr) = Some g" and spec: "spec_ZooKeeper (cr_Spec cr) = Some spec" and
    p: "server_parts mp cr g spec i = Ok p" and af: "getZooKeeperAffinityRules spec i = Ok af"
    by blast
  from p have "mp ''32Mi'' \<noteq> None" using server_parts_Ok_iff by blast
  with g spec af show ?R
    by (auto simp: getZooKeeperAffinityRules_def obind_eq_Ok index_eq_Ok split: if_splits)
next
  assume ?R
  then obtain g spec where g: "spec_Global (cr_Spec cr) = Some g"
    and spec: "spec_ZooKeeper (cr_Spec cr) = Some spec" and mp: "mp ''32Mi'' \<noteq> None"
    and nodes: "st_Nodes (zk_Storage spec) = [] \<or> 1 \<le> i \<and> i \<le> int (length (st_Nodes (zk_Storage spec)))"
    by auto
  obtain p where p: "server_parts mp cr g spec i = Ok p" using server_parts_Ok_iff mp by blast
  obtain ics where ics: "vaultInitContainers cr = Ok ics" using vaultInitContainers_Ok by blast
  from nodes have "\<exists>af. getZooKeeperAffinityRules spec i = Ok af"
    by (auto simp: getZooKeeperAffinityRules_def index_def)
  then obtain af where af: "getZooKeeperAffinityRules spec i = Ok af" ..
  show ?L
    by (simp add: NewServerDeploymentForCR_def global_def zk_section_def g spec p ics af
        GetZooKeeperCustomLabels_def zrp_getInitContainers_def Let_def)
qed

lemma outcome_Panic_iff: "(\<exists>msg. r = Panic msg) \<longleftrightarrow> \<not> (\<exists>x. r = Ok x)" if "\<And>e. r \<noteq> Err e"
  using that by (cases r) auto

subsection \<open>The data volume and the claim\<close>

lemma server_claim_parts:
  assumes "NewZooKeeperPersistentVolumeClaimForCR mp cr i = Ok claim"
    and "spec_ZooKeeper (cr_Spec cr) = Some spec"
  obtains pv lab sc ns l a where
    "(if st_Volumes (zk_Storage spec) \<noteq> [] then index (st_Volumes (zk_Storage spec)) (i - 1)
      else Ok '''') = Ok pv"
    "(if st_Labels (zk_Storage spec) \<noteq> [] then index (st_Labels (zk_Storage spec)) (i - 1)
      else Ok '''') = Ok lab"
    "(sc = None) = (st_ClassName (zk_Storage spec) = [])"
    "ProcessNonSharedPersistentVolumeClaim mp (persistentVolumeClaimPattern (cr_Name cr) i) pv lab sc
       (st_Size (zk_Storage spec)) ns l a = Ok claim"
proof -
  let ?sc = "if st_ClassName (zk_Storage spec) \<noteq> []
             then (if int (length (st_ClassName (zk_Storage spec))) = zk_Replicas spec
                  then obind (index (st_ClassName (zk_Storage spec)) (i - 1)) (\<lambda>cn. Ok (Some cn))
                  else obind (index (st_ClassName (zk_Storage spec)) 0) (\<lambda>cn. Ok (Some cn)))
             else Ok None"
  have sc: "(sc = None) = (st_ClassName (zk_Storage spec) = [])" if "?sc = Ok sc" for sc
    using that by (auto simp: obind_eq_Ok split: if_splits)
  from assms(1) show thesis
    unfolding NewZooKeeperPersistentVolumeClaimForCR_def zk_section_def assms(2) Let_def
      length_greater_0_conv deref.simps obind.simps
    by (simp only: obind_eq_Ok) (elim exE conjE, rule that, assumption, assumption, erule sc, assumption)
qed


subsection \<open>Totality, selection, and the witnesses\<close>

lemma server_baseParts_not_Err: "server_baseParts mp cr spec i \<noteq> Err e"
proof -
  obtain es where "zrp_getSecretEnvs cr = Ok es" using zrp_getSecretEnvs_Ok by blast
  then show ?thesis
    by (cases "mp ''32Mi''") (simp_all add: server_baseParts_def getTmpVolume_def)
qed

lemma server_parts_not_Err: "server_parts mp cr g spec i \<noteq> Err e"
  unfolding server_parts_def using addVaultParts_Ok
  by (intro obind_not_Err server_baseParts_not_Err) (metis outcome.distinct(1), simp)

lemma NewServerDeployment_not_Err: "NewServerDeploymentForCR mp cr i \<noteq> Err e"
proof -
  have "zrp_getInitContainers cr \<noteq> Err e" for e
    using vaultInitContainers_Ok [of cr] by (auto simp: zrp_getInitContainers_def)
  moreover have "getZooKeeperAffinityRules spec i \<noteq> Err e" for spec e
    by (simp add: getZooKeeperAffinityRules_def obind_eq_Err)
  moreover have "GetZooKeeperCustomLabels cr l \<noteq> Err e" for l e
    by (simp add: GetZooKeeperCustomLabels_def global_def zk_section_def obind_eq_Err)
  ultimately show ?thesis
    unfolding NewServerDeploymentForCR_def global_def zk_section_def Let_def
    by (intro obind_not_Err deref_not_Err server_parts_not_Err) simp_all
qed


lemma server_selector_lookup:
  "fmlookup (server_selectorLabels cr n) k =
     (if k = ''name'' then Some (server_name (cr_Name cr) n) else if k = ''clusterName'' then Some (cr_Name cr)
      else if k = ''component'' then Some ''zookeeper'' else None)"
  by (simp add: server_selectorLabels_def selector_lookup)

lemma selects_server_labels:
  "selects (server_selectorLabels cr i) l \<longleftrightarrow>
     fmlookup l ''name'' = Some (server_name (cr_Name cr) i) \<and>
     fmlookup l ''clusterName'' = Some (cr_Name cr) \<and> fmlookup l ''component'' = Some ''zookeeper''"
    (is "?L \<longleftrightarrow> ?R")
proof
  assume L: ?L
  have "fmlookup l k = Some v" if "fmlookup (server_selectorLabels cr i) k = Some v" for k v
    using L that unfolding selects_iff by blast
  from this [of "''name''"] this [of "''clusterName''"] this [of "''component''"] show ?R
    by (simp add: server_selector_lookup)
next
  assume ?R
  then show ?L by (auto simp: selects_iff server_selector_lookup split: if_split_asm)
qed

text \<open>
  C7. The service of server \<open>i\<close> selects the pods of the deployment of server \<open>j\<close> exactly when \<open>i\<close> is
  \<open>j\<close> and the default labels of the custom resource do not redefine the two labels all servers share.
\<close>

theorem server_service_selects:
  assumes "NewZooKeeperServerServiceForCR cr i = Ok s" and "NewServerDeploymentForCR mp cr j = Ok d"
    and "spec_Global (cr_Spec cr) = Some g"
  shows "selects (contents (svc_Selector s)) (contents (pt_Labels (dp_Template d))) \<longleftrightarrow>
    i = j \<and> mlookup (g_DefaultLabels g) ''clusterName'' \<in> {None, Some (cr_Name cr)} \<and>
    mlookup (g_DefaultLabels g) ''component'' \<in> {None, Some ''zookeeper''}"
proof -
  have sel: "contents (svc_Selector s) = server_selectorLabels cr i"
    using zkw.service_shape [OF assms(1)] by simp
  have labels: "fmlookup (contents (pt_Labels (dp_Template d))) k =
     (if k \<in> {''name''} then Some v
      else case mlookup (g_DefaultLabels g) k of None \<Rightarrow> Some v | Some v' \<Rightarrow> Some v')"
    if "fmlookup (server_selectorLabels cr j) k = Some v" for k v
    using zkw.template_lookup [OF assms(2,3) that] by (auto simp: mlookup_def split: option.splits)
  have "fmlookup (contents (pt_Labels (dp_Template d))) ''name'' = Some (server_name (cr_Name cr) j)"
    using labels [of "''name''"] by (simp add: server_selector_lookup)
  moreover have "fmlookup (contents (pt_Labels (dp_Template d))) ''clusterName'' =
     (case mlookup (g_DefaultLabels g) ''clusterName'' of None \<Rightarrow> Some (cr_Name cr) | Some v' \<Rightarrow> Some v')"
    using labels [of "''clusterName''"] by (simp add: server_selector_lookup)
  moreover have "fmlookup (contents (pt_Labels (dp_Template d))) ''component'' =
     (case mlookup (g_DefaultLabels g) ''component'' of None \<Rightarrow> Some ''zookeeper'' | Some v' \<Rightarrow> Some v')"
    using labels [of "''component''"] by (simp add: server_selector_lookup)
  ultimately show ?thesis
    unfolding sel selects_server_labels
    by (cases "mlookup (g_DefaultLabels g) ''clusterName''"; cases "mlookup (g_DefaultLabels g) ''component''")
       (auto simp: server_name_inj)
qed

lemma demo_server: "\<exists>d. NewServerDeploymentForCR (\<lambda>q. Some (Quantity q)) demo_zk_cr 2 = Ok d"
  unfolding NewServerDeployment_Ok_iff by (simp add: demo_defs)

lemma demo_server_service: "\<exists>s. NewZooKeeperServerServiceForCR demo_zk_cr 2 = Ok s"
  by (simp add: NewZooKeeperServerServiceForCR_def global_def zk_section_def Let_def demo_defs)

theorem server_service_selects_witness:
  "\<exists>s d. NewZooKeeperServerServiceForCR demo_zk_cr 2 = Ok s \<and>
     NewServerDeploymentForCR (\<lambda>q. Some (Quantity q)) demo_zk_cr 2 = Ok d \<and>
     selects (contents (svc_Selector s)) (contents (pt_Labels (dp_Template d)))"
proof -
  obtain s d where s: "NewZooKeeperServerServiceForCR demo_zk_cr 2 = Ok s"
    and d: "NewServerDeploymentForCR (\<lambda>q. Some (Quantity q)) demo_zk_cr 2 = Ok d"
    using demo_server demo_server_service by blast


  have g: "spec_Global (cr_Spec demo_zk_cr) = Some demo_global" by (simp add: demo_defs)
  have "mlookup (g_DefaultLabels demo_global) k = None" for k by (simp add: demo_global_def mlookup_def)
  with server_service_selects [OF s d g]
  have "selects (contents (svc_Selector s)) (contents (pt_Labels (dp_Template d)))" by simp
  with s d show ?thesis by blast
qed

theorem server_pod_volumes_ok_witness:
  "\<exists>d. NewServerDeploymentForCR (\<lambda>q. Some (Quantity q)) demo_zk_cr 2 = Ok d \<and>
     pod_volumes_ok (pt_Spec (dp_Template d))"
  using demo_server server_pod_volumes_ok by blast


end
