(* ===== verification/ZooKeeperVault.thy ===== *)
theory ZooKeeperVault
  imports VaultClient ZooKeeperProvider
begin

text \<open>
  \<^verbatim>\<open>operator/controllers/zookeeper_vault.go\<close>: policies, roles and credentials the ZooKeeper
  reconciler keeps in Vault. The Kubernetes secret is changed through a pointer in Go; here it is an
  argument, and the computation returns the secret the pointer has afterwards. The steps that the
  reconcilers of the backup daemon and of monitoring repeat are definitions of their own.
\<close>

section \<open>Reading the secret\<close>

definition refreshCredentialsAnnotation :: string where
  "refreshCredentialsAnnotation = ''vault.netcracker.com/refresh-credentials''"

definition needToRefreshCredentials :: "Secret \<Rightarrow> bool" where
  "needToRefreshCredentials secret \<longleftrightarrow>
     om_Annotations (sec_Meta secret) \<noteq> None \<and>
     mget (om_Annotations (sec_Meta secret)) refreshCredentialsAnnotation = ''true''"

definition needToCleanSecret :: "Secret \<Rightarrow> bool" where
  "needToCleanSecret secret \<longleftrightarrow>
     om_Name (sec_Meta secret) \<noteq> '''' \<and> (sec_Data secret \<noteq> None \<or> needToRefreshCredentials secret)"

section \<open>Steps shared by the three reconcilers\<close>

definition secretVersions :: "ZooKeeperService \<Rightarrow> int gomap" where
  "secretVersions cr = vs_SecretVersions (status_VaultSecretManagementStatus (cr_Status cr))"

definition set_secretVersions :: "int gomap \<Rightarrow> ZooKeeperService \<Rightarrow> ZooKeeperService" where
  "set_secretVersions m cr =
     cr\<lparr>cr_Status := (cr_Status cr)\<lparr>status_VaultSecretManagementStatus := \<lparr>vs_SecretVersions = m\<rparr>\<rparr>\<rparr>"

definition recordVersion :: "string \<Rightarrow> int \<Rightarrow> ('w, unit) op" where
  "recordVersion secretName version =
     bindM (gets op_cr) (\<lambda>cr.
     bindM (lift_outcome (mset secretName version (secretVersions cr))) (\<lambda>m.
     modify (\<lambda>s. s\<lparr>op_cr := set_secretVersions m (op_cr s)\<rparr>)))"

definition ensurePolicy :: "'w env \<Rightarrow> Secret \<Rightarrow> string \<Rightarrow> string \<Rightarrow> string list \<Rightarrow> ('w, unit) op" where
  "ensurePolicy c secret policyName serviceName patterns =
     bindM (ReadVaultPolicy c policyName) (\<lambda>policy.
     if policy = '''' \<or> needToRefreshCredentials secret
     then bindM (gets op_cr) (\<lambda>cr.
          bindM (lift_outcome (BuildVaultPolicy serviceName cr patterns)) (\<lambda>newPolicy.
          WriteVaultPolicy c policyName newPolicy))
     else ret ())"

definition ensureRole :: "'w env \<Rightarrow> Secret \<Rightarrow> string \<Rightarrow> string \<Rightarrow> string list \<Rightarrow> ('w, unit) op" where
  "ensureRole c secret roleName serviceAccountName policyNames =
     bindM (ReadVaultAuthRole c roleName) (\<lambda>role.
     if role = None \<or> needToRefreshCredentials secret
     then bindM (gets op_cr) (\<lambda>cr.
          WriteVaultAuthRole c roleName (BuildVaultRole serviceAccountName cr policyNames))
     else ret ())"

definition choosePasswordGenerator :: "'w env \<Rightarrow> ('w, 'w PasswordGenerator) op" where
  "choosePasswordGenerator c =
     bindM vault (\<lambda>v.
     if vsm_PasswordGenerationMechanism v = ''vault'' then NewVaultPasswordGenerator c
     else NewOperatorPasswordGenerator c)"

text \<open>The value of a key of the Kubernetes secret, or else of the secret in Vault, or else the zero
  value.\<close>

definition chosenValue ::
  "Secret \<Rightarrow> string \<Rightarrow> (string \<times> jval) list option \<Rightarrow> string \<Rightarrow> string option outcome" where
  "chosenValue secret key vaultSecret vaultKey =
     (if secretContainsKey secret key then Ok (Some (mget (sec_Data secret) key))
      else case vaultSecret of
        None \<Rightarrow> Ok None
      | Some m \<Rightarrow> (if is_nil (map_of m vaultKey) then Ok None
                   else obind (asString (map_of m vaultKey)) (\<lambda>s. Ok (Some s))))"

definition orEmpty :: "string option \<Rightarrow> string" where
  "orEmpty x = (case x of None \<Rightarrow> '''' | Some s \<Rightarrow> s)"

definition updateCredentials ::
  "'w env \<Rightarrow> string \<Rightarrow> string \<Rightarrow> Secret \<Rightarrow> 'w PasswordGenerator \<Rightarrow> ('w, unit) op" where
  "updateCredentials c credentialsSecretName usernameKey secret passwordGenerator =
     bindM vault (\<lambda>v.
     bindM (ReadVaultSecret c (vsm_Path v) credentialsSecretName) (\<lambda>vaultSecret.
     if vaultSecret = None \<or> needToRefreshCredentials secret
     then bindM (lift_outcome (chosenValue secret usernameKey vaultSecret ''username'')) (\<lambda>chosen.
          let username = orEmpty chosen in
          bindM (if username \<noteq> '''' then passwordGenerator else ret '''') (\<lambda>password.
          bindM (WriteVaultSecret c (vsm_Path v) credentialsSecretName
                   [(''username'', JString username), (''password'', JString password)]) (\<lambda>version.
          recordVersion credentialsSecretName version)))
     else ret ()))"

definition cleanSecret :: "'w env \<Rightarrow> Secret \<Rightarrow> ('w, Secret) op" where
  "cleanSecret c secret =
     (if needToCleanSecret secret
      then bindM (lift_outcome (mset refreshCredentialsAnnotation ''false''
                    (om_Annotations (sec_Meta secret)))) (\<lambda>annotations.
           bindM (cleanSecretData c (secret\<lparr>sec_Meta := (sec_Meta secret)\<lparr>om_Annotations := annotations\<rparr>\<rparr>))
             (\<lambda>secret1.
           bindM (modify (\<lambda>s. s\<lparr>ResourceVersions :=
                    fmupd (om_Name (sec_Meta secret1)) (om_ResourceVersion (sec_Meta secret1))
                      (ResourceVersions s)\<rparr>)) (\<lambda>_.
           ret secret1)))
      else ret secret)"

section \<open>The ZooKeeper reconciler\<close>

definition processAdminCredentials ::
  "'w env \<Rightarrow> Secret \<Rightarrow> 'w PasswordGenerator \<Rightarrow> ('w, unit) op" where
  "processAdminCredentials c secret passwordGenerator =
     bindM (gets op_cr) (\<lambda>cr.
     updateCredentials c (cr_Name cr @ ''.'' @ cr_Namespace cr @ ''/admin-credentials'')
       ''admin-username'' secret passwordGenerator)"

definition processClientCredentials ::
  "'w env \<Rightarrow> Secret \<Rightarrow> 'w PasswordGenerator \<Rightarrow> ('w, unit) op" where
  "processClientCredentials c secret passwordGenerator =
     bindM (gets op_cr) (\<lambda>cr.
     updateCredentials c (cr_Name cr @ ''.'' @ cr_Namespace cr @ ''/client-credentials'')
       ''client-username'' secret passwordGenerator)"

definition extractUserNames :: "string \<Rightarrow> string list" where
  "extractUserNames userNamesString =
     map (\<lambda>v. hd (Split (CHR '':'') v)) (Split (CHR '','') userNamesString)"

definition generateUsers :: "'w PasswordGenerator \<Rightarrow> string list \<Rightarrow> ('w, string list) op" where
  "generateUsers passwordGenerator userNames =
     foldMc (\<lambda>additionalUsers username.
        if username \<noteq> ''''
        then bindM passwordGenerator (\<lambda>pass. ret (additionalUsers @ [username @ '':'' @ pass]))
        else ret additionalUsers) [] userNames"

definition processAdditionalUsersCredentials ::
  "'w env \<Rightarrow> Secret \<Rightarrow> 'w PasswordGenerator \<Rightarrow> ('w, unit) op" where
  "processAdditionalUsersCredentials c secret passwordGenerator =
     bindM (gets op_cr) (\<lambda>cr.
     let additionalUsersSecretName = cr_Name cr @ ''.'' @ cr_Namespace cr @ ''/additional-users'' in
     bindM vault (\<lambda>v.
     bindM (ReadVaultSecret c (vsm_Path v) additionalUsersSecretName) (\<lambda>additionalUsersSecret.
     if additionalUsersSecret = None \<or> needToRefreshCredentials secret
     then bindM (lift_outcome (chosenValue secret ''additional-users'' additionalUsersSecret ''users''))
            (\<lambda>chosen.
          let userNames = (case chosen of None \<Rightarrow> [] | Some s \<Rightarrow> extractUserNames s) in
          bindM (generateUsers passwordGenerator userNames) (\<lambda>additionalUsers.
          bindM (WriteVaultSecret c (vsm_Path v) additionalUsersSecretName
                   [(''users'', JString (Join additionalUsers '',''))]) (\<lambda>version.
          recordVersion additionalUsersSecretName version)))
     else ret ())))"

definition zk_writePolicies :: "'w env \<Rightarrow> Secret \<Rightarrow> ('w, unit) op" where
  "zk_writePolicies c secret =
     bindM (gets op_cr) (\<lambda>cr.
     let owner = cr_Name cr @ ''.'' @ cr_Namespace cr;
         zooKeeperAdminPolicyName = owner @ ''-admin-policy'' in
     bindM (ensurePolicy c secret zooKeeperAdminPolicyName (cr_Name cr) [''*'']) (\<lambda>_.
     bindM (ensureRole c secret (owner @ ''-role'') (zrp_GetServiceAccountName cr)
              [zooKeeperAdminPolicyName]) (\<lambda>_.
     ensurePolicy c secret (owner @ ''-client-policy'') (cr_Name cr) [''client-credentials''])))"

definition initSecretVersions :: "('w, unit) op" where
  "initSecretVersions =
     modify (\<lambda>s. if secretVersions (op_cr s) = None
                 then s\<lparr>op_cr := set_secretVersions (Some fmempty) (op_cr s)\<rparr> else s)"

definition zk_processVaultSecrets :: "'w env \<Rightarrow> Secret \<Rightarrow> ('w, Secret) op" where
  "zk_processVaultSecrets c secret =
     bindM initSecretVersions (\<lambda>_.
     bindM vault (\<lambda>v.
     bindM (if vsm_WritePolicies v then zk_writePolicies c secret else ret ()) (\<lambda>_.
     bindM (choosePasswordGenerator c) (\<lambda>passwordGenerator.
     bindM (processAdminCredentials c secret passwordGenerator) (\<lambda>_.
     bindM (processClientCredentials c secret passwordGenerator) (\<lambda>_.
     bindM (processAdditionalUsersCredentials c secret passwordGenerator) (\<lambda>_.
     cleanSecret c secret)))))))"

section \<open>Frames\<close>

text \<open>Everything but the versions of secrets: in the status of the custom resource and in
  \<^verbatim>\<open>ResourceVersions\<close>.\<close>

definition vault_frame :: "'w opstate \<Rightarrow> 'w opstate \<Rightarrow> bool" where
  "vault_frame s t \<longleftrightarrow>
     ResourceHashes t = ResourceHashes s \<and> globalSpecHash t = globalSpecHash s \<and>
     vaultClient t = vaultClient s \<and> set_secretVersions None (op_cr t) = set_secretVersions None (op_cr s)"

interpretation vf: world_frame "vault_frame :: 'w opstate \<Rightarrow> 'w opstate \<Rightarrow> bool"
  by unfold_locales (auto simp: vault_frame_def)

lemma set_secretVersions_twice [simp]: "set_secretVersions a (set_secretVersions b cr) = set_secretVersions a cr"
  by (simp add: set_secretVersions_def)

lemma set_secretVersions_simps [simp]:
  "secretVersions (set_secretVersions m cr) = m" "cr_Spec (set_secretVersions m cr) = cr_Spec cr"
  "cr_Meta (set_secretVersions m cr) = cr_Meta cr"
  "status_Conditions (cr_Status (set_secretVersions m cr)) = status_Conditions (cr_Status cr)"
  by (simp_all add: set_secretVersions_def secretVersions_def)

lemma vault_frameD:
  assumes "vault_frame s t"
  shows "cr_Spec (op_cr t) = cr_Spec (op_cr s)" "cr_Meta (op_cr t) = cr_Meta (op_cr s)"
    "conditions_of t = conditions_of s" "ResourceHashes t = ResourceHashes s"
    "globalSpecHash t = globalSpecHash s" "vaultClient t = vaultClient s"
  using assms unfolding vault_frame_def conditions_of_def
  by (metis set_secretVersions_simps(2), metis set_secretVersions_simps(3),
      metis set_secretVersions_simps(4), simp_all)

lemma stays_recordVersion: "stays vault_frame (recordVersion n v)"
  unfolding recordVersion_def by (intro vf.world_rules vf.stays_modify) (simp add: vault_frame_def)

lemma stays_ensurePolicy: "stays only_world (ensurePolicy c sec n svc pats)"
  unfolding ensurePolicy_def by (intro ow.world_rules vault_frames)

lemma stays_ensureRole: "stays only_world (ensureRole c sec n acc pols)"
  unfolding ensureRole_def by (intro ow.world_rules vault_frames)

lemma stays_choosePasswordGenerator: "stays only_world (choosePasswordGenerator c)"
  unfolding choosePasswordGenerator_def by (intro ow.world_rules vault_frames)

lemma stays_cleanSecret: "stays vault_frame (cleanSecret c sec)"
  unfolding cleanSecret_def
  by (intro vf.world_rules vf.stays_modify vf.stays_only_world [OF stays_cleanSecretData])
     (simp add: vault_frame_def)

lemma stays_initSecretVersions: "stays vault_frame initSecretVersions"
  unfolding initSecretVersions_def by (rule vf.stays_modify) (simp add: vault_frame_def)

section \<open>The password generator interface\<close>

text \<open>
  What a client of \<^verbatim>\<open>PasswordGenerator\<close> relies on: generating a password does not touch the
  operator's state. Both generators are given to the clients through it.
\<close>

locale password_source =
  fixes generate :: "'w PasswordGenerator"
  assumes generate_frame: "stays only_world generate"
begin

lemma stays_generateUsers: "stays only_world (generateUsers generate names)"
  unfolding generateUsers_def by (intro ow.world_rules generate_frame)

lemma stays_updateCredentials: "stays vault_frame (updateCredentials c n key sec generate)"
  unfolding updateCredentials_def Let_def
  by (intro vf.world_rules vf.stays_only_world [OF generate_frame] stays_recordVersion
      vault_frames [THEN vf.stays_only_world])

lemma stays_processAdminCredentials: "stays vault_frame (processAdminCredentials c sec generate)"
  unfolding processAdminCredentials_def by (intro vf.world_rules stays_updateCredentials)

lemma stays_processClientCredentials: "stays vault_frame (processClientCredentials c sec generate)"
  unfolding processClientCredentials_def by (intro vf.world_rules stays_updateCredentials)

lemma stays_processAdditionalUsersCredentials:
  "stays vault_frame (processAdditionalUsersCredentials c sec generate)"
  unfolding processAdditionalUsersCredentials_def Let_def
  by (intro vf.world_rules vf.stays_only_world [OF stays_generateUsers] stays_recordVersion
      vault_frames [THEN vf.stays_only_world])

end

interpretation vgen: password_source "VaultPasswordGenerator_Generate c policy" for c policy
  by unfold_locales (simp add: VaultPasswordGenerator_Generate_def stays_GeneratePasswordForPolicy)

interpretation ogen: password_source "OperatorPasswordGenerator_Generate c g" for c g
  by unfold_locales (simp add: OperatorPasswordGenerator_Generate_def ow.stays_ext)

text \<open>The generator the configuration selects is one of the two.\<close>

lemma choosePasswordGenerator_source:
  assumes "choosePasswordGenerator c s = (Ok gen, t)"
  shows "password_source gen"
  using assms vgen.password_source_axioms ogen.password_source_axioms
  by (auto simp: choosePasswordGenerator_def NewVaultPasswordGenerator_def
      NewOperatorPasswordGenerator_def bindM_eq_Ok Let_def split: if_splits)

lemma stays_zk_writePolicies: "stays only_world (zk_writePolicies c sec)"
  unfolding zk_writePolicies_def Let_def by (intro ow.world_rules stays_ensurePolicy stays_ensureRole)

lemma stays_zk_processVaultSecrets: "stays vault_frame (zk_processVaultSecrets c sec)"
  unfolding zk_processVaultSecrets_def
proof (rule vf.stays_bindM [OF stays_initSecretVersions],
    rule vf.stays_bindM [OF stays_vault [THEN vf.stays_only_world]],
    rule vf.stays_bindM [OF vf.stays_if [OF stays_zk_writePolicies [THEN vf.stays_only_world] vf.stays_ret]],
    rule vf.stays_bindM_value [OF stays_choosePasswordGenerator [THEN vf.stays_only_world]])
  fix gen s t
  assume "choosePasswordGenerator c s = (Ok gen, t)"
  note src = choosePasswordGenerator_source [OF this]
  show "stays vault_frame (bindM (processAdminCredentials c sec gen) (\<lambda>_.
     bindM (processClientCredentials c sec gen) (\<lambda>_.
     bindM (processAdditionalUsersCredentials c sec gen) (\<lambda>_.
     cleanSecret c sec))))"
    by (intro vf.stays_bindM stays_cleanSecret password_source.stays_processAdminCredentials [OF src]
        password_source.stays_processClientCredentials [OF src]
        password_source.stays_processAdditionalUsersCredentials [OF src])
qed

section \<open>Properties\<close>

subsection \<open>User names\<close>

text \<open>The list of users is stored as \<^verbatim>\<open>name:password\<close> pairs separated by commas; the names come back.\<close>

lemma extractUserNames_Join:
  assumes "ups \<noteq> []"
    and "\<And>u p. (u, p) \<in> set ups \<Longrightarrow> CHR '','' \<notin> set u \<and> CHR '':'' \<notin> set u \<and> CHR '','' \<notin> set p"
  shows "extractUserNames (Join (map (\<lambda>(u, p). u @ '':'' @ p) ups) '','') = map fst ups"
proof -
  have "Split (CHR '','') (Join (map (\<lambda>(u, p). u @ '':'' @ p) ups) '','') = map (\<lambda>(u, p). u @ '':'' @ p) ups"
    by (rule Split_Join) (use assms in auto)
  moreover have "hd (Split (CHR '':'') (u @ '':'' @ p)) = u" if "(u, p) \<in> set ups" for u p
    using assms(2) [OF that] by (auto simp: hd_Split takeWhile_append)
  ultimately show ?thesis unfolding extractUserNames_def by (auto simp: case_prod_beta)
qed

lemma generateUsers_pairs:
  assumes "generateUsers gen names s = (Ok users, t)"
  shows "\<exists>ps. length ps = length (filter (\<lambda>n. n \<noteq> '''') names) \<and>
     users = map (\<lambda>(u, p). u @ '':'' @ p) (zip (filter (\<lambda>n. n \<noteq> '''') names) ps)"
proof -
  have "\<exists>ps. length ps = length (filter (\<lambda>n. n \<noteq> '''') names) \<and>
      users = acc @ map (\<lambda>(u, p). u @ '':'' @ p) (zip (filter (\<lambda>n. n \<noteq> '''') names) ps)"
    if "foldMc (\<lambda>additionalUsers username.
        if username \<noteq> ''''
        then bindM gen (\<lambda>pass. ret (additionalUsers @ [username @ '':'' @ pass]))
        else ret additionalUsers) acc names s = (Ok users, t)" for acc
    using that
  proof (induction names arbitrary: acc s)
    case (Cons n names)
    show ?case
    proof (cases "n = ''''")
      case True
      with Cons show ?thesis by simp
    next
      case False
      with Cons.prems obtain p u where "foldMc (\<lambda>additionalUsers username.
        if username \<noteq> ''''
        then bindM gen (\<lambda>pass. ret (additionalUsers @ [username @ '':'' @ pass]))
        else ret additionalUsers) (acc @ [n @ '':'' @ p]) names u = (Ok users, t)"
        by (auto simp: bindM_eq_Ok)
      from Cons.IH [OF this] obtain ps where
        "length ps = length (filter (\<lambda>n. n \<noteq> '''') names)"
        "users = (acc @ [n @ '':'' @ p]) @ map (\<lambda>(u, p). u @ '':'' @ p) (zip (filter (\<lambda>n. n \<noteq> '''') names) ps)"
        by blast
      with False show ?thesis by (intro exI [of _ "p # ps"]) simp
    qed
  qed simp
  from this [of "[]"] assms show ?thesis by (simp add: generateUsers_def)
qed

subsection \<open>Credentials\<close>

lemma recordVersion_Ok:
  "recordVersion n v s = (Ok (), t) \<longleftrightarrow>
     (\<exists>m. secretVersions (op_cr s) = Some m \<and> t = s\<lparr>op_cr := set_secretVersions (Some (fmupd n v m)) (op_cr s)\<rparr>)"
  by (auto simp: recordVersion_def bindM_eq_Ok mset_eq_Ok)

lemma recordVersion_nil:
  "secretVersions (op_cr s) = None \<Longrightarrow> recordVersion n v s = (Panic ''assignment to entry in nil map'', s)"
  by (simp add: recordVersion_def bindM_def mset_def)

lemma vault_run: "vault s = (vault_section (op_cr s), s)"
  by (simp add: vault_def)

lemma client_eq_Ok: "client s = (Ok cl, t) \<longleftrightarrow> vaultClient s = Some cl \<and> t = s"
  by (auto simp: client_def)

lemma WriteVaultSecret_Ok:
  "WriteVaultSecret c path n sec s = (Ok ver, t) \<longleftrightarrow>
     (\<exists>cl resp. vaultClient s = Some cl \<and> asInt64 (map_of (vsec_Data resp) ''version'') = Ok ver \<and>
        Vault_Write c cl (path @ ''/data/'' @ n) [(''data'', JObject sec)] (world s) = (Inr (Some resp), world t) \<and>
        only_world s t)"
  by (auto simp: WriteVaultSecret_def bindM_eq_Ok client_eq_Ok ext_eq_Ok only_world_def obind_eq_Ok)

lemma updateCredentials_Ok:
  assumes run: "updateCredentials c n key sec gen s = (Ok (), t)" and gen: "password_source gen"
  obtains v cl existing s1 where
    "vault_section (op_cr s) = Ok v" "vaultClient s = Some cl"
    "ReadVaultSecret c (vsm_Path v) n s = (Ok existing, s1)"
    "existing \<noteq> None \<Longrightarrow> \<not> needToRefreshCredentials sec \<Longrightarrow> t = s1"
    "existing = None \<or> needToRefreshCredentials sec \<Longrightarrow>
       \<exists>u p m ver resp w. chosenValue sec key existing ''username'' = Ok u \<and>
         (if orEmpty u = '''' then p = '''' \<and> w = world s1 else \<exists>s2. gen s1 = (Ok p, s2) \<and> w = world s2) \<and>
         Vault_Write c cl (vsm_Path v @ ''/data/'' @ n)
           [(''data'', JObject [(''username'', JString (orEmpty u)), (''password'', JString p)])] w
           = (Inr (Some resp), world t) \<and>
         asInt64 (map_of (vsec_Data resp) ''version'') = Ok ver \<and>
         secretVersions (op_cr s) = Some m \<and>
         op_cr t = set_secretVersions (Some (fmupd n ver m)) (op_cr s)"
proof -
  from run obtain v existing s1 where v: "vault_section (op_cr s) = Ok v" and
    read: "ReadVaultSecret c (vsm_Path v) n s = (Ok existing, s1)" and
    rest: "(if existing = None \<or> needToRefreshCredentials sec
     then bindM (lift_outcome (chosenValue sec key existing ''username'')) (\<lambda>chosen.
          bindM (if orEmpty chosen \<noteq> '''' then gen else ret '''') (\<lambda>password.
          bindM (WriteVaultSecret c (vsm_Path v) n
                   [(''username'', JString (orEmpty chosen)), (''password'', JString password)]) (\<lambda>version.
          recordVersion n version)))
     else ret ()) s1 = (Ok (), t)"
    by (auto simp only: updateCredentials_def bindM_eq_Ok vault_run Let_def prod.inject)
  from read obtain cl where cl: "vaultClient s = Some cl"
    by (auto simp: ReadVaultSecret_def bindM_eq_Ok client_eq_Ok)
  have s1: "only_world s s1" using staysD [OF stays_ReadVaultSecret read] .
  show thesis
  proof (rule that [OF v cl read])
    assume "existing \<noteq> None" "\<not> needToRefreshCredentials sec"
    with rest show "t = s1" by simp
  next
    assume "existing = None \<or> needToRefreshCredentials sec"
    with rest obtain u p s2 s3 ver where u: "chosenValue sec key existing ''username'' = Ok u" and
      p: "(if orEmpty u \<noteq> '''' then gen else ret '''') s1 = (Ok p, s2)" and
      w: "WriteVaultSecret c (vsm_Path v) n
            [(''username'', JString (orEmpty u)), (''password'', JString p)] s2 = (Ok ver, s3)" and
      r: "recordVersion n ver s3 = (Ok (), t)"
      by (auto simp: bindM_eq_Ok simp del: ret_run)
    have "stays only_world (if orEmpty u \<noteq> '''' then gen else ret '''')"
      by (intro ow.stays_if ow.stays_ret password_source.generate_frame [OF gen])
    then have s2: "only_world s1 s2" using p by (rule staysD)
    from w obtain cl' resp where w': "vaultClient s2 = Some cl'" "only_world s2 s3"
      "asInt64 (map_of (vsec_Data resp) ''version'') = Ok ver"
      "Vault_Write c cl' (vsm_Path v @ ''/data/'' @ n)
         [(''data'', JObject [(''username'', JString (orEmpty u)), (''password'', JString p)])] (world s2)
         = (Inr (Some resp), world s3)"
      by (auto simp: WriteVaultSecret_Ok)
    from r obtain m where m: "secretVersions (op_cr s3) = Some m"
      "t = s3\<lparr>op_cr := set_secretVersions (Some (fmupd n ver m)) (op_cr s3)\<rparr>"
      by (auto simp: recordVersion_Ok)
    have same: "op_cr s3 = op_cr s" "cl' = cl"
      using only_worldD [OF s1] only_worldD [OF s2] only_worldD [OF w'(2)] cl w'(1) by simp_all
    from p have "if orEmpty u = '''' then p = '''' \<and> world s2 = world s1
      else \<exists>s'. gen s1 = (Ok p, s') \<and> world s2 = world s'" by auto
    with u w' m same show "\<exists>u p m ver resp w. chosenValue sec key existing ''username'' = Ok u \<and>
         (if orEmpty u = '''' then p = '''' \<and> w = world s1 else \<exists>s2. gen s1 = (Ok p, s2) \<and> w = world s2) \<and>
         Vault_Write c cl (vsm_Path v @ ''/data/'' @ n)
           [(''data'', JObject [(''username'', JString (orEmpty u)), (''password'', JString p)])] w
           = (Inr (Some resp), world t) \<and>
         asInt64 (map_of (vsec_Data resp) ''version'') = Ok ver \<and>
         secretVersions (op_cr s) = Some m \<and>
         op_cr t = set_secretVersions (Some (fmupd n ver m)) (op_cr s)"
      by (intro exI [of _ u] exI [of _ p] exI [of _ m] exI [of _ ver] exI [of _ resp] exI [of _ "world s2"]) simp
  qed
qed

subsection \<open>Cleaning the secret\<close>

text \<open>What the API documents of an update: the stored object has the name, the annotations and the
  data it was sent.\<close>

definition secret_update_documented :: "'w env \<Rightarrow> bool" where
  "secret_update_documented c \<longleftrightarrow>
     (\<forall>x w x' w'. Update_Secret c x w = (Inr x', w') \<longrightarrow>
        om_Name (sec_Meta x') = om_Name (sec_Meta x) \<and>
        om_Annotations (sec_Meta x') = om_Annotations (sec_Meta x) \<and> sec_Data x' = sec_Data x)"

lemma cleanSecret_done:
  assumes "cleanSecret c sec s = (Ok sec', t)" and doc: "secret_update_documented c"
    and name: "om_Name (sec_Meta sec) \<noteq> ''''"
  shows "\<not> needToRefreshCredentials sec' \<and> sec_Data sec' = None \<and> \<not> needToCleanSecret sec'"
proof (cases "needToCleanSecret sec")
  case False
  with assms(1) name show ?thesis by (auto simp: cleanSecret_def needToCleanSecret_def)
next
  case True
  with assms(1) obtain f w w' where "om_Annotations (sec_Meta sec) = Some f" and
    u: "Update_Secret c ((sec\<lparr>sec_Meta := (sec_Meta sec)
          \<lparr>om_Annotations := Some (fmupd refreshCredentialsAnnotation ''false'' f)\<rparr>\<rparr>)\<lparr>sec_Data := None\<rparr>) w
        = (Inr sec', w')"
    by (auto simp: cleanSecret_def cleanSecretData_def bindM_eq_Ok ext_eq_Ok mset_eq_Ok)
  with doc have "om_Annotations (sec_Meta sec') = Some (fmupd refreshCredentialsAnnotation ''false'' f)"
    "sec_Data sec' = None"
    unfolding secret_update_documented_def by fastforce+
  then show ?thesis by (simp add: needToRefreshCredentials_def needToCleanSecret_def)
qed

lemma cleanSecret_panics:
  "needToCleanSecret sec \<Longrightarrow> om_Annotations (sec_Meta sec) = None \<Longrightarrow>
   cleanSecret c sec s = (Panic ''assignment to entry in nil map'', s)"
  by (simp add: cleanSecret_def bindM_def mset_def)

end
