(* ===== verification/ReconcilerBase.thy ===== *)
theory ReconcilerBase
  imports ZooKeeperVault
begin

text \<open>
  What the component reconcilers share: the health check of their \<^verbatim>\<open>Status\<close> methods, the write of a
  status, the owner reference of an object they build, and the contract of the Go interface
  \<^verbatim>\<open>ReconcileService\<close> (\<^verbatim>\<open>Reconcile() error\<close>, \<^verbatim>\<open>Status() error\<close>) the controller runs them through.
\<close>

section \<open>Shared steps\<close>

definition globalHashName :: string where "globalHashName = ''spec.global''"

definition storeStatus :: "'w env \<Rightarrow> (ZooKeeperService \<Rightarrow> ZooKeeperService) \<Rightarrow> ('w, unit) op" where
  "storeStatus c change =
     bindM (modify (\<lambda>s. s\<lparr>op_cr := change (op_cr s)\<rparr>)) (\<lambda>_.
     bindM (gets op_cr) (\<lambda>cr.
     bindM (ext (Update_Status c cr)) (\<lambda>cr'.
     modify (\<lambda>s. s\<lparr>op_cr := cr'\<rparr>))))"

definition ownService :: "'w env \<Rightarrow> ZooKeeperService \<Rightarrow> Service \<Rightarrow> ('w, Service) op" where
  "ownService c cr service =
     bindM (ext_pure (SetControllerReference c cr (svc_Meta service)))
       (\<lambda>meta. ret (service\<lparr>svc_Meta := meta\<rparr>))"

definition ownDeployment :: "'w env \<Rightarrow> ZooKeeperService \<Rightarrow> Deployment \<Rightarrow> ('w, Deployment) op" where
  "ownDeployment c cr deployment =
     bindM (ext_pure (SetControllerReference c cr (dp_Meta deployment)))
       (\<lambda>meta. ret (deployment\<lparr>dp_Meta := meta\<rparr>))"

text \<open>Build a service, own it, apply it.\<close>

definition applyService :: "'w env \<Rightarrow> (ZooKeeperService \<Rightarrow> Service outcome) \<Rightarrow> ('w, unit) op" where
  "applyService c build =
     bindM (gets op_cr) (\<lambda>cr.
     bindM (lift_outcome (build cr)) (\<lambda>service.
     bindM (ownService c cr service) (\<lambda>service1.
     createOrUpdateService c service1)))"

text \<open>Build a deployment, own it, annotate it with the versions of secrets, apply it.\<close>

definition applyDeployment ::
  "'w env \<Rightarrow> (ZooKeeperService \<Rightarrow> Deployment outcome) \<Rightarrow> Secret option list \<Rightarrow> ('w, unit) op" where
  "applyDeployment c build secrets =
     bindM (gets op_cr) (\<lambda>cr.
     bindM (lift_outcome (build cr)) (\<lambda>deployment.
     bindM (ownDeployment c cr deployment) (\<lambda>deployment1.
     createOrUpdateDeployment c (fst (applyAutoRestartSecretAnnotations deployment1 secrets)))))"

definition applyClaim :: "'w env \<Rightarrow> PersistentVolumeClaim option \<Rightarrow> ('w, unit) op" where
  "applyClaim c claim = (case claim of None \<Rightarrow> ret () | Some pvc \<Rightarrow> createPersistentVolumeClaim c pvc)"

text \<open>The secret a reconciler starts from: without it, Vault's secrets still allow to go on.\<close>

definition watchOwnSecret :: "'w env \<Rightarrow> string \<Rightarrow> ('w, Secret) op" where
  "watchOwnSecret c secretName =
     bindM (attempt (watchSecret c secretName)) (\<lambda>r. case r of
        Inr secret \<Rightarrow> ret secret
      | Inl err \<Rightarrow> bindM (gets op_cr) (\<lambda>cr.
          if IsVaultSecretManagementEnabled cr \<and> IsNotFound err then ret zero_secret else fail err))"

text \<open>A secret of another component: missing is no error.\<close>

definition watchOtherSecret :: "'w env \<Rightarrow> string \<Rightarrow> ('w, Secret option) op" where
  "watchOtherSecret c secretName =
     bindM (attempt (watchSecret c secretName)) (\<lambda>r. case r of
        Inr secret \<Rightarrow> ret (Some secret)
      | Inl err \<Rightarrow> (if \<not> IsNotFound err then fail err else ret None))"

definition recordSecretVersion :: "Secret option \<Rightarrow> ('w, unit) op" where
  "recordSecretVersion secret =
     (case secret of
        None \<Rightarrow> ret ()
      | Some sec \<Rightarrow> modify (\<lambda>s. s\<lparr>ResourceVersions :=
          fmupd (om_Name (sec_Meta sec)) (om_ResourceVersion (sec_Meta sec)) (ResourceVersions s)\<rparr>))"

definition recordHash :: "string \<Rightarrow> string \<Rightarrow> ('w, unit) op" where
  "recordHash name hash = modify (\<lambda>s. s\<lparr>ResourceHashes := fmupd name hash (ResourceHashes s)\<rparr>)"

text \<open>The test every reconciler starts with.\<close>

definition configurationChanged :: "string \<Rightarrow> string \<Rightarrow> Secret option list \<Rightarrow> 'w opstate \<Rightarrow> bool" where
  "configurationChanged hashName specHash secrets s \<longleftrightarrow>
     fmget (ResourceHashes s) hashName \<noteq> specHash \<or>
     fmget (ResourceHashes s) globalHashName \<noteq> globalSpecHash s \<or>
     list_ex (secretVersionChanged (ResourceVersions s)) secrets"

text \<open>The body of the \<^verbatim>\<open>Status\<close> methods: an in-progress condition, a poll, and the condition that says
  how it ended.\<close>

definition healthCheck ::
  "'w env \<Rightarrow> string \<Rightarrow> string \<Rightarrow> (ZooKeeperService \<Rightarrow> int outcome) \<Rightarrow> ('w, bool) op \<Rightarrow> string \<Rightarrow> string \<Rightarrow>
   ('w, unit) op" where
  "healthCheck c reason startMessage timeout ready failedMessage readyMessage =
     bindM (updateConditions c (NewCondition statusFalse typeInProgress reason startMessage)) (\<lambda>_.
     bindM (gets op_cr) (\<lambda>cr.
     bindM (lift_outcome (timeout cr)) (\<lambda>seconds.
     bindM (attempt (PollUntilContextTimeout c 10 seconds True ready)) (\<lambda>r. case r of
        Inl _ \<Rightarrow> updateConditions c (NewCondition statusFalse typeFailed reason failedMessage)
      | Inr _ \<Rightarrow> updateConditions c (NewCondition statusTrue typeReady reason readyMessage)))))"

definition podsReadyTimeout :: "ZooKeeperService \<Rightarrow> int outcome" where
  "podsReadyTimeout cr = obind (global cr) (\<lambda>g. Ok (g_PodsReadyTimeout g))"

section \<open>Frames\<close>

text \<open>Everything the controller's decision to run again depends on.\<close>

definition core_frame :: "'w opstate \<Rightarrow> 'w opstate \<Rightarrow> bool" where
  "core_frame s t \<longleftrightarrow>
     ResourceHashes t = ResourceHashes s \<and> globalSpecHash t = globalSpecHash s \<and>
     vaultClient t = vaultClient s"

interpretation cf: world_frame "core_frame :: 'w opstate \<Rightarrow> 'w opstate \<Rightarrow> bool"
  by unfold_locales (auto simp: core_frame_def)

definition conds_frame :: "'w opstate \<Rightarrow> 'w opstate \<Rightarrow> bool" where
  "conds_frame s t \<longleftrightarrow> conditions_of t = conditions_of s"

interpretation qf: world_frame "conds_frame :: 'w opstate \<Rightarrow> 'w opstate \<Rightarrow> bool"
  by unfold_locales (auto simp: conds_frame_def conditions_of_def)

lemma core_of_vault: "stays vault_frame m \<Longrightarrow> stays core_frame m"
  by (auto simp: stays_def vault_frame_def core_frame_def)

lemma conds_of_vault: "stays vault_frame m \<Longrightarrow> stays conds_frame m"
  by (simp add: stays_def conds_frame_def vault_frameD)

lemma stays_core_updateConditions: "stays core_frame (updateConditions c cond)"
  by (rule staysI) (auto simp: core_frame_def elim: updateConditions_run)

lemma stays_core_storeStatus: "stays core_frame (storeStatus c change)"
  unfolding storeStatus_def by (intro cf.world_rules cf.stays_modify) (simp_all add: core_frame_def)

lemma stays_conds_storeStatus:
  assumes doc: "status_documented c"
    and keep: "\<And>cr. status_Conditions (cr_Status (change cr)) = status_Conditions (cr_Status cr)"
  shows "stays conds_frame (storeStatus c change)"
proof (rule staysI)
  fix s r t
  assume run: "storeStatus c change s = (r, t)"
  obtain v w where u: "Update_Status c (change (op_cr s)) (world s) = (v, w)" by fastforce
  show "conds_frame s t"
  proof (cases v)
    case (Inl e)
    with run u keep show ?thesis
      by (auto simp: storeStatus_def bindM_def ext_def conds_frame_def conditions_of_def)
  next
    case (Inr cr')
    with u have "cr_Status cr' = cr_Status (change (op_cr s))" by (auto dest: status_documentedD [OF doc])
    with run u Inr keep show ?thesis
      by (auto simp: storeStatus_def bindM_def ext_def conds_frame_def conditions_of_def)
  qed
qed

lemma stays_ownService: "stays only_world (ownService c cr svc)"
  unfolding ownService_def by (intro ow.world_rules)

lemma stays_ownDeployment: "stays only_world (ownDeployment c cr d)"
  unfolding ownDeployment_def by (intro ow.world_rules)

lemma stays_applyService: "stays only_world (applyService c build)"
  unfolding applyService_def by (intro ow.world_rules stays_ownService service_frames)

lemma stays_applyDeployment: "control_documented c \<Longrightarrow> stays only_world (applyDeployment c build secs)"
  unfolding applyDeployment_def by (intro ow.world_rules stays_ownDeployment service_frames)

lemma stays_applyClaim: "stays only_world (applyClaim c claim)"
  unfolding applyClaim_def by (intro ow.world_rules service_frames)

lemma stays_watchOwnSecret: "stays only_world (watchOwnSecret c n)"
  unfolding watchOwnSecret_def by (intro ow.world_rules service_frames)

lemma stays_watchOtherSecret: "stays only_world (watchOtherSecret c n)"
  unfolding watchOtherSecret_def by (intro ow.world_rules service_frames)

lemma stays_vf_recordSecretVersion: "stays vault_frame (recordSecretVersion sec)"
  unfolding recordSecretVersion_def
  by (intro vf.world_rules vf.stays_modify) (simp add: vault_frame_def)

lemma stays_conds_recordHash: "stays conds_frame (recordHash n h)"
  unfolding recordHash_def by (rule qf.stays_modify) (simp add: conds_frame_def conditions_of_def)

lemmas step_frames = service_frames stays_applyService stays_applyDeployment stays_applyClaim
  stays_watchOwnSecret stays_watchOtherSecret

lemma stays_core_healthCheck:
  assumes doc: "control_documented c" and ready: "stays only_world ready"
  shows "stays core_frame (healthCheck c reason m1 timeout ready m2 m3)"
  unfolding healthCheck_def
  by (intro cf.world_rules cf.stays_poll [OF doc] cf.stays_only_world [OF ready] stays_core_updateConditions)

section \<open>The contract of ReconcileService\<close>

text \<open>
  \<open>key\<close> is the entry of \<^verbatim>\<open>ResourceHashes\<close> the reconciler owns, if it has one, and \<open>spec_hash\<close> the
  hash of its section. A reconciler commits its hash exactly when it succeeds, writes no other entry,
  leaves the conditions to \<^verbatim>\<open>Status\<close>, and \<^verbatim>\<open>Status\<close> writes no hash.
\<close>

locale reconcile_service =
  fixes reconcile :: "'w env \<Rightarrow> ('w, unit) op"
    and status :: "'w env \<Rightarrow> ('w, unit) op"
    and key :: "string option"
    and spec_hash :: "'w env \<Rightarrow> ZooKeeperService \<Rightarrow> string outcome"
  assumes key_own: "key \<noteq> Some ''spec''" "key \<noteq> Some globalHashName"
    and commit: "control_documented c \<Longrightarrow> reconcile c s = (Ok (), t) \<Longrightarrow>
      case key of
        None \<Rightarrow> ResourceHashes t = ResourceHashes s
      | Some k \<Rightarrow> \<exists>h. spec_hash c (op_cr s) = Ok h \<and> ResourceHashes t = fmupd k h (ResourceHashes s)"
    and abort: "control_documented c \<Longrightarrow> reconcile c s = (r, t) \<Longrightarrow> r \<noteq> Ok () \<Longrightarrow>
      ResourceHashes t = ResourceHashes s"
    and kept: "control_documented c \<Longrightarrow> reconcile c s = (r, t) \<Longrightarrow>
      globalSpecHash t = globalSpecHash s \<and> vaultClient t = vaultClient s"
    and reconcile_conditions:
      "control_documented c \<Longrightarrow> status_documented c \<Longrightarrow> stays conds_frame (reconcile c)"
    and status_core: "control_documented c \<Longrightarrow> stays core_frame (status c)"
begin

lemma reconcile_other_keys:
  assumes "control_documented c" and "reconcile c s = (r, t)" and "key \<noteq> Some k"
  shows "fmlookup (ResourceHashes t) k = fmlookup (ResourceHashes s) k"
proof (cases "r = Ok ()")
  case True
  with commit [OF assms(1), of s t] assms(2,3) show ?thesis by (auto split: option.splits)
next
  case False
  with abort [OF assms(1,2)] show ?thesis by simp
qed

lemma reconcile_controller_keys:
  assumes "control_documented c" and "reconcile c s = (r, t)"
  shows "fmlookup (ResourceHashes t) ''spec'' = fmlookup (ResourceHashes s) ''spec''"
    and "fmlookup (ResourceHashes t) globalHashName = fmlookup (ResourceHashes s) globalHashName"
  using reconcile_other_keys [OF assms] key_own by blast+

end

text \<open>Every reconciler is a body that writes no hash, followed by the record of its hash.\<close>

lemma commit_last:
  assumes body: "stays core_frame body"
    and run: "bindM body (\<lambda>h. recordHash k h) s = (r, t)"
  shows "globalSpecHash t = globalSpecHash s \<and> vaultClient t = vaultClient s \<and>
    (if r = Ok () then \<exists>h u. body s = (Ok h, u) \<and> ResourceHashes t = fmupd k h (ResourceHashes s)
     else ResourceHashes t = ResourceHashes s)"
proof -
  obtain r1 u where b: "body s = (r1, u)" by fastforce
  have f: "core_frame s u" using body b by (rule staysD)
  show ?thesis
  proof (cases r1)
    case (Ok h)
    with run b have "r = Ok () \<and> t = u\<lparr>ResourceHashes := fmupd k h (ResourceHashes u)\<rparr>"
      by (simp add: bindM_def recordHash_def)
    with b f Ok show ?thesis by (auto simp: core_frame_def)
  qed (use run b f in \<open>auto simp: bindM_def core_frame_def\<close>)
qed

lemma committing_reconciler:
  assumes keys: "k \<noteq> ''spec''" "k \<noteq> globalHashName"
    and run: "\<And>c. reconcile c = bindM (body c) (recordHash k)"
    and core: "\<And>c. control_documented c \<Longrightarrow> stays core_frame (body c)"
    and hash: "\<And>c s h t. body c s = (Ok h, t) \<Longrightarrow> spec_hash c (op_cr s) = Ok h"
    and conds: "\<And>c. control_documented c \<Longrightarrow> status_documented c \<Longrightarrow> stays conds_frame (reconcile c)"
    and status: "\<And>c. control_documented c \<Longrightarrow> stays core_frame (status c)"
  shows "reconcile_service reconcile status (Some k) spec_hash"
proof unfold_locales
  fix c s t
  assume "control_documented c" and "reconcile c s = (Ok (), t)"
  from commit_last [OF core [OF this(1)] this(2) [unfolded run]] hash
  show "case Some k of None \<Rightarrow> ResourceHashes t = ResourceHashes s
      | Some k \<Rightarrow> \<exists>h. spec_hash c (op_cr s) = Ok h \<and> ResourceHashes t = fmupd k h (ResourceHashes s)"
    by auto
next
  fix c s r t
  assume "control_documented c" and "reconcile c s = (r, t)"
  note last = commit_last [OF core [OF this(1)] this(2) [unfolded run]]
  show "r \<noteq> Ok () \<Longrightarrow> ResourceHashes t = ResourceHashes s" using last by simp
  show "globalSpecHash t = globalSpecHash s \<and> vaultClient t = vaultClient s" using last by simp
qed (use keys conds status in auto)

section \<open>How a health check ends\<close>

lemma updateConditions_view:
  assumes run: "updateConditions c cond s = (Ok (), t)" and doc: "status_documented c"
  shows "(\<exists>d. cond_view (conditions_of t) (cond_Reason cond) = Some d \<and> same_condition cond d) \<and>
    (\<forall>r. r \<noteq> cond_Reason cond \<longrightarrow> cond_view (conditions_of t) r = cond_view (conditions_of s) r) \<and>
    (distinct (map cond_Reason (conditions_of s)) \<longrightarrow> distinct (map cond_Reason (conditions_of t)))"
proof -
  from run doc obtain now where
    t: "conditions_of t = addCondition (conditions_of s) (cond\<lparr>cond_LastTransitionTime := now\<rparr>)"
    by (rule updateConditions_Ok)
  let ?c = "cond\<lparr>cond_LastTransitionTime := now\<rparr>"
  have "\<exists>d. cond_view (conditions_of t) (cond_Reason ?c) = Some d \<and> same_condition ?c d"
    unfolding t by (rule addCondition_entry)
  moreover have "cond_view (conditions_of t) r = cond_view (conditions_of s) r" if "r \<noteq> cond_Reason cond" for r
    using that unfolding t addCondition_view put_condition_def by (simp split: option.split)
  ultimately show ?thesis
    unfolding t by (simp add: addCondition_distinct same_condition_def)
qed

text \<open>
  A health check that returns nil has written its own condition and no other; the condition says
  ready only if the last probe said so.
\<close>

text \<open>The run behind a \<^verbatim>\<open>Ready\<close> condition: the last thing before it was written was a run of the check
  that returned true, on the custom resource the server answered with at the start.\<close>

definition readyRun ::
  "'w env \<Rightarrow> string \<Rightarrow> string \<Rightarrow> ('w, bool) op \<Rightarrow> string \<Rightarrow> 'w opstate \<Rightarrow> 'w opstate \<Rightarrow> bool" where
  "readyRun c reason m1 ready m3 s t \<longleftrightarrow>
     (\<exists>s1 u s2. updateConditions c (NewCondition statusFalse typeInProgress reason m1) s = (Ok (), s1) \<and>
        only_world s1 u \<and> ready u = (Ok True, s2) \<and>
        updateConditions c (NewCondition statusTrue typeReady reason m3) s2 = (Ok (), t))"

lemma healthCheck_Ok:
  assumes run: "healthCheck c reason m1 timeout ready m2 m3 s = (Ok (), t)"
    and ctl: "control_documented c" and doc: "status_documented c" and frame: "stays only_world ready"
  shows "(\<exists>d. cond_view (conditions_of t) reason = Some d \<and>
       (cond_Type d = typeReady \<and> cond_Status d = statusTrue \<and> readyRun c reason m1 ready m3 s t \<or>
        cond_Type d = typeFailed \<and> cond_Status d = statusFalse)) \<and>
     (\<forall>r. r \<noteq> reason \<longrightarrow> cond_view (conditions_of t) r = cond_view (conditions_of s) r)"
proof -
  from run obtain s1 seconds p s2 where
    s1: "updateConditions c (NewCondition statusFalse typeInProgress reason m1) s = (Ok (), s1)" and
    p: "attempt (PollUntilContextTimeout c 10 seconds True ready) s1 = (Ok p, s2)" and
    t: "(case p of
        Inl _ \<Rightarrow> updateConditions c (NewCondition statusFalse typeFailed reason m2)
      | Inr _ \<Rightarrow> updateConditions c (NewCondition statusTrue typeReady reason m3)) s2 = (Ok (), t)"
    by (auto simp: healthCheck_def bindM_eq_Ok)
  have "stays conds_frame (attempt (PollUntilContextTimeout c 10 seconds True ready))"
    by (intro qf.world_rules qf.stays_poll [OF ctl] qf.stays_only_world [OF frame])
  from staysD [OF this p] have s2: "conditions_of s2 = conditions_of s1" by (simp add: conds_frame_def)
  note v1 = updateConditions_view [OF s1 doc]
  show ?thesis
  proof (cases p)
    case (Inl e)
    with t have "updateConditions c (NewCondition statusFalse typeFailed reason m2) s2 = (Ok (), t)" by simp
    from updateConditions_view [OF this doc] v1 s2 show ?thesis
      by (auto simp: NewCondition_def same_condition_def)
  next
    case (Inr x)
    with p have "PollUntilContextTimeout c 10 seconds True ready s1 = (Ok (), s2)"
      by (simp add: attempt_eq_Ok)
    then have "polled ready s1 (Ok ()) s2" using ctl by (auto simp: control_documented_def intro: polledI)
    then have "\<exists>u. ready u = (Ok True, s2) \<and> only_world s1 u" using frame by (rule polled_Ok_run)
    moreover from Inr t
    have last: "updateConditions c (NewCondition statusTrue typeReady reason m3) s2 = (Ok (), t)" by simp
    ultimately have "readyRun c reason m1 ready m3 s t" using s1 unfolding readyRun_def by blast
    with updateConditions_view [OF last doc] v1 s2 show ?thesis
      by (auto simp: NewCondition_def same_condition_def)
  qed
qed

end
