(* ===== verification/ZooKeeperReconciler.thy ===== *)
theory ZooKeeperReconciler
  imports ReconcilerBase
begin

text \<open>
  \<^verbatim>\<open>operator/controllers/zookeeper_reconciler.go\<close>: the reconciler of the ZooKeeper servers. Its
  \<^verbatim>\<open>Reconcile\<close> watches the secret, compares hashes and versions, and when something changed brings
  services, claims, service account, Vault's secrets and the deployments of all servers to their
  desired form, one server after the other.

  \<^verbatim>\<open>zookeeperSpec\<close> and \<^verbatim>\<open>r.cr.Spec.ZooKeeper\<close> are the same pointer; the only field anything assigns
  is \<^verbatim>\<open>RollingUpdate\<close>, which is read through the custom resource.
\<close>

section \<open>Definitions\<close>

definition zooKeeperConditionReason :: string where
  "zooKeeperConditionReason = ''ZooKeeperReadinessStatus''"

definition zooKeeperHashName :: string where
  "zooKeeperHashName = ''spec.zookeeper''"

subsection \<open>Status\<close>

primrec allDeploymentsReady :: "'w env \<Rightarrow> int list \<Rightarrow> ('w, bool) op" where
  "allDeploymentsReady c [] = ret True"
| "allDeploymentsReady c (i # is) =
     bindM (gets op_cr) (\<lambda>cr.
     bindM (isDeploymentReady c (server_name (cr_Name cr) i) (cr_Namespace cr)) (\<lambda>ready.
     if ready then allDeploymentsReady c is else ret False))"

definition zk_podsReady :: "'w env \<Rightarrow> ('w, bool) op" where
  "zk_podsReady c =
     bindM (gets op_cr) (\<lambda>cr. bindM (lift_outcome (zk_section cr)) (\<lambda>spec.
     allDeploymentsReady c [1 .. zk_Replicas spec]))"

definition zk_Status :: "'w env \<Rightarrow> ('w, unit) op" where
  "zk_Status c =
     healthCheck c zooKeeperConditionReason ''ZooKeeper health check'' podsReadyTimeout (zk_podsReady c)
       ''ZooKeeper pods are not ready'' ''ZooKeeper pods are ready''"

subsection \<open>Helpers of Reconcile\<close>

definition findZookeperDeployments :: "'w env \<Rightarrow> ('w, Deployment list) op" where
  "findZookeperDeployments c =
     bindM (gets op_cr) (\<lambda>cr.
     findDeploymentList c (cr_Namespace cr) (GetZooKeeperSelectorLabels (cr_Name cr)))"

primrec countActive :: "Deployment list \<Rightarrow> int outcome" where
  "countActive [] = Ok 0"
| "countActive (d # ds) =
     obind (deref (dp_Replicas d)) (\<lambda>replicas. obind (countActive ds) (\<lambda>n.
       Ok (if 0 <s replicas then n + 1 else n)))"

definition getCurrentDeploymentsCount :: "'w env \<Rightarrow> ('w, int) op" where
  "getCurrentDeploymentsCount c =
     bindM (findZookeperDeployments c) (\<lambda>deployments. lift_outcome (countActive deployments))"

fun allRunning :: "Pod list \<Rightarrow> bool" where
  "allRunning [] = True"
| "allRunning (pod # pods) = (if pod_Phase pod \<noteq> ''Running'' then False else allRunning pods)"

definition isPodRunning :: "'w env \<Rightarrow> string \<Rightarrow> ('w, bool) op" where
  "isPodRunning c deploymentName =
     bindM (getPodsForDeployment c deploymentName) (\<lambda>pods. ret (allRunning pods))"

definition updateZooKeeperStatus :: "'w env \<Rightarrow> ('w, unit) op" where
  "updateZooKeeperStatus c =
     bindM (gets op_cr) (\<lambda>cr.
     bindM (findPodList c (cr_Namespace cr) (GetZooKeeperSelectorLabels (cr_Name cr))) (\<lambda>pods.
     storeStatus c (\<lambda>cr. cr\<lparr>cr_Status := (cr_Status cr)
       \<lparr>status_ZooKeeperStatus := (status_ZooKeeperStatus (cr_Status cr))\<lparr>zs_Servers := getPodNames pods\<rparr>\<rparr>\<rparr>)))"

definition set_RollingUpdate :: "bool \<Rightarrow> ZooKeeperService \<Rightarrow> ZooKeeperService" where
  "set_RollingUpdate b cr =
     cr\<lparr>cr_Spec := (cr_Spec cr)
       \<lparr>spec_ZooKeeper := map_option (\<lambda>z. z\<lparr>zk_RollingUpdate := b\<rparr>) (spec_ZooKeeper (cr_Spec cr))\<rparr>\<rparr>"

subsection \<open>The parts of Reconcile\<close>

definition zk_snapshotClaim :: "'w env \<Rightarrow> ZooKeeper \<Rightarrow> ('w, unit) op" where
  "zk_snapshotClaim c spec =
     (if ss_PersistentVolumeType (zk_SnapshotStorage spec) \<noteq> '''' \<and>
         ss_PersistentVolumeType (zk_SnapshotStorage spec) \<noteq> ''standalone''
      then bindM (processSnapshotsPersistentVolumeClaim c (zk_SnapshotStorage spec)) (applyClaim c)
      else ret ())"

definition zk_downscale :: "'w env \<Rightarrow> int \<Rightarrow> int \<Rightarrow> ('w, unit) op" where
  "zk_downscale c replicas currentReplicas =
     (if currentReplicas > replicas
      then forM (\<lambda>i. bindM (gets op_cr) (\<lambda>cr.
             scaleDeployment c (server_name (cr_Name cr) i) 0 (cr_Namespace cr)))
             [replicas + 1 .. currentReplicas]
      else ret ())"

definition zk_rollingUpdateWait :: "'w env \<Rightarrow> int \<Rightarrow> ('w, unit) op" where
  "zk_rollingUpdateWait c serverId =
     bindM (gets op_cr) (\<lambda>cr.
     bindM (lift_outcome (zk_section cr)) (\<lambda>spec.
     if zk_RollingUpdate spec
     then bindM (sleep c waitingInterval) (\<lambda>_.
          PollUntilContextTimeout c waitingInterval 300 True
            (isDeploymentReady c (server_name (cr_Name cr) serverId) (cr_Namespace cr)))
     else ret ()))"

text \<open>One turn of the loop over the servers; the secret is the one the pointer has after it.\<close>

definition zk_server :: "'w env \<Rightarrow> Secret \<Rightarrow> int \<Rightarrow> ('w, Secret) op" where
  "zk_server c secret serverId =
     bindM (applyService c (\<lambda>cr. NewZooKeeperServerServiceForCR cr serverId)) (\<lambda>_.
     bindM (gets op_cr) (\<lambda>cr.
     bindM (lift_outcome (NewZooKeeperPersistentVolumeClaimForCR (MustParse c) cr serverId)) (\<lambda>claim.
     bindM (applyClaim c claim) (\<lambda>_.
     bindM (createServiceAccount c (NewServiceAccount (zrp_GetServiceAccountName cr) (cr_Namespace cr))) (\<lambda>_.
     bindM (if IsVaultSecretManagementEnabled cr then zk_processVaultSecrets c secret else ret secret) (\<lambda>secret1.
     bindM (applyDeployment c (\<lambda>cr. NewServerDeploymentForCR (MustParse c) cr serverId) [Some secret1]) (\<lambda>_.
     bindM (PollUntilContextTimeout c waitingInterval 300 True
              (isPodRunning c (server_name (cr_Name cr) serverId))) (\<lambda>_.
     bindM (zk_rollingUpdateWait c serverId) (\<lambda>_.
     ret secret1)))))))))"

definition zk_apply :: "'w env \<Rightarrow> ZooKeeper \<Rightarrow> Secret \<Rightarrow> ('w, Secret) op" where
  "zk_apply c spec secret =
     bindM (zk_snapshotClaim c spec) (\<lambda>_.
     bindM (applyService c NewZooKeeperClientServiceForCR) (\<lambda>_.
     bindM (applyService c NewZooKeeperDomainServiceForCR) (\<lambda>_.
     bindM (getCurrentDeploymentsCount c) (\<lambda>currentReplicas.
     bindM (if currentReplicas \<le> 2 \<or> currentReplicas \<noteq> zk_Replicas spec
            then modify (\<lambda>s. s\<lparr>op_cr := set_RollingUpdate False (op_cr s)\<rparr>) else ret ()) (\<lambda>_.
     bindM (zk_downscale c (zk_Replicas spec) currentReplicas) (\<lambda>_.
     foldMc (zk_server c) secret [1 .. zk_Replicas spec]))))))"

definition zk_restartAnnotations :: "'w env \<Rightarrow> ZooKeeper \<Rightarrow> Secret \<Rightarrow> ('w, unit) op" where
  "zk_restartAnnotations c spec secret =
     forM (\<lambda>serverId. bindM (gets op_cr) (\<lambda>cr.
       updateDeploymentSecretRestartAnnotations c (cr_Namespace cr) (server_name (cr_Name cr) serverId)
         [Some secret])) [1 .. zk_Replicas spec]"

text \<open>Everything before the hash of the section is recorded; the result is that hash.\<close>

definition zk_reconcileBody :: "'w env \<Rightarrow> ('w, string) op" where
  "zk_reconcileBody c =
     bindM (gets op_cr) (\<lambda>cr. bindM (lift_outcome (zk_section cr)) (\<lambda>spec.
     bindM (watchOwnSecret c (zk_SecretName spec)) (\<lambda>secret.
     bindM (lift_outcome (Hash (Marshal_ZooKeeper c) (spec_ZooKeeper (cr_Spec cr)))) (\<lambda>zooKeeperSpecHash.
     bindM (gets (configurationChanged zooKeeperHashName zooKeeperSpecHash [Some secret])) (\<lambda>changed.
     bindM (if changed
            then bindM (if zk_Replicas spec > 0 then zk_apply c spec secret else ret secret) (\<lambda>secret1.
                 bindM (updateZooKeeperStatus c) (\<lambda>_. ret secret1))
            else ret secret) (\<lambda>secret1.
     bindM (zk_restartAnnotations c spec secret1) (\<lambda>_.
     bindM (recordSecretVersion (Some secret1)) (\<lambda>_.
     ret zooKeeperSpecHash))))))))"

definition zk_Reconcile :: "'w env \<Rightarrow> ('w, unit) op" where
  "zk_Reconcile c = bindM (zk_reconcileBody c) (recordHash zooKeeperHashName)"

section \<open>Frames\<close>

lemma stays_allDeploymentsReady: "stays only_world (allDeploymentsReady c is)"
  by (induction "is")
     (simp_all only: allDeploymentsReady.simps ow.stays_ret ow.stays_bindM ow.stays_gets
        stays_isDeploymentReady ow.stays_if)

lemma stays_zk_podsReady: "stays only_world (zk_podsReady c)"
  unfolding zk_podsReady_def by (intro ow.world_rules stays_allDeploymentsReady)

lemma stays_isPodRunning: "stays only_world (isPodRunning c n)"
  unfolding isPodRunning_def by (intro ow.world_rules stays_getPodsForDeployment)

lemma stays_zk_snapshotClaim: "stays only_world (zk_snapshotClaim c spec)"
  unfolding zk_snapshotClaim_def by (intro ow.world_rules step_frames)

lemma stays_getCurrentDeploymentsCount: "stays only_world (getCurrentDeploymentsCount c)"
  unfolding getCurrentDeploymentsCount_def findZookeperDeployments_def by (intro ow.world_rules step_frames)

lemma stays_zk_downscale: "control_documented c \<Longrightarrow> stays only_world (zk_downscale c n m)"
  unfolding zk_downscale_def by (intro ow.world_rules step_frames)

lemma stays_zk_rollingUpdateWait: "control_documented c \<Longrightarrow> stays only_world (zk_rollingUpdateWait c i)"
  unfolding zk_rollingUpdateWait_def by (intro ow.world_rules ow.stays_poll step_frames)

lemma stays_zk_restartAnnotations: "control_documented c \<Longrightarrow> stays only_world (zk_restartAnnotations c spec sec)"
  unfolding zk_restartAnnotations_def by (intro ow.world_rules step_frames)

lemma stays_zk_server:
  assumes doc: "control_documented c"
  shows "stays vault_frame (zk_server c sec i)"
  unfolding zk_server_def
  by (intro vf.world_rules vf.stays_poll doc stays_zk_processVaultSecrets
      step_frames [THEN vf.stays_only_world] stays_isPodRunning [THEN vf.stays_only_world]
      stays_zk_rollingUpdateWait [THEN vf.stays_only_world])

lemma stays_core_zk_apply:
  assumes doc: "control_documented c"
  shows "stays core_frame (zk_apply c spec sec)"
  unfolding zk_apply_def
  by (intro cf.world_rules cf.stays_modify doc stays_zk_server [OF doc, THEN core_of_vault]
      stays_zk_snapshotClaim [THEN cf.stays_only_world] stays_applyService [THEN cf.stays_only_world]
      stays_getCurrentDeploymentsCount [THEN cf.stays_only_world]
      stays_zk_downscale [THEN cf.stays_only_world])
     (simp add: core_frame_def)

lemma stays_conds_zk_apply:
  assumes doc: "control_documented c"
  shows "stays conds_frame (zk_apply c spec sec)"
  unfolding zk_apply_def
  by (intro qf.world_rules qf.stays_modify doc stays_zk_server [OF doc, THEN conds_of_vault]
      stays_zk_snapshotClaim [THEN qf.stays_only_world] stays_applyService [THEN qf.stays_only_world]
      stays_getCurrentDeploymentsCount [THEN qf.stays_only_world]
      stays_zk_downscale [THEN qf.stays_only_world])
     (simp add: conds_frame_def conditions_of_def set_RollingUpdate_def)

lemma stays_core_updateZooKeeperStatus: "stays core_frame (updateZooKeeperStatus c)"
  unfolding updateZooKeeperStatus_def
  by (intro cf.world_rules stays_findPodList [THEN cf.stays_only_world] stays_core_storeStatus)

lemma stays_conds_updateZooKeeperStatus:
  "status_documented c \<Longrightarrow> stays conds_frame (updateZooKeeperStatus c)"
  unfolding updateZooKeeperStatus_def
  by (intro qf.world_rules stays_findPodList [THEN qf.stays_only_world] stays_conds_storeStatus) simp_all

lemma stays_core_zk_reconcileBody:
  assumes doc: "control_documented c"
  shows "stays core_frame (zk_reconcileBody c)"
  unfolding zk_reconcileBody_def
  by (intro cf.world_rules doc stays_watchOwnSecret [THEN cf.stays_only_world] stays_core_zk_apply
      stays_core_updateZooKeeperStatus stays_zk_restartAnnotations [THEN cf.stays_only_world]
      stays_vf_recordSecretVersion [THEN core_of_vault])

lemma stays_conds_zk_Reconcile:
  assumes doc: "control_documented c" and st: "status_documented c"
  shows "stays conds_frame (zk_Reconcile c)"
  unfolding zk_Reconcile_def zk_reconcileBody_def
  by (intro qf.world_rules doc stays_watchOwnSecret [THEN qf.stays_only_world] stays_conds_zk_apply
      stays_conds_updateZooKeeperStatus [OF st] stays_zk_restartAnnotations [THEN qf.stays_only_world]
      stays_vf_recordSecretVersion [THEN conds_of_vault] stays_conds_recordHash)

definition zk_specHash :: "'w env \<Rightarrow> ZooKeeperService \<Rightarrow> string outcome" where
  "zk_specHash c cr = Hash (Marshal_ZooKeeper c) (spec_ZooKeeper (cr_Spec cr))"

lemma zk_reconcileBody_hash:
  "zk_reconcileBody c s = (Ok h, t) \<Longrightarrow> zk_specHash c (op_cr s) = Ok h"
  by (auto simp: zk_reconcileBody_def zk_specHash_def bindM_eq_Ok)

interpretation zkr: reconcile_service zk_Reconcile zk_Status "Some zooKeeperHashName" zk_specHash
proof (rule committing_reconciler [OF _ _ zk_Reconcile_def])
  show "zooKeeperHashName \<noteq> ''spec''" "zooKeeperHashName \<noteq> globalHashName"
    by (simp_all add: zooKeeperHashName_def globalHashName_def)
  show "stays core_frame (zk_Status c)" if "control_documented c" for c
    unfolding zk_Status_def by (rule stays_core_healthCheck [OF that stays_zk_podsReady])
qed (fact stays_core_zk_reconcileBody zk_reconcileBody_hash stays_conds_zk_Reconcile)+

end
