(* ===== verification/BackupDaemonProvider.thy ===== *)
theory BackupDaemonProvider
  imports ServiceProvider Samples
begin

text \<open>
  \<^verbatim>\<open>operator/controllers/provider/backupdaemon_provider.go\<close>: the service and the deployment of the
  backup daemon, cut where the source appends, as for the ZooKeeper servers.
\<close>

section \<open>Names and labels\<close>

definition bd_section :: "ZooKeeperService \<Rightarrow> BackupDaemon outcome" where
  "bd_section cr = deref (spec_BackupDaemon (cr_Spec cr))"

definition bdrp_GetServiceName :: "ZooKeeperService \<Rightarrow> string" where
  "bdrp_GetServiceName cr = cr_Name cr @ ''-backup-daemon''"

definition bdrp_GetServiceAccountName :: "ZooKeeperService \<Rightarrow> string" where
  "bdrp_GetServiceAccountName cr = bdrp_GetServiceName cr"

definition getS3AliasesSecretName :: "ZooKeeperService \<Rightarrow> string" where
  "getS3AliasesSecretName cr = cr_Name cr @ ''-backup-daemon-s3-aliases''"

definition GetBackupDaemonSelectorLabels :: "ZooKeeperService \<Rightarrow> (string, string) fmap" where
  "GetBackupDaemonSelectorLabels cr =
     fmupd ''component'' ''zookeeper-backup-daemon'' (fmupd ''name'' (bdrp_GetServiceName cr) fmempty)"

definition GetBackupDaemonLabels :: "ZooKeeperService \<Rightarrow> (string, string) fmap outcome" where
  "GetBackupDaemonLabels cr =
     obind (global cr) (\<lambda>g.
       let labels = fmupd ''app.kubernetes.io/name'' (bdrp_GetServiceName cr) fmempty
       in Ok (JoinMaps (Some (JoinMaps (Some labels) (Some (GetBackupDaemonSelectorLabels cr))))
                (g_DefaultLabels g)))"

definition GetBackupDaemonCustomLabels ::
  "ZooKeeperService \<Rightarrow> (string, string) fmap \<Rightarrow> (string, string) fmap outcome" where
  "GetBackupDaemonCustomLabels cr backupDaemonLabels =
     obind (global cr) (\<lambda>g. obind (bd_section cr) (\<lambda>spec.
       Ok (JoinMaps (Some (JoinMaps (g_CustomLabels g) (bd_CustomLabels spec)))
             (Some backupDaemonLabels))))"

definition getBackupDaemonPort :: "BackupDaemon \<Rightarrow> int32" where
  "getBackupDaemonPort spec = (if bssl_Enabled (bd_BackupDaemonSsl spec) then 8443 else 8080)"

section \<open>The service\<close>

definition NewBackupDaemonClientService :: "ZooKeeperService \<Rightarrow> Service outcome" where
  "NewBackupDaemonClientService cr =
     obind (GetBackupDaemonLabels cr) (\<lambda>labels. obind (bd_section cr) (\<lambda>spec.
       let backupDaemonLabels =
             fmupd ''cloud-backuper.netcracker.com/use-backup-daemon'' ''true'' labels
       in Ok (newServiceForCR (bdrp_GetServiceName cr) (cr_Namespace cr) (Some backupDaemonLabels)
                (Some (GetBackupDaemonSelectorLabels cr))
                [tcp_port ''http'' (getBackupDaemonPort spec)])))"

section \<open>Probes, volumes, affinity\<close>

definition bdrp_getProbe :: Probe where
  "bdrp_getProbe =
     \<lparr>pb_Handler = NoHandler, pb_InitialDelaySeconds = 30, pb_TimeoutSeconds = 5,
      pb_PeriodSeconds = 5, pb_SuccessThreshold = 1, pb_FailureThreshold = 3\<rparr>"

definition getHTTPProbe :: "BackupDaemon \<Rightarrow> string \<Rightarrow> Probe" where
  "getHTTPProbe spec path =
     (let scheme = (if bssl_Enabled (bd_BackupDaemonSsl spec) then ''HTTPS'' else ''HTTP'')
      in bdrp_getProbe\<lparr>pb_Handler := HTTPGetProbe path (getBackupDaemonPort spec) scheme\<rparr>)"

definition bdrp_getLivenessProbe :: "BackupDaemon \<Rightarrow> Probe" where
  "bdrp_getLivenessProbe spec = getHTTPProbe spec ''/health/live''"

definition bdrp_getReadinessProbe :: "BackupDaemon \<Rightarrow> Probe" where
  "bdrp_getReadinessProbe spec = getHTTPProbe spec ''/health/ready''"

definition getBackupDaemonVolumes ::
  "(string \<Rightarrow> quantity option) \<Rightarrow> ZooKeeperService \<Rightarrow> BackupDaemon \<Rightarrow> Volume list outcome" where
  "getBackupDaemonVolumes mp cr spec =
     (let storage = bd_BackupStorage spec;
          volumeSource =
            (if ss_PersistentVolumeType storage = '''' then EmptyDir None
             else ClaimVolume (if ss_PersistentVolumeClaimName storage = ''''
                               then SnapshotsPersistentVolumeClaimPattern (cr_Name cr)
                               else ss_PersistentVolumeClaimName storage))
      in obind (getTmpVolume mp ''50Mi'') (\<lambda>tmp. obind (getVarLogVolume mp) (\<lambda>varLog.
           Ok [volume ''backup-storage'' volumeSource, tmp, varLog])))"

definition getBackupDaemonVolumeMounts :: "VolumeMount list" where
  "getBackupDaemonVolumeMounts =
     [mount ''backup-storage'' ''/opt/zookeeper/backup-storage'', getTmpVolumeMount,
      getVarLogVolumeMount]"

definition getBackupDaemonAffinityRules :: "BackupDaemon \<Rightarrow> Affinity" where
  "getBackupDaemonAffinityRules spec =
     (if ss_NodeName (bd_BackupStorage spec) \<noteq> ''''
      then (bd_Affinity spec)
             \<lparr>af_NodeAffinity := Some (hostname_affinity (ss_NodeName (bd_BackupStorage spec)))\<rparr>
      else bd_Affinity spec)"

definition bdrp_getCommand :: "ZooKeeperService \<Rightarrow> string list" where
  "bdrp_getCommand cr = (if IsVaultSecretManagementEnabled cr then [''/vault/vault-env''] else [])"

definition bdrp_getArgs :: "ZooKeeperService \<Rightarrow> string list" where
  "bdrp_getArgs cr =
     (if IsVaultSecretManagementEnabled cr then [''python3'', ''/opt/backup/backup-daemon.py'']
      else [])"

definition bdrp_getInitContainers :: "ZooKeeperService \<Rightarrow> Container list outcome" where
  "bdrp_getInitContainers cr = vaultInitContainers cr"

definition bdrp_getZooKeeperCredentialsEnvs :: "ZooKeeperService \<Rightarrow> EnvVar list outcome" where
  "bdrp_getZooKeeperCredentialsEnvs cr =
     (if IsVaultSecretManagementEnabled cr
      then omap (\<lambda>(name, service, secret, key).
             obind (getVaultSecretEnvVarSource service cr secret key)
               (\<lambda>ref. Ok (env_value name ref)))
             [(''BACKUP_DAEMON_API_CREDENTIALS_USERNAME'', bdrp_GetServiceName cr, ''credentials'',
               ''username''),
              (''BACKUP_DAEMON_API_CREDENTIALS_PASSWORD'', bdrp_GetServiceName cr, ''credentials'',
               ''password''),
              (''ZOOKEEPER_ADMIN_USERNAME'', cr_Name cr, ''admin-credentials'', ''username''),
              (''ZOOKEEPER_ADMIN_PASSWORD'', cr_Name cr, ''admin-credentials'', ''password'')]
      else Ok [])"

section \<open>The deployment\<close>

definition s3_enabled :: "BackupDaemon \<Rightarrow> bool" where
  "s3_enabled spec = (case bd_S3 spec of None \<Rightarrow> False | Some s \<Rightarrow> s3_Enabled s)"

definition bd_envVars :: "ZooKeeperService \<Rightarrow> Global \<Rightarrow> BackupDaemon \<Rightarrow> EnvVar list" where
  "bd_envVars cr g spec =
     [env_value ''SERVICE_NAME'' (bdrp_GetServiceName cr),
      env_value ''ZOOKEEPER_HOST'' (bd_ZooKeeperHost spec),
      env_value ''ZOOKEEPER_PORT'' (Itoa (bd_ZooKeeperPort spec)),
      env_value ''PV_TYPE'' (ss_PersistentVolumeType (bd_BackupStorage spec)),
      env_field ''NAMESPACE'' ''metadata.namespace'',
      env_value ''ZOOKEEPER_ENABLE_SSL'' (FormatBool (zssl_Enabled (g_ZooKeeperSsl g))),
      env_value ''PYTHONDONTWRITEBYTECODE'' ''1''] @
     (if bd_BackupSchedule spec \<noteq> '''' then [env_value ''BACKUP_SCHEDULE'' (bd_BackupSchedule spec)]
      else []) @
     (if bd_EvictionPolicy spec \<noteq> '''' then [env_value ''EVICTION_POLICY'' (bd_EvictionPolicy spec)]
      else []) @
     (if bd_IPv6 spec then [env_value ''BROADCAST_ADDRESS'' ''::''] else []) @
     (case bd_S3 spec of
        None \<Rightarrow> []
      | Some s3 \<Rightarrow>
          (if s3_Enabled s3
           then [env_value ''S3_ENABLED'' (FormatBool (s3_Enabled s3)),
                 env_value ''S3_URL'' (s3_Url s3),
                 env_value ''S3_BUCKET'' (s3_Bucket s3),
                 env_value ''S3_SSL_VERIFY'' (FormatBool (s3_SslVerify s3))]
           else []))"

definition bd_projectedSources :: "BackupDaemon \<Rightarrow> ProjectedSecretSource list" where
  "bd_projectedSources spec =
     (if bd_SecretName spec \<noteq> ''''
      then [\<lparr>pss_SecretName = bd_SecretName spec,
             pss_Items =
               [SecretKeyToPath ''username'' ''BACKUP_DAEMON_API_CREDENTIALS_USERNAME'',
                SecretKeyToPath ''password'' ''BACKUP_DAEMON_API_CREDENTIALS_PASSWORD'',
                SecretKeyToPath ''zookeeper-admin-username'' ''ZOOKEEPER_ADMIN_USERNAME'',
                SecretKeyToPath ''zookeeper-admin-password'' ''ZOOKEEPER_ADMIN_PASSWORD'']\<rparr>]
      else []) @
     (case bd_S3 spec of
        None \<Rightarrow> []
      | Some s3 \<Rightarrow>
          (if s3_Enabled s3 \<and> s3_SecretName s3 \<noteq> ''''
           then [\<lparr>pss_SecretName = s3_SecretName s3,
                  pss_Items = [SecretKeyToPath ''s3-key-id'' ''S3_KEY_ID'',
                               SecretKeyToPath ''s3-key-secret'' ''S3_KEY_SECRET'']\<rparr>]
           else []))"

definition bd_secretParts :: "ZooKeeperService \<Rightarrow> BackupDaemon \<Rightarrow> pod_parts \<Rightarrow> pod_parts" where
  "bd_secretParts cr spec p =
     (if \<not> IsVaultSecretManagementEnabled cr
      then (let podSecretsMount = GetPodSecretsMountPath ''backup-daemon'';
                p1 = add_parts [env_value ''BACKUP_DAEMON_SECRETS_DIR'' podSecretsMount] [] [] p
            in if length (bd_projectedSources spec) > 0
               then add_parts []
                      [NewPodSecretsProjectedVolume ''backup-daemon-pod-secrets''
                         (bd_projectedSources spec)]
                      [NewPodSecretsVolumeMount ''backup-daemon-pod-secrets'' podSecretsMount] p1
               else p1)
      else p)"

definition bd_zkSslParts :: "Global \<Rightarrow> pod_parts \<Rightarrow> pod_parts" where
  "bd_zkSslParts g p =
     (if zssl_Enabled (g_ZooKeeperSsl g) \<and> zssl_SecretName (g_ZooKeeperSsl g) \<noteq> ''''
      then add_parts [] [volume ''ssl-certs'' (SecretVolume (zssl_SecretName (g_ZooKeeperSsl g)))]
             [mount ''ssl-certs'' ''/tls''] p
      else p)"

definition bd_sslParts :: "BackupDaemon \<Rightarrow> pod_parts \<Rightarrow> pod_parts" where
  "bd_sslParts spec p =
     (if bssl_Enabled (bd_BackupDaemonSsl spec) \<and> bssl_SecretName (bd_BackupDaemonSsl spec) \<noteq> ''''
      then add_parts [env_value ''TLS_ENABLED'' ''true'', env_value ''CERTS_PATH'' ''/backupTLS'']
             [volume ''backup-ssl-certs'' (SecretVolume (bssl_SecretName (bd_BackupDaemonSsl spec)))]
             [mount ''backup-ssl-certs'' ''/backupTLS''] p
      else p)"

definition bd_s3CertParts :: "BackupDaemon \<Rightarrow> pod_parts \<Rightarrow> pod_parts" where
  "bd_s3CertParts spec p =
     (case bd_S3 spec of
        None \<Rightarrow> p
      | Some s3 \<Rightarrow>
          (if s3_Enabled s3 \<and> s3_SslVerify s3 \<and> s3_SslCert s3 \<noteq> ''''
           then add_parts [env_value ''S3_CERTS_PATH'' ''/s3Certs'']
                  [volume ''s3-ssl-certs'' (SecretVolume (s3_SslSecretName s3))]
                  [mount ''s3-ssl-certs'' ''/s3Certs''] p
           else p))"

definition bd_aliasParts :: "ZooKeeperService \<Rightarrow> bool \<Rightarrow> pod_parts \<Rightarrow> pod_parts" where
  "bd_aliasParts cr s3AliasesEnabled p =
     (if s3AliasesEnabled
      then add_parts [env_value ''S3_ALIASES_USED'' ''true'']
             [volume (getS3AliasesSecretName cr) (SecretVolume (getS3AliasesSecretName cr))]
             [\<lparr>vm_Name = getS3AliasesSecretName cr, vm_MountPath = ''/aliases/'', vm_ReadOnly = True\<rparr>] p
      else add_parts [env_value ''S3_ALIASES_USED'' ''false''] [] [] p)"

definition bd_parts ::
  "(string \<Rightarrow> quantity option) \<Rightarrow> ZooKeeperService \<Rightarrow> Global \<Rightarrow> BackupDaemon \<Rightarrow> bool \<Rightarrow> pod_parts outcome" where
  "bd_parts mp cr g spec s3AliasesEnabled =
     obind (getBackupDaemonVolumes mp cr spec) (\<lambda>vols.
     obind (bdrp_getZooKeeperCredentialsEnvs cr) (\<lambda>credentials.
     let p0 = \<lparr>pp_Env = bd_envVars cr g spec @ credentials, pp_Volumes = vols,
               pp_Mounts = getBackupDaemonVolumeMounts\<rparr>
     in obind (addVaultParts (bdrp_GetServiceName cr) cr (bd_secretParts cr spec p0)) (\<lambda>p1.
        Ok (bd_aliasParts cr s3AliasesEnabled
             (bd_s3CertParts spec (bd_sslParts spec (bd_zkSslParts g p1)))))))"

definition bd_deploymentLabels :: "ZooKeeperService \<Rightarrow> (string, string) fmap outcome" where
  "bd_deploymentLabels cr =
     obind (GetBackupDaemonLabels cr) (\<lambda>labels.
       Ok (fmupd ''app.kubernetes.io/technology'' ''python''
            (fmupd ''app.kubernetes.io/instance'' (bdrp_GetServiceName cr @ ''-'' @ cr_Namespace cr)
              labels)))"

definition NewBackupDaemonDeployment ::
  "(string \<Rightarrow> quantity option) \<Rightarrow> ZooKeeperService \<Rightarrow> bool \<Rightarrow> Deployment outcome" where
  "NewBackupDaemonDeployment mp cr s3AliasesEnabled =
     obind (global cr) (\<lambda>g. obind (bd_section cr) (\<lambda>spec.
     obind (bd_deploymentLabels cr) (\<lambda>backupDaemonLabels.
     obind (GetBackupDaemonCustomLabels cr backupDaemonLabels) (\<lambda>backupDaemonCustomLabels.
     obind (bd_parts mp cr g spec s3AliasesEnabled) (\<lambda>p.
     obind (bdrp_getInitContainers cr) (\<lambda>initContainers.
     Ok \<lparr>dp_Meta = new_meta (bdrp_GetServiceName cr) (cr_Namespace cr) (Some backupDaemonLabels) None,
         dp_Strategy = ''Recreate'', dp_Replicas = Some 1,
         dp_Selector = Some (GetBackupDaemonSelectorLabels cr),
         dp_Template =
           \<lparr>pt_Labels = Some backupDaemonCustomLabels, pt_Annotations = None,
            pt_Spec =
              \<lparr>ps_Volumes = pp_Volumes p, ps_InitContainers = initContainers,
               ps_Containers =
                 [\<lparr>ct_Name = bdrp_GetServiceName cr, ct_Image = bd_DockerImage spec,
                   ct_Command = bdrp_getCommand cr, ct_Args = bdrp_getArgs cr,
                   ct_Ports = [container_tcp (getBackupDaemonPort spec)], ct_Env = pp_Env p,
                   ct_Resources = Some (bd_Resources spec), ct_VolumeMounts = pp_Mounts p,
                   ct_LivenessProbe = Some (bdrp_getLivenessProbe spec),
                   ct_ReadinessProbe = Some (bdrp_getReadinessProbe spec),
                   ct_ImagePullPolicy = ''Always'',
                   ct_SecurityContext = Some getDefaultContainerSecurityContext\<rparr>],
               ps_SecurityContext = bd_SecurityContext spec,
               ps_Hostname = bdrp_GetServiceName cr, ps_Subdomain = '''',
               ps_ServiceAccountName = bdrp_GetServiceAccountName cr,
               ps_Affinity = getBackupDaemonAffinityRules spec,
               ps_Tolerations = bd_Tolerations spec,
               ps_PriorityClassName = bd_PriorityClassName spec\<rparr>\<rparr>,
         dp_ReadyReplicas = 0, dp_UpdatedReplicas = 0\<rparr>))))))"

section \<open>Properties\<close>

definition bd_custom :: "ZooKeeperService \<Rightarrow> string gomap" where
  "bd_custom cr = (case spec_BackupDaemon (cr_Spec cr) of None \<Rightarrow> None | Some spec \<Rightarrow> bd_CustomLabels spec)"

definition bd_labelsOf :: "ZooKeeperService \<Rightarrow> Global \<Rightarrow> (string, string) fmap" where
  "bd_labelsOf cr g =
     fmupd ''app.kubernetes.io/technology'' ''python''
       (fmupd ''app.kubernetes.io/instance'' (bdrp_GetServiceName cr @ ''-'' @ cr_Namespace cr)
         (JoinMaps (Some (JoinMaps (Some (fmupd ''app.kubernetes.io/name'' (bdrp_GetServiceName cr) fmempty))
                           (Some (GetBackupDaemonSelectorLabels cr))))
            (g_DefaultLabels g)))"

lemma bd_deploymentLabels_Ok:
  "spec_Global (cr_Spec cr) = Some g \<Longrightarrow> bd_deploymentLabels cr = Ok (bd_labelsOf cr g)"
  by (simp add: bd_deploymentLabels_def GetBackupDaemonLabels_def bd_labelsOf_def global_def Let_def)

definition bd_container :: "ZooKeeperService \<Rightarrow> BackupDaemon \<Rightarrow> pod_parts \<Rightarrow> Container" where
  "bd_container cr spec p =
     \<lparr>ct_Name = bdrp_GetServiceName cr, ct_Image = bd_DockerImage spec,
      ct_Command = bdrp_getCommand cr, ct_Args = bdrp_getArgs cr,
      ct_Ports = [container_tcp (getBackupDaemonPort spec)], ct_Env = pp_Env p,
      ct_Resources = Some (bd_Resources spec), ct_VolumeMounts = pp_Mounts p,
      ct_LivenessProbe = Some (bdrp_getLivenessProbe spec),
      ct_ReadinessProbe = Some (bdrp_getReadinessProbe spec),
      ct_ImagePullPolicy = ''Always'',
      ct_SecurityContext = Some getDefaultContainerSecurityContext\<rparr>"

lemma NewBackupDaemonDeployment_fields:
  assumes "NewBackupDaemonDeployment mp cr al = Ok d"
  obtains g spec p ics where
    "spec_Global (cr_Spec cr) = Some g" "spec_BackupDaemon (cr_Spec cr) = Some spec"
    "bd_parts mp cr g spec al = Ok p" "vaultInitContainers cr = Ok ics"
    "om_Name (dp_Meta d) = bdrp_GetServiceName cr" "om_Namespace (dp_Meta d) = cr_Namespace cr"
    "dp_Strategy d = ''Recreate''" "dp_Replicas d = Some 1"
    "dp_Selector d = Some (GetBackupDaemonSelectorLabels cr)"
    "pt_Labels (dp_Template d) =
       Some (JoinMaps (Some (JoinMaps (g_CustomLabels g) (bd_CustomLabels spec)))
               (Some (bd_labelsOf cr g)))"
    "ps_Volumes (pt_Spec (dp_Template d)) = pp_Volumes p"
    "ps_InitContainers (pt_Spec (dp_Template d)) = ics"
    "ps_Containers (pt_Spec (dp_Template d)) = [bd_container cr spec p]"
    "ps_ServiceAccountName (pt_Spec (dp_Template d)) = bdrp_GetServiceAccountName cr"
proof -
  from assms obtain g where g: "spec_Global (cr_Spec cr) = Some g"
    by (auto simp: NewBackupDaemonDeployment_def global_def obind_eq_Ok)
  from assms show thesis
    by (clarsimp simp: NewBackupDaemonDeployment_def global_def bd_section_def g
          bd_deploymentLabels_Ok GetBackupDaemonCustomLabels_def bdrp_getInitContainers_def obind_eq_Ok)
       (rule that [OF g]; simp add: bd_container_def)
qed

interpretation bdw: workload
  bdrp_GetServiceName bdrp_GetServiceAccountName GetBackupDaemonSelectorLabels "{}" bd_labelsOf
  bd_custom NewBackupDaemonClientService "\<lambda>mp cr. NewBackupDaemonDeployment mp cr al"
  for al :: bool
proof unfold_locales
  fix mp cr d
  assume "NewBackupDaemonDeployment mp cr al = Ok d"
  then show "om_Name (dp_Meta d) = bdrp_GetServiceName cr \<and> om_Namespace (dp_Meta d) = cr_Namespace cr \<and>
     dp_Replicas d = Some 1 \<and> dp_Strategy d = ''Recreate'' \<and>
     dp_Selector d = Some (GetBackupDaemonSelectorLabels cr) \<and>
     ps_ServiceAccountName (pt_Spec (dp_Template d)) = bdrp_GetServiceAccountName cr"
    by (rule NewBackupDaemonDeployment_fields) simp
next
  fix mp cr d g
  assume d: "NewBackupDaemonDeployment mp cr al = Ok d" and "spec_Global (cr_Spec cr) = Some g"
  then show "pt_Labels (dp_Template d) =
       Some (JoinMaps (Some (JoinMaps (g_CustomLabels g) (bd_custom cr))) (Some (bd_labelsOf cr g)))"
    by (elim NewBackupDaemonDeployment_fields) (simp add: bd_custom_def)
next
  fix mp cr d
  assume "NewBackupDaemonDeployment mp cr al = Ok d"
  then show "spec_Global (cr_Spec cr) \<noteq> None" by (rule NewBackupDaemonDeployment_fields) simp
next
  fix cr s
  assume "NewBackupDaemonClientService cr = Ok s"
  then show "om_Name (svc_Meta s) = bdrp_GetServiceName cr \<and>
      om_Namespace (svc_Meta s) = cr_Namespace cr \<and>
      svc_Selector s = Some (GetBackupDaemonSelectorLabels cr)"
    by (auto simp: NewBackupDaemonClientService_def newServiceForCR_def obind_eq_Ok Let_def)
next
  fix cr k v g
  assume "fmlookup (GetBackupDaemonSelectorLabels cr) k = Some v"
  then show "fmlookup (bd_labelsOf cr g) k =
      (if k \<in> {} then Some v
       else case mlookup (g_DefaultLabels g) k of None \<Rightarrow> Some v | Some v' \<Rightarrow> Some v')"
    by (auto simp: GetBackupDaemonSelectorLabels_def bd_labelsOf_def label_simps
        split: if_splits option.splits)
qed

subsection \<open>The volumes of the daemon's pod\<close>

definition bd_s3Certs :: "BackupDaemon \<Rightarrow> bool" where
  "bd_s3Certs spec =
     (case bd_S3 spec of None \<Rightarrow> False
      | Some s3 \<Rightarrow> s3_Enabled s3 \<and> s3_SslVerify s3 \<and> s3_SslCert s3 \<noteq> '''')"

definition bd_table :: "ZooKeeperService \<Rightarrow> Global \<Rightarrow> BackupDaemon \<Rightarrow> bool \<Rightarrow> (string \<times> string) list" where
  "bd_table cr g spec al =
     (((((([(''backup-storage'', ''/opt/zookeeper/backup-storage''), (''tmp'', ''/tmp''),
            (''var-log'', ''/var/log'')]
      @ (if \<not> IsVaultSecretManagementEnabled cr \<and> bd_projectedSources spec \<noteq> []
         then [(''backup-daemon-pod-secrets'', ''/etc/secrets/backup-daemon-pod-secrets'')] else []))
      @ (if IsVaultSecretManagementEnabled cr then [(''vault-env'', ''/vault'')] else []))
      @ (if zssl_Enabled (g_ZooKeeperSsl g) \<and> zssl_SecretName (g_ZooKeeperSsl g) \<noteq> ''''
         then [(''ssl-certs'', ''/tls'')] else []))
      @ (if bssl_Enabled (bd_BackupDaemonSsl spec) \<and> bssl_SecretName (bd_BackupDaemonSsl spec) \<noteq> ''''
         then [(''backup-ssl-certs'', ''/backupTLS'')] else []))
      @ (if bd_s3Certs spec then [(''s3-ssl-certs'', ''/s3Certs'')] else []))
      @ (if al then [(getS3AliasesSecretName cr, ''/aliases/'')] else []))"

lemma bd_s3CertParts_if:
  "bd_s3CertParts spec p =
     (if bd_s3Certs spec
      then add_parts [env_value ''S3_CERTS_PATH'' ''/s3Certs'']
             [volume ''s3-ssl-certs'' (SecretVolume (s3_SslSecretName (the (bd_S3 spec))))]
             [mount ''s3-ssl-certs'' ''/s3Certs''] p
      else p)"
  by (simp add: bd_s3CertParts_def bd_s3Certs_def split: option.split)

lemma bd_secretParts_table:
  "parts_table T p \<Longrightarrow>
   parts_table (T @ (if \<not> IsVaultSecretManagementEnabled cr \<and> bd_projectedSources spec \<noteq> []
         then [(''backup-daemon-pod-secrets'', ''/etc/secrets/backup-daemon-pod-secrets'')] else []))
     (bd_secretParts cr spec p)"
  by (auto simp: bd_secretParts_def GetPodSecretsMountPath_def NewPodSecretsProjectedVolume_def
        NewPodSecretsVolumeMount_def Let_def
      intro!: parts_table_add_env parts_table_add)

lemma bd_aliasParts_table:
  "parts_table T p \<Longrightarrow>
   parts_table (T @ (if al then [(getS3AliasesSecretName cr, ''/aliases/'')] else [])) (bd_aliasParts cr al p)"
  by (auto simp: bd_aliasParts_def intro!: parts_table_add_env parts_table_add)

lemma bd_parts_table:
  assumes "bd_parts mp cr g spec al = Ok p"
  shows "parts_table (bd_table cr g spec al) p"
proof -
  from assms obtain vols credentials p1 where v: "getBackupDaemonVolumes mp cr spec = Ok vols" and
    p1: "addVaultParts (bdrp_GetServiceName cr) cr (bd_secretParts cr spec
           \<lparr>pp_Env = bd_envVars cr g spec @ credentials, pp_Volumes = vols,
            pp_Mounts = getBackupDaemonVolumeMounts\<rparr>) = Ok p1" and
    p: "p = bd_aliasParts cr al (bd_s3CertParts spec (bd_sslParts spec (bd_zkSslParts g p1)))"
    by (auto simp: bd_parts_def obind_eq_Ok Let_def)
  have base: "parts_table [(''backup-storage'', ''/opt/zookeeper/backup-storage''), (''tmp'', ''/tmp''),
      (''var-log'', ''/var/log'')] \<lparr>pp_Env = es, pp_Volumes = vols, pp_Mounts = getBackupDaemonVolumeMounts\<rparr>"
    for es
    using v
    by (auto simp: parts_table_def getBackupDaemonVolumes_def getBackupDaemonVolumeMounts_def
        getTmpVolume_def getTmpVolumeMount_def getVarLogVolume_def getVarLogVolumeMount_def obind_eq_Ok Let_def
        split: option.splits)
  note vault = parts_table_vault [OF p1 bd_secretParts_table [OF base]]
  show ?thesis
    unfolding bd_table_def p bd_s3CertParts_if bd_sslParts_def bd_zkSslParts_def
    by (intro bd_aliasParts_table parts_table_if parts_table_add vault) simp_all
qed

text \<open>The only computed volume name cannot be one of the fixed names: it ends differently.\<close>

lemma getS3AliasesSecretName_fresh:
  "getS3AliasesSecretName cr \<notin> set [''backup-storage'', ''tmp'', ''var-log'',
     ''backup-daemon-pod-secrets'', ''vault-env'', ''ssl-certs'', ''backup-ssl-certs'', ''s3-ssl-certs'']"
proof
  assume "getS3AliasesSecretName cr \<in> set [''backup-storage'', ''tmp'', ''var-log'',
     ''backup-daemon-pod-secrets'', ''vault-env'', ''ssl-certs'', ''backup-ssl-certs'', ''s3-ssl-certs'']"
  moreover have "suffix ''aliases'' (getS3AliasesSecretName cr)"
    unfolding getS3AliasesSecretName_def by (rule suffixI [of _ "cr_Name cr @ ''-backup-daemon-s3-''"]) simp
  ultimately show False by (auto simp: suffix_to_prefix)
qed

lemma bd_table_subseq:
  "subseq (bd_table cr g spec al)
     [(''backup-storage'', ''/opt/zookeeper/backup-storage''), (''tmp'', ''/tmp''),
      (''var-log'', ''/var/log''),
      (''backup-daemon-pod-secrets'', ''/etc/secrets/backup-daemon-pod-secrets''),
      (''vault-env'', ''/vault''), (''ssl-certs'', ''/tls''), (''backup-ssl-certs'', ''/backupTLS''),
      (''s3-ssl-certs'', ''/s3Certs''), (getS3AliasesSecretName cr, ''/aliases/'')]"
  (is "subseq _ ?U")
proof -
  have "?U = (((((([(''backup-storage'', ''/opt/zookeeper/backup-storage''), (''tmp'', ''/tmp''),
            (''var-log'', ''/var/log'')]
      @ [(''backup-daemon-pod-secrets'', ''/etc/secrets/backup-daemon-pod-secrets'')])
      @ [(''vault-env'', ''/vault'')]) @ [(''ssl-certs'', ''/tls'')])
      @ [(''backup-ssl-certs'', ''/backupTLS'')]) @ [(''s3-ssl-certs'', ''/s3Certs'')])
      @ [(getS3AliasesSecretName cr, ''/aliases/'')])"
    by simp
  then show ?thesis unfolding bd_table_def by (simp only:) (intro table_subseq)
qed

text \<open>
  The pod of the backup daemon is one Kubernetes accepts in its volumes, whatever the combination
  of secrets, Vault, TLS, S3 certificates and S3 aliases: distinct volume names (the name of the
  aliases' volume is derived from the custom resource and cannot meet another one), every mount on a
  declared volume, no path mounted twice.
\<close>

theorem bd_pod_volumes_ok:
  assumes "NewBackupDaemonDeployment mp cr al = Ok d"
  shows "pod_volumes_ok (pt_Spec (dp_Template d))"
  using assms
proof (rule NewBackupDaemonDeployment_fields)
  fix g spec p ics
  assume p: "bd_parts mp cr g spec al = Ok p" and ics: "vaultInitContainers cr = Ok ics" and
    d: "ps_Volumes (pt_Spec (dp_Template d)) = pp_Volumes p"
       "ps_InitContainers (pt_Spec (dp_Template d)) = ics"
       "ps_Containers (pt_Spec (dp_Template d)) = [bd_container cr spec p]"
  note tab = table_distinct [OF bd_table_subseq [of cr g spec al]]
  show ?thesis
  proof (rule parts_table_pod [OF bd_parts_table [OF p] _ _ ics _ d])
    show "distinct (map fst (bd_table cr g spec al))"
      by (rule tab) (use getS3AliasesSecretName_fresh [of cr] in auto)
    show "distinct (map snd (bd_table cr g spec al))" by (rule tab) simp
    show "''vault-env'' \<in> fst ` set (bd_table cr g spec al)" if "IsVaultSecretManagementEnabled cr"
      using that by (simp add: bd_table_def image_Un)
  qed (simp add: bd_container_def)
qed

text \<open>The port the service exposes is the port the container listens on and the probes ask.\<close>

text \<open>
  One port for the backup daemon: the service, the container and both probes use the same port,
  and the probes speak HTTPS exactly when it is the TLS port 8443.
\<close>

theorem bd_port_agreement:
  assumes "NewBackupDaemonDeployment mp cr al = Ok d" and "NewBackupDaemonClientService cr = Ok s"
  shows "\<exists>port c. map sp_Port (svc_Ports s) = [port] \<and> ps_Containers (pt_Spec (dp_Template d)) = [c] \<and>
     map cp_ContainerPort (ct_Ports c) = [port] \<and>
     (\<forall>pb \<in> {ct_LivenessProbe c, ct_ReadinessProbe c}.
        \<exists>b path scheme. pb = Some b \<and> pb_Handler b = HTTPGetProbe path port scheme \<and>
          (scheme = ''HTTPS'' \<longleftrightarrow> port = 8443))"
  using assms(1)
proof (rule NewBackupDaemonDeployment_fields)
  fix spec p
  assume spec: "spec_BackupDaemon (cr_Spec cr) = Some spec" and
    d: "ps_Containers (pt_Spec (dp_Template d)) = [bd_container cr spec p]"
  from assms(2) spec have "map sp_Port (svc_Ports s) = [getBackupDaemonPort spec]"
    by (auto simp: NewBackupDaemonClientService_def newServiceForCR_def bd_section_def obind_eq_Ok Let_def)
  with d show ?thesis
    by (auto simp: bd_container_def bdrp_getLivenessProbe_def bdrp_getReadinessProbe_def
        getHTTPProbe_def getBackupDaemonPort_def Let_def)
qed

text \<open>
  The deployment and the service of the backup daemon have the same name and selector, and they
  select the daemon's pods exactly when the default labels do not redefine a label of the selector.
\<close>

theorem bd_service_selects:
  assumes "NewBackupDaemonClientService cr = Ok s" and "NewBackupDaemonDeployment mp cr al = Ok d"
    and "spec_Global (cr_Spec cr) = Some g"
  shows "om_Name (svc_Meta s) = om_Name (dp_Meta d) \<and> svc_Selector s = dp_Selector d \<and>
    (selects (contents (svc_Selector s)) (contents (pt_Labels (dp_Template d))) \<longleftrightarrow>
      (\<forall>k v. fmlookup (GetBackupDaemonSelectorLabels cr) k = Some v \<longrightarrow>
         mlookup (g_DefaultLabels g) k \<in> {None, Some v}))"
  using bdw.selects_own_pods_iff [OF assms(2,3)] bdw.deployment_shape [OF assms(2)]
    bdw.service_shape [OF assms(1)]
  by (simp add: bdw.no_override_def)

lemma demo_backup: "\<exists>d. NewBackupDaemonDeployment (\<lambda>q. Some (Quantity q)) demo_full_cr True = Ok d"
  by (simp add: NewBackupDaemonDeployment_def global_def bd_section_def bd_deploymentLabels_def
      GetBackupDaemonLabels_def GetBackupDaemonCustomLabels_def bd_parts_def getBackupDaemonVolumes_def
      getTmpVolume_def getVarLogVolume_def bdrp_getZooKeeperCredentialsEnvs_def addVaultParts_def
      bdrp_getInitContainers_def vaultInitContainers_def bd_container_def bdrp_getLivenessProbe_def
      IsVaultSecretManagementEnabled_def getBackupDaemonAffinityRules_def Let_def demo_defs)

lemma demo_backup_service: "\<exists>s. NewBackupDaemonClientService demo_full_cr = Ok s"
  by (simp add: NewBackupDaemonClientService_def global_def bd_section_def GetBackupDaemonLabels_def
      getBackupDaemonPort_def Let_def demo_defs)

theorem bd_service_selects_witness:
  "\<exists>s d. NewBackupDaemonClientService demo_full_cr = Ok s \<and>
     NewBackupDaemonDeployment (\<lambda>q. Some (Quantity q)) demo_full_cr True = Ok d \<and>
     selects (contents (svc_Selector s)) (contents (pt_Labels (dp_Template d)))"
proof -
  obtain s d where s: "NewBackupDaemonClientService demo_full_cr = Ok s"
    and d: "NewBackupDaemonDeployment (\<lambda>q. Some (Quantity q)) demo_full_cr True = Ok d"
    using demo_backup demo_backup_service by blast
  have g: "spec_Global (cr_Spec demo_full_cr) = Some demo_global" by (simp add: demo_defs)
  have "mlookup (g_DefaultLabels demo_global) k = None" for k by (simp add: demo_global_def mlookup_def)
  with bd_service_selects [OF s d g, THEN conjunct2, THEN conjunct2]
  have "selects (contents (svc_Selector s)) (contents (pt_Labels (dp_Template d)))" by simp
  with s d show ?thesis by blast
qed

theorem bd_pod_volumes_ok_witness:
  "\<exists>d. NewBackupDaemonDeployment (\<lambda>q. Some (Quantity q)) demo_full_cr True = Ok d \<and>
     pod_volumes_ok (pt_Spec (dp_Template d))"
  using demo_backup bd_pod_volumes_ok by blast

theorem bd_port_agreement_witness:
  "\<exists>s d port c. NewBackupDaemonClientService demo_full_cr = Ok s \<and>
     NewBackupDaemonDeployment (\<lambda>q. Some (Quantity q)) demo_full_cr True = Ok d \<and>
     map sp_Port (svc_Ports s) = [port] \<and> ps_Containers (pt_Spec (dp_Template d)) = [c] \<and>
     map cp_ContainerPort (ct_Ports c) = [port]"
proof -
  obtain s d where s: "NewBackupDaemonClientService demo_full_cr = Ok s"
    and d: "NewBackupDaemonDeployment (\<lambda>q. Some (Quantity q)) demo_full_cr True = Ok d"
    using demo_backup demo_backup_service by blast
  from bd_port_agreement [OF d s] s d show ?thesis
    by (elim exE conjE) (intro exI conjI, assumption+)
qed

end
