(* ===== verification/BackupDaemonReconciler.thy ===== *)
theory BackupDaemonReconciler
  imports ReconcilerBase BackupDaemonProvider
begin

text \<open>
  \<^verbatim>\<open>operator/controllers/backupdaemon_reconciler.go\<close> and \<^verbatim>\<open>backupdaemon_vault.go\<close>: the reconciler of
  the backup daemon and its secrets in Vault.
\<close>

section \<open>Vault\<close>

definition bd_writePolicies :: "'w env \<Rightarrow> Secret \<Rightarrow> ('w, unit) op" where
  "bd_writePolicies c secret =
     bindM (gets op_cr) (\<lambda>cr.
     let service = bdrp_GetServiceName cr;
         backupDaemonPolicyName = service @ ''.'' @ cr_Namespace cr @ ''-policy'';
         zooKeeperAdminPolicyName = cr_Name cr @ ''.'' @ cr_Namespace cr @ ''-admin-policy'' in
     bindM (ensurePolicy c secret backupDaemonPolicyName service [''*'']) (\<lambda>_.
     ensureRole c secret (service @ ''.'' @ cr_Namespace cr @ ''-role'') (bdrp_GetServiceAccountName cr)
       [backupDaemonPolicyName, zooKeeperAdminPolicyName]))"

definition bd_processCredentials :: "'w env \<Rightarrow> Secret \<Rightarrow> 'w PasswordGenerator \<Rightarrow> ('w, unit) op" where
  "bd_processCredentials c secret passwordGenerator =
     bindM (gets op_cr) (\<lambda>cr.
     updateCredentials c (bdrp_GetServiceName cr @ ''.'' @ cr_Namespace cr @ ''/credentials'')
       ''username'' secret passwordGenerator)"

definition bd_processVaultSecrets :: "'w env \<Rightarrow> Secret \<Rightarrow> ('w, Secret) op" where
  "bd_processVaultSecrets c secret =
     bindM vault (\<lambda>v.
     bindM (if vsm_WritePolicies v then bd_writePolicies c secret else ret ()) (\<lambda>_.
     bindM (choosePasswordGenerator c) (\<lambda>passwordGenerator.
     bindM (bd_processCredentials c secret passwordGenerator) (\<lambda>_.
     cleanSecret c secret))))"

section \<open>The reconciler\<close>

definition backupDaemonConditionReason :: string where
  "backupDaemonConditionReason = ''ZooKeeperBackupDaemonReadinessStatus''"

definition backupDaemonHashName :: string where
  "backupDaemonHashName = ''spec.backupDaemon''"

definition bd_podReady :: "'w env \<Rightarrow> ('w, bool) op" where
  "bd_podReady c =
     bindM (gets op_cr) (\<lambda>cr. isDeploymentReady c (bdrp_GetServiceName cr) (cr_Namespace cr))"

definition bd_Status :: "'w env \<Rightarrow> ('w, unit) op" where
  "bd_Status c =
     healthCheck c backupDaemonConditionReason ''ZooKeeper Backup Daemon health check'' podsReadyTimeout
       (bd_podReady c) ''ZooKeeper Backup Daemon pod is not ready'' ''ZooKeeper Backup Daemon pod is ready''"

definition bd_watchS3Secret :: "'w env \<Rightarrow> BackupDaemon \<Rightarrow> ('w, Secret option) op" where
  "bd_watchS3Secret c spec =
     (case bd_S3 spec of
        None \<Rightarrow> ret None
      | Some s3 \<Rightarrow> (if s3_Enabled s3 \<and> s3_SecretName s3 \<noteq> '''' then watchOtherSecret c (s3_SecretName s3)
                    else ret None))"

definition bd_claim :: "'w env \<Rightarrow> BackupDaemon \<Rightarrow> ('w, unit) op" where
  "bd_claim c spec =
     (if ss_PersistentVolumeType (bd_BackupStorage spec) \<noteq> ''''
      then bindM (gets op_cr) (\<lambda>cr.
           let backupStorage = (if ss_PersistentVolumeClaimName (bd_BackupStorage spec) = ''''
                 then (bd_BackupStorage spec)\<lparr>ss_PersistentVolumeClaimName :=
                        SnapshotsPersistentVolumeClaimPattern (cr_Name cr)\<rparr>
                 else bd_BackupStorage spec)
           in bindM (processSnapshotsPersistentVolumeClaim c backupStorage) (applyClaim c))
      else ret ())"

definition updateBackupDaemonStatus :: "'w env \<Rightarrow> ('w, unit) op" where
  "updateBackupDaemonStatus c =
     bindM (gets op_cr) (\<lambda>cr.
     bindM (findPodList c (cr_Namespace cr) (GetBackupDaemonSelectorLabels cr)) (\<lambda>pods.
     storeStatus c (\<lambda>cr. cr\<lparr>cr_Status := (cr_Status cr)
       \<lparr>status_BackupDaemonStatus := (status_BackupDaemonStatus (cr_Status cr))
          \<lparr>bs_Nodes := getPodNames pods\<rparr>\<rparr>\<rparr>)))"

definition bd_apply ::
  "'w env \<Rightarrow> BackupDaemon \<Rightarrow> Secret \<Rightarrow> Secret option \<Rightarrow> Secret \<Rightarrow> bool \<Rightarrow> ('w, Secret) op" where
  "bd_apply c spec secret s3Secret s3AliasesSecret s3AliasesEnabled =
     bindM (bd_claim c spec) (\<lambda>_.
     bindM (applyService c NewBackupDaemonClientService) (\<lambda>_.
     bindM (gets op_cr) (\<lambda>cr.
     bindM (createServiceAccount c (NewServiceAccount (bdrp_GetServiceAccountName cr) (cr_Namespace cr))) (\<lambda>_.
     bindM (if IsVaultSecretManagementEnabled cr then bd_processVaultSecrets c secret else ret secret) (\<lambda>secret1.
     bindM (applyDeployment c (\<lambda>cr. NewBackupDaemonDeployment (MustParse c) cr s3AliasesEnabled)
              [Some secret1, s3Secret, Some s3AliasesSecret]) (\<lambda>_.
     bindM (updateBackupDaemonStatus c) (\<lambda>_.
     ret secret1)))))))"

text \<open>A failed search for the aliases returns the zero secret.\<close>

definition bd_reconcileBody :: "'w env \<Rightarrow> ('w, string) op" where
  "bd_reconcileBody c =
     bindM (gets op_cr) (\<lambda>cr. bindM (lift_outcome (bd_section cr)) (\<lambda>spec.
     bindM (watchOwnSecret c (bd_SecretName spec)) (\<lambda>secret.
     bindM (bd_watchS3Secret c spec) (\<lambda>s3Secret.
     bindM (attempt (findSecret c (getS3AliasesSecretName cr) (cr_Namespace cr))) (\<lambda>r.
     let s3AliasesSecret = (case r of Inl _ \<Rightarrow> zero_secret | Inr sec \<Rightarrow> sec);
         s3AliasesEnabled = (case r of Inl _ \<Rightarrow> False | Inr _ \<Rightarrow> True) in
     bindM (lift_outcome (Hash (Marshal_BackupDaemon c) (spec_BackupDaemon (cr_Spec cr)))) (\<lambda>backupDaemonSpecHash.
     bindM (gets (configurationChanged backupDaemonHashName backupDaemonSpecHash
                    [Some secret, s3Secret, Some s3AliasesSecret])) (\<lambda>changed.
     bindM (if changed then bd_apply c spec secret s3Secret s3AliasesSecret s3AliasesEnabled
            else ret secret) (\<lambda>secret1.
     bindM (updateDeploymentSecretRestartAnnotations c (cr_Namespace cr) (bdrp_GetServiceName cr)
              [Some secret1, s3Secret, Some s3AliasesSecret]) (\<lambda>_.
     bindM (recordSecretVersion (Some secret1)) (\<lambda>_.
     bindM (recordSecretVersion s3Secret) (\<lambda>_.
     bindM (recordSecretVersion (Some s3AliasesSecret)) (\<lambda>_.
     ret backupDaemonSpecHash))))))))))))"

definition bd_Reconcile :: "'w env \<Rightarrow> ('w, unit) op" where
  "bd_Reconcile c = bindM (bd_reconcileBody c) (recordHash backupDaemonHashName)"

section \<open>Frames\<close>

lemma stays_bd_writePolicies: "stays only_world (bd_writePolicies c sec)"
  unfolding bd_writePolicies_def Let_def by (intro ow.world_rules stays_ensurePolicy stays_ensureRole)

lemma stays_bd_processVaultSecrets: "stays vault_frame (bd_processVaultSecrets c sec)"
  unfolding bd_processVaultSecrets_def
proof (rule vf.stays_bindM [OF stays_vault [THEN vf.stays_only_world]],
    rule vf.stays_bindM [OF vf.stays_if [OF stays_bd_writePolicies [THEN vf.stays_only_world] vf.stays_ret]],
    rule vf.stays_bindM_value [OF stays_choosePasswordGenerator [THEN vf.stays_only_world]])
  fix gen s t
  assume "choosePasswordGenerator c s = (Ok gen, t)"
  note src = choosePasswordGenerator_source [OF this]
  show "stays vault_frame (bindM (bd_processCredentials c sec gen) (\<lambda>_. cleanSecret c sec))"
    unfolding bd_processCredentials_def
    by (intro vf.stays_bindM vf.stays_gets stays_cleanSecret password_source.stays_updateCredentials [OF src])
qed

lemma stays_bd_podReady: "stays only_world (bd_podReady c)"
  unfolding bd_podReady_def by (intro ow.world_rules stays_isDeploymentReady)

lemma stays_bd_watchS3Secret: "stays only_world (bd_watchS3Secret c spec)"
  unfolding bd_watchS3Secret_def by (intro ow.world_rules step_frames)

lemma stays_bd_claim: "stays only_world (bd_claim c spec)"
  unfolding bd_claim_def Let_def by (intro ow.world_rules step_frames)

lemma stays_core_updateBackupDaemonStatus: "stays core_frame (updateBackupDaemonStatus c)"
  unfolding updateBackupDaemonStatus_def
  by (intro cf.world_rules stays_findPodList [THEN cf.stays_only_world] stays_core_storeStatus)

lemma stays_conds_updateBackupDaemonStatus:
  "status_documented c \<Longrightarrow> stays conds_frame (updateBackupDaemonStatus c)"
  unfolding updateBackupDaemonStatus_def
  by (intro qf.world_rules stays_findPodList [THEN qf.stays_only_world] stays_conds_storeStatus) simp_all

lemma stays_core_bd_apply:
  assumes doc: "control_documented c"
  shows "stays core_frame (bd_apply c spec sec s3 al en)"
  unfolding bd_apply_def
  by (intro cf.world_rules stays_bd_claim [THEN cf.stays_only_world]
      step_frames [THEN cf.stays_only_world] doc
      stays_bd_processVaultSecrets [THEN core_of_vault] stays_core_updateBackupDaemonStatus)

lemma stays_conds_bd_apply:
  assumes doc: "control_documented c" and st: "status_documented c"
  shows "stays conds_frame (bd_apply c spec sec s3 al en)"
  unfolding bd_apply_def
  by (intro qf.world_rules stays_bd_claim [THEN qf.stays_only_world]
      step_frames [THEN qf.stays_only_world] doc
      stays_bd_processVaultSecrets [THEN conds_of_vault] stays_conds_updateBackupDaemonStatus [OF st])

lemma stays_core_bd_reconcileBody:
  assumes doc: "control_documented c"
  shows "stays core_frame (bd_reconcileBody c)"
  unfolding bd_reconcileBody_def Let_def
  by (intro cf.world_rules doc stays_bd_watchS3Secret [THEN cf.stays_only_world]
      step_frames [THEN cf.stays_only_world] stays_core_bd_apply
      stays_vf_recordSecretVersion [THEN core_of_vault])

lemma stays_conds_bd_Reconcile:
  assumes doc: "control_documented c" and st: "status_documented c"
  shows "stays conds_frame (bd_Reconcile c)"
  unfolding bd_Reconcile_def bd_reconcileBody_def Let_def
  by (intro qf.world_rules doc stays_bd_watchS3Secret [THEN qf.stays_only_world]
      step_frames [THEN qf.stays_only_world] stays_conds_bd_apply [OF doc st]
      stays_vf_recordSecretVersion [THEN conds_of_vault] stays_conds_recordHash)

definition bd_specHash :: "'w env \<Rightarrow> ZooKeeperService \<Rightarrow> string outcome" where
  "bd_specHash c cr = Hash (Marshal_BackupDaemon c) (spec_BackupDaemon (cr_Spec cr))"

lemma bd_reconcileBody_hash:
  "bd_reconcileBody c s = (Ok h, t) \<Longrightarrow> bd_specHash c (op_cr s) = Ok h"
  by (auto simp: bd_reconcileBody_def bd_specHash_def bindM_eq_Ok Let_def)

interpretation bdr: reconcile_service bd_Reconcile bd_Status "Some backupDaemonHashName" bd_specHash
proof (rule committing_reconciler [OF _ _ bd_Reconcile_def])
  show "backupDaemonHashName \<noteq> ''spec''" "backupDaemonHashName \<noteq> globalHashName"
    by (simp_all add: backupDaemonHashName_def globalHashName_def)
  show "stays core_frame (bd_Status c)" if "control_documented c" for c
    unfolding bd_Status_def by (rule stays_core_healthCheck [OF that stays_bd_podReady])
qed (fact stays_core_bd_reconcileBody bd_reconcileBody_hash stays_conds_bd_Reconcile)+

end
