(* ===== verification/MonitoringProvider.thy ===== *)
theory MonitoringProvider
  imports BackupDaemonProvider
begin

text \<open>
  \<^verbatim>\<open>operator/controllers/provider/monitoring_provider.go\<close>: the service and the deployment of the
  monitoring pod.
\<close>

section \<open>Names and labels\<close>

definition mon_section :: "ZooKeeperService \<Rightarrow> Monitoring outcome" where
  "mon_section cr = deref (spec_Monitoring (cr_Spec cr))"

definition mrp_GetServiceName :: "ZooKeeperService \<Rightarrow> string" where
  "mrp_GetServiceName cr = cr_Name cr @ ''-monitoring''"

definition mrp_GetServiceAccountName :: "ZooKeeperService \<Rightarrow> string" where
  "mrp_GetServiceAccountName cr = mrp_GetServiceName cr"

definition GetMonitoringSelectorLabels :: "ZooKeeperService \<Rightarrow> (string, string) fmap" where
  "GetMonitoringSelectorLabels cr =
     fmupd ''component'' ''zookeeper-monitoring'' (fmupd ''name'' (mrp_GetServiceName cr) fmempty)"

definition GetMonitoringLabels :: "ZooKeeperService \<Rightarrow> (string, string) fmap outcome" where
  "GetMonitoringLabels cr =
     obind (global cr) (\<lambda>g.
       let labels = fmupd ''app.kubernetes.io/name'' (mrp_GetServiceName cr) fmempty
       in Ok (JoinMaps (Some (JoinMaps (Some labels) (Some (GetMonitoringSelectorLabels cr))))
                (g_DefaultLabels g)))"

definition GetMonitoringCustomLabels ::
  "ZooKeeperService \<Rightarrow> (string, string) fmap \<Rightarrow> (string, string) fmap outcome" where
  "GetMonitoringCustomLabels cr monitoringLabels =
     obind (global cr) (\<lambda>g. obind (mon_section cr) (\<lambda>spec.
       Ok (JoinMaps (Some (JoinMaps (g_CustomLabels g) (mon_CustomLabels spec)))
             (Some monitoringLabels))))"

section \<open>The service\<close>

definition NewMonitoringClientService :: "ZooKeeperService \<Rightarrow> Service outcome" where
  "NewMonitoringClientService cr =
     obind (GetMonitoringLabels cr) (\<lambda>monitoringLabels. obind (mon_section cr) (\<lambda>spec.
       let ports = [tcp_port ''zookeeper-monitoring-statsd'' 8125,
                    tcp_port ''zookeeper-monitoring-tcp'' 8094,
                    \<lparr>sp_Name = ''zookeeper-monitoring-udp'', sp_Port = 8092, sp_Protocol = ''UDP''\<rparr>] @
                   (if mon_MonitoringType spec = ''prometheus''
                    then [tcp_port ''prometheus-cli'' 8096] else [])
       in Ok (newServiceForCR (mrp_GetServiceName cr) (cr_Namespace cr) (Some monitoringLabels)
                (Some (GetMonitoringSelectorLabels cr)) ports)))"

section \<open>Probes, volumes, environment\<close>

definition mrp_getProbe :: Probe where
  "mrp_getProbe =
     \<lparr>pb_Handler = NoHandler, pb_InitialDelaySeconds = 30, pb_TimeoutSeconds = 5,
      pb_PeriodSeconds = 10, pb_SuccessThreshold = 1, pb_FailureThreshold = 5\<rparr>"

definition mrp_getLivenessProbe :: Probe where
  "mrp_getLivenessProbe = mrp_getProbe\<lparr>pb_Handler := TCPSocketProbe 8096\<rparr>"

definition mrp_getReadinessProbe :: Probe where
  "mrp_getReadinessProbe = mrp_getLivenessProbe"

definition getMonitoringVolumes ::
  "(string \<Rightarrow> quantity option) \<Rightarrow> ZooKeeperService \<Rightarrow> Volume list outcome" where
  "getMonitoringVolumes mp cr =
     obind (getTmpVolume mp ''8Mi'') (\<lambda>tmp.
       Ok [volume ''config''
             (ConfigMapVolume (mrp_GetServiceName cr @ ''-configuration'')
                [\<lparr>kp_Key = ''config'', kp_Path = ''telegraf.conf''\<rparr>]),
           tmp])"

definition getMonitoringVolumeMounts :: "VolumeMount list" where
  "getMonitoringVolumeMounts = [mount ''config'' ''/etc/telegraf'', getTmpVolumeMount]"

definition getMonitoringEnvironmentVariables ::
  "ZooKeeperService \<Rightarrow> Global \<Rightarrow> Monitoring \<Rightarrow> EnvVar list" where
  "getMonitoringEnvironmentVariables cr g spec =
     [env_field ''OS_PROJECT'' ''metadata.namespace'',
      env_value ''ZOOKEEPER_HOST'' (mon_ZooKeeperHost spec),
      env_value ''ZOOKEEPER_ENABLE_SSL'' (FormatBool (zssl_Enabled (g_ZooKeeperSsl g)))] @
     (case spec_BackupDaemon (cr_Spec cr) of
        None \<Rightarrow> []
      | Some bd \<Rightarrow>
          [env_value ''ZOOKEEPER_BACKUP_DAEMON_HOST'' (mon_ZooKeeperBackupDaemonHost spec),
           env_value ''S3_ENABLED'' (FormatBool (s3_enabled bd))])"

definition mrp_getCommand :: "ZooKeeperService \<Rightarrow> string list" where
  "mrp_getCommand cr = (if IsVaultSecretManagementEnabled cr then [''/vault/vault-env''] else [])"

definition mrp_getArgs :: "ZooKeeperService \<Rightarrow> string list" where
  "mrp_getArgs cr =
     (if IsVaultSecretManagementEnabled cr then [''/docker-entrypoint.sh''] else [])"

definition mrp_getInitContainers :: "ZooKeeperService \<Rightarrow> Container list outcome" where
  "mrp_getInitContainers cr = vaultInitContainers cr"

definition mrp_getZooKeeperCredentialsEnvs :: "ZooKeeperService \<Rightarrow> EnvVar list outcome" where
  "mrp_getZooKeeperCredentialsEnvs cr =
     (if IsVaultSecretManagementEnabled cr
      then omap (\<lambda>(name, key).
             obind (getVaultSecretEnvVarSource (cr_Name cr) cr ''client-credentials'' key)
               (\<lambda>ref. Ok (env_value name ref)))
             [(''ZOOKEEPER_CLIENT_USERNAME'', ''username''),
              (''ZOOKEEPER_CLIENT_PASSWORD'', ''password'')]
      else Ok [])"

section \<open>The deployment\<close>

definition mon_projectedSources :: "ZooKeeperService \<Rightarrow> Monitoring \<Rightarrow> ProjectedSecretSource list" where
  "mon_projectedSources cr spec =
     (if mon_SecretName spec \<noteq> ''''
      then [\<lparr>pss_SecretName = mon_SecretName spec,
             pss_Items =
               [SecretKeyToPath ''zookeeper-client-username'' ''ZOOKEEPER_CLIENT_USERNAME'',
                SecretKeyToPath ''zookeeper-client-password'' ''ZOOKEEPER_CLIENT_PASSWORD'']\<rparr>]
      else []) @
     (case spec_BackupDaemon (cr_Spec cr) of
        None \<Rightarrow> []
      | Some bd \<Rightarrow>
          (if bd_SecretName bd \<noteq> ''''
           then [\<lparr>pss_SecretName = bd_SecretName bd,
                  pss_Items =
                    [SecretKeyToPath ''username'' ''ZOOKEEPER_BACKUP_DAEMON_USERNAME'',
                     SecretKeyToPath ''password'' ''ZOOKEEPER_BACKUP_DAEMON_PASSWORD'']\<rparr>]
           else []))"

definition mon_secretParts :: "ZooKeeperService \<Rightarrow> Monitoring \<Rightarrow> pod_parts \<Rightarrow> pod_parts" where
  "mon_secretParts cr spec p =
     (if \<not> IsVaultSecretManagementEnabled cr
      then (let podSecretsMount = GetPodSecretsMountPath ''monitoring'';
                p1 = add_parts [env_value ''MONITORING_SECRETS_DIR'' podSecretsMount] [] [] p
            in if length (mon_projectedSources cr spec) > 0
               then add_parts []
                      [NewPodSecretsProjectedVolume ''monitoring-pod-secrets''
                         (mon_projectedSources cr spec)]
                      [NewPodSecretsVolumeMount ''monitoring-pod-secrets'' podSecretsMount] p1
               else p1)
      else p)"

definition mon_zkSslParts :: "Global \<Rightarrow> pod_parts \<Rightarrow> pod_parts" where
  "mon_zkSslParts g p =
     (if zssl_Enabled (g_ZooKeeperSsl g) \<and> zssl_SecretName (g_ZooKeeperSsl g) \<noteq> ''''
      then add_parts [] [volume ''ssl-certs'' (SecretVolume (zssl_SecretName (g_ZooKeeperSsl g)))]
             [mount ''ssl-certs'' ''/tls''] p
      else p)"

definition mon_backupTlsParts :: "ZooKeeperService \<Rightarrow> pod_parts \<Rightarrow> pod_parts" where
  "mon_backupTlsParts cr p =
     (case spec_BackupDaemon (cr_Spec cr) of
        None \<Rightarrow> p
      | Some bd \<Rightarrow>
          (if bssl_Enabled (bd_BackupDaemonSsl bd)
           then add_parts [env_value ''BACKUP_DAEMON_TLS_ENABLED'' ''true'']
                  [volume ''backup-daemon-tls-certs''
                     (SecretVolume (bssl_SecretName (bd_BackupDaemonSsl bd)))]
                  [mount ''backup-daemon-tls-certs'' ''/tls/backup''] p
           else p))"

definition mon_ports :: "Monitoring \<Rightarrow> ContainerPort list" where
  "mon_ports spec =
     [container_tcp 8125, container_tcp 8094,
      \<lparr>cp_Name = '''', cp_ContainerPort = 8092, cp_Protocol = ''UDP''\<rparr>] @
     (if mon_MonitoringType spec = ''prometheus''
      then [\<lparr>cp_Name = ''prometheus-cli'', cp_ContainerPort = 8096, cp_Protocol = ''TCP''\<rparr>] else [])"

definition mon_parts ::
  "(string \<Rightarrow> quantity option) \<Rightarrow> ZooKeeperService \<Rightarrow> Global \<Rightarrow> Monitoring \<Rightarrow> pod_parts outcome" where
  "mon_parts mp cr g spec =
     obind (getMonitoringVolumes mp cr) (\<lambda>vols.
     obind (mrp_getZooKeeperCredentialsEnvs cr) (\<lambda>credentials.
     let p0 = \<lparr>pp_Env = getMonitoringEnvironmentVariables cr g spec @ credentials, pp_Volumes = vols,
               pp_Mounts = getMonitoringVolumeMounts\<rparr>
     in obind (addVaultParts (mrp_GetServiceName cr) cr (mon_secretParts cr spec p0)) (\<lambda>p1.
        Ok (mon_backupTlsParts cr (mon_zkSslParts g p1)))))"

definition mon_deploymentLabels :: "ZooKeeperService \<Rightarrow> (string, string) fmap outcome" where
  "mon_deploymentLabels cr =
     obind (GetMonitoringLabels cr) (\<lambda>labels.
       Ok (fmupd ''app.kubernetes.io/instance'' (mrp_GetServiceName cr @ ''-'' @ cr_Namespace cr)
            (fmupd ''app.kubernetes.io/technology'' ''python'' labels)))"

definition NewMonitoringDeployment ::
  "(string \<Rightarrow> quantity option) \<Rightarrow> ZooKeeperService \<Rightarrow> Deployment outcome" where
  "NewMonitoringDeployment mp cr =
     obind (global cr) (\<lambda>g. obind (mon_section cr) (\<lambda>spec.
     obind (mon_deploymentLabels cr) (\<lambda>monitoringLabels.
     obind (GetMonitoringCustomLabels cr monitoringLabels) (\<lambda>monitoringCustomLabels.
     obind (mon_parts mp cr g spec) (\<lambda>p.
     obind (mrp_getInitContainers cr) (\<lambda>initContainers.
     Ok \<lparr>dp_Meta = new_meta (mrp_GetServiceName cr) (cr_Namespace cr) (Some monitoringLabels) None,
         dp_Strategy = ''Recreate'', dp_Replicas = Some 1,
         dp_Selector = Some (GetMonitoringSelectorLabels cr),
         dp_Template =
           \<lparr>pt_Labels = Some monitoringCustomLabels, pt_Annotations = None,
            pt_Spec =
              \<lparr>ps_Volumes = pp_Volumes p, ps_InitContainers = initContainers,
               ps_Containers =
                 [\<lparr>ct_Name = mrp_GetServiceName cr, ct_Image = mon_DockerImage spec,
                   ct_Command = mrp_getCommand cr, ct_Args = mrp_getArgs cr,
                   ct_Ports = mon_ports spec, ct_Env = pp_Env p,
                   ct_Resources = Some (mon_Resources spec), ct_VolumeMounts = pp_Mounts p,
                   ct_LivenessProbe = Some mrp_getLivenessProbe,
                   ct_ReadinessProbe = Some mrp_getReadinessProbe,
                   ct_ImagePullPolicy = ''Always'',
                   ct_SecurityContext = Some getDefaultContainerSecurityContext\<rparr>],
               ps_SecurityContext = mon_SecurityContext spec,
               ps_Hostname = mrp_GetServiceName cr, ps_Subdomain = '''',
               ps_ServiceAccountName = mrp_GetServiceAccountName cr,
               ps_Affinity = mon_Affinity spec, ps_Tolerations = mon_Tolerations spec,
               ps_PriorityClassName = mon_PriorityClassName spec\<rparr>\<rparr>,
         dp_ReadyReplicas = 0, dp_UpdatedReplicas = 0\<rparr>))))))"

section \<open>Properties\<close>

definition mon_custom :: "ZooKeeperService \<Rightarrow> string gomap" where
  "mon_custom cr = (case spec_Monitoring (cr_Spec cr) of None \<Rightarrow> None | Some spec \<Rightarrow> mon_CustomLabels spec)"

definition mon_labelsOf :: "ZooKeeperService \<Rightarrow> Global \<Rightarrow> (string, string) fmap" where
  "mon_labelsOf cr g =
     fmupd ''app.kubernetes.io/instance'' (mrp_GetServiceName cr @ ''-'' @ cr_Namespace cr)
       (fmupd ''app.kubernetes.io/technology'' ''python''
         (JoinMaps (Some (JoinMaps (Some (fmupd ''app.kubernetes.io/name'' (mrp_GetServiceName cr) fmempty))
                           (Some (GetMonitoringSelectorLabels cr))))
            (g_DefaultLabels g)))"

lemma mon_deploymentLabels_Ok:
  "spec_Global (cr_Spec cr) = Some g \<Longrightarrow> mon_deploymentLabels cr = Ok (mon_labelsOf cr g)"
  by (simp add: mon_deploymentLabels_def GetMonitoringLabels_def mon_labelsOf_def global_def Let_def)

lemma NewMonitoringDeployment_fields:
  assumes "NewMonitoringDeployment mp cr = Ok d"
  obtains g spec p ics c where
    "spec_Global (cr_Spec cr) = Some g" "spec_Monitoring (cr_Spec cr) = Some spec"
    "mon_parts mp cr g spec = Ok p" "vaultInitContainers cr = Ok ics"
    "om_Name (dp_Meta d) = mrp_GetServiceName cr" "om_Namespace (dp_Meta d) = cr_Namespace cr"
    "dp_Strategy d = ''Recreate''" "dp_Replicas d = Some 1"
    "dp_Selector d = Some (GetMonitoringSelectorLabels cr)"
    "pt_Labels (dp_Template d) =
       Some (JoinMaps (Some (JoinMaps (g_CustomLabels g) (mon_CustomLabels spec)))
               (Some (mon_labelsOf cr g)))"
    "ps_Volumes (pt_Spec (dp_Template d)) = pp_Volumes p"
    "ps_InitContainers (pt_Spec (dp_Template d)) = ics"
    "ps_Containers (pt_Spec (dp_Template d)) = [c]"
    "ct_VolumeMounts c = pp_Mounts p" "ct_Ports c = mon_ports spec"
    "ps_ServiceAccountName (pt_Spec (dp_Template d)) = mrp_GetServiceAccountName cr"
proof -
  from assms obtain g where g: "spec_Global (cr_Spec cr) = Some g"
    by (auto simp: NewMonitoringDeployment_def global_def obind_eq_Ok)
  from assms show thesis
    by (clarsimp simp: NewMonitoringDeployment_def global_def mon_section_def g
          mon_deploymentLabels_Ok GetMonitoringCustomLabels_def mrp_getInitContainers_def obind_eq_Ok)
       (rule that [OF g, where c = "hd (ps_Containers (pt_Spec (dp_Template d)))"]; simp)
qed

interpretation monw: workload
  mrp_GetServiceName mrp_GetServiceAccountName GetMonitoringSelectorLabels "{}" mon_labelsOf
  mon_custom NewMonitoringClientService NewMonitoringDeployment
proof unfold_locales
  fix mp cr d
  assume "NewMonitoringDeployment mp cr = Ok d"
  then show "om_Name (dp_Meta d) = mrp_GetServiceName cr \<and> om_Namespace (dp_Meta d) = cr_Namespace cr \<and>
     dp_Replicas d = Some 1 \<and> dp_Strategy d = ''Recreate'' \<and>
     dp_Selector d = Some (GetMonitoringSelectorLabels cr) \<and>
     ps_ServiceAccountName (pt_Spec (dp_Template d)) = mrp_GetServiceAccountName cr"
    by (rule NewMonitoringDeployment_fields) simp
next
  fix mp cr d g
  assume "NewMonitoringDeployment mp cr = Ok d" and "spec_Global (cr_Spec cr) = Some g"
  then show "pt_Labels (dp_Template d) =
       Some (JoinMaps (Some (JoinMaps (g_CustomLabels g) (mon_custom cr))) (Some (mon_labelsOf cr g)))"
    by (elim NewMonitoringDeployment_fields) (simp add: mon_custom_def)
next
  fix mp cr d
  assume "NewMonitoringDeployment mp cr = Ok d"
  then show "spec_Global (cr_Spec cr) \<noteq> None" by (rule NewMonitoringDeployment_fields) simp
next
  fix cr s
  assume "NewMonitoringClientService cr = Ok s"
  then show "om_Name (svc_Meta s) = mrp_GetServiceName cr \<and>
      om_Namespace (svc_Meta s) = cr_Namespace cr \<and>
      svc_Selector s = Some (GetMonitoringSelectorLabels cr)"
    by (auto simp: NewMonitoringClientService_def newServiceForCR_def obind_eq_Ok Let_def)
next
  fix cr k v g
  assume "fmlookup (GetMonitoringSelectorLabels cr) k = Some v"
  then show "fmlookup (mon_labelsOf cr g) k =
      (if k \<in> {} then Some v
       else case mlookup (g_DefaultLabels g) k of None \<Rightarrow> Some v | Some v' \<Rightarrow> Some v')"
    by (auto simp: GetMonitoringSelectorLabels_def mon_labelsOf_def label_simps
        split: if_splits option.splits)
qed

subsection \<open>The volumes of the monitoring pod\<close>

definition mon_backupTls :: "ZooKeeperService \<Rightarrow> bool" where
  "mon_backupTls cr =
     (case spec_BackupDaemon (cr_Spec cr) of None \<Rightarrow> False
      | Some bd \<Rightarrow> bssl_Enabled (bd_BackupDaemonSsl bd))"

definition mon_table :: "ZooKeeperService \<Rightarrow> Global \<Rightarrow> Monitoring \<Rightarrow> (string \<times> string) list" where
  "mon_table cr g spec =
     (((([(''config'', ''/etc/telegraf''), (''tmp'', ''/tmp'')]
      @ (if \<not> IsVaultSecretManagementEnabled cr \<and> mon_projectedSources cr spec \<noteq> []
         then [(''monitoring-pod-secrets'', ''/etc/secrets/monitoring-pod-secrets'')] else []))
      @ (if IsVaultSecretManagementEnabled cr then [(''vault-env'', ''/vault'')] else []))
      @ (if zssl_Enabled (g_ZooKeeperSsl g) \<and> zssl_SecretName (g_ZooKeeperSsl g) \<noteq> ''''
         then [(''ssl-certs'', ''/tls'')] else []))
      @ (if mon_backupTls cr then [(''backup-daemon-tls-certs'', ''/tls/backup'')] else []))"

lemma mon_backupTlsParts_if:
  "mon_backupTlsParts cr p =
     (if mon_backupTls cr
      then add_parts [env_value ''BACKUP_DAEMON_TLS_ENABLED'' ''true'']
             [volume ''backup-daemon-tls-certs''
                (SecretVolume (bssl_SecretName (bd_BackupDaemonSsl (the (spec_BackupDaemon (cr_Spec cr))))))]
             [mount ''backup-daemon-tls-certs'' ''/tls/backup''] p
      else p)"
  by (simp add: mon_backupTlsParts_def mon_backupTls_def split: option.split)

lemma mon_secretParts_table:
  "parts_table T p \<Longrightarrow>
   parts_table (T @ (if \<not> IsVaultSecretManagementEnabled cr \<and> mon_projectedSources cr spec \<noteq> []
         then [(''monitoring-pod-secrets'', ''/etc/secrets/monitoring-pod-secrets'')] else []))
     (mon_secretParts cr spec p)"
  by (auto simp: mon_secretParts_def GetPodSecretsMountPath_def NewPodSecretsProjectedVolume_def
        NewPodSecretsVolumeMount_def Let_def
      intro!: parts_table_add_env parts_table_add)

lemma mon_parts_table:
  assumes "mon_parts mp cr g spec = Ok p"
  shows "parts_table (mon_table cr g spec) p"
proof -
  from assms obtain vols credentials p1 where v: "getMonitoringVolumes mp cr = Ok vols" and
    p1: "addVaultParts (mrp_GetServiceName cr) cr (mon_secretParts cr spec
           \<lparr>pp_Env = getMonitoringEnvironmentVariables cr g spec @ credentials, pp_Volumes = vols,
            pp_Mounts = getMonitoringVolumeMounts\<rparr>) = Ok p1" and
    p: "p = mon_backupTlsParts cr (mon_zkSslParts g p1)"
    by (auto simp: mon_parts_def obind_eq_Ok Let_def)
  have base: "parts_table [(''config'', ''/etc/telegraf''), (''tmp'', ''/tmp'')]
      \<lparr>pp_Env = es, pp_Volumes = vols, pp_Mounts = getMonitoringVolumeMounts\<rparr>" for es
    using v
    by (auto simp: parts_table_def getMonitoringVolumes_def getMonitoringVolumeMounts_def
        getTmpVolume_def getTmpVolumeMount_def obind_eq_Ok split: option.splits)
  note vault = parts_table_vault [OF p1 mon_secretParts_table [OF base]]
  show ?thesis
    unfolding mon_table_def p mon_backupTlsParts_if mon_zkSslParts_def
    by (intro parts_table_if parts_table_add vault) simp_all
qed

lemma mon_table_subseq:
  "subseq (mon_table cr g spec)
     [(''config'', ''/etc/telegraf''), (''tmp'', ''/tmp''),
      (''monitoring-pod-secrets'', ''/etc/secrets/monitoring-pod-secrets''), (''vault-env'', ''/vault''),
      (''ssl-certs'', ''/tls''), (''backup-daemon-tls-certs'', ''/tls/backup'')]" (is "subseq _ ?U")
proof -
  have "?U = (((([(''config'', ''/etc/telegraf''), (''tmp'', ''/tmp'')]
      @ [(''monitoring-pod-secrets'', ''/etc/secrets/monitoring-pod-secrets'')])
      @ [(''vault-env'', ''/vault'')]) @ [(''ssl-certs'', ''/tls'')])
      @ [(''backup-daemon-tls-certs'', ''/tls/backup'')])"
    by simp
  then show ?thesis unfolding mon_table_def by (simp only:) (intro table_subseq)
qed

text \<open>
  The pod of the monitoring is one Kubernetes accepts in its volumes, whatever the combination of
  secrets, Vault, TLS of ZooKeeper and TLS of the backup daemon.
\<close>

theorem mon_pod_volumes_ok:
  assumes "NewMonitoringDeployment mp cr = Ok d"
  shows "pod_volumes_ok (pt_Spec (dp_Template d))"
  using assms
proof (rule NewMonitoringDeployment_fields)
  fix g spec p ics c
  assume p: "mon_parts mp cr g spec = Ok p" and ics: "vaultInitContainers cr = Ok ics" and
    d: "ps_Volumes (pt_Spec (dp_Template d)) = pp_Volumes p"
       "ps_InitContainers (pt_Spec (dp_Template d)) = ics"
       "ps_Containers (pt_Spec (dp_Template d)) = [c]" "ct_VolumeMounts c = pp_Mounts p"
  note tab = table_distinct [OF mon_table_subseq [of cr g spec]]
  show ?thesis
  proof (rule parts_table_pod [OF mon_parts_table [OF p] _ _ ics _ d])
    show "distinct (map fst (mon_table cr g spec))" by (rule tab) simp
    show "distinct (map snd (mon_table cr g spec))" by (rule tab) simp
    show "''vault-env'' \<in> fst ` set (mon_table cr g spec)" if "IsVaultSecretManagementEnabled cr"
      using that by (simp add: mon_table_def image_Un)
  qed
qed

text \<open>
  The deployment and the service of the monitoring have the same name and selector, and they
  select the monitoring's pods exactly when the default labels do not redefine a label of the selector.
\<close>

theorem mon_service_selects:
  assumes "NewMonitoringClientService cr = Ok s" and "NewMonitoringDeployment mp cr = Ok d"
    and "spec_Global (cr_Spec cr) = Some g"
  shows "om_Name (svc_Meta s) = om_Name (dp_Meta d) \<and> svc_Selector s = dp_Selector d \<and>
    (selects (contents (svc_Selector s)) (contents (pt_Labels (dp_Template d))) \<longleftrightarrow>
      (\<forall>k v. fmlookup (GetMonitoringSelectorLabels cr) k = Some v \<longrightarrow>
         mlookup (g_DefaultLabels g) k \<in> {None, Some v}))"
  using monw.selects_own_pods_iff [OF assms(2,3)] monw.deployment_shape [OF assms(2)]
    monw.service_shape [OF assms(1)]
  by (simp add: monw.no_override_def)

lemma demo_monitoring_deployment: "\<exists>d. NewMonitoringDeployment (\<lambda>q. Some (Quantity q)) demo_full_cr = Ok d"
  by (simp add: NewMonitoringDeployment_def global_def mon_section_def mon_deploymentLabels_def
      GetMonitoringLabels_def GetMonitoringCustomLabels_def mon_parts_def getMonitoringVolumes_def
      getTmpVolume_def mrp_getZooKeeperCredentialsEnvs_def addVaultParts_def
      mrp_getInitContainers_def vaultInitContainers_def getMonitoringEnvironmentVariables_def
      IsVaultSecretManagementEnabled_def Let_def demo_defs)

lemma demo_monitoring_service: "\<exists>s. NewMonitoringClientService demo_full_cr = Ok s"
  by (simp add: NewMonitoringClientService_def global_def mon_section_def GetMonitoringLabels_def
      Let_def demo_defs)

theorem mon_service_selects_witness:
  "\<exists>s d. NewMonitoringClientService demo_full_cr = Ok s \<and>
     NewMonitoringDeployment (\<lambda>q. Some (Quantity q)) demo_full_cr = Ok d \<and>
     selects (contents (svc_Selector s)) (contents (pt_Labels (dp_Template d)))"
proof -
  obtain s d where s: "NewMonitoringClientService demo_full_cr = Ok s"
    and d: "NewMonitoringDeployment (\<lambda>q. Some (Quantity q)) demo_full_cr = Ok d"
    using demo_monitoring_deployment demo_monitoring_service by blast
  have g: "spec_Global (cr_Spec demo_full_cr) = Some demo_global" by (simp add: demo_defs)
  have "mlookup (g_DefaultLabels demo_global) k = None" for k by (simp add: demo_global_def mlookup_def)
  with mon_service_selects [OF s d g, THEN conjunct2, THEN conjunct2]
  have "selects (contents (svc_Selector s)) (contents (pt_Labels (dp_Template d)))" by simp
  with s d show ?thesis by blast
qed

theorem mon_pod_volumes_ok_witness:
  "\<exists>d. NewMonitoringDeployment (\<lambda>q. Some (Quantity q)) demo_full_cr = Ok d \<and>
     pod_volumes_ok (pt_Spec (dp_Template d))"
  using demo_monitoring_deployment mon_pod_volumes_ok by blast

end
