(* ===== verification/MonitoringReconciler.thy ===== *)
theory MonitoringReconciler
  imports ReconcilerBase MonitoringProvider
begin

text \<open>
  \<^verbatim>\<open>operator/controllers/monitoring_reconciler.go\<close>, \<^verbatim>\<open>monitoring_vault.go\<close> and
  \<^verbatim>\<open>integrationtests_reconciler.go\<close>: the reconciler of the monitoring pod, its policies in Vault, and
  the reconciler that only waits for the integration tests.
\<close>

section \<open>Vault\<close>

definition mon_writePolicies :: "'w env \<Rightarrow> Secret \<Rightarrow> ('w, unit) op" where
  "mon_writePolicies c secret =
     bindM (gets op_cr) (\<lambda>cr.
     let service = mrp_GetServiceName cr;
         monitoringPolicyName = service @ ''.'' @ cr_Namespace cr @ ''-policy'';
         zooKeeperClientPolicyName = cr_Name cr @ ''.'' @ cr_Namespace cr @ ''-client-policy'' in
     bindM (ensurePolicy c secret monitoringPolicyName service [''*'']) (\<lambda>_.
     ensureRole c secret (service @ ''.'' @ cr_Namespace cr @ ''-role'') (mrp_GetServiceAccountName cr)
       [monitoringPolicyName, zooKeeperClientPolicyName]))"

definition mon_processVaultSecrets :: "'w env \<Rightarrow> Secret \<Rightarrow> ('w, Secret) op" where
  "mon_processVaultSecrets c secret =
     bindM vault (\<lambda>v.
     bindM (if vsm_WritePolicies v then mon_writePolicies c secret else ret ()) (\<lambda>_.
     cleanSecret c secret))"

section \<open>The monitoring reconciler\<close>

definition monitoringConditionReason :: string where
  "monitoringConditionReason = ''ZooKeeperMonitoringReadinessStatus''"

definition monitoringHashName :: string where
  "monitoringHashName = ''spec.monitoring''"

definition mon_podReady :: "'w env \<Rightarrow> ('w, bool) op" where
  "mon_podReady c =
     bindM (gets op_cr) (\<lambda>cr. isDeploymentReady c (mrp_GetServiceName cr) (cr_Namespace cr))"

definition mon_Status :: "'w env \<Rightarrow> ('w, unit) op" where
  "mon_Status c =
     healthCheck c monitoringConditionReason ''ZooKeeper Monitoring health check'' podsReadyTimeout
       (mon_podReady c) ''ZooKeeper Monitoring pod is not ready'' ''ZooKeeper Monitoring pod is ready''"

definition mon_watchBackupDaemonSecret :: "'w env \<Rightarrow> ZooKeeperService \<Rightarrow> ('w, Secret option) op" where
  "mon_watchBackupDaemonSecret c cr =
     (case spec_BackupDaemon (cr_Spec cr) of
        None \<Rightarrow> ret None
      | Some bd \<Rightarrow> (if bd_SecretName bd \<noteq> '''' then watchOtherSecret c (bd_SecretName bd) else ret None))"

definition updateMonitoringStatus :: "'w env \<Rightarrow> ('w, unit) op" where
  "updateMonitoringStatus c =
     bindM (gets op_cr) (\<lambda>cr.
     bindM (findPodList c (cr_Namespace cr) (GetMonitoringSelectorLabels cr)) (\<lambda>pods.
     storeStatus c (\<lambda>cr. cr\<lparr>cr_Status := (cr_Status cr)
       \<lparr>status_MonitoringStatus := (status_MonitoringStatus (cr_Status cr))
          \<lparr>ms_Nodes := getPodNames pods\<rparr>\<rparr>\<rparr>)))"

definition mon_apply :: "'w env \<Rightarrow> Secret \<Rightarrow> Secret option \<Rightarrow> ('w, Secret) op" where
  "mon_apply c secret backupDaemonSecret =
     bindM (applyService c NewMonitoringClientService) (\<lambda>_.
     bindM (gets op_cr) (\<lambda>cr.
     bindM (createServiceAccount c (NewServiceAccount (mrp_GetServiceAccountName cr) (cr_Namespace cr))) (\<lambda>_.
     bindM (if IsVaultSecretManagementEnabled cr then mon_processVaultSecrets c secret else ret secret) (\<lambda>secret1.
     bindM (applyDeployment c (NewMonitoringDeployment (MustParse c)) [Some secret1, backupDaemonSecret]) (\<lambda>_.
     bindM (updateMonitoringStatus c) (\<lambda>_.
     ret secret1))))))"

definition mon_reconcileBody :: "'w env \<Rightarrow> ('w, string) op" where
  "mon_reconcileBody c =
     bindM (gets op_cr) (\<lambda>cr. bindM (lift_outcome (mon_section cr)) (\<lambda>spec.
     bindM (watchOwnSecret c (mon_SecretName spec)) (\<lambda>secret.
     bindM (mon_watchBackupDaemonSecret c cr) (\<lambda>backupDaemonSecret.
     bindM (lift_outcome (Hash (Marshal_Monitoring c) (spec_Monitoring (cr_Spec cr)))) (\<lambda>monitoringSpecHash.
     bindM (gets (configurationChanged monitoringHashName monitoringSpecHash
                    [Some secret, backupDaemonSecret])) (\<lambda>changed.
     bindM (if changed then mon_apply c secret backupDaemonSecret else ret secret) (\<lambda>secret1.
     bindM (updateDeploymentSecretRestartAnnotations c (cr_Namespace cr) (mrp_GetServiceName cr)
              [Some secret1, backupDaemonSecret]) (\<lambda>_.
     bindM (recordSecretVersion (Some secret1)) (\<lambda>_.
     bindM (recordSecretVersion backupDaemonSecret) (\<lambda>_.
     ret monitoringSpecHash))))))))))"

definition mon_Reconcile :: "'w env \<Rightarrow> ('w, unit) op" where
  "mon_Reconcile c = bindM (mon_reconcileBody c) (recordHash monitoringHashName)"

section \<open>The integration tests reconciler\<close>

definition integrationTestsConditionReason :: string where
  "integrationTestsConditionReason = ''ZooKeeperIntegrationTestsStatus''"

definition it_section :: "ZooKeeperService \<Rightarrow> IntegrationTests outcome" where
  "it_section cr = deref (spec_IntegrationTests (cr_Spec cr))"

definition it_podReady :: "'w env \<Rightarrow> ('w, bool) op" where
  "it_podReady c =
     bindM (gets op_cr) (\<lambda>cr. bindM (lift_outcome (it_section cr)) (\<lambda>it.
     isDeploymentReady c (it_ServiceName it) (cr_Namespace cr)))"

definition it_Status :: "'w env \<Rightarrow> ('w, unit) op" where
  "it_Status c =
     bindM (gets op_cr) (\<lambda>cr. bindM (lift_outcome (it_section cr)) (\<lambda>it.
     if \<not> it_WaitForResult it then ret ()
     else healthCheck c integrationTestsConditionReason ''Start checking for ZooKeeper Integration Tests''
            (\<lambda>cr. obind (it_section cr) (\<lambda>it. Ok (it_Timeout it))) (it_podReady c)
            ''ZooKeeper Integration Tests failed. See more details in integration test logs.''
            ''ZooKeeper Integration Tests performed successfully''))"

definition it_Reconcile :: "'w env \<Rightarrow> ('w, unit) op" where
  "it_Reconcile c = ret ()"

section \<open>Frames\<close>

lemma stays_mon_writePolicies: "stays only_world (mon_writePolicies c sec)"
  unfolding mon_writePolicies_def Let_def by (intro ow.world_rules stays_ensurePolicy stays_ensureRole)

lemma stays_mon_processVaultSecrets: "stays vault_frame (mon_processVaultSecrets c sec)"
  unfolding mon_processVaultSecrets_def
  by (intro vf.world_rules stays_vault [THEN vf.stays_only_world]
      stays_mon_writePolicies [THEN vf.stays_only_world] stays_cleanSecret)

lemma stays_mon_podReady: "stays only_world (mon_podReady c)"
  unfolding mon_podReady_def by (intro ow.world_rules stays_isDeploymentReady)

lemma stays_it_podReady: "stays only_world (it_podReady c)"
  unfolding it_podReady_def by (intro ow.world_rules stays_isDeploymentReady)

lemma stays_mon_watchBackupDaemonSecret: "stays only_world (mon_watchBackupDaemonSecret c cr)"
  unfolding mon_watchBackupDaemonSecret_def by (intro ow.world_rules step_frames)

lemma stays_core_updateMonitoringStatus: "stays core_frame (updateMonitoringStatus c)"
  unfolding updateMonitoringStatus_def
  by (intro cf.world_rules stays_findPodList [THEN cf.stays_only_world] stays_core_storeStatus)

lemma stays_conds_updateMonitoringStatus:
  "status_documented c \<Longrightarrow> stays conds_frame (updateMonitoringStatus c)"
  unfolding updateMonitoringStatus_def
  by (intro qf.world_rules stays_findPodList [THEN qf.stays_only_world] stays_conds_storeStatus) simp_all

lemma stays_core_mon_apply:
  assumes doc: "control_documented c"
  shows "stays core_frame (mon_apply c sec other)"
  unfolding mon_apply_def
  by (intro cf.world_rules step_frames [THEN cf.stays_only_world] doc
      stays_mon_processVaultSecrets [THEN core_of_vault] stays_core_updateMonitoringStatus)

lemma stays_conds_mon_apply:
  assumes doc: "control_documented c" and st: "status_documented c"
  shows "stays conds_frame (mon_apply c sec other)"
  unfolding mon_apply_def
  by (intro qf.world_rules step_frames [THEN qf.stays_only_world] doc
      stays_mon_processVaultSecrets [THEN conds_of_vault] stays_conds_updateMonitoringStatus [OF st])

lemma stays_core_mon_reconcileBody:
  assumes doc: "control_documented c"
  shows "stays core_frame (mon_reconcileBody c)"
  unfolding mon_reconcileBody_def
  by (intro cf.world_rules doc stays_mon_watchBackupDaemonSecret [THEN cf.stays_only_world]
      step_frames [THEN cf.stays_only_world] stays_core_mon_apply
      stays_vf_recordSecretVersion [THEN core_of_vault])

lemma stays_conds_mon_Reconcile:
  assumes doc: "control_documented c" and st: "status_documented c"
  shows "stays conds_frame (mon_Reconcile c)"
  unfolding mon_Reconcile_def mon_reconcileBody_def
  by (intro qf.world_rules doc stays_mon_watchBackupDaemonSecret [THEN qf.stays_only_world]
      step_frames [THEN qf.stays_only_world] stays_conds_mon_apply [OF doc st]
      stays_vf_recordSecretVersion [THEN conds_of_vault] stays_conds_recordHash)

definition mon_specHash :: "'w env \<Rightarrow> ZooKeeperService \<Rightarrow> string outcome" where
  "mon_specHash c cr = Hash (Marshal_Monitoring c) (spec_Monitoring (cr_Spec cr))"

lemma mon_reconcileBody_hash:
  "mon_reconcileBody c s = (Ok h, t) \<Longrightarrow> mon_specHash c (op_cr s) = Ok h"
  by (auto simp: mon_reconcileBody_def mon_specHash_def bindM_eq_Ok)

interpretation monr: reconcile_service mon_Reconcile mon_Status "Some monitoringHashName" mon_specHash
proof (rule committing_reconciler [OF _ _ mon_Reconcile_def])
  show "monitoringHashName \<noteq> ''spec''" "monitoringHashName \<noteq> globalHashName"
    by (simp_all add: monitoringHashName_def globalHashName_def)
  show "stays core_frame (mon_Status c)" if "control_documented c" for c
    unfolding mon_Status_def by (rule stays_core_healthCheck [OF that stays_mon_podReady])
qed (fact stays_core_mon_reconcileBody mon_reconcileBody_hash stays_conds_mon_Reconcile)+

text \<open>The integration tests have no hash of their own.\<close>

interpretation itr: reconcile_service it_Reconcile it_Status None "\<lambda>c cr. Err (OtherError '''')"
proof unfold_locales
  fix c :: "'w env"
  assume doc: "control_documented c"
  show "stays core_frame (it_Status c)"
    unfolding it_Status_def
    by (intro cf.world_rules stays_core_healthCheck [OF doc stays_it_podReady])
  show "stays conds_frame (it_Reconcile c)" unfolding it_Reconcile_def by (rule qf.stays_ret)
qed (simp_all add: it_Reconcile_def)

end
