(* ===== verification/Cluster.thy ===== *)
theory Cluster
  imports ZooKeeperVault Samples
begin

text \<open>
  A cluster in memory: concrete functions for every parameter of the operator, with which the
  hypotheses on third-party code hold. Objects are lists per kind, found by name and namespace; a
  write returns the object as stored; Vault keeps a list of secrets by path; the control operators
  run their argument once. The theorems of the library do not depend on this theory: their
  witnesses run on it.
\<close>

section \<open>The state of the cluster\<close>

record cluster =
  cl_crs :: "ZooKeeperService list"
  cl_services :: "Service list"
  cl_accounts :: "ServiceAccount list"
  cl_claims :: "PersistentVolumeClaim list"
  cl_deployments :: "Deployment list"
  cl_secrets :: "Secret list"
  cl_pods :: "Pod list"
  cl_vault :: "(string \<times> (string \<times> jval) list) list"
  cl_policies :: "(string \<times> string) list"
  cl_time :: int

definition named :: "('o \<Rightarrow> ObjectMeta) \<Rightarrow> string \<Rightarrow> string \<Rightarrow> 'o \<Rightarrow> bool" where
  "named meta name ns x \<longleftrightarrow> om_Name (meta x) = name \<and> om_Namespace (meta x) = ns"

definition get_by :: "('o \<Rightarrow> ObjectMeta) \<Rightarrow> ('w \<Rightarrow> 'o list) \<Rightarrow> string \<Rightarrow> string \<Rightarrow> ('w, 'o) ext" where
  "get_by meta objs name ns w =
     (case find (named meta name ns) (objs w) of
        None \<Rightarrow> (Inl (NotFound name), w)
      | Some x \<Rightarrow> (Inr x, w))"

definition create_by ::
  "('o \<Rightarrow> ObjectMeta) \<Rightarrow> ('w \<Rightarrow> 'o list) \<Rightarrow> ('o list \<Rightarrow> 'w \<Rightarrow> 'w) \<Rightarrow> 'o \<Rightarrow> ('w, 'o) ext" where
  "create_by meta objs put x w =
     (if list_ex (named meta (om_Name (meta x)) (om_Namespace (meta x))) (objs w)
      then (Inl (OtherError ''already exists''), w) else (Inr x, put (objs w @ [x]) w))"

definition update_by ::
  "('o \<Rightarrow> ObjectMeta) \<Rightarrow> ('w \<Rightarrow> 'o list) \<Rightarrow> ('o list \<Rightarrow> 'w \<Rightarrow> 'w) \<Rightarrow> 'o \<Rightarrow> ('w, 'o) ext" where
  "update_by meta objs put x w =
     (if list_ex (named meta (om_Name (meta x)) (om_Namespace (meta x))) (objs w)
      then (Inr x, put (map (\<lambda>y. if named meta (om_Name (meta x)) (om_Namespace (meta x)) y then x else y)
                          (objs w)) w)
      else (Inl (NotFound (om_Name (meta x))), w))"

definition mem_Update_Status :: "ZooKeeperService \<Rightarrow> (cluster, ZooKeeperService) ext" where
  "mem_Update_Status cr w =
     (case find (named cr_Meta (cr_Name cr) (cr_Namespace cr)) (cl_crs w) of
        None \<Rightarrow> (Inl (NotFound (cr_Name cr)), w)
      | Some old \<Rightarrow>
          (let stored = old\<lparr>cr_Status := cr_Status cr\<rparr>
           in (Inr stored, w\<lparr>cl_crs := map (\<lambda>y. if named cr_Meta (cr_Name cr) (cr_Namespace cr) y
                                               then stored else y) (cl_crs w)\<rparr>)))"

definition controller_of :: "ObjectMeta \<Rightarrow> OwnerReference option" where
  "controller_of meta = find (\<lambda>r. or_Controller r = Some True) (om_OwnerReferences meta)"

definition set_controller :: "ZooKeeperService \<Rightarrow> ObjectMeta \<Rightarrow> go_error + ObjectMeta" where
  "set_controller cr meta =
     (case controller_of meta of
        None \<Rightarrow> Inr (meta\<lparr>om_OwnerReferences := om_OwnerReferences meta @
                  [\<lparr>or_APIVersion = cr_APIVersion cr, or_Kind = cr_Kind cr, or_Name = cr_Name cr,
                    or_Controller = Some True\<rparr>]\<rparr>)
      | Some r \<Rightarrow>
          (if or_Name r = cr_Name cr \<and> or_Kind r = cr_Kind cr \<and> or_APIVersion r = cr_APIVersion cr
           then Inr meta else Inl (OtherError ''already owned'')))"

definition group_version :: "string \<Rightarrow> go_error + string \<times> string" where
  "group_version s =
     (case Split (CHR ''/'') s of
        [v] \<Rightarrow> Inr ('''', v) | [g, v] \<Rightarrow> Inr (g, v)
      | _ \<Rightarrow> Inl (OtherError ''unexpected GroupVersion string''))"

definition poll_once :: "int \<Rightarrow> int \<Rightarrow> bool \<Rightarrow> (cluster, bool) op \<Rightarrow> (cluster, unit) op" where
  "poll_once interval timeout immediate cond s =
     (case cond s of (r, t) \<Rightarrow>
        (case r of
           Ok done \<Rightarrow> (if done then (Ok (), t)
                       else (Err (OtherError ''context deadline exceeded''), t))
         | Err e \<Rightarrow> (Err e, t)
         | Panic p \<Rightarrow> (Panic p, t)))"

definition mem_Vault_Write ::
  "vault_client \<Rightarrow> string \<Rightarrow> (string \<times> jval) list \<Rightarrow> (cluster, vault_secret option) ext" where
  "mem_Vault_Write cl path body w =
     (case map_of body ''data'' of
        Some (JObject secret) \<Rightarrow>
          (Inr (Some \<lparr>vsec_Data = [(''version'', JNumber ''1'')], vsec_AuthToken = None\<rparr>),
           w\<lparr>cl_vault := (path, secret) # cl_vault w\<rparr>)
      | _ \<Rightarrow> (Inr (Some \<lparr>vsec_Data = [], vsec_AuthToken = Some ''token''\<rparr>), w))"

definition mem_Vault_Read :: "vault_client \<Rightarrow> string \<Rightarrow> (cluster, vault_secret option) ext" where
  "mem_Vault_Read cl path w =
     (Inr (map_option (\<lambda>secret. \<lparr>vsec_Data = [(''data'', JObject secret)], vsec_AuthToken = None\<rparr>)
             (map_of (cl_vault w) path)), w)"

definition memory :: "cluster env" where
  "memory = \<lparr>
     Get_ZooKeeperService = get_by cr_Meta cl_crs,
     Update_Status = mem_Update_Status,
     Get_Service = get_by svc_Meta cl_services,
     Create_Service = create_by svc_Meta cl_services (\<lambda>xs. cl_services_update (\<lambda>_. xs)),
     Update_Service = update_by svc_Meta cl_services (\<lambda>xs. cl_services_update (\<lambda>_. xs)),
     Get_ServiceAccount = get_by sa_Meta cl_accounts,
     Create_ServiceAccount = create_by sa_Meta cl_accounts (\<lambda>xs. cl_accounts_update (\<lambda>_. xs)),
     Get_PVC = get_by pvc_Meta cl_claims,
     Create_PVC = create_by pvc_Meta cl_claims (\<lambda>xs. cl_claims_update (\<lambda>_. xs)),
     Update_PVC = update_by pvc_Meta cl_claims (\<lambda>xs. cl_claims_update (\<lambda>_. xs)),
     Get_Deployment = get_by dp_Meta cl_deployments,
     Create_Deployment = create_by dp_Meta cl_deployments (\<lambda>xs. cl_deployments_update (\<lambda>_. xs)),
     Update_Deployment = update_by dp_Meta cl_deployments (\<lambda>xs. cl_deployments_update (\<lambda>_. xs)),
     List_Deployments = (\<lambda>ns sel w. (Inr (filter (\<lambda>d. om_Namespace (dp_Meta d) = ns \<and>
        selects sel (contents (om_Labels (dp_Meta d)))) (cl_deployments w)), w)),
     Get_Secret = get_by sec_Meta cl_secrets,
     Update_Secret = update_by sec_Meta cl_secrets (\<lambda>xs. cl_secrets_update (\<lambda>_. xs)),
     List_Pods = (\<lambda>ns sel w. (Inr (filter (\<lambda>p. (ns = None \<or> ns = Some (om_Namespace (pod_Meta p))) \<and>
        selects sel (contents (om_Labels (pod_Meta p)))) (cl_pods w)), w)),
     SetControllerReference = set_controller,
     GetControllerOf = controller_of,
     ParseGroupVersion = group_version,
     MustParse = (\<lambda>s. Some (Quantity s)),
     RetryOnConflict = (\<lambda>f. f),
     PollUntilContextTimeout = poll_once,
     Sleep = (\<lambda>d w. w\<lparr>cl_time := cl_time w + d\<rparr>),
     Now = (\<lambda>w. (Itoa (cl_time w), w)),
     Marshal_Spec = (\<lambda>_. Inr ''spec''),
     Marshal_Global = (\<lambda>_. Inr ''global''),
     Marshal_ZooKeeper = (\<lambda>_. Inr ''zooKeeper''),
     Marshal_Monitoring = (\<lambda>_. Inr ''monitoring''),
     Marshal_BackupDaemon = (\<lambda>_. Inr ''backupDaemon''),
     BearerToken = (\<lambda>_. ''jwt''),
     Vault_NewClient = (\<lambda>url. Inr \<lparr>vc_Address = url, vc_Token = ''''\<rparr>),
     Vault_Write = mem_Vault_Write,
     Vault_Read = mem_Vault_Read,
     Vault_GetPolicy = (\<lambda>_ name w. (Inr (case map_of (cl_policies w) name of None \<Rightarrow> '''' | Some p \<Rightarrow> p), w)),
     Vault_PutPolicy = (\<lambda>_ name p w. (Inr (), w\<lparr>cl_policies := (name, p) # cl_policies w\<rparr>)),
     Vault_EncodeBody = (\<lambda>_. Inr ''{}''),
     Vault_RawRequest = (\<lambda>_ verb path body w. ((Some \<lparr>rsp_StatusCode = 200, rsp_Body = ''{}''\<rparr>, None), w)),
     Decode_StringMap = (\<lambda>_. Inr (fmupd ''password'' ''secret'' fmempty)),
     Decode_Object = (\<lambda>_. Inr (Some [])),
     Password_NewGenerator = (\<lambda>s. Inr (PasswordGen s)),
     Password_Generate = (\<lambda>_ _ _ _ _ _ w. (Inr ''secret'', w))\<rparr>"

section \<open>Its calls\<close>

lemma memory_gets [simp]:
  "Get_ZooKeeperService memory = get_by cr_Meta cl_crs"
  "Get_Service memory = get_by svc_Meta cl_services"
  "Get_ServiceAccount memory = get_by sa_Meta cl_accounts"
  "Get_PVC memory = get_by pvc_Meta cl_claims"
  "Get_Deployment memory = get_by dp_Meta cl_deployments"
  "Get_Secret memory = get_by sec_Meta cl_secrets"
  by (simp_all add: memory_def)

lemma memory_writes [simp]:
  "Update_Status memory = mem_Update_Status"
  "Create_Service memory = create_by svc_Meta cl_services (\<lambda>xs. cl_services_update (\<lambda>_. xs))"
  "Update_Service memory = update_by svc_Meta cl_services (\<lambda>xs. cl_services_update (\<lambda>_. xs))"
  "Create_ServiceAccount memory = create_by sa_Meta cl_accounts (\<lambda>xs. cl_accounts_update (\<lambda>_. xs))"
  "Create_PVC memory = create_by pvc_Meta cl_claims (\<lambda>xs. cl_claims_update (\<lambda>_. xs))"
  "Update_PVC memory = update_by pvc_Meta cl_claims (\<lambda>xs. cl_claims_update (\<lambda>_. xs))"
  "Create_Deployment memory = create_by dp_Meta cl_deployments (\<lambda>xs. cl_deployments_update (\<lambda>_. xs))"
  "Update_Deployment memory = update_by dp_Meta cl_deployments (\<lambda>xs. cl_deployments_update (\<lambda>_. xs))"
  "Update_Secret memory = update_by sec_Meta cl_secrets (\<lambda>xs. cl_secrets_update (\<lambda>_. xs))"
  by (simp_all add: memory_def)

lemma memory_control [simp]:
  "SetControllerReference memory = set_controller"
  "GetControllerOf memory = controller_of"
  "ParseGroupVersion memory = group_version"
  "MustParse memory s = Some (Quantity s)"
  "RetryOnConflict memory f = f"
  "PollUntilContextTimeout memory = poll_once"
  "Sleep memory d w = w\<lparr>cl_time := cl_time w + d\<rparr>"
  "Now memory w = (Itoa (cl_time w), w)"
  "Marshal_Spec memory spec = Inr ''spec''"
  "Marshal_Global memory g = Inr ''global''"
  "Marshal_ZooKeeper memory z = Inr ''zooKeeper''"
  "Marshal_Monitoring memory m = Inr ''monitoring''"
  "Marshal_BackupDaemon memory b = Inr ''backupDaemon''"
  by (simp_all add: memory_def)

lemma memory_vault [simp]:
  "BearerToken memory w = ''jwt''"
  "Vault_NewClient memory url = Inr \<lparr>vc_Address = url, vc_Token = ''''\<rparr>"
  "Vault_Write memory = mem_Vault_Write"
  "Vault_Read memory = mem_Vault_Read"
  "Vault_EncodeBody memory j = Inr ''{}''"
  "Vault_RawRequest memory cl verb path body w = ((Some \<lparr>rsp_StatusCode = 200, rsp_Body = ''{}''\<rparr>, None), w)"
  "Password_NewGenerator memory syms = Inr (PasswordGen syms)"
  "Password_Generate memory g l d y u r w = (Inr ''secret'', w)"
  by (simp_all add: memory_def)

section \<open>The documented behaviour\<close>

lemma memory_control_documented: "control_documented memory"
  unfolding control_documented_def retry_documented_def poll_documented_def
proof (intro conjI allI)
  fix f :: "(cluster, unit) op" and s
  show "retried f s (fst (RetryOnConflict memory f s)) (snd (RetryOnConflict memory f s))"
    by (simp add: retried.last_run)
next
  fix i d im s and cond :: "(cluster, bool) op"
  obtain r t where c: "cond s = (r, t)" by fastforce
  have again: "polled cond s (Err (OtherError ''context deadline exceeded'')) t" if "r = Ok False"
    using c that polled.poll_timeout [of cond t "world t"] by (auto intro: polled.poll_again [of _ _ t "world t"])
  show "polled cond s (fst (PollUntilContextTimeout memory i d im cond s))
          (snd (PollUntilContextTimeout memory i d im cond s))"
    using c again by (cases r) (auto simp: poll_once_def intro: polled.intros)
qed

lemma memory_status_documented: "status_documented memory"
  by (auto simp: status_documented_def mem_Update_Status_def named_def Let_def find_Some_iff
      split: option.splits)

lemma memory_secret_update_documented: "secret_update_documented memory"
  by (auto simp: secret_update_documented_def update_by_def split: if_splits)

section \<open>A state to run on\<close>

definition demo_cluster :: cluster where
  "demo_cluster = \<lparr>cl_crs = [demo_cr], cl_services = [], cl_accounts = [], cl_claims = [],
     cl_deployments = [], cl_secrets = [], cl_pods = [], cl_vault = [], cl_policies = [], cl_time = 0\<rparr>"

definition demo_state :: "cluster opstate" where
  "demo_state = \<lparr>world = demo_cluster, op_cr = demo_cr, ResourceVersions = fmempty,
     ResourceHashes = fmempty, globalSpecHash = '''', vaultClient = None\<rparr>"

end
