(* ===== verification/Controller.thy ===== *)
theory Controller
  imports ZooKeeperReconciler BackupDaemonReconciler MonitoringReconciler Cluster
begin

text \<open>
  \<^verbatim>\<open>operator/controllers/zookeeperservice_controller.go\<close>: the reconciliation of a custom resource, and
  the event filters of \<^verbatim>\<open>SetupWithManager\<close>; \<^verbatim>\<open>getWatchNamespace\<close> of \<^verbatim>\<open>operator/main.go\<close>.
\<close>

section \<open>The component reconcilers\<close>

datatype ReconcileService =
    ReconcileZooKeeper
  | ReconcileMonitoring
  | ReconcileBackupDaemon
  | ReconcileIntegrationTests

primrec Reconcile_of :: "'w env \<Rightarrow> ReconcileService \<Rightarrow> ('w, unit) op" where
  "Reconcile_of c ReconcileZooKeeper = zk_Reconcile c"
| "Reconcile_of c ReconcileMonitoring = mon_Reconcile c"
| "Reconcile_of c ReconcileBackupDaemon = bd_Reconcile c"
| "Reconcile_of c ReconcileIntegrationTests = it_Reconcile c"

primrec Status_of :: "'w env \<Rightarrow> ReconcileService \<Rightarrow> ('w, unit) op" where
  "Status_of c ReconcileZooKeeper = zk_Status c"
| "Status_of c ReconcileMonitoring = mon_Status c"
| "Status_of c ReconcileBackupDaemon = bd_Status c"
| "Status_of c ReconcileIntegrationTests = it_Status c"

text \<open>The verb \<^verbatim>\<open>%T\<close>.\<close>

primrec type_name :: "ReconcileService \<Rightarrow> string" where
  "type_name ReconcileZooKeeper = ''controllers.ReconcileZooKeeper''"
| "type_name ReconcileMonitoring = ''controllers.ReconcileMonitoring''"
| "type_name ReconcileBackupDaemon = ''controllers.ReconcileBackupDaemon''"
| "type_name ReconcileIntegrationTests = ''controllers.ReconcileIntegrationTests''"

definition buildReconcilers :: "ZooKeeperService \<Rightarrow> ReconcileService list" where
  "buildReconcilers cr =
     (if spec_ZooKeeper (cr_Spec cr) \<noteq> None then [ReconcileZooKeeper] else []) @
     (if spec_Monitoring (cr_Spec cr) \<noteq> None then [ReconcileMonitoring] else []) @
     (if spec_BackupDaemon (cr_Spec cr) \<noteq> None then [ReconcileBackupDaemon] else []) @
     (if spec_IntegrationTests (cr_Spec cr) \<noteq> None then [ReconcileIntegrationTests] else [])"

section \<open>Reconcile\<close>

definition zooKeeperServiceConditionReason :: string where
  "zooKeeperServiceConditionReason = ''ReconcileCycleStatus''"

definition updateStatus :: "'w env \<Rightarrow> ('w, unit) op" where
  "updateStatus c =
     bindM (gets op_cr) (\<lambda>cr. bindM (lift_outcome (global cr)) (\<lambda>g.
     if maps_Equal (pvcs_Annotations (status_PVCStatus (cr_Status cr))) (pvcc_Annotations (g_PVC g))
     then ret ()
     else storeStatus c (\<lambda>cr. cr\<lparr>cr_Status := (cr_Status cr)\<lparr>status_PVCStatus :=
            (status_PVCStatus (cr_Status cr))\<lparr>pvcs_Annotations := pvcc_Annotations (g_PVC g)\<rparr>\<rparr>\<rparr>)))"

definition writeFailedStatus :: "'w env \<Rightarrow> string \<Rightarrow> ('w, unit) op" where
  "writeFailedStatus c errorMessage =
     discard (attempt (updateConditions c
       (NewCondition statusFalse typeFailed zooKeeperServiceConditionReason errorMessage)))"

text \<open>\<^verbatim>\<open>if err := m(); err != nil { r.writeFailedStatus(...); return err }\<close>\<close>

definition orWriteFailed :: "'w env \<Rightarrow> string \<Rightarrow> ('w, unit) op \<Rightarrow> ('w, unit) op" where
  "orWriteFailed c intro m =
     bindM (attempt m) (\<lambda>r. case r of
        Inr _ \<Rightarrow> ret ()
      | Inl err \<Rightarrow> bindM (writeFailedStatus c (intro @ error_text err)) (\<lambda>_. fail err))"

definition progress :: "'w env \<Rightarrow> string \<Rightarrow> ('w, unit) op" where
  "progress c message =
     updateConditions c (NewCondition statusFalse typeInProgress zooKeeperServiceConditionReason message)"

definition initHashes :: "'w env \<Rightarrow> ('w, string) op" where
  "initHashes c =
     bindM (gets op_cr) (\<lambda>cr.
     bindM (lift_outcome (Hash (Marshal_Spec c) (cr_Spec cr))) (\<lambda>specHash.
     case Hash (Marshal_Global c) (spec_Global (cr_Spec cr)) of
       Ok h \<Rightarrow> bindM (modify (\<lambda>s. s\<lparr>globalSpecHash := h\<rparr>)) (\<lambda>_. ret specHash)
     | Err e \<Rightarrow> bindM (modify (\<lambda>s. s\<lparr>globalSpecHash := ''''\<rparr>)) (\<lambda>_. fail e)
     | Panic p \<Rightarrow> lift_outcome (Panic p)))"

definition startCycle :: "'w env \<Rightarrow> ('w, unit) op" where
  "startCycle c =
     bindM (modify (\<lambda>s. s\<lparr>op_cr := set_conditions [] (op_cr s)\<rparr>)) (\<lambda>_.
     progress c ''Reconciliation cycle started'')"

definition initVault :: "'w env \<Rightarrow> ('w, unit) op" where
  "initVault c =
     bindM (gets op_cr) (\<lambda>cr.
     if IsVaultSecretManagementEnabled cr
     then orWriteFailed c ''An error occurred while creating Vault client: '' (InitVaultClient c)
     else ret ())"

definition runReconcilers :: "'w env \<Rightarrow> ReconcileService list \<Rightarrow> ('w, unit) op" where
  "runReconcilers c reconcilers =
     forM (\<lambda>reconciler. orWriteFailed c
       (''Reconciliation cycle failed for '' @ type_name reconciler @ '' due to: '')
       (Reconcile_of c reconciler)) reconcilers"

definition runStatuses :: "'w env \<Rightarrow> ReconcileService list \<Rightarrow> ('w, unit) op" where
  "runStatuses c reconcilers =
     forM (\<lambda>reconciler. orWriteFailed c
       (''The status reconciliation cycle failed for '' @ type_name reconciler @ '' due to: '')
       (Status_of c reconciler)) reconcilers"

definition waitForPods :: "'w env \<Rightarrow> ReconcileService list \<Rightarrow> ('w, unit) op" where
  "waitForPods c reconcilers =
     bindM (gets op_cr) (\<lambda>cr.
     if (case spec_Global (cr_Spec cr) of None \<Rightarrow> False | Some g \<Rightarrow> g_WaitForPodsReady g)
     then bindM (progress c ''Checking deployment readiness status'') (\<lambda>_.
          bindM (sleep c 10) (\<lambda>_.
          runStatuses c reconcilers))
     else ret ())"

definition finishCycle :: "'w env \<Rightarrow> ('w, unit) op" where
  "finishCycle c =
     bindM (gets op_cr) (\<lambda>cr.
     if hasFailedConditions cr
     then updateConditions c (NewCondition statusFalse typeFailed zooKeeperServiceConditionReason
            ''The deployment readiness status check failed'')
     else updateConditions c (NewCondition statusTrue typeSuccessful zooKeeperServiceConditionReason
            ''The deployment readiness status check is successful''))"

text \<open>Everything before the hashes are recorded; the result is the hash of the specification.\<close>

definition reconcileRest :: "'w env \<Rightarrow> string \<Rightarrow> ('w, string) op" where
  "reconcileRest c specHash =
     bindM (gets (\<lambda>s. fmget (ResourceHashes s) ''spec'' \<noteq> specHash)) (\<lambda>isCustomResourceChanged.
     bindM (if isCustomResourceChanged then startCycle c else ret ()) (\<lambda>_.
     bindM (initVault c) (\<lambda>_.
     bindM (gets (\<lambda>s. buildReconcilers (op_cr s))) (\<lambda>reconcilers.
     bindM (runReconcilers c reconcilers) (\<lambda>_.
     bindM (updateStatus c) (\<lambda>_.
     bindM (if isCustomResourceChanged
            then bindM (waitForPods c reconcilers) (\<lambda>_. finishCycle c) else ret ()) (\<lambda>_.
     ret specHash)))))))"

definition reconcileBody :: "'w env \<Rightarrow> ('w, string) op" where
  "reconcileBody c = bindM (initHashes c) (reconcileRest c)"

definition recordHashes :: "string \<Rightarrow> ('w, unit) op" where
  "recordHashes specHash =
     bindM (recordHash ''spec'' specHash) (\<lambda>_.
     bindM (gets globalSpecHash) (\<lambda>h. recordHash globalHashName h))"

definition Reconcile :: "'w env \<Rightarrow> string \<Rightarrow> string \<Rightarrow> ('w, unit) op" where
  "Reconcile c name namespace =
     bindM (attempt (ext (Get_ZooKeeperService c name namespace))) (\<lambda>r. case r of
        Inl err \<Rightarrow> (if IsNotFound err then ret () else fail err)
      | Inr inst \<Rightarrow>
          bindM (modify (\<lambda>s. s\<lparr>op_cr := inst\<rparr>)) (\<lambda>_.
          bindM (reconcileBody c) recordHashes))"

section \<open>Event filters\<close>

definition statusPredicate_Update :: "ObjectMeta \<Rightarrow> ObjectMeta \<Rightarrow> bool" where
  "statusPredicate_Update objectOld objectNew \<longleftrightarrow> om_Generation objectOld \<noteq> om_Generation objectNew"

definition statusPredicate_Delete :: "bool \<Rightarrow> bool" where
  "statusPredicate_Delete deleteStateUnknown \<longleftrightarrow> \<not> deleteStateUnknown"

definition secretPredicate_Update :: "ObjectMeta \<Rightarrow> ObjectMeta \<Rightarrow> bool" where
  "secretPredicate_Update objectOld objectNew \<longleftrightarrow>
     om_ResourceVersion objectNew \<noteq> om_ResourceVersion objectOld"

definition getWatchNamespace :: "(string \<Rightarrow> string option) \<Rightarrow> go_error + string" where
  "getWatchNamespace LookupEnv =
     (case LookupEnv ''WATCH_NAMESPACE'' of
        None \<Rightarrow> Inl (OtherError ''WATCH_NAMESPACE must be set'')
      | Some ns \<Rightarrow> Inr ns)"

section \<open>Frames\<close>

text \<open>The hashes the controller itself owns.\<close>

definition own_frame :: "'w opstate \<Rightarrow> 'w opstate \<Rightarrow> bool" where
  "own_frame s t \<longleftrightarrow>
     fmlookup (ResourceHashes t) ''spec'' = fmlookup (ResourceHashes s) ''spec'' \<and>
     fmlookup (ResourceHashes t) globalHashName = fmlookup (ResourceHashes s) globalHashName"

interpretation ownf: world_frame "own_frame :: 'w opstate \<Rightarrow> 'w opstate \<Rightarrow> bool"
  by unfold_locales (auto simp: own_frame_def)

text \<open>The variable \<^verbatim>\<open>globalSpecHash\<close>, which only the controller assigns.\<close>

definition global_frame :: "'w opstate \<Rightarrow> 'w opstate \<Rightarrow> bool" where
  "global_frame s t \<longleftrightarrow> globalSpecHash t = globalSpecHash s"

interpretation gf: world_frame "global_frame :: 'w opstate \<Rightarrow> 'w opstate \<Rightarrow> bool"
  by unfold_locales (auto simp: global_frame_def)

lemma own_of_core: "stays core_frame m \<Longrightarrow> stays own_frame m"
  by (auto simp: stays_def core_frame_def own_frame_def)

lemma global_of_core: "stays core_frame m \<Longrightarrow> stays global_frame m"
  by (auto simp: stays_def core_frame_def global_frame_def)

lemma Reconcile_of_service:
  "\<exists>key h. reconcile_service (\<lambda>c :: 'w env. Reconcile_of c r) (\<lambda>c. Status_of c r) key h"
  by (cases r)
     (use zkr.reconcile_service_axioms monr.reconcile_service_axioms bdr.reconcile_service_axioms
        itr.reconcile_service_axioms in auto)

lemma stays_own_Reconcile_of: "control_documented c \<Longrightarrow> stays own_frame (Reconcile_of c r)"
  using Reconcile_of_service [of r]
  by (auto intro!: staysI simp: own_frame_def dest: reconcile_service.reconcile_controller_keys)

lemma stays_global_Reconcile_of: "control_documented c \<Longrightarrow> stays global_frame (Reconcile_of c r)"
  using Reconcile_of_service [of r]
  by (auto intro!: staysI simp: global_frame_def dest: reconcile_service.kept)

lemma stays_conds_Reconcile_of:
  "control_documented c \<Longrightarrow> status_documented c \<Longrightarrow> stays conds_frame (Reconcile_of c r)"
  using Reconcile_of_service [of r] by (auto dest: reconcile_service.reconcile_conditions)

lemma stays_core_Status_of: "control_documented c \<Longrightarrow> stays core_frame (Status_of c r)"
  using Reconcile_of_service [of r] by (auto dest: reconcile_service.status_core)

lemma stays_core_writeFailedStatus: "stays core_frame (writeFailedStatus c msg)"
  unfolding writeFailedStatus_def by (intro cf.world_rules stays_core_updateConditions)

lemma stays_core_progress: "stays core_frame (progress c msg)"
  unfolding progress_def by (rule stays_core_updateConditions)

lemma stays_core_startCycle: "stays core_frame (startCycle c)"
  unfolding startCycle_def by (intro cf.world_rules cf.stays_modify stays_core_progress) (simp add: core_frame_def)

lemma stays_core_updateStatus: "stays core_frame (updateStatus c)"
  unfolding updateStatus_def by (intro cf.world_rules stays_core_storeStatus)

lemma stays_core_finishCycle: "stays core_frame (finishCycle c)"
  unfolding finishCycle_def by (intro cf.world_rules stays_core_updateConditions)

lemma stays_core_waitForPods: "control_documented c \<Longrightarrow> stays core_frame (waitForPods c rs)"
  unfolding waitForPods_def runStatuses_def orWriteFailed_def
  by (intro cf.world_rules stays_core_progress stays_core_Status_of stays_core_writeFailedStatus)

lemmas cycle_frames = stays_core_startCycle stays_core_updateStatus stays_core_finishCycle
  stays_core_waitForPods

lemma stays_own_orWriteFailed: "stays own_frame m \<Longrightarrow> stays own_frame (orWriteFailed c msg m)"
  unfolding orWriteFailed_def
  by (intro ownf.world_rules stays_core_writeFailedStatus [THEN own_of_core])

lemma stays_global_orWriteFailed: "stays global_frame m \<Longrightarrow> stays global_frame (orWriteFailed c msg m)"
  unfolding orWriteFailed_def
  by (intro gf.world_rules stays_core_writeFailedStatus [THEN global_of_core])

lemma stays_login: "stays only_world (login c v)"
  unfolding login_def Let_def by (intro ow.world_rules)

lemma stays_own_InitVaultClient: "stays own_frame (InitVaultClient c)"
  unfolding InitVaultClient_def
  by (intro ownf.world_rules ownf.stays_modify stays_vault [THEN ownf.stays_only_world]
      stays_login [THEN ownf.stays_only_world]) (simp add: own_frame_def)

lemma stays_global_InitVaultClient: "stays global_frame (InitVaultClient c)"
  unfolding InitVaultClient_def
  by (intro gf.world_rules gf.stays_modify stays_vault [THEN gf.stays_only_world]
      stays_login [THEN gf.stays_only_world]) (simp add: global_frame_def)

lemma stays_own_initHashes: "stays own_frame (initHashes c)"
proof (rule staysI)
  fix s r t
  assume "initHashes c s = (r, t)"
  then show "own_frame s t"
    by (auto simp: initHashes_def bindM_def own_frame_def split: outcome.splits)
qed

lemma stays_own_reconcileRest:
  assumes doc: "control_documented c"
  shows "stays own_frame (reconcileRest c h)"
  unfolding reconcileRest_def initVault_def runReconcilers_def
  by (intro ownf.world_rules stays_own_orWriteFailed stays_own_InitVaultClient
      stays_own_Reconcile_of doc cycle_frames [THEN own_of_core])

lemma stays_global_reconcileRest:
  assumes doc: "control_documented c"
  shows "stays global_frame (reconcileRest c h)"
  unfolding reconcileRest_def initVault_def runReconcilers_def
  by (intro gf.world_rules stays_global_orWriteFailed stays_global_InitVaultClient
      stays_global_Reconcile_of doc cycle_frames [THEN global_of_core])

lemma stays_own_reconcileBody: "control_documented c \<Longrightarrow> stays own_frame (reconcileBody c)"
  unfolding reconcileBody_def by (intro ownf.world_rules stays_own_initHashes stays_own_reconcileRest)

section \<open>Properties\<close>

subsection \<open>The hashes are recorded exactly when the cycle succeeds\<close>

lemma recordHashes_run:
  "recordHashes h s = (Ok (), s\<lparr>ResourceHashes :=
     fmupd globalHashName (globalSpecHash s) (fmupd ''spec'' h (ResourceHashes s))\<rparr>)"
  by (simp add: recordHashes_def recordHash_def)

text \<open>A run of \<^verbatim>\<open>Reconcile\<close> is one of four.\<close>

lemma Reconcile_cases:
  assumes "Reconcile c name ns s = (r, t)"
  obtains
    (gone) e w where "Get_ZooKeeperService c name ns (world s) = (Inl e, w)" "IsNotFound e"
      "r = Ok ()" "t = s\<lparr>world := w\<rparr>"
  | (unreadable) e w where "Get_ZooKeeperService c name ns (world s) = (Inl e, w)" "\<not> IsNotFound e"
      "r = Err e" "t = s\<lparr>world := w\<rparr>"
  | (failed) inst w where "Get_ZooKeeperService c name ns (world s) = (Inr inst, w)" "r \<noteq> Ok ()"
      "\<And>h u. reconcileBody c (s\<lparr>world := w, op_cr := inst\<rparr>) \<noteq> (Ok h, u)"
      "snd (reconcileBody c (s\<lparr>world := w, op_cr := inst\<rparr>)) = t"
  | (succeeded) inst w h u where "Get_ZooKeeperService c name ns (world s) = (Inr inst, w)" "r = Ok ()"
      "reconcileBody c (s\<lparr>world := w, op_cr := inst\<rparr>) = (Ok h, u)"
      "t = u\<lparr>ResourceHashes := fmupd globalHashName (globalSpecHash u) (fmupd ''spec'' h (ResourceHashes u))\<rparr>"
proof -
  obtain v w where g: "Get_ZooKeeperService c name ns (world s) = (v, w)" by fastforce
  show thesis
  proof (cases v)
    case (Inl e)
    with assms g show thesis
      by (cases "IsNotFound e") (auto simp: Reconcile_def bindM_def attempt_def ext_def intro: gone unreadable)
  next
    case (Inr inst)
    obtain b u where b: "reconcileBody c (s\<lparr>world := w, op_cr := inst\<rparr>) = (b, u)" by fastforce
    from assms g Inr have run: "bindM (reconcileBody c) recordHashes (s\<lparr>world := w, op_cr := inst\<rparr>) = (r, t)"
      by (simp add: Reconcile_def bindM_def attempt_def ext_def)
    show thesis
    proof (cases b)
      case (Ok h)
      from run b Ok show thesis
        by (intro succeeded [OF g [unfolded Inr] _ b [unfolded Ok]]) (simp_all add: bindM_def recordHashes_run)
    qed (use run b g Inr failed in \<open>auto simp: bindM_def\<close>)
  qed
qed

subsection \<open>What a cycle does to the conditions\<close>

lemma stays_conds_updateStatus: "status_documented c \<Longrightarrow> stays conds_frame (updateStatus c)"
  unfolding updateStatus_def by (intro qf.world_rules stays_conds_storeStatus) simp_all

lemma InitVaultClient_conds: "stays conds_frame (InitVaultClient c)"
  unfolding InitVaultClient_def
  by (intro qf.world_rules qf.stays_modify stays_vault [THEN qf.stays_only_world]
      stays_login [THEN qf.stays_only_world]) (simp add: conds_frame_def conditions_of_def)

lemma orWriteFailed_eq_Ok: "orWriteFailed c msg m s = (Ok (), t) \<longleftrightarrow> m s = (Ok (), t)"
  by (auto simp: orWriteFailed_def bindM_def attempt_def split: prod.splits outcome.splits)

lemma initVault_conds:
  assumes "initVault c s = (Ok (), t)"
  shows "conditions_of t = conditions_of s"
  using assms staysD [OF InitVaultClient_conds]
  by (auto simp: initVault_def orWriteFailed_eq_Ok conds_frame_def split: if_splits)

lemma runReconcilers_conds:
  assumes ctl: "control_documented c" and doc: "status_documented c"
  shows "runReconcilers c rs s = (Ok (), t) \<Longrightarrow> conditions_of t = conditions_of s"
proof (induction rs arbitrary: s)
  case (Cons r rs)
  then obtain u where u: "orWriteFailed c (''Reconciliation cycle failed for '' @ type_name r @ '' due to: '')
      (Reconcile_of c r) s = (Ok (), u)" and rest: "runReconcilers c rs u = (Ok (), t)"
    by (auto simp: runReconcilers_def bindM_eq_Ok)
  from u have "Reconcile_of c r s = (Ok (), u)" by (simp only: orWriteFailed_eq_Ok)
  from staysD [OF stays_conds_Reconcile_of [OF ctl doc] this] Cons.IH [OF rest] show ?case
    by (simp add: conds_frame_def)
qed (simp add: runReconcilers_def)

lemma finishCycle_conditions:
  assumes run: "finishCycle c s = (Ok (), t)" and doc: "status_documented c"
  shows "\<exists>d. cond_view (conditions_of t) zooKeeperServiceConditionReason = Some d \<and>
    (cond_Type d = typeSuccessful \<and> cond_Status d = statusTrue \<and> \<not> anyFailed (conditions_of t) \<or>
     cond_Type d = typeFailed \<and> cond_Status d = statusFalse \<and> anyFailed (conditions_of s))"
proof (cases "anyFailed (conditions_of s)")
  case True
  with run have "updateConditions c (NewCondition statusFalse typeFailed zooKeeperServiceConditionReason
      ''The deployment readiness status check failed'') s = (Ok (), t)"
    by (simp add: finishCycle_def hasFailedConditions_def conditions_of_def)
  from updateConditions_view [OF this doc] True show ?thesis
    by (auto simp: NewCondition_def same_condition_def)
next
  case False
  with run have upd: "updateConditions c (NewCondition statusTrue typeSuccessful zooKeeperServiceConditionReason
      ''The deployment readiness status check is successful'') s = (Ok (), t)"
    by (simp add: finishCycle_def hasFailedConditions_def conditions_of_def)
  then obtain now where t: "conditions_of t = addCondition (conditions_of s)
      ((NewCondition statusTrue typeSuccessful zooKeeperServiceConditionReason
      ''The deployment readiness status check is successful'')\<lparr>cond_LastTransitionTime := now\<rparr>)"
    by (rule updateConditions_Ok [OF _ doc])
  with False have "\<not> anyFailed (conditions_of t)"
    by (auto simp: anyFailed_iff NewCondition_def typeFailed_def typeSuccessful_def dest!: in_addCondition)
  with updateConditions_view [OF upd doc] show ?thesis
    by (auto simp: NewCondition_def same_condition_def)
qed

text \<open>The two ways a successful body ends.\<close>

lemma reconcileRest_Ok:
  assumes run: "reconcileRest c h s = (Ok h', t)"
  obtains (changed) s1 s2 s3 rs s4 where
      "fmget (ResourceHashes s) ''spec'' \<noteq> h" "startCycle c s = (Ok (), s1)" "initVault c s1 = (Ok (), s2)"
      "rs = buildReconcilers (op_cr s2)" "runReconcilers c rs s2 = (Ok (), s3)"
      "updateStatus c s3 = (Ok (), s4)" "\<exists>s5. waitForPods c rs s4 = (Ok (), s5) \<and> finishCycle c s5 = (Ok (), t)"
      "h' = h"
  | (same) s2 s3 where
      "fmget (ResourceHashes s) ''spec'' = h" "initVault c s = (Ok (), s2)"
      "runReconcilers c (buildReconcilers (op_cr s2)) s2 = (Ok (), s3)" "updateStatus c s3 = (Ok (), t)"
      "h' = h"
proof (cases "fmget (ResourceHashes s) ''spec'' = h")
  case True
  with run show thesis by (auto simp: reconcileRest_def bindM_eq_Ok intro: same)
next
  case False
  with run show thesis by (auto simp: reconcileRest_def bindM_eq_Ok intro: changed)
qed

lemma initHashes_Ok:
  "initHashes c s = (Ok h, t) \<longleftrightarrow>
     Hash (Marshal_Spec c) (cr_Spec (op_cr s)) = Ok h \<and>
     (\<exists>g. Hash (Marshal_Global c) (spec_Global (cr_Spec (op_cr s))) = Ok g \<and> t = s\<lparr>globalSpecHash := g\<rparr>)"
  by (auto simp: initHashes_def bindM_def split: outcome.splits)

text \<open>The failing reconciler of a run, with the ones before it.\<close>

lemma runReconcilers_Err:
  assumes "runReconcilers c rs s = (Err e, t)"
  shows "\<exists>pre r post u v. rs = pre @ r # post \<and> runReconcilers c pre s = (Ok (), u) \<and>
     Reconcile_of c r u = (Err e, v) \<and>
     writeFailedStatus c (''Reconciliation cycle failed for '' @ type_name r @ '' due to: '' @ error_text e) v
       = (Ok (), t)"
  using assms
proof (induction rs arbitrary: s)
  case (Cons r rs)
  let ?m = "orWriteFailed c (''Reconciliation cycle failed for '' @ type_name r @ '' due to: '') (Reconcile_of c r)"
  obtain x u where x: "?m s = (x, u)" by fastforce
  show ?case
  proof (cases x)
    case (Ok y)
    with x Cons.prems have "runReconcilers c rs u = (Err e, t)" by (simp add: runReconcilers_def bindM_def)
    from Cons.IH [OF this] obtain pre r' post u' v where
      IH: "rs = pre @ r' # post" "runReconcilers c pre u = (Ok (), u')" "Reconcile_of c r' u' = (Err e, v)"
        "writeFailedStatus c (''Reconciliation cycle failed for '' @ type_name r' @ '' due to: '' @ error_text e) v
           = (Ok (), t)" by blast
    moreover from x Ok IH(2) have "runReconcilers c (r # pre) s = (Ok (), u')"
      by (simp add: runReconcilers_def bindM_def)
    ultimately show ?thesis by (metis append_Cons)
  next
    case (Err e')
    with x Cons.prems have eq: "e' = e" "u = t" by (simp_all add: runReconcilers_def bindM_def)
    from x Err eq have "\<exists>v. Reconcile_of c r s = (Err e, v) \<and>
        writeFailedStatus c ((''Reconciliation cycle failed for '' @ type_name r @ '' due to: '') @ error_text e) v
          = (Ok (), t)"
      by (auto simp: orWriteFailed_def bindM_def attempt_def writeFailedStatus_def
          split: prod.splits outcome.splits)
    then obtain v where "Reconcile_of c r s = (Err e, v)"
      "writeFailedStatus c (''Reconciliation cycle failed for '' @ type_name r @ '' due to: '' @ error_text e) v
          = (Ok (), t)"
      by auto
    then show ?thesis
      by (intro exI [of _ "[]"] exI [of _ r] exI [of _ rs] exI [of _ s] exI [of _ v])
         (simp add: runReconcilers_def)
  next
    case (Panic p)
    with x Cons.prems show ?thesis by (simp add: runReconcilers_def bindM_def)
  qed
qed (simp add: runReconcilers_def)

lemma writeFailedStatus_conditions:
  assumes run: "writeFailedStatus c msg s = (r, t)" and doc: "status_documented c"
  shows "\<exists>d. cond_view (conditions_of t) zooKeeperServiceConditionReason = Some d \<and>
     cond_Type d = typeFailed \<and> cond_Status d = statusFalse \<and> cond_Message d = msg"
proof -
  let ?c = "NewCondition statusFalse typeFailed zooKeeperServiceConditionReason msg"
  obtain x where x: "updateConditions c ?c s = (x, t)"
    using run by (auto simp: writeFailedStatus_def bindM_def attempt_def split: prod.splits outcome.splits)
  from updateConditions_conditions [OF x doc] obtain now where t: "conditions_of t = addCondition (conditions_of s) (?c\<lparr>cond_LastTransitionTime := now\<rparr>)"
    by blast
  from addCondition_entry [of "conditions_of s" "?c\<lparr>cond_LastTransitionTime := now\<rparr>"] show ?thesis
    unfolding t by (auto simp: NewCondition_def same_condition_def)
qed

subsection \<open>Runs that succeed and runs that do not\<close>

lemma Reconcile_Ok_run:
  assumes ctl: "control_documented c" and run: "Reconcile c name ns s = (Ok (), t)"
    and get: "Get_ZooKeeperService c name ns (world s) = (Inr inst, w)"
  obtains h g u where
    "Hash (Marshal_Spec c) (cr_Spec inst) = Ok h"
    "Hash (Marshal_Global c) (spec_Global (cr_Spec inst)) = Ok g"
    "reconcileRest c h (s\<lparr>world := w, op_cr := inst, globalSpecHash := g\<rparr>) = (Ok h, u)"
    "t = u\<lparr>ResourceHashes := fmupd globalHashName g (fmupd ''spec'' h (ResourceHashes u))\<rparr>"
  using run
proof (cases rule: Reconcile_cases)
  case (succeeded inst' w' h u)
  with get have "reconcileBody c (s\<lparr>world := w, op_cr := inst\<rparr>) = (Ok h, u)" by simp
  then obtain h0 v where i: "initHashes c (s\<lparr>world := w, op_cr := inst\<rparr>) = (Ok h0, v)"
    and rest: "reconcileRest c h0 v = (Ok h, u)"
    by (auto simp: reconcileBody_def bindM_eq_Ok)
  from rest have eq: "h0 = h" by (cases rule: reconcileRest_Ok) simp_all
  have "globalSpecHash u = globalSpecHash v"
    using staysD [OF stays_global_reconcileRest [OF ctl] rest] by (simp add: global_frame_def)
  with i rest eq succeeded(4) that show thesis by (auto simp: initHashes_Ok)
qed (use get in simp_all)

lemma Reconcile_own_frame:
  assumes ctl: "control_documented c" and run: "Reconcile c name ns s = (r, t)"
    and quiet: "r \<noteq> Ok () \<or> (\<exists>e w. Get_ZooKeeperService c name ns (world s) = (Inl e, w))"
  shows "own_frame s t"
  using run
proof (cases rule: Reconcile_cases)
  case (failed inst w)
  from stays_own_reconcileBody [OF ctl] have "own_frame (s\<lparr>world := w, op_cr := inst\<rparr>) t"
    unfolding failed(4) [symmetric] by (simp add: stays_def)
  then show ?thesis by (simp add: own_frame_def)
qed (use quiet in \<open>simp_all add: own_frame_def\<close>)

lemma reconcileRest_same_conditions:
  assumes ctl: "control_documented c" and doc: "status_documented c"
    and run: "reconcileRest c h s = (Ok h', t)" and known: "fmget (ResourceHashes s) ''spec'' = h"
  shows "conditions_of t = conditions_of s"
  using run
proof (cases rule: reconcileRest_Ok)
  case (same s2 s3)
  have "conditions_of t = conditions_of s3"
    using staysD [OF stays_conds_updateStatus [OF doc] same(4)] by (simp add: conds_frame_def)
  with initVault_conds [OF same(2)] runReconcilers_conds [OF ctl doc same(3)] show ?thesis by simp
qed (use known in simp)

section \<open>Claims\<close>

lemma updateConditions_no_panic [simp]: "updateConditions c cond s \<noteq> (Panic p, t)"
  by (auto elim: updateConditions_run)

text \<open>
  C1. Retry safety. When a reconciliation does not succeed (it returns an error or panics), the
  recorded hashes of the specification and of its global section are the ones from before: the next
  run sees the same difference and does the work again. Hypothesis: the documented behaviour of
  \<^verbatim>\<open>RetryOnConflict\<close> and \<^verbatim>\<open>PollUntilContextTimeout\<close>.
\<close>

theorem reconcile_retry_safe:
  assumes "control_documented c" and "Reconcile c name ns s = (r, t)" and "r \<noteq> Ok ()"
  shows "fmlookup (ResourceHashes t) ''spec'' = fmlookup (ResourceHashes s) ''spec'' \<and>
    fmlookup (ResourceHashes t) globalHashName = fmlookup (ResourceHashes s) globalHashName"
  using Reconcile_own_frame [OF assms(1,2)] assms(3) by (simp add: own_frame_def)

definition broken_memory :: "cluster env" where
  "broken_memory = memory\<lparr>Marshal_Spec := (\<lambda>_. Inl (OtherError ''unsupported value''))\<rparr>"

lemma broken_memory_control_documented: "control_documented broken_memory"
  using memory_control_documented
  by (simp add: control_documented_def retry_documented_def poll_documented_def broken_memory_def)

theorem reconcile_retry_safe_witness:
  "Reconcile broken_memory ''zookeeper'' ''zk''
     (demo_state\<lparr>ResourceHashes := fmupd ''spec'' ''old'' fmempty\<rparr>) =
     (Err (OtherError ''unsupported value''), demo_state\<lparr>ResourceHashes := fmupd ''spec'' ''old'' fmempty\<rparr>) \<and>
   fmlookup (ResourceHashes (snd (Reconcile broken_memory ''zookeeper'' ''zk''
     (demo_state\<lparr>ResourceHashes := fmupd ''spec'' ''old'' fmempty\<rparr>)))) ''spec'' = Some ''old''"
proof -
  let ?s = "demo_state\<lparr>ResourceHashes := fmupd ''spec'' ''old'' fmempty\<rparr>"
  have run: "Reconcile broken_memory ''zookeeper'' ''zk'' ?s = (Err (OtherError ''unsupported value''), ?s)"
    by (simp add: Reconcile_def reconcileBody_def initHashes_def Hash_def broken_memory_def bindM_def
        attempt_def ext_def get_by_def named_def demo_state_def demo_cluster_def demo_cr_def)
  from reconcile_retry_safe [OF broken_memory_control_documented run] run show ?thesis by simp
qed

text \<open>
  C2. A successful reconciliation of an existing custom resource leaves in \<^verbatim>\<open>ResourceHashes\<close> the SHA-256
  hash of the specification it read and of its global section.
\<close>

theorem reconcile_records_hashes:
  assumes "control_documented c" and "Reconcile c name ns s = (Ok (), t)"
    and "Get_ZooKeeperService c name ns (world s) = (Inr inst, w)"
  shows "\<exists>h g. Hash (Marshal_Spec c) (cr_Spec inst) = Ok h \<and>
    Hash (Marshal_Global c) (spec_Global (cr_Spec inst)) = Ok g \<and>
    fmlookup (ResourceHashes t) ''spec'' = Some h \<and> fmlookup (ResourceHashes t) globalHashName = Some g"
  using assms by (rule Reconcile_Ok_run) (auto simp: globalHashName_def)

definition demo_done :: "cluster opstate" where
  "demo_done = snd (Reconcile memory ''zookeeper'' ''zk'' demo_state)"

lemma demo_run: "Reconcile memory ''zookeeper'' ''zk'' demo_state = (Ok (), demo_done)"
proof -
  have "fst (Reconcile memory ''zookeeper'' ''zk'' demo_state) = Ok ()"
    by (simp add: Reconcile_def reconcileBody_def reconcileRest_def initHashes_def Hash_def bindM_def
        hex_digest_nonempty [symmetric] attempt_def ext_def ext_total_def get_by_def named_def demo_state_def demo_cluster_def demo_cr_def
        startCycle_def progress_def updateConditions_def mem_Update_Status_def initVault_def
        IsVaultSecretManagementEnabled_def demo_spec_def buildReconcilers_def runReconcilers_def
        updateStatus_def global_def maps_Equal_def demo_status_def demo_global_def waitForPods_def
        finishCycle_def hasFailedConditions_def NewCondition_def typeInProgress_def recordHashes_run Let_def)
  then show ?thesis by (simp add: demo_done_def prod_eq_iff)
qed

theorem reconcile_records_hashes_witness:
  "fmlookup (ResourceHashes demo_done) ''spec'' = Some (hex_digest ''spec'') \<and>
   fmlookup (ResourceHashes demo_done) globalHashName = Some (hex_digest ''global'')"
proof -
  have "Get_ZooKeeperService memory ''zookeeper'' ''zk'' (world demo_state) = (Inr demo_cr, demo_cluster)"
    by (simp add: get_by_def named_def demo_state_def demo_cluster_def demo_cr_def)
  from reconcile_records_hashes [OF memory_control_documented demo_run this] show ?thesis
    by (simp add: Hash_def)
qed

text \<open>
  C3. The verdict of a cycle. When the specification changed and the reconciliation succeeds, the
  custom resource ends with one condition for the cycle: \<^verbatim>\<open>Successful\<close>, and then no condition of any
  component says \<^verbatim>\<open>Failed\<close>, or \<^verbatim>\<open>Failed\<close>. Hypotheses: the documented behaviour of the control
  operators and of \<^verbatim>\<open>Status().Update\<close>.
\<close>

theorem reconcile_verdict:
  assumes "control_documented c" and "status_documented c" and "Reconcile c name ns s = (Ok (), t)"
    and "Get_ZooKeeperService c name ns (world s) = (Inr inst, w)"
    and "Hash (Marshal_Spec c) (cr_Spec inst) = Ok h" and "fmget (ResourceHashes s) ''spec'' \<noteq> h"
  shows "\<exists>d. cond_view (conditions_of t) zooKeeperServiceConditionReason = Some d \<and>
    (cond_Type d = typeSuccessful \<and> cond_Status d = statusTrue \<and> \<not> hasFailedConditions (op_cr t) \<or>
     cond_Type d = typeFailed \<and> cond_Status d = statusFalse)"
proof -
  from assms(1,3,4) obtain g u where
    rest: "reconcileRest c h (s\<lparr>world := w, op_cr := inst, globalSpecHash := g\<rparr>) = (Ok h, u)" and
    t: "op_cr t = op_cr u"
    by (rule Reconcile_Ok_run) (use assms(5) in simp)
  from rest show ?thesis
  proof (cases rule: reconcileRest_Ok)
    case (changed s1 s2 s3 rs s4)
    then obtain s5 where "finishCycle c s5 = (Ok (), u)" by blast
    from finishCycle_conditions [OF this assms(2)] show ?thesis
      unfolding t hasFailedConditions_def conditions_of_def by blast
  qed (use assms(6) in simp)
qed

theorem reconcile_verdict_witness:
  "\<exists>d. cond_view (conditions_of demo_done) zooKeeperServiceConditionReason = Some d \<and>
    (cond_Type d = typeSuccessful \<and> cond_Status d = statusTrue \<and> \<not> hasFailedConditions (op_cr demo_done) \<or>
     cond_Type d = typeFailed \<and> cond_Status d = statusFalse)"
proof (rule reconcile_verdict [OF memory_control_documented memory_status_documented demo_run])
  show "Get_ZooKeeperService memory ''zookeeper'' ''zk'' (world demo_state) = (Inr demo_cr, demo_cluster)"
    by (simp add: get_by_def named_def demo_state_def demo_cluster_def demo_cr_def)
  show "Hash (Marshal_Spec memory) (cr_Spec demo_cr) = Ok (hex_digest ''spec'')" by (simp add: Hash_def)
  show "fmget (ResourceHashes demo_state) ''spec'' \<noteq> hex_digest ''spec''"
    by (simp add: demo_state_def hex_digest_nonempty [symmetric])
qed

text \<open>
  C4. When the specification did not change, a successful reconciliation leaves the conditions of the
  custom resource as they were read.
\<close>

theorem reconcile_unchanged:
  assumes "control_documented c" and "status_documented c" and "Reconcile c name ns s = (Ok (), t)"
    and "Get_ZooKeeperService c name ns (world s) = (Inr inst, w)"
    and "Hash (Marshal_Spec c) (cr_Spec inst) = Ok h" and "fmget (ResourceHashes s) ''spec'' = h"
  shows "conditions_of t = status_Conditions (cr_Status inst)"
proof -
  from assms(1,3,4) obtain g u where
    rest: "reconcileRest c h (s\<lparr>world := w, op_cr := inst, globalSpecHash := g\<rparr>) = (Ok h, u)" and
    t: "op_cr t = op_cr u"
    by (rule Reconcile_Ok_run) (use assms(5) in simp)
  from reconcileRest_same_conditions [OF assms(1,2) rest] assms(6) t show ?thesis
    by (simp add: conditions_of_def)
qed

definition demo_settled :: "cluster opstate" where
  "demo_settled = demo_state\<lparr>world := demo_cluster\<lparr>cl_crs := [set_conditions
       [NewCondition statusTrue typeSuccessful zooKeeperServiceConditionReason ''settled''] demo_cr]\<rparr>,
     ResourceHashes := fmupd ''spec'' (hex_digest ''spec'') fmempty\<rparr>"

lemma demo_settled_run:
  "fst (Reconcile memory ''zookeeper'' ''zk'' demo_settled) = Ok ()"
  by (simp add: Reconcile_def reconcileBody_def reconcileRest_def initHashes_def Hash_def bindM_def
      attempt_def ext_def get_by_def named_def demo_settled_def demo_state_def demo_cluster_def demo_cr_def
      initVault_def IsVaultSecretManagementEnabled_def demo_spec_def buildReconcilers_def
      runReconcilers_def updateStatus_def global_def maps_Equal_def demo_status_def demo_global_def
      recordHashes_run)

theorem reconcile_unchanged_witness:
  "conditions_of (snd (Reconcile memory ''zookeeper'' ''zk'' demo_settled)) =
     [NewCondition statusTrue typeSuccessful zooKeeperServiceConditionReason ''settled'']"
proof -
  obtain t where run: "Reconcile memory ''zookeeper'' ''zk'' demo_settled = (Ok (), t)"
    using demo_settled_run by (metis prod.collapse)
  have get: "Get_ZooKeeperService memory ''zookeeper'' ''zk'' (world demo_settled) =
      (Inr (set_conditions [NewCondition statusTrue typeSuccessful zooKeeperServiceConditionReason ''settled'']
         demo_cr), world demo_settled)"
    by (simp add: get_by_def named_def demo_settled_def demo_cr_def)
  have hash: "Hash (Marshal_Spec memory) spec = Ok (hex_digest ''spec'')" for spec by (simp add: Hash_def)
  have old: "fmget (ResourceHashes demo_settled) ''spec'' = hex_digest ''spec''" by (simp add: demo_settled_def)
  from reconcile_unchanged [OF memory_control_documented memory_status_documented run get hash old] run
  show ?thesis by simp
qed


definition demo_zk_state :: "cluster opstate" where
  "demo_zk_state = demo_state\<lparr>op_cr := demo_zk_cr, world := demo_cluster\<lparr>cl_crs := [demo_zk_cr]\<rparr>\<rparr>"

lemma demo_zk_fails:
  "Reconcile_of memory ReconcileZooKeeper demo_zk_state = (Err (NotFound ''zookeeper-secret''), demo_zk_state)"
  by (simp add: zk_Reconcile_def zk_reconcileBody_def zk_section_def watchOwnSecret_def watchSecret_def
      findSecret_def bindM_def attempt_def ext_def get_by_def IsVaultSecretManagementEnabled_def
      demo_zk_state_def demo_state_def demo_cluster_def demo_defs)


text \<open>
  A custom resource that is gone ends the reconciliation without an error and without a change of
  the operator's state; any other error of the read is returned, so that the request comes back.
\<close>

theorem reconcile_absent:
  assumes "Get_ZooKeeperService c name ns (world s) = (Inl e, w)"
  shows "Reconcile c name ns s = (if IsNotFound e then Ok () else Err e, s\<lparr>world := w\<rparr>)"
  using assms by (simp add: Reconcile_def bindM_def attempt_def ext_def)

theorem reconcile_absent_witness:
  "Reconcile memory ''other'' ''zk'' demo_state = (Ok (), demo_state)"
proof -
  have "Get_ZooKeeperService memory ''other'' ''zk'' (world demo_state) = (Inl (NotFound ''other''), demo_cluster)"
    by (simp add: get_by_def named_def demo_state_def demo_cluster_def demo_cr_def)
  from reconcile_absent [OF this] show ?thesis by (simp add: demo_state_def)
qed

primrec hash_key :: "ReconcileService \<Rightarrow> string option" where
  "hash_key ReconcileZooKeeper = Some zooKeeperHashName"
| "hash_key ReconcileMonitoring = Some monitoringHashName"
| "hash_key ReconcileBackupDaemon = Some backupDaemonHashName"
| "hash_key ReconcileIntegrationTests = None"

primrec section_hash :: "'w env \<Rightarrow> ZooKeeperService \<Rightarrow> ReconcileService \<Rightarrow> string outcome" where
  "section_hash c cr ReconcileZooKeeper = zk_specHash c cr"
| "section_hash c cr ReconcileMonitoring = mon_specHash c cr"
| "section_hash c cr ReconcileBackupDaemon = bd_specHash c cr"
| "section_hash c cr ReconcileIntegrationTests = Err (OtherError '''')"

lemma Reconcile_of_commits:
  assumes "control_documented c" and "Reconcile_of c r s = (x, t)"
  shows "ResourceHashes t = ResourceHashes s \<and> (x = Ok () \<longrightarrow> hash_key r = None) \<or>
    x = Ok () \<and> (\<exists>k h. hash_key r = Some k \<and> section_hash c (op_cr s) r = Ok h \<and>
                    ResourceHashes t = fmupd k h (ResourceHashes s))"
proof (cases "x = Ok ()")
  case True
  with assms show ?thesis
    using zkr.commit [OF assms(1), of s t] monr.commit [OF assms(1), of s t] bdr.commit [OF assms(1), of s t]
    by (cases r) (auto simp: it_Reconcile_def)
next
  case False
  with assms show ?thesis
    using zkr.abort [OF assms(1), of s x t] monr.abort [OF assms(1), of s x t]
      bdr.abort [OF assms(1), of s x t]
    by (cases r) (auto simp: it_Reconcile_def)
qed

text \<open>
  C6. Each component owns one entry of \<^verbatim>\<open>ResourceHashes\<close> (the integration tests none). Its
  \<^verbatim>\<open>Reconcile\<close> writes the hash of its section there exactly when it succeeds, and no other entry ever.
\<close>

theorem component_commits:
  assumes "control_documented c" and "Reconcile_of c r s = (x, t)"
  shows "ResourceHashes t = ResourceHashes s \<and> (x = Ok () \<longrightarrow> hash_key r = None) \<or>
    x = Ok () \<and> (\<exists>k h. hash_key r = Some k \<and> section_hash c (op_cr s) r = Ok h \<and>
                    ResourceHashes t = fmupd k h (ResourceHashes s))"
  using assms by (rule Reconcile_of_commits)

definition demo_secret :: Secret where
  "demo_secret = \<lparr>sec_Meta = new_meta ''zookeeper-secret'' ''zk'' None None, sec_Data = None\<rparr>"

definition demo_zk_ready :: "cluster opstate" where
  "demo_zk_ready = demo_zk_state\<lparr>
     world := (world demo_zk_state)\<lparr>cl_secrets := [demo_secret]\<rparr>,
     ResourceHashes := fmupd zooKeeperHashName (hex_digest ''zooKeeper'') fmempty\<rparr>"

lemma demo_zk_skips: "fst (Reconcile_of memory ReconcileZooKeeper demo_zk_ready) = Ok ()"
proof -
  have "[1 .. 3] = [1, 2, 3 :: int]" by (simp add: upto.simps)
  then show ?thesis
    by (simp add: zk_Reconcile_def zk_reconcileBody_def zk_section_def watchOwnSecret_def watchSecret_def
        findSecret_def updateSecret_def releaseOwner_def controller_of_def set_controller_def update_by_def
        named_def bindM_def attempt_def ext_def get_by_def configurationChanged_def secretVersionChanged_def
        Hash_def zk_restartAnnotations_def updateDeploymentSecretRestartAnnotations_def
        restartAnnotationsOnce_def recordSecretVersion_def recordHash_def zooKeeperHashName_def
        globalHashName_def demo_secret_def demo_zk_ready_def demo_zk_state_def demo_state_def
        demo_cluster_def demo_defs)
qed

theorem component_commits_witness:
  "\<exists>t. Reconcile_of memory ReconcileZooKeeper demo_zk_ready = (Ok (), t) \<and>
     ResourceHashes t = fmupd zooKeeperHashName (hex_digest ''zooKeeper'') (ResourceHashes demo_zk_ready)"
proof -
  obtain t where run: "Reconcile_of memory ReconcileZooKeeper demo_zk_ready = (Ok (), t)"
    using demo_zk_skips by (metis prod.collapse)
  from component_commits [OF memory_control_documented run] run show ?thesis
    by (simp add: zk_specHash_def Hash_def)
qed

end
