(* ===== verification/ClusterOperations.thy ===== *)
theory ClusterOperations
  imports Cluster
begin

text \<open>
  What the operations on the cluster and on Vault promise: the annotations of claims, applied
  deployments, restart annotations, ownership of secrets, credentials and their rotation. The lemmas
  behind them are in the theories of the operations; the witnesses run on the cluster in memory.
\<close>

section \<open>Claims, deployments, restart annotations\<close>

text \<open>
  C15. When the annotations of the specification differ from those the status records, an existing claim
  is written back with the new annotations, without those that were recorded and are gone, and with
  every annotation another party put there. Nothing else of the claim changes.
\<close>

theorem claim_annotations_merged:
  assumes "updatePersistentVolumeClaim c found pvc s = (Ok (), t)"
    and "\<not> maps_Equal (om_Annotations (pvc_Meta pvc)) (pvcs_Annotations (status_PVCStatus (cr_Status (op_cr s))))"
  shows "\<exists>m x. Update_PVC c (found\<lparr>pvc_Meta := (pvc_Meta found)\<lparr>om_Annotations := m\<rparr>\<rparr>) (world s) = (Inr x, world t) \<and>
    (\<forall>k. mlookup m k =
       (case mlookup (om_Annotations (pvc_Meta pvc)) k of
          Some v \<Rightarrow> Some v
        | None \<Rightarrow> if mlookup (pvcs_Annotations (status_PVCStatus (cr_Status (op_cr s)))) k \<noteq> None then None
                  else mlookup (om_Annotations (pvc_Meta found)) k))"
proof -
  from assms obtain m where
    m: "mergeAnnotations (om_Annotations (pvc_Meta found)) (om_Annotations (pvc_Meta pvc))
          (pvcs_Annotations (status_PVCStatus (cr_Status (op_cr s)))) = Ok m" and
    w: "discard (ext (Update_PVC c (found\<lparr>pvc_Meta := (pvc_Meta found)\<lparr>om_Annotations := m\<rparr>\<rparr>))) s = (Ok (), t)"
    unfolding updatePersistentVolumeClaim_def Let_def
    by (auto simp: bindM_eq_Ok [of "gets _"] bindM_eq_Ok [of "lift_outcome _"])
  from w obtain x where
    "Update_PVC c (found\<lparr>pvc_Meta := (pvc_Meta found)\<lparr>om_Annotations := m\<rparr>\<rparr>) (world s) = (Inr x, world t)"
    unfolding discard_ext_Ok by blast
  with mergeAnnotations_lookup [OF m] show ?thesis by blast
qed

lemma createOrUpdateDeployment_Ok:
  assumes doc: "control_documented c" and run: "createOrUpdateDeployment c d s = (Ok (), t)"
  shows "\<exists>found w. Get_Deployment c (om_Name (dp_Meta d)) (om_Namespace (dp_Meta d)) (world s) = (found, w) \<and>
    (case found of
       Inl e \<Rightarrow> IsNotFound e \<and> (\<exists>x. Create_Deployment c d w = (Inr x, world t))
     | Inr _ \<Rightarrow> \<exists>w0 stored w1 x. (w0 = w \<or> conflicting (updateFoundDeployment c d) w) \<and>
         Get_Deployment c (om_Name (dp_Meta d)) (om_Namespace (dp_Meta d)) w0 = (Inr stored, w1) \<and>
         Update_Deployment c (deployment_update d stored) w1 = (Inr x, world t))"
proof -
  let ?get = "Get_Deployment c (om_Name (dp_Meta d)) (om_Namespace (dp_Meta d))"
  obtain found w where get: "?get (world s) = (found, w)" by fastforce
  show ?thesis
  proof (cases found)
    case (Inl e)
    with run get show ?thesis
      by (auto simp: createOrUpdateDeployment_def bindM_eq_Ok attempt_def ext_def split: if_splits prod.splits sum.splits)
  next
    case (Inr y)
    with run get have "RetryOnConflict c (updateFoundDeployment c d) (s\<lparr>world := w\<rparr>) = (Ok (), t)"
      by (simp add: createOrUpdateDeployment_def bindM_eq_Ok attempt_def ext_def)
    with doc have "retried (updateFoundDeployment c d) (s\<lparr>world := w\<rparr>) (Ok ()) t"
      by (auto simp: control_documented_def intro: retriedI)
    then obtain u where u: "updateFoundDeployment c d u = (Ok (), t)"
      "world u = w \<or> conflicting (updateFoundDeployment c d) w" using retried_run by fastforce
    then obtain stored w1 x where "?get (world u) = (Inr stored, w1)"
      "Update_Deployment c (deployment_update d stored) w1 = (Inr x, world t)"
      unfolding updateFoundDeployment_def
      by (auto simp: bindM_eq_Ok [of "ext (Get_Deployment _ _ _)"] ext_eq_Ok discard_ext_Ok)
    with get u(2) Inr show ?thesis by auto
  qed
qed

text \<open>
  C16. Desired state. Creating or updating a deployment never panics. When it returns nil, its last call
  was a successful write: a deployment that was not there was created as desired; one that was there was
  replaced by the desired one under the resource version just read, after another read when
  the first attempt met a conflict.
\<close>

theorem deployment_applied:
  assumes "control_documented c" and "createOrUpdateDeployment c d s = (r, t)"
  shows "(\<forall>p. r \<noteq> Panic p) \<and> (r = Ok () \<longrightarrow>
    (\<exists>found w. Get_Deployment c (om_Name (dp_Meta d)) (om_Namespace (dp_Meta d)) (world s) = (found, w) \<and>
      (case found of
         Inl e \<Rightarrow> IsNotFound e \<and> (\<exists>x. Create_Deployment c d w = (Inr x, world t))
       | Inr _ \<Rightarrow> \<exists>w0 stored w1 x. (w0 = w \<or> conflicting (updateFoundDeployment c d) w) \<and>
           Get_Deployment c (om_Name (dp_Meta d)) (om_Namespace (dp_Meta d)) w0 = (Inr stored, w1) \<and>
           Update_Deployment c (d\<lparr>dp_Meta := (dp_Meta d)
             \<lparr>om_ResourceVersion := om_ResourceVersion (dp_Meta stored)\<rparr>\<rparr>) w1 = (Inr x, world t))))"
proof (rule conjI)
  show "\<forall>p. r \<noteq> Panic p" using dpa.no_panic [OF assms(1)] assms(2) by metis
qed (use createOrUpdateDeployment_Ok [OF assms(1), unfolded deployment_update_def] assms(2) in blast)

lemma distinct_consistent: "distinct (map fst ws) \<Longrightarrow> consistent ws"
  by (auto simp: consistent_def dest: eq_key_imp_eq_value)

lemma wanted_consistent:
  assumes "distinct (map (\<lambda>x. om_Name (sec_Meta (the x))) (filter eligible secs))"
  shows "consistent (wanted secs)"
proof (rule distinct_consistent)
  have "map fst (wanted secs) =
      map ResourceVersionAnnotation (map (\<lambda>x. om_Name (sec_Meta (the x))) (filter eligible secs))"
    by (simp add: wanted_def)
  with assms show "distinct (map fst (wanted secs))"
    by (simp only: distinct_map inj_on_def ResourceVersionAnnotation_inj) blast
qed


definition demo_claim :: "string gomap \<Rightarrow> PersistentVolumeClaim" where
  "demo_claim a = \<lparr>pvc_Meta = new_meta ''pvc-zookeeper-1'' ''zk'' None a, pvc_AccessModes = [''ReadWriteOnce''],
     pvc_StorageRequest = Quantity ''1Gi'', pvc_VolumeName = '''', pvc_Selector = None,
     pvc_StorageClassName = Some ''''\<rparr>"

text \<open>The status records \<open>b\<close>; the specification now asks for \<open>a\<close>; someone else put \<open>x\<close>.\<close>

definition demo_claim_state :: "cluster opstate" where
  "demo_claim_state = demo_state\<lparr>
     op_cr := demo_cr\<lparr>cr_Status := demo_status\<lparr>status_PVCStatus :=
       \<lparr>pvcs_Annotations = Some (fmupd ''b'' ''2'' fmempty)\<rparr>\<rparr>\<rparr>,
     world := demo_cluster\<lparr>cl_claims := [demo_claim (Some (fmupd ''x'' ''0'' (fmupd ''b'' ''2'' fmempty)))]\<rparr>\<rparr>"

theorem claim_annotations_merged_witness:
  "\<exists>t m. updatePersistentVolumeClaim memory (demo_claim (Some (fmupd ''x'' ''0'' (fmupd ''b'' ''2'' fmempty))))
       (demo_claim (Some (fmupd ''a'' ''1'' fmempty))) demo_claim_state = (Ok (), t) \<and>
     mlookup m ''a'' = Some ''1'' \<and> mlookup m ''b'' = None \<and> mlookup m ''x'' = Some ''0'' \<and>
     cl_claims (world t) = [demo_claim m]"
proof -
  let ?found = "demo_claim (Some (fmupd ''x'' ''0'' (fmupd ''b'' ''2'' fmempty)))"
  let ?pvc = "demo_claim (Some (fmupd ''a'' ''1'' fmempty))"
  have rec: "pvcs_Annotations (status_PVCStatus (cr_Status (op_cr demo_claim_state))) = Some (fmupd ''b'' ''2'' fmempty)"
    by (simp add: demo_claim_state_def)
  have "fmlookup (fmupd ''a'' ''1'' fmempty) ''b'' \<noteq> fmlookup (fmupd ''b'' ''2'' fmempty) ''b''" by simp
  then have ne: "\<not> maps_Equal (om_Annotations (pvc_Meta ?pvc))
      (pvcs_Annotations (status_PVCStatus (cr_Status (op_cr demo_claim_state))))"
    unfolding rec by (auto simp: maps_Equal_def demo_claim_def new_meta_def contents_def simp del: fmupd_lookup)
  have "fst (updatePersistentVolumeClaim memory ?found ?pvc demo_claim_state) = Ok ()"
    using ne unfolding updatePersistentVolumeClaim_def Let_def
    by (simp add: bindM_def mergeAnnotations_def maps_Copy_def ext_def update_by_def named_def
        demo_claim_def new_meta_def demo_claim_state_def)
  then obtain t where run: "updatePersistentVolumeClaim memory ?found ?pvc demo_claim_state = (Ok (), t)"
    by (metis prod.collapse)
  from claim_annotations_merged [OF run ne] obtain m x where
    upd: "Update_PVC memory (?found\<lparr>pvc_Meta := (pvc_Meta ?found)\<lparr>om_Annotations := m\<rparr>\<rparr>) (world demo_claim_state)
      = (Inr x, world t)" and
    look: "\<And>k. mlookup m k = (case mlookup (om_Annotations (pvc_Meta ?pvc)) k of
          Some v \<Rightarrow> Some v
        | None \<Rightarrow> if mlookup (Some (fmupd ''b'' ''2'' fmempty)) k \<noteq> None then None
                  else mlookup (om_Annotations (pvc_Meta ?found)) k)"
    unfolding rec by blast
  from arg_cong [OF upd, of "\<lambda>p. cl_claims (snd p)"] have "cl_claims (world t) = [demo_claim m]"
    by (simp add: update_by_def named_def demo_claim_def new_meta_def demo_claim_state_def)
  with run look [of "''a''"] look [of "''b''"] look [of "''x''"] show ?thesis
    by (intro exI [of _ t] exI [of _ m]) (simp add: mlookup_def demo_claim_def new_meta_def)
qed

lemma demo_deployment: "\<exists>d. NewServerDeploymentForCR (\<lambda>q. Some (Quantity q)) demo_zk_cr 1 = Ok d"
  unfolding NewServerDeployment_Ok_iff by (simp add: demo_defs)

theorem deployment_applied_witness:
  "\<exists>d t x. NewServerDeploymentForCR (\<lambda>q. Some (Quantity q)) demo_zk_cr 1 = Ok d \<and>
     createOrUpdateDeployment memory d demo_state = (Ok (), t) \<and>
     Create_Deployment memory d (world demo_state) = (Inr x, world t)"
proof -
  obtain d where d: "NewServerDeploymentForCR (\<lambda>q. Some (Quantity q)) demo_zk_cr 1 = Ok d"
    using demo_deployment by blast
  have get: "Get_Deployment memory n m (world demo_state) = (Inl (NotFound n), world demo_state)" for n m
    by (simp add: get_by_def demo_state_def demo_cluster_def)
  have "fst (createOrUpdateDeployment memory d demo_state) = Ok ()"
    by (simp add: createOrUpdateDeployment_def bindM_def attempt_def ext_def get_by_def create_by_def
        demo_state_def demo_cluster_def)
  then obtain t where run: "createOrUpdateDeployment memory d demo_state = (Ok (), t)" by (metis prod.collapse)
  from deployment_applied [OF memory_control_documented run] run d show ?thesis unfolding get by auto
qed

definition demo_restart_secret :: Secret where
  "demo_restart_secret = \<lparr>sec_Meta = (new_meta ''zookeeper-secret'' ''zk'' None
       (Some (fmupd AutoRestartAnnotation ''true'' fmempty)))\<lparr>om_ResourceVersion := ''7''\<rparr>, sec_Data = None\<rparr>"


section \<open>Secrets and their owner\<close>

text \<open>
  The documented behaviour of \<^verbatim>\<open>SetControllerReference\<close>: on success the object is controlled by the
  given owner, and its name and namespace are the same.
\<close>

definition owner_documented :: "'w env \<Rightarrow> bool" where
  "owner_documented c \<longleftrightarrow>
     (\<forall>cr meta meta'. SetControllerReference c cr meta = Inr meta' \<longrightarrow>
        om_Name meta' = om_Name meta \<and> om_Namespace meta' = om_Namespace meta \<and>
        (\<exists>r. GetControllerOf c meta' = Some r \<and> or_Name r = cr_Name cr \<and> or_Kind r = cr_Kind cr))"


lemma find_snoc: "find P xs = None \<Longrightarrow> P x \<Longrightarrow> find P (xs @ [x]) = Some x"
  by (induction xs) (auto split: if_splits)

lemma memory_owner_documented: "owner_documented memory"
  unfolding owner_documented_def
proof (intro allI impI)
  fix cr meta meta'
  assume "SetControllerReference memory cr meta = Inr meta'"
  then show "om_Name meta' = om_Name meta \<and> om_Namespace meta' = om_Namespace meta \<and>
      (\<exists>r. GetControllerOf memory meta' = Some r \<and> or_Name r = cr_Name cr \<and> or_Kind r = cr_Kind cr)"
    by (cases "controller_of meta")
       (auto simp: set_controller_def controller_of_def find_snoc split: if_splits)
qed

text \<open>A secret another custom resource controls.\<close>

definition demo_foreign_secret :: Secret where
  "demo_foreign_secret = \<lparr>sec_Meta = (new_meta ''zookeeper-secret'' ''zk'' None None)\<lparr>om_OwnerReferences :=
       [\<lparr>or_APIVersion = ''netcracker.com/v1'', or_Kind = ''ZooKeeperService'', or_Name = ''old'',
         or_Controller = Some True\<rparr>]\<rparr>, sec_Data = Some (fmupd ''admin-username'' ''admin'' fmempty)\<rparr>"

definition demo_foreign_state :: "cluster opstate" where
  "demo_foreign_state = demo_state\<lparr>world := demo_cluster\<lparr>cl_secrets := [demo_foreign_secret]\<rparr>\<rparr>"


end
