(* ===== verification/VaultOperations.thy ===== *)
theory VaultOperations
  imports Cluster BackupDaemonReconciler
begin

text \<open>
  What the Vault integration promises: when the client is usable, what a rotation of credentials
  writes and records, that users survive it, that it happens once per request, and two places where
  an error is lost or a nil map is written.
\<close>

section \<open>The client\<close>

text \<open>
  A Vault client is stored only when all four connection parameters are given and the login
  returned a token; it then carries the configured address and that token. A failed start keeps the
  client the operator had.
\<close>

theorem vault_client_started:
  assumes "InitVaultClient c s = (r, t)"
  shows "if r = Ok ()
    then \<exists>v cl token w. vault_section (op_cr s) = Ok v \<and>
      '''' \<notin> {vsm_Url v, vsm_Method v, vsm_Role v, vsm_Path v} \<and>
      Vault_NewClient c (vsm_Url v) = Inr cl \<and> login c v s = (Ok token, s\<lparr>world := w\<rparr>) \<and>
      t = s\<lparr>world := w, vaultClient := Some (cl\<lparr>vc_Token := token\<rparr>)\<rparr>
    else only_world s t"
proof -
  have log: "only_world s u" if "login c v s = (x, u)" for v x u
    using that unfolding login_def Let_def
    by (rule staysD [rotated]) (intro ow.world_rules)
  show ?thesis
  proof (cases "vault_section (op_cr s)")
    case (Ok v)
    show ?thesis
    proof (cases "checkVaultConnectionParameters v")
      case (Some e)
      with assms Ok show ?thesis by (auto simp: InitVaultClient_def bindM_def vault_run only_world_def)
    next
      case None
      then have "'''' \<notin> {vsm_Url v, vsm_Method v, vsm_Role v, vsm_Path v}"
        by (auto simp: checkVaultConnectionParameters_def split: if_splits)
      with assms Ok None log [of v] show ?thesis
        by (cases "Vault_NewClient c (vsm_Url v)"; cases "login c v s")
           (auto simp: InitVaultClient_def bindM_def vault_run only_world_def split: outcome.splits)
    qed
  qed (use assms in \<open>auto simp: InitVaultClient_def bindM_def vault_run only_world_def\<close>)
qed

definition demo_vault_state :: "cluster opstate" where
  "demo_vault_state = demo_state\<lparr>op_cr := demo_vault_cr\<rparr>"

lemma demo_vault_section: "vault_section (op_cr demo_vault_state) = Ok demo_vault"
  by (simp add: vault_section_def demo_vault_state_def demo_vault_cr_def)

theorem vault_client_started_witness:
  "\<exists>t. InitVaultClient memory demo_vault_state = (Ok (), t) \<and>
     vaultClient t = Some \<lparr>vc_Address = ''http://vault:8200'', vc_Token = ''token''\<rparr>"
proof -
  have log: "login memory demo_vault demo_vault_state = (Ok ''token'', demo_vault_state)"
    by (simp add: login_def bindM_def ext_def mem_Vault_Write_def)
  have "fst (InitVaultClient memory demo_vault_state) = Ok ()"
    using log
    by (simp add: InitVaultClient_def bindM_def vault_run demo_vault_section
        checkVaultConnectionParameters_def demo_vault_def)
  then obtain t where run: "InitVaultClient memory demo_vault_state = (Ok (), t)" by (metis prod.collapse)
  have url: "vsm_Url demo_vault = ''http://vault:8200''" by (simp add: demo_vault_def)
  from vault_client_started [OF run] run log show ?thesis
    by (auto simp: demo_vault_section url)
qed

section \<open>Credentials\<close>

text \<open>
  C19. The administrator's credentials. When Vault already has them and no refresh is asked for,
  nothing is written. Otherwise the user name of the Kubernetes secret, or else of Vault, is written
  with a password of the configured generator (none for an empty name), and the version Vault answers
  with is recorded in the status under the name of the secret.
\<close>

theorem admin_credentials_rotated:
  assumes "choosePasswordGenerator c s0 = (Ok gen, s0')"
    and "processAdminCredentials c sec gen s = (Ok (), t)"
  shows "\<exists>v cl existing s1. vault_section (op_cr s) = Ok v \<and> vaultClient s = Some cl \<and>
    ReadVaultSecret c (vsm_Path v) (cr_Name (op_cr s) @ ''.'' @ cr_Namespace (op_cr s) @ ''/admin-credentials'') s
      = (Ok existing, s1) \<and>
    (if existing \<noteq> None \<and> \<not> needToRefreshCredentials sec then t = s1
     else \<exists>u p m ver resp w. chosenValue sec ''admin-username'' existing ''username'' = Ok u \<and>
       (if orEmpty u = '''' then p = '''' \<and> w = world s1 else \<exists>s2. gen s1 = (Ok p, s2) \<and> w = world s2) \<and>
       Vault_Write c cl (vsm_Path v @ ''/data/'' @ cr_Name (op_cr s) @ ''.'' @ cr_Namespace (op_cr s) @ ''/admin-credentials'')
         [(''data'', JObject [(''username'', JString (orEmpty u)), (''password'', JString p)])] w
         = (Inr (Some resp), world t) \<and>
       asInt64 (map_of (vsec_Data resp) ''version'') = Ok ver \<and> secretVersions (op_cr s) = Some m \<and>
       op_cr t = set_secretVersions (Some (fmupd
         (cr_Name (op_cr s) @ ''.'' @ cr_Namespace (op_cr s) @ ''/admin-credentials'') ver m)) (op_cr s))"
proof -
  from assms(2) have "updateCredentials c
      (cr_Name (op_cr s) @ ''.'' @ cr_Namespace (op_cr s) @ ''/admin-credentials'') ''admin-username'' sec gen s = (Ok (), t)"
    by (simp add: processAdminCredentials_def bindM_eq_Ok)
  then show ?thesis
    by (rule updateCredentials_Ok [OF _ choosePasswordGenerator_source [OF assms(1)]]) auto
qed

lemma demo_generator:
  "choosePasswordGenerator memory demo_vault_state =
     (Ok (OperatorPasswordGenerator_Generate memory (PasswordGen ''_!'')), demo_vault_state)"
  by (simp add: choosePasswordGenerator_def NewOperatorPasswordGenerator_def bindM_def vault_run
      demo_vault_section) (simp add: demo_vault_def)

definition demo_admin_secret :: Secret where
  "demo_admin_secret = \<lparr>sec_Meta = new_meta ''zookeeper-secret'' ''zk'' None None,
     sec_Data = Some (fmupd ''admin-username'' ''admin'' fmempty)\<rparr>"

definition demo_logged_in :: "cluster opstate" where
  "demo_logged_in = demo_vault_state\<lparr>
     op_cr := set_secretVersions (Some fmempty) demo_vault_cr,
     vaultClient := Some \<lparr>vc_Address = ''http://vault:8200'', vc_Token = ''token''\<rparr>\<rparr>"

lemma demo_logged_in_section: "vault_section (op_cr demo_logged_in) = Ok demo_vault"
  using demo_vault_section
  by (simp add: demo_logged_in_def demo_vault_state_def vault_section_def)

theorem admin_credentials_rotated_witness:
  "\<exists>t. processAdminCredentials memory demo_admin_secret
       (OperatorPasswordGenerator_Generate memory (PasswordGen ''_!'')) demo_logged_in = (Ok (), t) \<and>
     secretVersions (op_cr t) = Some (fmupd ''zookeeper.zk/admin-credentials'' 1 fmempty)"
proof -
  have names: "cr_Name (op_cr demo_logged_in) = ''zookeeper''" "cr_Namespace (op_cr demo_logged_in) = ''zk''"
    "secretVersions (op_cr demo_logged_in) = Some fmempty" "cl_vault (world demo_logged_in) = []"
    "vaultClient demo_logged_in = Some \<lparr>vc_Address = ''http://vault:8200'', vc_Token = ''token''\<rparr>"
    by (simp_all add: demo_logged_in_def demo_vault_state_def demo_state_def demo_cluster_def
        set_secretVersions_def secretVersions_def demo_defs new_meta_def)
  have num: "ParseInt64 ''1'' = Inr 1" by code_simp
  have "fst (processAdminCredentials memory demo_admin_secret
       (OperatorPasswordGenerator_Generate memory (PasswordGen ''_!'')) demo_logged_in) = Ok ()"
    by (simp add: processAdminCredentials_def updateCredentials_def bindM_def vault_run
        demo_logged_in_section names ReadVaultSecret_def WriteVaultSecret_def client_def ext_def
        mem_Vault_Read_def mem_Vault_Write_def chosenValue_def secretContainsKey_def orEmpty_def
        demo_admin_secret_def mlookup_def mget_def fmget_def OperatorPasswordGenerator_Generate_def
        asInt64_def num recordVersion_def mset_def)
  then obtain t where run: "processAdminCredentials memory demo_admin_secret
      (OperatorPasswordGenerator_Generate memory (PasswordGen ''_!'')) demo_logged_in = (Ok (), t)"
    by (metis prod.collapse)
  have empty: "ReadVaultSecret memory p n demo_logged_in = (Ok None, demo_logged_in)" for p n
    by (simp add: ReadVaultSecret_def client_def bindM_def names ext_def mem_Vault_Read_def)
  from admin_credentials_rotated [OF demo_generator run] run empty
  show ?thesis
    by (auto simp: names mem_Vault_Write_def asInt64_def num)
qed

text \<open>
  C20. Users survive a rotation: the names read back from the list that was written (each with its new
  password) are the names the rotation started from, up to empty ones, in the same order, as long as
  no name contains a colon and no entry contains a comma.
\<close>

theorem users_survive_rotation:
  assumes "generateUsers gen names s = (Ok users, t)"
    and "\<forall>n \<in> set names. CHR '':'' \<notin> set n" and "\<forall>u \<in> set users. CHR '','' \<notin> set u"
  shows "filter (\<lambda>n. n \<noteq> '''') (extractUserNames (Join users '','')) = filter (\<lambda>n. n \<noteq> '''') names"
proof -
  let ?ns = "filter (\<lambda>n. n \<noteq> '''') names"
  from generateUsers_pairs [OF assms(1)] obtain ps where len: "length ps = length ?ns"
    and users: "users = map (\<lambda>(u, p). u @ '':'' @ p) (zip ?ns ps)" by blast
  show ?thesis
  proof (cases "?ns = []")
    case True
    with users show ?thesis by (simp add: extractUserNames_def)
  next
    case False
    with len have "zip ?ns ps \<noteq> []" by (cases ?ns; cases ps) simp_all
    moreover have "CHR '','' \<notin> set u \<and> CHR '':'' \<notin> set u \<and> CHR '','' \<notin> set p" if "(u, p) \<in> set (zip ?ns ps)" for u p
    proof -
      from that have "u \<in> set names" by (auto dest: set_zip_leftD)
      moreover from that have "u @ '':'' @ p \<in> set users" unfolding users by force
      ultimately show ?thesis using assms(2,3) by fastforce
    qed
    ultimately have "extractUserNames (Join users '','') = map fst (zip ?ns ps)"
      unfolding users by (rule extractUserNames_Join)
    with len show ?thesis by simp
  qed
qed

theorem users_survive_rotation_witness:
  "\<exists>users t. generateUsers (OperatorPasswordGenerator_Generate memory (PasswordGen ''_!''))
       [''bob'', '''', ''eve''] demo_state = (Ok users, t) \<and>
     filter (\<lambda>n. n \<noteq> '''') (extractUserNames (Join users '','')) = [''bob'', ''eve'']"
proof -
  have run: "generateUsers (OperatorPasswordGenerator_Generate memory (PasswordGen ''_!''))
      [''bob'', '''', ''eve''] demo_state = (Ok [''bob:secret'', ''eve:secret''], demo_state)"
    by (simp add: generateUsers_def OperatorPasswordGenerator_Generate_def bindM_def ext_def)
  from users_survive_rotation [OF run] run show ?thesis by simp
qed

text \<open>
  A request for new credentials is served once: after the secret was cleaned, what the server holds
  has no data and no request for a refresh, so that cleaning is not needed again. Hypothesis: the
  documented answer of an update, the object as sent with a new version.
\<close>

theorem refresh_served_once:
  assumes "cleanSecret c sec s = (Ok sec', t)" and "secret_update_documented c"
    and "om_Name (sec_Meta sec) \<noteq> ''''"
  shows "\<not> needToRefreshCredentials sec' \<and> sec_Data sec' = None \<and> \<not> needToCleanSecret sec'"
  using assms by (rule cleanSecret_done)

definition demo_refresh_secret :: Secret where
  "demo_refresh_secret = \<lparr>sec_Meta = new_meta ''zookeeper-secret'' ''zk'' None
       (Some (fmupd refreshCredentialsAnnotation ''true'' fmempty)),
     sec_Data = Some (fmupd ''admin-username'' ''admin'' fmempty)\<rparr>"

theorem refresh_served_once_witness:
  "\<exists>sec t. cleanSecret memory demo_refresh_secret
       (demo_state\<lparr>world := demo_cluster\<lparr>cl_secrets := [demo_refresh_secret]\<rparr>\<rparr>) = (Ok sec, t) \<and>
     needToRefreshCredentials demo_refresh_secret \<and> \<not> needToRefreshCredentials sec \<and> \<not> needToCleanSecret sec"
proof -
  let ?s = "demo_state\<lparr>world := demo_cluster\<lparr>cl_secrets := [demo_refresh_secret]\<rparr>\<rparr>"
  have need: "needToRefreshCredentials demo_refresh_secret" "om_Name (sec_Meta demo_refresh_secret) \<noteq> ''''"
    by (simp_all add: needToRefreshCredentials_def demo_refresh_secret_def new_meta_def mget_def fmget_def)
  then have "\<exists>sec. fst (cleanSecret memory demo_refresh_secret ?s) = Ok sec"
    by (simp add: cleanSecret_def needToCleanSecret_def)
       (simp add: bindM_def mset_def cleanSecretData_def ext_def update_by_def named_def
          demo_refresh_secret_def new_meta_def)
  then obtain sec t where run: "cleanSecret memory demo_refresh_secret ?s = (Ok sec, t)" by (metis prod.collapse)
  from refresh_served_once [OF run memory_secret_update_documented need(2)] run need(1) show ?thesis by blast
qed

section \<open>Lost errors\<close>

text \<open>
  Writing the password policy reports success even when Vault refuses it: the error of the request is
  bound to an inner variable, and the outer one is returned.
\<close>

theorem password_policy_error_lost:
  assumes "vaultClient s = Some cl" and "Vault_EncodeBody c policy = Inr body"
    and "Vault_RawRequest c cl ''PUT'' (''/v1/sys/policies/password/'' @ name) (Some body) (world s) = ((resp, Some e), w)"
  shows "WriteVaultPasswordPolicy c name policy s = (Ok (), s\<lparr>world := w\<rparr>)"
  using assms by (simp add: WriteVaultPasswordPolicy_def client_def raw_def bindM_def ext_total_def)

definition refusing_memory :: "cluster env" where
  "refusing_memory = memory\<lparr>Vault_RawRequest := (\<lambda>_ _ _ _ w. ((None, Some (OtherError ''permission denied'')), w))\<rparr>"

theorem password_policy_error_lost_witness:
  "WriteVaultPasswordPolicy refusing_memory ''p'' BuildVaultPasswordPolicy demo_logged_in = (Ok (), demo_logged_in)"
proof -
  have "vaultClient demo_logged_in = Some \<lparr>vc_Address = ''http://vault:8200'', vc_Token = ''token''\<rparr>"
    by (simp add: demo_logged_in_def)
  moreover have "Vault_EncodeBody refusing_memory BuildVaultPasswordPolicy = Inr ''{}''"
    by (simp add: refusing_memory_def)
  moreover have "Vault_RawRequest refusing_memory cl verb path body (world demo_logged_in) =
      ((None, Some (OtherError ''permission denied'')), world demo_logged_in)" for cl verb path body
    by (simp add: refusing_memory_def)
  ultimately show ?thesis using password_policy_error_lost [of demo_logged_in] by simp
qed

text \<open>
  Without a ZooKeeper section that initialises the map, the first credentials of the backup daemon are
  written to Vault and then the operator panics: the version is assigned to an entry of a nil map.
\<close>

theorem backup_credentials_nil_map:
  fixes s :: "'w opstate"
  defines "n \<equiv> bdrp_GetServiceName (op_cr s) @ ''.'' @ cr_Namespace (op_cr s) @ ''/credentials''"
  assumes "secretVersions (op_cr s) = None" and "vault_section (op_cr s) = Ok v" and "vaultClient s = Some cl"
    and "\<not> secretContainsKey sec ''username''"
    and "Vault_Read c cl (vsm_Path v @ ''/data/'' @ n) (world s) = (Inr None, w1)"
    and "Vault_Write c cl (vsm_Path v @ ''/data/'' @ n)
       [(''data'', JObject [(''username'', JString ''''), (''password'', JString '''')])] w1 = (Inr (Some resp), w2)"
    and "asInt64 (map_of (vsec_Data resp) ''version'') = Ok ver"
  shows "bd_processCredentials c sec gen s = (Panic ''assignment to entry in nil map'', s\<lparr>world := w2\<rparr>)"
  using assms(2-)
  by (simp add: bd_processCredentials_def updateCredentials_def bindM_def vault_run n_def
      ReadVaultSecret_def WriteVaultSecret_def client_def ext_def chosenValue_def orEmpty_def recordVersion_nil)

theorem backup_credentials_nil_map_witness:
  "fst (bd_processCredentials memory zero_secret (OperatorPasswordGenerator_Generate memory (PasswordGen ''_!''))
     (demo_vault_state\<lparr>vaultClient := Some \<lparr>vc_Address = '''', vc_Token = ''''\<rparr>\<rparr>)) =
     Panic ''assignment to entry in nil map''"
proof -
  let ?s = "demo_vault_state\<lparr>vaultClient := Some \<lparr>vc_Address = '''', vc_Token = ''''\<rparr>\<rparr>"
  have nil: "secretVersions (op_cr ?s) = None"
    by (simp add: secretVersions_def demo_vault_state_def demo_defs)
  have sec: "vault_section (op_cr ?s) = Ok demo_vault" using demo_vault_section by simp
  have none: "\<not> secretContainsKey zero_secret ''username''"
    by (simp add: secretContainsKey_def zero_secret_def)
  have read: "Vault_Read memory cl p (world ?s) = (Inr None, world ?s)" for cl p
    by (simp add: mem_Vault_Read_def demo_vault_state_def demo_state_def demo_cluster_def)
  have num: "asInt64 (map_of [(''version'', JNumber ''1'')] ''version'') = Ok 1"
    unfolding asInt64_def by code_simp
  show ?thesis
    using backup_credentials_nil_map [OF nil sec _ none read, of "\<lparr>vc_Address = '''', vc_Token = ''''\<rparr>"
        "\<lparr>vsec_Data = [(''version'', JNumber ''1'')], vsec_AuthToken = None\<rparr>" _ 1] num
    by (simp add: mem_Vault_Write_def)
qed

end
