(* ===== verification/OperatorRuns.thy ===== *)
theory OperatorRuns
  imports Controller
begin

text \<open>
  The operator over time. A run is a sequence of steps: the process starts with empty tables, serves a
  request (whatever its outcome), or the cluster changes under it. Invariants of all reachable states
  follow by rule induction from the frames of the components.
\<close>

section \<open>Readiness and scaling of the servers\<close>

lemma isDeploymentReady_True:
  assumes "isDeploymentReady c name ns s = (Ok True, t)"
  shows "\<exists>d n. Get_Deployment c name ns (world s) = (Inr d, world t) \<and> dp_Replicas d = Some n \<and>
     sint n = min (sint (dp_ReadyReplicas d)) (sint (dp_UpdatedReplicas d)) \<and> only_world s t"
  using assms unfolding isDeploymentReady_run
  by (auto simp: only_world_def split: prod.splits sum.splits option.splits)

text \<open>Reads of the deployments of some servers, one after the other, that found each of them with as
  many ready and updated replicas as it asks for.\<close>

primrec ready_reads :: "'w env \<Rightarrow> string \<Rightarrow> string \<Rightarrow> int list \<Rightarrow> 'w \<Rightarrow> 'w \<Rightarrow> bool" where
  "ready_reads c name ns [] w w' \<longleftrightarrow> w' = w"
| "ready_reads c name ns (i # is) w w' \<longleftrightarrow>
     (\<exists>d n w1. Get_Deployment c (server_name name i) ns w = (Inr d, w1) \<and> dp_Replicas d = Some n \<and>
        sint n = min (sint (dp_ReadyReplicas d)) (sint (dp_UpdatedReplicas d)) \<and>
        ready_reads c name ns is w1 w')"

lemma allDeploymentsReady_True:
  assumes "allDeploymentsReady c is s = (Ok True, t)"
  shows "ready_reads c (cr_Name (op_cr s)) (cr_Namespace (op_cr s)) is (world s) (world t)"
  using assms
proof (induction "is" arbitrary: s)
  case Nil
  then show ?case by simp
next
  case (Cons j js)
  from Cons.prems obtain b u where
    one: "isDeploymentReady c (server_name (cr_Name (op_cr s)) j) (cr_Namespace (op_cr s)) s = (Ok b, u)" and
    rest: "(if b then allDeploymentsReady c js else ret False) u = (Ok True, t)"
    by (auto simp: bindM_eq_Ok)
  from rest have "b = True" and more: "allDeploymentsReady c js u = (Ok True, t)" by (auto split: if_splits)
  with isDeploymentReady_True [of c _ _ s u] one obtain d n where
    "Get_Deployment c (server_name (cr_Name (op_cr s)) j) (cr_Namespace (op_cr s)) (world s) = (Inr d, world u)"
    "dp_Replicas d = Some n" "sint n = min (sint (dp_ReadyReplicas d)) (sint (dp_UpdatedReplicas d))"
    "only_world s u" by blast
  with Cons.IH [OF more] only_worldD(1) [of s u] show ?case by auto
qed

lemma zk_readyRun_reads:
  assumes doc: "status_documented c"
    and run: "readyRun c zooKeeperConditionReason ''ZooKeeper health check'' (zk_podsReady c)
      ''ZooKeeper pods are ready'' s t"
  shows "\<exists>s1 spec w s2.
    updateConditions c (NewCondition statusFalse typeInProgress zooKeeperConditionReason
      ''ZooKeeper health check'') s = (Ok (), s1) \<and>
    spec_ZooKeeper (cr_Spec (op_cr s1)) = Some spec \<and>
    ready_reads c (cr_Name (op_cr s)) (cr_Namespace (op_cr s)) [1 .. zk_Replicas spec] w (world s2) \<and>
    updateConditions c (NewCondition statusTrue typeReady zooKeeperConditionReason
      ''ZooKeeper pods are ready'') s2 = (Ok (), t)"
proof -
  from run obtain s1 u s2 where
    s1: "updateConditions c (NewCondition statusFalse typeInProgress zooKeeperConditionReason
          ''ZooKeeper health check'') s = (Ok (), s1)" and
    u: "only_world s1 u" "zk_podsReady c u = (Ok True, s2)" and
    t: "updateConditions c (NewCondition statusTrue typeReady zooKeeperConditionReason
          ''ZooKeeper pods are ready'') s2 = (Ok (), t)"
    unfolding readyRun_def by (elim exE conjE)
  from u(2) obtain spec where spec: "spec_ZooKeeper (cr_Spec (op_cr u)) = Some spec"
    and all: "allDeploymentsReady c [1 .. zk_Replicas spec] u = (Ok True, s2)"
    by (auto simp: zk_podsReady_def zk_section_def bindM_eq_Ok)
  have names: "cr_Name (op_cr s1) = cr_Name (op_cr s)" "cr_Namespace (op_cr s1) = cr_Namespace (op_cr s)"
    by (rule updateConditions_Ok [OF s1 doc], assumption)+
  from allDeploymentsReady_True [OF all] spec names only_worldD(1) [OF u(1)] s1 t show ?thesis
    by (intro exI [of _ s1] exI [of _ spec] exI [of _ "world u"] exI [of _ s2]) simp
qed

text \<open>
  C23. The health check of ZooKeeper ends in a condition \<^verbatim>\<open>Ready\<close> or \<^verbatim>\<open>Failed\<close> and changes no other
  condition. It is \<^verbatim>\<open>Ready\<close> only when the reads right before it was written found every configured
  server with as many ready and updated replicas as it asks for. Hypotheses: the documented behaviour
  of polling and of the status update.
\<close>

theorem zookeeper_ready_means_ready:
  assumes "control_documented c" and "status_documented c" and "zk_Status c s = (Ok (), t)"
  shows "(\<forall>r. r \<noteq> zooKeeperConditionReason \<longrightarrow> cond_view (conditions_of t) r = cond_view (conditions_of s) r) \<and>
    (\<exists>d. cond_view (conditions_of t) zooKeeperConditionReason = Some d \<and>
      (cond_Type d = typeFailed \<and> cond_Status d = statusFalse \<or>
       cond_Type d = typeReady \<and> cond_Status d = statusTrue \<and>
       (\<exists>s1 spec w s2.
          updateConditions c (NewCondition statusFalse typeInProgress zooKeeperConditionReason
            ''ZooKeeper health check'') s = (Ok (), s1) \<and>
          spec_ZooKeeper (cr_Spec (op_cr s1)) = Some spec \<and>
          ready_reads c (cr_Name (op_cr s)) (cr_Namespace (op_cr s)) [1 .. zk_Replicas spec] w (world s2) \<and>
          updateConditions c (NewCondition statusTrue typeReady zooKeeperConditionReason
            ''ZooKeeper pods are ready'') s2 = (Ok (), t))))"
proof -
  let ?run = "readyRun c zooKeeperConditionReason ''ZooKeeper health check'' (zk_podsReady c) ''ZooKeeper pods are ready'' s t"
  note run = healthCheck_Ok [OF assms(3) [unfolded zk_Status_def] assms(1,2) stays_zk_podsReady]
  from run [THEN conjunct1] obtain d where
    d: "cond_view (conditions_of t) zooKeeperConditionReason = Some d" and
    verdict: "cond_Type d = typeReady \<and> cond_Status d = statusTrue \<and> ?run \<or>
      cond_Type d = typeFailed \<and> cond_Status d = statusFalse"
    by (elim exE conjE)
  from run [THEN conjunct2] d verdict show ?thesis
    by (elim disjE conjE) (intro conjI exI [of _ d], assumption+, rule disjI2, intro conjI, assumption+, erule zk_readyRun_reads [OF assms(2)],
      intro conjI exI [of _ d], assumption+, rule disjI1, intro conjI, assumption+)
qed

text \<open>
  The number of running servers: the deployments of the cluster whose replica count, a signed 32-bit
  number, is positive.
\<close>

lemma countActive_count:
  "(\<forall>d \<in> set ds. dp_Replicas d \<noteq> None) \<Longrightarrow>
   countActive ds = Ok (int (length (filter (\<lambda>d. 0 < sint (the (dp_Replicas d))) ds)))"
  by (induction ds) (auto simp: word_sless_alt)

theorem deployments_counted:
  assumes "List_Deployments c (cr_Namespace (op_cr s)) (GetZooKeeperSelectorLabels (cr_Name (op_cr s))) (world s) = (Inr ds, w)"
    and "\<forall>d \<in> set ds. dp_Replicas d \<noteq> None"
  shows "getCurrentDeploymentsCount c s =
    (Ok (int (length (filter (\<lambda>d. 0 < sint (the (dp_Replicas d))) ds))), s\<lparr>world := w\<rparr>)"
  using assms countActive_count [OF assms(2)]
  by (simp add: getCurrentDeploymentsCount_def findZookeperDeployments_def findDeploymentList_def
      bindM_def ext_def)

text \<open>Writes of zero replicas to some deployments, one after the other. Each is read and written back
  with nothing else changed; the read starts where the write before it ended, unless the server
  answered with a conflict and the pair was repeated.\<close>

primrec scale_writes :: "'w env \<Rightarrow> string \<Rightarrow> string \<Rightarrow> int list \<Rightarrow> 'w \<Rightarrow> 'w \<Rightarrow> bool" where
  "scale_writes c name ns [] w w' \<longleftrightarrow> w' = w"
| "scale_writes c name ns (i # is) w w' \<longleftrightarrow>
     (\<exists>w0 d w1 x w2.
        (w0 = w \<or> conflicting (scaleFoundDeployment c (server_name name i) 0 ns) w) \<and>
        Get_Deployment c (server_name name i) ns w0 = (Inr d, w1) \<and>
        Update_Deployment c (d\<lparr>dp_Replicas := Some 0\<rparr>) w1 = (Inr x, w2) \<and>
        scale_writes c name ns is w2 w')"

lemma scaleDeployment_Ok:
  assumes "control_documented c" and "scaleDeployment c name 0 ns s = (Ok (), t)"
  shows "\<exists>w0 d w1 x. (w0 = world s \<or> conflicting (scaleFoundDeployment c name 0 ns) (world s)) \<and>
    Get_Deployment c name ns w0 = (Inr d, w1) \<and>
    Update_Deployment c (d\<lparr>dp_Replicas := Some 0\<rparr>) w1 = (Inr x, world t)"
proof -
  from assms have "retried (scaleFoundDeployment c name 0 ns) s (Ok ()) t"
    by (auto simp: scaleDeployment_def control_documented_def intro: retriedI)
  then obtain u where run: "scaleFoundDeployment c name 0 ns u = (Ok (), t)"
    and u: "u = s \<or> conflicting (scaleFoundDeployment c name 0 ns) (world s)" using retried_run by blast
  from run obtain d w where get: "Get_Deployment c name ns (world u) = (Inr d, w)"
    and upd: "discard (ext (Update_Deployment c (d\<lparr>dp_Replicas := Some 0\<rparr>))) (u\<lparr>world := w\<rparr>) = (Ok (), t)"
    unfolding scaleFoundDeployment_def findDeployment_def
    by (auto simp: bindM_eq_Ok [of "ext (Get_Deployment _ _ _)"] ext_eq_Ok)
  from upd obtain x where "Update_Deployment c (d\<lparr>dp_Replicas := Some 0\<rparr>) w = (Inr x, world t)"
    unfolding discard_ext_Ok by auto
  with get u show ?thesis by blast
qed


section \<open>Witnesses on the cluster in memory\<close>

definition demo_running :: "int \<Rightarrow> Deployment" where
  "demo_running i = \<lparr>dp_Meta = new_meta (server_name ''zookeeper'' i) ''zk''
       (Some (GetZooKeeperSelectorLabels ''zookeeper'')) None,
     dp_Strategy = ''Recreate'', dp_Replicas = Some 1, dp_Selector = None,
     dp_Template = \<lparr>pt_Labels = None, pt_Annotations = None,
       pt_Spec = \<lparr>ps_Volumes = [], ps_InitContainers = [], ps_Containers = [],
         ps_SecurityContext = PodSecurityContext '''', ps_Hostname = '''', ps_Subdomain = '''',
         ps_ServiceAccountName = '''', ps_Affinity = \<lparr>af_NodeAffinity = None, af_PodAffinity = ''''\<rparr>,
         ps_Tolerations = [], ps_PriorityClassName = ''''\<rparr>\<rparr>,
     dp_ReadyReplicas = 1, dp_UpdatedReplicas = 1\<rparr>"

definition demo_running_state :: "cluster opstate" where
  "demo_running_state = demo_zk_state\<lparr>world := (world demo_zk_state)
     \<lparr>cl_deployments := [demo_running 1, demo_running 2, demo_running 3]\<rparr>\<rparr>"

lemma upto_3: "[1 .. 3] = [1, 2, 3 :: int]" by (simp add: upto.simps)

lemma server_names: "server_name n i = server_name n j \<longleftrightarrow> i = j"
  by (rule server_name_inj)

theorem zookeeper_ready_means_ready_witness:
  "\<exists>t d. zk_Status memory demo_running_state = (Ok (), t) \<and>
     cond_view (conditions_of t) zooKeeperConditionReason = Some d \<and> cond_Type d \<in> {typeReady, typeFailed}"
proof -
  have "fst (zk_Status memory demo_running_state) = Ok ()"
    by (simp add: zk_Status_def healthCheck_def bindM_def attempt_def updateConditions_def ext_def ext_total_def
        mem_Update_Status_def named_def podsReadyTimeout_def global_def poll_once_def zk_podsReady_def
        zk_section_def isDeploymentReady_run get_by_def upto_3 server_names demo_running_def
        demo_running_state_def demo_zk_state_def demo_state_def demo_cluster_def demo_defs new_meta_def
        Let_def)
  then obtain t where run: "zk_Status memory demo_running_state = (Ok (), t)" by (metis prod.collapse)
  from zookeeper_ready_means_ready [OF memory_control_documented memory_status_documented run] run
  show ?thesis by blast
qed

theorem deployments_counted_witness:
  "getCurrentDeploymentsCount memory demo_running_state = (Ok 3, demo_running_state)"
proof -
  let ?ds = "[demo_running 1, demo_running 2, demo_running 3]"
  have names: "cr_Name (op_cr demo_running_state) = ''zookeeper''" "cr_Namespace (op_cr demo_running_state) = ''zk''"
    by (simp_all add: demo_running_state_def demo_zk_state_def demo_defs new_meta_def)
  have list: "List_Deployments memory ''zk'' (GetZooKeeperSelectorLabels ''zookeeper'') (world demo_running_state)
      = (Inr ?ds, world demo_running_state)"
    by (simp add: memory_def demo_running_state_def demo_running_def new_meta_def selects_iff contents_def)
  have "\<forall>d \<in> set ?ds. dp_Replicas d \<noteq> None" by (simp add: demo_running_def)
  from deployments_counted [of memory demo_running_state, unfolded names, OF list this] show ?thesis
    by (simp add: demo_running_def)
qed


section \<open>The operator over time\<close>

text \<open>The reconciler as \<^verbatim>\<open>main\<close> makes it, with empty tables. The custom resource is the one of the
  request to come: a run reads it before it uses it.\<close>

definition newReconciler :: "ZooKeeperService \<Rightarrow> 'w \<Rightarrow> 'w opstate" where
  "newReconciler cr w =
     \<lparr>world = w, op_cr = cr, ResourceVersions = fmempty, ResourceHashes = fmempty, globalSpecHash = '''',
      vaultClient = None\<rparr>"

inductive op_step :: "'w env \<Rightarrow> 'w opstate \<Rightarrow> 'w opstate \<Rightarrow> bool" for c where
  serve: "Reconcile c name ns s = (r, t) \<Longrightarrow> op_step c s t"
| world_moves: "op_step c s (s\<lparr>world := w\<rparr>)"
| restart: "op_step c s (newReconciler (op_cr s) (world s))"

definition reachable :: "'w env \<Rightarrow> 'w opstate \<Rightarrow> bool" where
  "reachable c s \<longleftrightarrow> (\<exists>cr w. (op_step c)\<^sup>*\<^sup>* (newReconciler cr w) s)"

lemma reachable_induct [consumes 1, case_names start step]:
  assumes "reachable c s" and "\<And>cr w. P (newReconciler cr w)"
    and "\<And>s t. reachable c s \<Longrightarrow> P s \<Longrightarrow> op_step c s t \<Longrightarrow> P t"
  shows "P s"
proof -
  from assms(1) obtain cr w where "(op_step c)\<^sup>*\<^sup>* (newReconciler cr w) s" by (auto simp: reachable_def)
  then show ?thesis
    by (induction rule: rtranclp_induct) (use assms(2,3) reachable_def in blast)+
qed

subsection \<open>What the table of hashes holds\<close>

text \<open>The hash that belongs under a key, for a specification.\<close>

definition key_hash :: "'w env \<Rightarrow> ZooKeeperServiceSpec \<Rightarrow> string \<Rightarrow> string outcome" where
  "key_hash c spec k =
     (if k = ''spec'' then Hash (Marshal_Spec c) spec
      else if k = globalHashName then Hash (Marshal_Global c) (spec_Global spec)
      else if k = zooKeeperHashName then Hash (Marshal_ZooKeeper c) (spec_ZooKeeper spec)
      else if k = backupDaemonHashName then Hash (Marshal_BackupDaemon c) (spec_BackupDaemon spec)
      else if k = monitoringHashName then Hash (Marshal_Monitoring c) (spec_Monitoring spec)
      else Err (OtherError ''no such key''))"

definition tidy_table :: "'w env \<Rightarrow> (string, string) fmap \<Rightarrow> bool" where
  "tidy_table c table \<longleftrightarrow> (\<forall>k h. fmlookup table k = Some h \<longrightarrow> (\<exists>spec. key_hash c spec k = Ok h))"

lemma tidy_fmempty [simp]: "tidy_table c fmempty"
  by (simp add: tidy_table_def)

lemma tidy_fmupd: "tidy_table c m \<Longrightarrow> key_hash c spec k = Ok h \<Longrightarrow> tidy_table c (fmupd k h m)"
  by (auto simp: tidy_table_def)

lemma key_hash_digest: "key_hash c spec k = Ok h \<Longrightarrow> \<exists>bytes. h = hex_digest bytes"
  by (auto simp: key_hash_def Hash_def split: if_splits sum.splits)

lemma key_hash_keys:
  "key_hash c spec k = Ok h \<Longrightarrow>
     k \<in> {''spec'', globalHashName, zooKeeperHashName, backupDaemonHashName, monitoringHashName}"
  by (simp add: key_hash_def split: if_splits)

definition table_frame :: "'w env \<Rightarrow> 'w opstate \<Rightarrow> 'w opstate \<Rightarrow> bool" where
  "table_frame c s t \<longleftrightarrow> (tidy_table c (ResourceHashes s) \<longrightarrow> tidy_table c (ResourceHashes t))"

interpretation tf: world_frame "table_frame c :: 'w opstate \<Rightarrow> 'w opstate \<Rightarrow> bool" for c :: "'w env"
  by unfold_locales (auto simp: table_frame_def)

lemma table_of_core: "stays core_frame m \<Longrightarrow> stays (table_frame c) m"
  by (auto simp: stays_def core_frame_def table_frame_def)

lemma component_key_hash:
  "hash_key r = Some k \<Longrightarrow> section_hash c cr r = Ok h \<Longrightarrow> key_hash c (cr_Spec cr) k = Ok h"
  by (cases r) (auto simp: key_hash_def zk_specHash_def bd_specHash_def mon_specHash_def globalHashName_def
      zooKeeperHashName_def backupDaemonHashName_def monitoringHashName_def)

lemma stays_table_Reconcile_of:
  assumes "control_documented c"
  shows "stays (table_frame c) (Reconcile_of c r)"
proof (rule staysI)
  fix s x t
  assume "Reconcile_of c r s = (x, t)"
  from Reconcile_of_commits [OF assms this] show "table_frame c s t"
    by (elim disjE conjE exE) (simp_all add: table_frame_def tidy_fmupd [OF _ component_key_hash])
qed

lemma stays_table_orWriteFailed: "stays (table_frame c) m \<Longrightarrow> stays (table_frame c) (orWriteFailed c msg m)"
  unfolding orWriteFailed_def
  by (intro tf.world_rules stays_core_writeFailedStatus [THEN table_of_core])

lemma stays_table_InitVaultClient: "stays (table_frame c) (InitVaultClient c)"
  unfolding InitVaultClient_def
  by (intro tf.world_rules tf.stays_modify stays_vault [THEN tf.stays_only_world]
      stays_login [THEN tf.stays_only_world]) (simp add: table_frame_def)

lemma stays_table_reconcileRest:
  assumes doc: "control_documented c"
  shows "stays (table_frame c) (reconcileRest c h)"
  unfolding reconcileRest_def initVault_def runReconcilers_def
  by (intro tf.world_rules stays_table_orWriteFailed stays_table_InitVaultClient
      stays_table_Reconcile_of doc cycle_frames [THEN table_of_core])

lemma stays_table_reconcileBody: "control_documented c \<Longrightarrow> stays (table_frame c) (reconcileBody c)"
  unfolding reconcileBody_def
  by (intro tf.world_rules stays_table_reconcileRest)
     (auto intro!: staysI simp: initHashes_def bindM_def table_frame_def split: outcome.splits)

lemma Reconcile_tidy:
  assumes ctl: "control_documented c" and run: "Reconcile c name ns s = (r, t)"
    and tidy: "tidy_table c (ResourceHashes s)"
  shows "tidy_table c (ResourceHashes t)"
  using run
proof (cases rule: Reconcile_cases)
  case (failed inst w)
  from stays_table_reconcileBody [OF ctl] have "table_frame c (s\<lparr>world := w, op_cr := inst\<rparr>) t"
    unfolding failed(4) [symmetric] by (simp add: stays_def)
  with tidy show ?thesis by (simp add: table_frame_def)
next
  case (succeeded inst w)
  from ctl run [unfolded succeeded(2)] succeeded(1) show ?thesis
  proof (rule Reconcile_Ok_run)
    fix h g u
    assume key: "Hash (Marshal_Spec c) (cr_Spec inst) = Ok h"
      "Hash (Marshal_Global c) (spec_Global (cr_Spec inst)) = Ok g" and
      rest: "reconcileRest c h (s\<lparr>world := w, op_cr := inst, globalSpecHash := g\<rparr>) = (Ok h, u)" and
      t: "t = u\<lparr>ResourceHashes := fmupd globalHashName g (fmupd ''spec'' h (ResourceHashes u))\<rparr>"
    have "tidy_table c (ResourceHashes u)"
      using staysD [OF stays_table_reconcileRest [OF ctl] rest] tidy by (simp add: table_frame_def)
    moreover from key have "key_hash c (cr_Spec inst) ''spec'' = Ok h"
      "key_hash c (cr_Spec inst) globalHashName = Ok g"
      by (simp_all add: key_hash_def globalHashName_def)
    ultimately show ?thesis unfolding t by (auto intro: tidy_fmupd)
  qed
qed (use tidy in simp_all)

text \<open>
  C25. In every state the operator can reach, over any sequence of requests, failures, panics, restarts
  and changes of the cluster, each entry of \<^verbatim>\<open>ResourceHashes\<close> has one of five keys, and its value is the hash
  of the section that key names in some specification: 64 hexadecimal digits.
\<close>

theorem reachable_table_tidy:
  assumes "control_documented c" and "reachable c s" and "fmlookup (ResourceHashes s) k = Some h"
  shows "k \<in> {''spec'', globalHashName, zooKeeperHashName, backupDaemonHashName, monitoringHashName} \<and>
    (\<exists>spec. key_hash c spec k = Ok h) \<and> length h = 64 \<and> set h \<subseteq> set ''0123456789abcdef''"
proof -
  from assms(2) have "tidy_table c (ResourceHashes s)"
  proof (induction rule: reachable_induct)
    case (step s t)
    from step.hyps(2) step.IH show ?case
      by (cases rule: op_step.cases) (auto simp: newReconciler_def intro: Reconcile_tidy [OF assms(1)])
  qed (simp add: newReconciler_def)
  with assms(3) obtain spec where spec: "key_hash c spec k = Ok h" by (auto simp: tidy_table_def)
  then obtain bytes where "h = hex_digest bytes" using key_hash_digest by blast
  with key_hash_keys [OF spec] spec hex_digest_chars [of bytes] show ?thesis by auto
qed

lemma demo_state_new: "demo_state = newReconciler demo_cr demo_cluster"
  by (simp add: demo_state_def newReconciler_def)

lemma demo_done_reachable: "reachable memory demo_done"
proof -
  have "op_step memory demo_state demo_done" using demo_run by (rule serve)
  then show ?thesis unfolding reachable_def demo_state_new by blast
qed

lemma demo_get: "Get_ZooKeeperService memory ''zookeeper'' ''zk'' (world demo_state) = (Inr demo_cr, demo_cluster)"
  by (simp add: get_by_def named_def demo_state_def demo_cluster_def demo_cr_def)

lemma Reconcile_spec_hash:
  assumes "control_documented c" and "Reconcile c name ns s = (Ok (), t)"
    and "Get_ZooKeeperService c name ns (world s) = (Inr inst, w)"
    and "Hash (Marshal_Spec c) (cr_Spec inst) = Ok h"
  shows "fmlookup (ResourceHashes t) ''spec'' = Some h"
  using assms(1-3) by (rule Reconcile_Ok_run) (use assms(4) in \<open>simp add: globalHashName_def\<close>)

lemma demo_done_spec: "fmlookup (ResourceHashes demo_done) ''spec'' = Some (hex_digest ''spec'')"
  by (rule Reconcile_spec_hash [OF memory_control_documented demo_run demo_get]) (simp add: Hash_def)

theorem reachable_table_tidy_witness:
  "fmlookup (ResourceHashes demo_done) ''spec'' = Some (hex_digest ''spec'') \<and>
   (\<exists>spec. key_hash memory spec ''spec'' = Ok (hex_digest ''spec'')) \<and> length (hex_digest ''spec'') = 64"
  using reachable_table_tidy [OF memory_control_documented demo_done_reachable demo_done_spec] demo_done_spec
  by blast

text \<open>
  C26. Nothing is taken for reconciled that was not. When the operator has a hash of the specification
  on record, there was a request, served from a reachable state, whose reconciliation read a
  specification with that hash and succeeded, and the entry has not changed since.
\<close>

theorem recorded_spec_was_reconciled:
  assumes "control_documented c" and "reachable c s" and "fmlookup (ResourceHashes s) ''spec'' = Some h"
  shows "\<exists>s0 name ns inst w t0. reachable c s0 \<and>
    Get_ZooKeeperService c name ns (world s0) = (Inr inst, w) \<and>
    Reconcile c name ns s0 = (Ok (), t0) \<and> Hash (Marshal_Spec c) (cr_Spec inst) = Ok h \<and>
    (\<lambda>a b. op_step c a b \<and> fmlookup (ResourceHashes b) ''spec'' = Some h)\<^sup>*\<^sup>* t0 s"
  using assms(2,3)
proof (induction rule: reachable_induct)
  case (start cr w)
  then show ?case by (simp add: newReconciler_def)
next
  case (step s t)
  show ?case
  proof (cases "fmlookup (ResourceHashes s) ''spec'' = Some h")
    case True
    from step.IH [OF this] step.hyps(2) step.prems show ?thesis
      by (blast intro: rtranclp.rtrancl_into_rtrancl)
  next
    case False
    with step.prems have new: "\<not> own_frame s t" by (auto simp: own_frame_def)
    from step.hyps(2) show ?thesis
    proof (cases rule: op_step.cases)
      case (serve name ns r)
      with new Reconcile_own_frame [OF assms(1) serve] obtain inst w where
        run: "Reconcile c name ns s = (Ok (), t)" and
        get: "Get_ZooKeeperService c name ns (world s) = (Inr inst, w)"
        by (metis old.sum.exhaust surj_pair)
      from assms(1) run get have "Hash (Marshal_Spec c) (cr_Spec inst) = Ok h"
        by (rule Reconcile_Ok_run) (use step.prems in \<open>auto simp: globalHashName_def\<close>)
      with step.hyps(1) run get show ?thesis by blast
    qed (use new step.prems in \<open>auto simp: own_frame_def newReconciler_def\<close>)
  qed
qed

theorem recorded_spec_was_reconciled_witness:
  "\<exists>s0 name ns inst w t0. reachable memory s0 \<and>
    Get_ZooKeeperService memory name ns (world s0) = (Inr inst, w) \<and>
    Reconcile memory name ns s0 = (Ok (), t0) \<and>
    Hash (Marshal_Spec memory) (cr_Spec inst) = Ok (hex_digest ''spec'') \<and>
    (\<lambda>a b. op_step memory a b \<and>
       fmlookup (ResourceHashes b) ''spec'' = Some (hex_digest ''spec''))\<^sup>*\<^sup>* t0 demo_done"
  using recorded_spec_was_reconciled [OF memory_control_documented demo_done_reachable demo_done_spec] .

subsection \<open>Settling\<close>

text \<open>Steps after which the operator knows as much as before: changes of the cluster, and requests that
  fail or find no custom resource.\<close>

inductive quiet_step :: "'w env \<Rightarrow> 'w opstate \<Rightarrow> 'w opstate \<Rightarrow> bool" for c where
  quiet_world: "quiet_step c s (s\<lparr>world := w\<rparr>)"
| quiet_failure: "Reconcile c name ns s = (r, t) \<Longrightarrow> r \<noteq> Ok () \<Longrightarrow> quiet_step c s t"
| quiet_absent: "Reconcile c name ns s = (r, t) \<Longrightarrow>
    Get_ZooKeeperService c name ns (world s) = (Inl e, w) \<Longrightarrow> quiet_step c s t"

lemma quiet_own_frame:
  assumes "control_documented c" and "(quiet_step c)\<^sup>*\<^sup>* s t"
  shows "own_frame s t"
  using assms(2)
proof (induction rule: rtranclp_induct)
  case base
  show ?case by (rule ownf.frame_refl)
next
  case (step t u)
  from step.hyps(2) have "own_frame t u"
    by (cases rule: quiet_step.cases) (auto intro: ownf.frame_world Reconcile_own_frame [OF assms(1)])
  with step.IH show ?case by (rule ownf.frame_trans)
qed

text \<open>
  C27. Settling. After a successful reconciliation, however often later requests fail or the cluster
  changes, the next successful reconciliation of a custom resource with the same specification starts no new
  cycle: it leaves the conditions as it read them.
\<close>

theorem settled_until_spec_changes:
  assumes "control_documented c" and "status_documented c"
    and "Reconcile c name ns s = (Ok (), t)" and "Get_ZooKeeperService c name ns (world s) = (Inr inst, w)"
    and "(quiet_step c)\<^sup>*\<^sup>* t t'"
    and "Reconcile c name' ns' t' = (Ok (), u)"
    and "Get_ZooKeeperService c name' ns' (world t') = (Inr inst', w')"
    and "Marshal_Spec c (cr_Spec inst') = Marshal_Spec c (cr_Spec inst)"
  shows "conditions_of u = status_Conditions (cr_Status inst')"
proof -
  from assms(1,3,4) obtain h where h: "Hash (Marshal_Spec c) (cr_Spec inst) = Ok h"
    and spec: "fmlookup (ResourceHashes t) ''spec'' = Some h"
    by (rule Reconcile_Ok_run) (simp add: globalHashName_def)
  from h assms(8) have h': "Hash (Marshal_Spec c) (cr_Spec inst') = Ok h" by (simp add: Hash_def)
  from quiet_own_frame [OF assms(1,5)] spec have known: "fmget (ResourceHashes t') ''spec'' = h"
    by (simp add: own_frame_def fmget_def)
  from assms(1,6,7) obtain g v where
    rest: "reconcileRest c h (t'\<lparr>world := w', op_cr := inst', globalSpecHash := g\<rparr>) = (Ok h, v)" and
    u: "op_cr u = op_cr v"
    by (rule Reconcile_Ok_run) (use h' in simp)
  from reconcileRest_same_conditions [OF assms(1,2) rest] known u show ?thesis
    by (simp add: conditions_of_def)
qed

definition demo_later :: "cluster opstate" where
  "demo_later = demo_done\<lparr>world := demo_cluster\<lparr>cl_crs := [set_conditions
       [NewCondition statusTrue typeSuccessful zooKeeperServiceConditionReason ''settled''] demo_cr]\<rparr>\<rparr>"

theorem settled_until_spec_changes_witness:
  "\<exists>u. Reconcile memory ''zookeeper'' ''zk'' demo_later = (Ok (), u) \<and>
     conditions_of u = [NewCondition statusTrue typeSuccessful zooKeeperServiceConditionReason ''settled'']"
proof -
  have "fst (Reconcile memory ''zookeeper'' ''zk'' demo_later) = Ok ()"
    using demo_done_spec
    by (simp add: Reconcile_def reconcileBody_def reconcileRest_def initHashes_def Hash_def bindM_def
        attempt_def ext_def get_by_def named_def demo_later_def demo_cluster_def demo_cr_def fmget_def
        initVault_def IsVaultSecretManagementEnabled_def demo_spec_def buildReconcilers_def
        runReconcilers_def updateStatus_def global_def maps_Equal_def demo_status_def demo_global_def
        recordHashes_run)
  then obtain u where run: "Reconcile memory ''zookeeper'' ''zk'' demo_later = (Ok (), u)"
    by (metis prod.collapse)
  have get: "Get_ZooKeeperService memory ''zookeeper'' ''zk'' (world demo_later) =
      (Inr (set_conditions [NewCondition statusTrue typeSuccessful zooKeeperServiceConditionReason ''settled'']
         demo_cr), world demo_later)"
    by (simp add: get_by_def named_def demo_later_def demo_cr_def)
  have later: "(quiet_step memory)\<^sup>*\<^sup>* demo_done demo_later"
    unfolding demo_later_def by (rule r_into_rtranclp, rule quiet_world)
  have "conditions_of u = status_Conditions (cr_Status
      (set_conditions [NewCondition statusTrue typeSuccessful zooKeeperServiceConditionReason ''settled''] demo_cr))"
    by (rule settled_until_spec_changes [OF memory_control_documented memory_status_documented
          demo_run demo_get later run get]) simp
  with run show ?thesis by simp
qed

end
