(* ===== verification/ZkAssistant.thy ===== *)
theory ZkAssistant
  imports GoStrings
begin

text \<open>
  \<^verbatim>\<open>docker-zookeeper/main.go\<close>: the assistant in the ZooKeeper image. It checks the health of the local
  server, or serves the request to copy the transaction logs into the backup storage. The calls to
  the operating system, the TLS library, the ZooKeeper client and the HTTP server are fields of
  \<open>sys\<close>. A handler answers with a status code and the value it marshals as the body; the
  compression of the body and a failing write to the connection (which is only logged) are left out.
\<close>

section \<open>Data\<close>

record State =
  st_Status :: string

record Data =
  data_Source :: string
  data_Destination :: string

record Result =
  res_Status :: string
  res_Message :: string

datatype body = StateBody State | ResultBody Result | RouterBody string

record response =
  resp_Code :: int
  resp_ContentType :: string
  resp_Body :: body

section \<open>The environment\<close>

type_synonym ('w, 'a) call = "'w \<Rightarrow> (go_error + 'a) \<times> 'w"
text \<open>A handler gets the content type set so far, the method and the path.\<close>

type_synonym 'w handler = "string \<Rightarrow> string \<Rightarrow> string \<Rightarrow> ('w, response) comp"

text \<open>The dialer of \<^verbatim>\<open>newTLSDialer\<close>: the address it closes over, the root certificates and the
  client certificate with its key.\<close>

datatype dialer = TLSDialer string string "string option"

record 'w sys =
  LookupEnv :: "string \<Rightarrow> string option"
  Stat :: "string \<Rightarrow> ('w, unit) call"
  RemoveAll :: "string \<Rightarrow> ('w, unit) call"
  Mkdir :: "string \<Rightarrow> int \<Rightarrow> ('w, unit) call"
  Run :: "string list \<Rightarrow> ('w, unit) call"
  ReadFile :: "string \<Rightarrow> ('w, string) call"
  AppendCertsFromPEM :: "string \<Rightarrow> bool"
  LoadX509KeyPair :: "string \<Rightarrow> string \<Rightarrow> ('w, string) call"
  Connect :: "string list \<Rightarrow> int \<Rightarrow> dialer option \<Rightarrow> ('w, int) call"
  AddAuth :: "int \<Rightarrow> string \<Rightarrow> string \<Rightarrow> ('w, unit) call"
  ChildrenW :: "int \<Rightarrow> string \<Rightarrow> ('w, unit) call"
  Close :: "int \<Rightarrow> 'w \<Rightarrow> 'w"
  Unmatched :: "string \<Rightarrow> string \<Rightarrow> string \<Rightarrow> response"
  ListenAndServe :: "string \<Rightarrow> 'w handler \<Rightarrow> ('w, unit) call"

section \<open>Environment variables\<close>

definition GetEnv :: "'w sys \<Rightarrow> string \<Rightarrow> string \<Rightarrow> string" where
  "GetEnv sys key fallback = (case LookupEnv sys key of Some value \<Rightarrow> value | None \<Rightarrow> fallback)"

definition getBoolEnv :: "'w sys \<Rightarrow> string \<Rightarrow> string \<Rightarrow> bool" where
  "getBoolEnv sys key defaultValue \<longleftrightarrow> ToLower (GetEnv sys key defaultValue) = ''true''"

definition sslEnabled :: "'w sys \<Rightarrow> bool" where
  "sslEnabled sys = getBoolEnv sys ''ENABLE_SSL'' ''false''"

definition twoWaySslEnabled :: "'w sys \<Rightarrow> bool" where
  "twoWaySslEnabled sys = getBoolEnv sys ''ENABLE_2WAY_SSL'' ''false''"

section \<open>The connection to ZooKeeper\<close>

definition syscall :: "('w, 'a) call \<Rightarrow> ('w, 'a) comp" where
  "syscall f = (\<lambda>w. case f w of (r, w') \<Rightarrow> (case r of Inl e \<Rightarrow> Err e | Inr x \<Rightarrow> Ok x, w'))"

definition newTLSDialer :: "'w sys \<Rightarrow> string \<Rightarrow> string \<Rightarrow> string \<Rightarrow> string \<Rightarrow> ('w, dialer) comp" where
  "newTLSDialer sys addr caCert certFile keyFile =
     (if \<not> AppendCertsFromPEM sys caCert then fail (OtherError ''failed to add root certificate'')
      else if length certFile > 0 \<and> length keyFile > 0
      then bindM (attempt (syscall (LoadX509KeyPair sys certFile keyFile))) (\<lambda>r. case r of
             Inl err \<Rightarrow> fail (OtherError (''cannot read TLS certificate or key file: '' @ error_text err))
           | Inr cert \<Rightarrow> ret (TLSDialer addr caCert (Some cert)))
      else ret (TLSDialer addr caCert None))"

definition zookeeperConnectTLS :: "'w sys \<Rightarrow> string list \<Rightarrow> int \<Rightarrow> ('w, int) comp" where
  "zookeeperConnectTLS sys servers sessionTimeout =
     bindM (syscall (ReadFile sys ''/opt/zookeeper/tls/ca.crt'')) (\<lambda>caCert.
     let certFile = (if twoWaySslEnabled sys then ''/opt/zookeeper/tls/tls.crt'' else '''');
         keyFile = (if twoWaySslEnabled sys then ''/opt/zookeeper/tls/tls.key'' else '''') in
     bindM (lift_outcome (index servers 0)) (\<lambda>server.
     bindM (newTLSDialer sys server caCert certFile keyFile) (\<lambda>dialer.
     syscall (Connect sys servers sessionTimeout (Some dialer)))))"

definition zookeeperConnect :: "'w sys \<Rightarrow> string list \<Rightarrow> int \<Rightarrow> ('w, int) comp" where
  "zookeeperConnect sys servers sessionTimeout =
     (if sslEnabled sys then zookeeperConnectTLS sys servers sessionTimeout
      else syscall (Connect sys servers sessionTimeout None))"

section \<open>The backup server\<close>

text \<open>\<^verbatim>\<open>os.Mkdir(path, 0755)\<close>: the mode is octal.\<close>

definition storeZooKeeperFiles :: "'w sys \<Rightarrow> Data \<Rightarrow> ('w, Result) comp" where
  "storeZooKeeperFiles sys data =
     (let failed = (\<lambda>msg. ret \<lparr>res_Status = ''Error'', res_Message = msg\<rparr>);
          dest = data_Destination data;
          rest =
            bindM (attempt (syscall (Mkdir sys dest 493))) (\<lambda>r. case r of
               Inl err \<Rightarrow> failed (''Creation of '' @ [CHR 0x27] @ dest @ [CHR 0x27] @ '' folder is failed: '' @ error_text err)
             | Inr _ \<Rightarrow>
                 bindM (attempt (syscall (Run sys [''cp'', ''-rp'', data_Source data @ ''/.'', dest]))) (\<lambda>r. case r of
                    Inl err \<Rightarrow> failed (''Copying command is failed: '' @ error_text err)
                  | Inr _ \<Rightarrow> ret \<lparr>res_Status = ''Ok'', res_Message = ''The files are copied successfully!''\<rparr>))
      in bindM (attempt (syscall (Stat sys dest))) (\<lambda>r. case r of
           Inl _ \<Rightarrow> rest
         | Inr _ \<Rightarrow>
             bindM (attempt (syscall (RemoveAll sys dest))) (\<lambda>r. case r of
                Inl err \<Rightarrow> failed (''Remove of '' @ [CHR 0x27] @ dest @ [CHR 0x27] @ '' folder is failed: '' @ error_text err)
              | Inr _ \<Rightarrow> rest)))"

text \<open>The deferred \<^verbatim>\<open>recover\<close>: a panic before the header is written becomes a response of 500.\<close>

definition recovering :: "string \<Rightarrow> body \<Rightarrow> ('w, response) comp \<Rightarrow> ('w, response) comp" where
  "recovering ctype failure m = (\<lambda>w. case m w of (r, w') \<Rightarrow>
     (case r of
        Panic _ \<Rightarrow> (Ok \<lparr>resp_Code = 500, resp_ContentType = ctype, resp_Body = failure\<rparr>, w')
      | _ \<Rightarrow> (r, w')))"

definition GetState :: "string \<Rightarrow> ('w, response) comp" where
  "GetState ctype = recovering ctype (StateBody \<lparr>st_Status = ''Error''\<rparr>)
     (ret \<lparr>resp_Code = 200, resp_ContentType = ctype, resp_Body = StateBody \<lparr>st_Status = ''Running''\<rparr>\<rparr>)"

definition Store :: "'w sys \<Rightarrow> Data \<Rightarrow> string \<Rightarrow> ('w, response) comp" where
  "Store sys data ctype =
     recovering ctype (ResultBody \<lparr>res_Status = ''Error'', res_Message = ''''\<rparr>)
       (bindM (storeZooKeeperFiles sys data)
         (\<lambda>result. ret \<lparr>resp_Code = 200, resp_ContentType = ctype, resp_Body = ResultBody result\<rparr>))"

definition JsonContentType :: "'w handler \<Rightarrow> 'w handler" where
  "JsonContentType h = (\<lambda>_ meth path. h ''application/json'' meth path)"

text \<open>The routes; what the router answers to any other request is its own (\<open>Unmatched\<close>).\<close>

definition BackupHandlers :: "'w sys \<Rightarrow> Data \<Rightarrow> 'w handler" where
  "BackupHandlers sys data = JsonContentType (\<lambda>ctype meth path.
     if path = ''/'' \<and> meth = ''GET'' then GetState ctype
     else if path = ''/store'' \<and> meth = ''POST'' then Store sys data ctype
     else ret (Unmatched sys ctype meth path))"

section \<open>The command\<close>

text \<open>\<^verbatim>\<open>log.Fatal\<close> ends the process with exit code 1, without running deferred calls: an error
  here. The session timeout is in seconds.\<close>

definition fatal :: "string \<Rightarrow> ('w, 'a) comp \<Rightarrow> ('w, 'a) comp" where
  "fatal msg m = bindM (attempt m) (\<lambda>r. case r of
      Inl err \<Rightarrow> fail (OtherError (msg @ error_text err)) | Inr x \<Rightarrow> ret x)"

definition health :: "'w sys \<Rightarrow> string \<Rightarrow> ('w, unit) comp" where
  "health sys credentials =
     bindM (fatal ''Failed to connect to ZooKeeper: '' (zookeeperConnect sys [''127.0.0.1:2181''] 10)) (\<lambda>conn.
     bindM (fatal ''Failed to add authentication for ZooKeeper client: ''
              (syscall (AddAuth sys conn ''digest'' credentials))) (\<lambda>_.
     bindM (fatal ''Failed to obtain list of znodes: '' (syscall (ChildrenW sys conn ''/''))) (\<lambda>_.
     modify (Close sys conn))))"

definition assistant_main :: "'w sys \<Rightarrow> string \<Rightarrow> string \<Rightarrow> string \<Rightarrow> string \<Rightarrow> ('w, unit) comp" where
  "assistant_main sys command source destination credentials =
     (if command = ''health'' then health sys credentials
      else if command = ''backup''
      then let data = \<lparr>data_Source = source, data_Destination = destination\<rparr>
           in fatal '''' (syscall (ListenAndServe sys '':8081'' (BackupHandlers sys data)))
      else fail (OtherError (''Unknown command: '' @ command)))"

section \<open>Properties\<close>

lemma syscall_run:
  "syscall f w = (r, w') \<longleftrightarrow> (\<exists>x. f w = (x, w') \<and> r = (case x of Inl e \<Rightarrow> Err e | Inr y \<Rightarrow> Ok y))"
  by (auto simp: syscall_def split: prod.splits)

text \<open>A copy starts from an empty directory: the destination is removed when it was there.\<close>

definition cleared :: "'w sys \<Rightarrow> string \<Rightarrow> 'w \<Rightarrow> 'w \<Rightarrow> bool" where
  "cleared sys dest w w' \<longleftrightarrow>
     (\<exists>e. Stat sys dest w = (Inl e, w')) \<or>
     (\<exists>w1. Stat sys dest w = (Inr (), w1) \<and> RemoveAll sys dest w1 = (Inr (), w'))"

lemma storeZooKeeperFiles_total: "\<exists>res w'. storeZooKeeperFiles sys data w = (Ok res, w')"
  by (auto simp: storeZooKeeperFiles_def bindM_def attempt_def syscall_def Let_def
      split: prod.splits sum.splits)

lemma storeZooKeeperFiles_Ok_iff:
  "storeZooKeeperFiles sys data w = (Ok \<lparr>res_Status = ''Ok'', res_Message = ''The files are copied successfully!''\<rparr>, w') \<longleftrightarrow>
     (\<exists>w1 w2. cleared sys (data_Destination data) w w1 \<and>
        Mkdir sys (data_Destination data) 493 w1 = (Inr (), w2) \<and>
        Run sys [''cp'', ''-rp'', data_Source data @ ''/.'', data_Destination data] w2 = (Inr (), w'))"
  by (auto simp: storeZooKeeperFiles_def bindM_def attempt_def syscall_def cleared_def Let_def
      split: prod.splits sum.splits)

lemma storeZooKeeperFiles_status:
  "storeZooKeeperFiles sys data w = (Ok res, w') \<Longrightarrow>
   res_Status res = ''Error'' \<or>
   res = \<lparr>res_Status = ''Ok'', res_Message = ''The files are copied successfully!''\<rparr>"
  by (auto simp: storeZooKeeperFiles_def bindM_def attempt_def syscall_def Let_def
      split: prod.splits sum.splits)

lemma fatal_Ok: "fatal msg m w = (Ok x, w') \<longleftrightarrow> m w = (Ok x, w')"
  by (auto simp: fatal_def bindM_def attempt_def fail_def ret_def split: prod.splits outcome.splits)

lemma syscall_Ok: "syscall f w = (Ok x, w') \<longleftrightarrow> f w = (Inr x, w')"
  by (auto simp: syscall_def split: prod.splits sum.splits)

text \<open>
  C28. \<^verbatim>\<open>POST /store\<close> is always answered, with code 200 and a JSON body whose \<^verbatim>\<open>Status\<close> is \<^verbatim>\<open>Ok\<close> or
  \<^verbatim>\<open>Error\<close>. It is \<^verbatim>\<open>Ok\<close> exactly when the destination was cleared and created anew and the files
  were copied into it.
\<close>

theorem store_answered:
  "\<exists>res w'. BackupHandlers sys data ctype ''POST'' ''/store'' w =
      (Ok \<lparr>resp_Code = 200, resp_ContentType = ''application/json'', resp_Body = ResultBody res\<rparr>, w') \<and>
     res_Status res \<in> {''Ok'', ''Error''} \<and>
     (res_Status res = ''Ok'' \<longleftrightarrow>
       (\<exists>w1 w2. cleared sys (data_Destination data) w w1 \<and>
          Mkdir sys (data_Destination data) 493 w1 = (Inr (), w2) \<and>
          Run sys [''cp'', ''-rp'', data_Source data @ ''/.'', data_Destination data] w2 = (Inr (), w')))"
proof -
  obtain res w' where run: "storeZooKeeperFiles sys data w = (Ok res, w')"
    using storeZooKeeperFiles_total [of sys data w] by blast
  then have "BackupHandlers sys data ctype ''POST'' ''/store'' w =
      (Ok \<lparr>resp_Code = 200, resp_ContentType = ''application/json'', resp_Body = ResultBody res\<rparr>, w')"
    by (simp add: BackupHandlers_def JsonContentType_def Store_def recovering_def bindM_def)
  moreover from storeZooKeeperFiles_status [OF run]
  have "res_Status res \<in> {''Ok'', ''Error''}"
    and "res_Status res = ''Ok'' \<longleftrightarrow> res = \<lparr>res_Status = ''Ok'', res_Message = ''The files are copied successfully!''\<rparr>"
    by auto
  ultimately show ?thesis using run storeZooKeeperFiles_Ok_iff [of sys data w w'] by auto
qed

text \<open>How the client dials: in plain text, or over TLS with the mounted root certificate, and the
  client certificate when two-way TLS is on.\<close>

definition dials :: "'w sys \<Rightarrow> string \<Rightarrow> 'w \<Rightarrow> dialer option \<Rightarrow> 'w \<Rightarrow> bool" where
  "dials sys server w d w' \<longleftrightarrow>
     (if \<not> sslEnabled sys then d = None \<and> w' = w
      else \<exists>ca w1. ReadFile sys ''/opt/zookeeper/tls/ca.crt'' w = (Inr ca, w1) \<and> AppendCertsFromPEM sys ca \<and>
        (if twoWaySslEnabled sys
         then \<exists>cert. LoadX509KeyPair sys ''/opt/zookeeper/tls/tls.crt'' ''/opt/zookeeper/tls/tls.key'' w1 =
                (Inr cert, w') \<and> d = Some (TLSDialer server ca (Some cert))
         else d = Some (TLSDialer server ca None) \<and> w' = w1))"

lemma newTLSDialer_Ok:
  "newTLSDialer sys addr ca crt key w = (Ok d, w') \<longleftrightarrow>
     AppendCertsFromPEM sys ca \<and>
     (if crt \<noteq> '''' \<and> key \<noteq> ''''
      then \<exists>cert. LoadX509KeyPair sys crt key w = (Inr cert, w') \<and> d = TLSDialer addr ca (Some cert)
      else d = TLSDialer addr ca None \<and> w' = w)"
  by (auto simp: newTLSDialer_def bindM_def attempt_def syscall_def split: prod.splits sum.splits)

lemma zookeeperConnect_Ok:
  "zookeeperConnect sys (server # servers) timeout w = (Ok conn, w') \<longleftrightarrow>
     (\<exists>d w0. dials sys server w d w0 \<and> Connect sys (server # servers) timeout d w0 = (Inr conn, w'))"
  by (cases "sslEnabled sys"; cases "twoWaySslEnabled sys")
     (auto simp: zookeeperConnect_def zookeeperConnectTLS_def dials_def bindM_eq_Ok syscall_Ok
       newTLSDialer_Ok index_def Let_def)

text \<open>
  C29. The health check of the image exits without an error exactly when the local server was
  dialled as the environment asks, the session was opened, the credentials were accepted and the root znode
  could be listed; the session is closed then.
\<close>

theorem health_check_iff:
  "assistant_main sys ''health'' source destination credentials w = (Ok (), w') \<longleftrightarrow>
     (\<exists>d w0 conn w1 w2 w3.
        dials sys ''127.0.0.1:2181'' w d w0 \<and>
        Connect sys [''127.0.0.1:2181''] 10 d w0 = (Inr conn, w1) \<and>
        AddAuth sys conn ''digest'' credentials w1 = (Inr (), w2) \<and>
        ChildrenW sys conn ''/'' w2 = (Inr (), w3) \<and> w' = Close sys conn w3)"
  by (auto simp: assistant_main_def health_def bindM_eq_Ok fatal_Ok syscall_Ok zookeeperConnect_Ok) metis

end
