(* ===== verification/TransactionLogs.thy ===== *)
theory TransactionLogs
  imports Prelude "HOL-Library.Word" "HOL-Library.Sublist"
begin

text \<open>
  The transaction logs of ZooKeeper in the backup daemon:
  \<^verbatim>\<open>backup-daemon/scripts/parse_transaction_logs.py\<close> and the filter of
  \<^verbatim>\<open>backup-daemon/scripts/process_zookeeper_logs.py\<close>. Bytes are 8-bit words. A constructor that reads
  from a stream is a function from the bytes that are left to an exception, or the object and the
  bytes left after it. The text of debug messages is left out, but not that building it can raise.
\<close>

section \<open>Python\<close>

datatype py_error =
    StructError
  | EOS
  | UnknownType int
  | KeyError int
  | ValueError

type_synonym bytes = "8 word list"
type_synonym 'a reader = "bytes \<Rightarrow> py_error + ('a \<times> bytes)"

definition returnR :: "'a \<Rightarrow> 'a reader" where
  "returnR x = (\<lambda>s. Inr (x, s))"

definition raiseR :: "py_error \<Rightarrow> 'a reader" where
  "raiseR e = (\<lambda>_. Inl e)"

definition bindR :: "'a reader \<Rightarrow> ('a \<Rightarrow> 'b reader) \<Rightarrow> 'b reader" where
  "bindR m f = (\<lambda>s. case m s of Inl e \<Rightarrow> Inl e | Inr (x, s') \<Rightarrow> f x s')"

text \<open>The slices \<^verbatim>\<open>xs[:n]\<close> and \<^verbatim>\<open>xs[n:]\<close>; a negative bound counts from the end.\<close>

definition slice_bound :: "int \<Rightarrow> 'a list \<Rightarrow> nat" where
  "slice_bound n xs = (if 0 \<le> n then nat n else length xs - nat (- n))"

text \<open>\<^verbatim>\<open>read(n)\<close> of a file: everything for -1, an error for a smaller number, and at most \<^verbatim>\<open>n\<close> bytes.\<close>

definition file_read :: "int \<Rightarrow> bytes reader" where
  "file_read n = (\<lambda>s. if n < -1 then Inl ValueError
     else if n = -1 then Inr (s, [])
     else Inr (take (nat n) s, drop (nat n) s))"

text \<open>Big-endian numbers of \<^verbatim>\<open>struct\<close>; \<^verbatim>\<open>unpack\<close> wants exactly as many bytes as the format has.\<close>

definition be_unsigned :: "bytes \<Rightarrow> int" where
  "be_unsigned bs = foldl (\<lambda>a b. a * 256 + uint b) 0 bs"

definition be_signed :: "bytes \<Rightarrow> int" where
  "be_signed bs = (let v = be_unsigned bs; m = 256 ^ length bs in if 2 * v < m then v else v - m)"

definition unpack :: "nat \<Rightarrow> (bytes \<Rightarrow> 'a) \<Rightarrow> bytes \<Rightarrow> py_error + 'a" where
  "unpack n f bs = (if length bs = n then Inr (f bs) else Inl StructError)"

section \<open>Constants\<close>

definition SESSIONCLOSE :: int where "SESSIONCLOSE = -11"
definition SESSIONCREATE :: int where "SESSIONCREATE = -10"
definition ERROR :: int where "ERROR = -1"
definition CREATE :: int where "CREATE = 1"
definition DELETE :: int where "DELETE = 2"
definition SETDATA :: int where "SETDATA = 5"
definition SETACL :: int where "SETACL = 7"
definition MULTI :: int where "MULTI = 14"

definition errorcodes :: "int list" where
  "errorcodes = [0, -1, -2, -3, -4, -5, -6, -7, -8, -100, -101, -102, -103, -108, -110, -111, -112,
     -113, -114, -115, -118]"

definition END_OF_STREAM :: bytes where
  "END_OF_STREAM = replicate 12 0"

lemmas opcode_defs = SESSIONCLOSE_def SESSIONCREATE_def ERROR_def CREATE_def DELETE_def SETDATA_def
  SETACL_def MULTI_def

section \<open>The header of a log\<close>

record LogFileHeader =
  data_bytes :: bytes
  magic :: int
  version :: int
  dbid :: int

definition new_LogFileHeader :: "LogFileHeader reader" where
  "new_LogFileHeader =
     bindR (file_read 16) (\<lambda>bs s.
       case unpack 16 (\<lambda>bs. \<lparr>data_bytes = bs, magic = be_signed (take 4 bs),
              version = be_signed (take 4 (drop 4 bs)), dbid = be_signed (drop 8 bs)\<rparr>) bs of
         Inl e \<Rightarrow> Inl e | Inr h \<Rightarrow> Inr (h, s))"

text \<open>\<^verbatim>\<open>MAGIC\<close> is the number with the bytes \<^verbatim>\<open>ZKLG\<close>.\<close>

definition is_valid :: "LogFileHeader \<Rightarrow> bool" where
  "is_valid h \<longleftrightarrow> magic h = be_unsigned [0x5A, 0x4B, 0x4C, 0x47]"

section \<open>Entries\<close>

text \<open>\<^verbatim>\<open>TransactionData.read\<close>\<close>

definition record_read :: "int \<Rightarrow> bytes reader" where
  "record_read count = (\<lambda>rest. Inr (take (slice_bound count rest) rest, drop (slice_bound count rest) rest))"

definition read_struct :: "nat \<Rightarrow> (bytes \<Rightarrow> 'a) \<Rightarrow> 'a reader" where
  "read_struct n f =
     bindR (record_read (int n)) (\<lambda>bs s. case unpack n f bs of Inl e \<Rightarrow> Inl e | Inr x \<Rightarrow> Inr (x, s))"

definition read_int :: "int reader" where
  "read_int = read_struct 4 be_signed"

text \<open>A negative length gives a format that \<^verbatim>\<open>struct\<close> refuses.\<close>

definition read_string :: "bytes reader" where
  "read_string =
     bindR read_int (\<lambda>len. if len < 0 then raiseR StructError else read_struct (nat len) (\<lambda>bs. bs))"

definition read_data :: "bytes reader" where
  "read_data = bindR read_int record_read"

text \<open>\<^verbatim>\<open>unpack\<close> returns a tuple, which is never equal to 0.\<close>

definition read_bool :: "bool reader" where
  "read_bool = read_struct 1 (\<lambda>_. False)"

record Acl =
  perms :: int
  scheme :: bytes
  acl_id :: bytes

definition read_acl :: "Acl reader" where
  "read_acl =
     bindR read_int (\<lambda>p. bindR read_string (\<lambda>s. bindR read_string (\<lambda>i.
     returnR \<lparr>perms = p, scheme = s, acl_id = i\<rparr>)))"

primrec times :: "nat \<Rightarrow> 'a reader \<Rightarrow> 'a list reader" where
  "times 0 m = returnR []"
| "times (Suc n) m = bindR m (\<lambda>x. bindR (times n m) (\<lambda>xs. returnR (x # xs)))"

definition read_acls :: "Acl list reader" where
  "read_acls = bindR read_int (\<lambda>count. times (nat count) read_acl)"

datatype TxnEntry =
    TxnCreate bytes bytes "Acl list" bool
  | TxnDelete bytes
  | TxnSetData bytes bytes int
  | TxnSetAcl bytes "Acl list" int
  | TxnSessionCreate int
  | TxnSessionClose
  | TxnError int

text \<open>\<^verbatim>\<open>TxnCreate\<close> first reads the record as if it had no data, and again with data when that ends
  in a \<^verbatim>\<open>struct.error\<close>.\<close>

definition create_without_data :: "TxnEntry reader" where
  "create_without_data =
     bindR read_string (\<lambda>path. bindR read_acls (\<lambda>acls. bindR read_bool (\<lambda>ephemeral.
     returnR (TxnCreate path [] acls ephemeral))))"

definition create_with_data :: "TxnEntry reader" where
  "create_with_data =
     bindR read_string (\<lambda>path. bindR read_data (\<lambda>data. bindR read_acls (\<lambda>acls.
     bindR read_bool (\<lambda>ephemeral. returnR (TxnCreate path data acls ephemeral)))))"

definition new_TxnCreate :: "TxnEntry reader" where
  "new_TxnCreate = (\<lambda>body. case create_without_data body of
     Inl StructError \<Rightarrow> create_with_data body
   | r \<Rightarrow> r)"

definition new_TxnDelete :: "TxnEntry reader" where
  "new_TxnDelete = bindR read_string (\<lambda>path. returnR (TxnDelete path))"

definition new_TxnSetData :: "TxnEntry reader" where
  "new_TxnSetData =
     bindR read_string (\<lambda>path. bindR read_data (\<lambda>data. bindR read_int (\<lambda>v.
     returnR (TxnSetData path data v))))"

definition new_TxnSetAcl :: "TxnEntry reader" where
  "new_TxnSetAcl =
     bindR read_string (\<lambda>path. bindR read_acls (\<lambda>acls. bindR read_int (\<lambda>v.
     returnR (TxnSetAcl path acls v))))"

definition new_TxnSessionCreate :: "TxnEntry reader" where
  "new_TxnSessionCreate = bindR read_int (\<lambda>t. returnR (TxnSessionCreate t))"

definition new_TxnError :: "TxnEntry reader" where
  "new_TxnError = bindR read_int (\<lambda>e. returnR (TxnError e))"

section \<open>Transactions\<close>

record TxnHeader =
  client_id :: int
  cxid :: int
  zxid :: int
  txn_time :: int
  txn_type :: int

definition new_TxnHeader :: "TxnHeader reader" where
  "new_TxnHeader = read_struct 32 (\<lambda>bs.
     \<lparr>client_id = be_unsigned (take 8 bs), cxid = be_unsigned (take 4 (drop 8 bs)),
      zxid = be_unsigned (take 8 (drop 12 bs)), txn_time = be_unsigned (take 8 (drop 20 bs)),
      txn_type = be_signed (drop 28 bs)\<rparr>)"

record Txn =
  header :: TxnHeader
  entry :: "TxnEntry option"
  transaction_bytes :: bytes

definition read_entry :: "int \<Rightarrow> TxnEntry option reader" where
  "read_entry t =
     (let some = (\<lambda>m. bindR m (\<lambda>e. returnR (Some e))) in
      if t = CREATE then some new_TxnCreate
      else if t = DELETE then some new_TxnDelete
      else if t = SETDATA then some new_TxnSetData
      else if t = SETACL then some new_TxnSetAcl
      else if t = SESSIONCREATE then some new_TxnSessionCreate
      else if t = SESSIONCLOSE then returnR (Some TxnSessionClose)
      else if t = ERROR then some new_TxnError
      else if t = MULTI then returnR None
      else raiseR (UnknownType t))"

text \<open>\<^verbatim>\<open>h.type == CREATE and self.entry.ephemeral == 1\<close>\<close>

definition is_ephemeral :: "TxnEntry option \<Rightarrow> bool" where
  "is_ephemeral e = (case e of Some (TxnCreate _ _ _ ephemeral) \<Rightarrow> ephemeral | _ \<Rightarrow> False)"

text \<open>The rest of the constructor, once the head and the data are read.\<close>

definition finish_Txn :: "bytes \<Rightarrow> bytes \<Rightarrow> Txn reader" where
  "finish_Txn txn_head initial = (\<lambda>stream.
     case bindR new_TxnHeader (\<lambda>h. bindR (read_entry (txn_type h)) (\<lambda>e. returnR (h, e))) initial of
       Inl e \<Rightarrow> Inl e
     | Inr ((h, e), _) \<Rightarrow>
         bindR (file_read 1) (\<lambda>eor. returnR
           \<lparr>header = h, entry = e, transaction_bytes =
              (if txn_type h = SESSIONCREATE \<or> txn_type h = SESSIONCLOSE \<or>
                  txn_type h = CREATE \<and> is_ephemeral e
               then [] else txn_head @ initial @ eor)\<rparr>) stream)"

definition new_Txn :: "Txn reader" where
  "new_Txn =
     bindR (file_read 12) (\<lambda>txn_head stream.
     case unpack 12 (\<lambda>bs. be_signed (drop 8 bs)) txn_head of
       Inl e \<Rightarrow> Inl e
     | Inr txn_len \<Rightarrow>
         (if txn_len = 0 then Inl EOS
          else bindR (file_read txn_len) (finish_Txn txn_head) stream))"

text \<open>\<^verbatim>\<open>str(transaction)\<close>, which the debug message of every transaction evaluates: the table of error codes
  may not have the code.\<close>

definition str_Txn :: "Txn \<Rightarrow> py_error + unit" where
  "str_Txn t = (case entry t of
     Some (TxnError err) \<Rightarrow> if err \<in> set errorcodes then Inr () else Inl (KeyError err)
   | _ \<Rightarrow> Inr ())"

section \<open>The filter\<close>

lemma bindR_Inr:
  "bindR m f s = Inr r \<longleftrightarrow> (\<exists>x s'. m s = Inr (x, s') \<and> f x s' = Inr r)"
  by (auto simp: bindR_def split: sum.splits prod.splits)

lemma returnR_Inr [simp]: "returnR x s = Inr r \<longleftrightarrow> r = (x, s)"
  by (auto simp: returnR_def)

lemma raiseR_Inr [simp]: "raiseR e s \<noteq> Inr r"
  by (simp add: raiseR_def)

lemma unpack_Inr: "unpack n f bs = Inr x \<longleftrightarrow> length bs = n \<and> x = f bs"
  by (auto simp: unpack_def)

lemma file_read_Inr:
  "file_read n s = Inr (x, s') \<Longrightarrow> s = x @ s'"
  by (auto simp: file_read_def split: if_splits)

lemma file_read_exact: "length bs = nat n \<Longrightarrow> 0 \<le> n \<Longrightarrow> file_read n (bs @ s) = Inr (bs, s)"
  by (simp add: file_read_def)

text \<open>The steps of reading a transaction.\<close>

lemma new_Txn_Inr:
  assumes "new_Txn s = Inr (t, s')"
  obtains head s1 initial s2 h e rest eor where
    "file_read 12 s = Inr (head, s1)" "length head = 12" "be_signed (drop 8 head) \<noteq> 0"
    "file_read (be_signed (drop 8 head)) s1 = Inr (initial, s2)"
    "bindR new_TxnHeader (\<lambda>h. bindR (read_entry (txn_type h)) (\<lambda>e. returnR (h, e))) initial = Inr ((h, e), rest)"
    "file_read 1 s2 = Inr (eor, s')"
    "t = \<lparr>header = h, entry = e, transaction_bytes =
       (if txn_type h = SESSIONCREATE \<or> txn_type h = SESSIONCLOSE \<or> txn_type h = CREATE \<and> is_ephemeral e
        then [] else head @ initial @ eor)\<rparr>"
proof -
  from assms obtain head s1 initial s2 where
    head: "file_read 12 s = Inr (head, s1)" "length head = 12" "be_signed (drop 8 head) \<noteq> 0"
      "file_read (be_signed (drop 8 head)) s1 = Inr (initial, s2)" and
    rest: "finish_Txn head initial s2 = Inr (t, s')"
    unfolding new_Txn_def
    by (auto simp: bindR_Inr unpack_def split: sum.splits if_splits)
  from rest obtain h e x eor where
    "bindR new_TxnHeader (\<lambda>h. bindR (read_entry (txn_type h)) (\<lambda>e. returnR (h, e))) initial = Inr ((h, e), x)"
    "file_read 1 s2 = Inr (eor, s')"
    "t = \<lparr>header = h, entry = e, transaction_bytes =
       (if txn_type h = SESSIONCREATE \<or> txn_type h = SESSIONCLOSE \<or> txn_type h = CREATE \<and> is_ephemeral e
        then [] else head @ initial @ eor)\<rparr>"
    unfolding finish_Txn_def by (auto simp: bindR_Inr [of "file_read 1"] split: sum.splits)
  with head that show thesis by blast
qed

lemma new_Txn_shorter: "new_Txn s = Inr (t, s') \<Longrightarrow> length s' < length s"
  by (erule new_Txn_Inr) (auto dest!: file_read_Inr)

function filter_loop :: "bytes \<Rightarrow> bytes \<times> py_error option" where
  "filter_loop s =
     (case new_Txn s of
        Inl EOS \<Rightarrow> (END_OF_STREAM, None)
      | Inl (UnknownType _) \<Rightarrow> (END_OF_STREAM, None)
      | Inl e \<Rightarrow> ([], Some e)
      | Inr (t, s') \<Rightarrow>
          (case str_Txn t of
             Inl e \<Rightarrow> ([], Some e)
           | Inr _ \<Rightarrow> (case filter_loop s' of (out, e) \<Rightarrow> (transaction_bytes t @ out, e))))"
  by pat_completeness auto

termination
proof (relation "measure length")
  fix s x t s' y
  assume "new_Txn s = Inr x" "(t, s') = x"
  then show "(s', s) \<in> measure length" using new_Txn_shorter [of s t s'] by auto
qed simp

declare filter_loop.simps [simp del]

text \<open>The bytes written to the output file, and the exception that leaves the function, if any.
  An invalid header is only logged.\<close>

definition filter_and_store_transaction_log :: "bytes \<Rightarrow> bytes \<times> py_error option" where
  "filter_and_store_transaction_log input =
     (case new_LogFileHeader input of
        Inl e \<Rightarrow> ([], Some e)
      | Inr (h, s) \<Rightarrow> (case filter_loop s of (out, e) \<Rightarrow> (data_bytes h @ out, e)))"

section \<open>The format ZooKeeper writes\<close>

primrec pack :: "nat \<Rightarrow> int \<Rightarrow> bytes" where
  "pack 0 v = []"
| "pack (Suc n) v = pack n (v div 256) @ [word_of_int v]"

lemma length_pack [simp]: "length (pack n v) = n"
  by (induction n arbitrary: v) simp_all

lemma be_unsigned_snoc: "be_unsigned (bs @ [b]) = be_unsigned bs * 256 + uint b"
  by (simp add: be_unsigned_def)

lemma be_unsigned_pack_mod: "be_unsigned (pack n v) = v mod 256 ^ n"
proof (induction n arbitrary: v)
  case 0
  then show ?case by (simp add: be_unsigned_def)
next
  case (Suc n)
  have "uint (word_of_int v :: 8 word) = v mod 256" by (simp add: uint_word_of_int)
  moreover have "v mod (256 * 256 ^ n) = 256 * (v div 256 mod 256 ^ n) + v mod 256"
    by (rule zmod_zmult2_eq) simp
  ultimately show ?case using Suc.IH [of "v div 256"] by (simp add: be_unsigned_snoc)
qed

lemma be_unsigned_pack: "0 \<le> v \<Longrightarrow> v < 256 ^ n \<Longrightarrow> be_unsigned (pack n v) = v"
  by (simp add: be_unsigned_pack_mod)

lemma be_signed_pack:
  assumes "- (256 ^ n) \<le> 2 * v" and "2 * v < 256 ^ n"
  shows "be_signed (pack n v) = v"
proof (cases "0 \<le> v")
  case True
  with assms show ?thesis by (simp add: be_signed_def be_unsigned_pack_mod Let_def)
next
  case False
  with assms have "v mod 256 ^ n = v + 256 ^ n"
    by (intro mod_pos_pos_trivial [of "v + 256 ^ n" "256 ^ n", simplified]) simp_all
  with False assms show ?thesis by (simp add: be_signed_def be_unsigned_pack_mod Let_def)
qed

text \<open>The records of a log: a string and a list have their length in front, a missing buffer the length
  -1. A record may have more than the fields the parser knows (\<open>w_tail\<close>), as the version of the
  parent in a creation.\<close>

definition enc_string :: "bytes \<Rightarrow> bytes" where
  "enc_string bs = pack 4 (int (length bs)) @ bs"

definition enc_buffer :: "bytes option \<Rightarrow> bytes" where
  "enc_buffer b = (case b of None \<Rightarrow> pack 4 (-1) | Some bs \<Rightarrow> enc_string bs)"

definition enc_acl :: "Acl \<Rightarrow> bytes" where
  "enc_acl a = pack 4 (perms a) @ enc_string (scheme a) @ enc_string (acl_id a)"

definition enc_acls :: "Acl list \<Rightarrow> bytes" where
  "enc_acls as = pack 4 (int (length as)) @ concat (map enc_acl as)"

datatype zentry =
    ZCreate bytes "bytes option" "Acl list" bool
  | ZDelete bytes
  | ZSetData bytes "bytes option" int
  | ZSetAcl bytes "Acl list" int
  | ZSessionCreate int
  | ZSessionClose
  | ZError int
  | ZMulti
  | ZOther int

primrec enc_entry :: "zentry \<Rightarrow> bytes" where
  "enc_entry (ZCreate path data acls eph) =
     enc_string path @ enc_buffer data @ enc_acls acls @ [if eph then 1 else 0]"
| "enc_entry (ZDelete path) = enc_string path"
| "enc_entry (ZSetData path data v) = enc_string path @ enc_buffer data @ pack 4 v"
| "enc_entry (ZSetAcl path acls v) = enc_string path @ enc_acls acls @ pack 4 v"
| "enc_entry (ZSessionCreate t) = pack 4 t"
| "enc_entry ZSessionClose = []"
| "enc_entry (ZError e) = pack 4 e"
| "enc_entry ZMulti = []"
| "enc_entry (ZOther t) = []"

primrec type_code :: "zentry \<Rightarrow> int" where
  "type_code (ZCreate path data acls eph) = CREATE"
| "type_code (ZDelete path) = DELETE"
| "type_code (ZSetData path data v) = SETDATA"
| "type_code (ZSetAcl path acls v) = SETACL"
| "type_code (ZSessionCreate t) = SESSIONCREATE"
| "type_code ZSessionClose = SESSIONCLOSE"
| "type_code (ZError e) = ERROR"
| "type_code ZMulti = MULTI"
| "type_code (ZOther t) = t"

record wire =
  w_crc :: int
  w_client :: int
  w_cxid :: int
  w_zxid :: int
  w_time :: int
  w_entry :: zentry
  w_tail :: bytes
  w_eor :: "8 word"

definition enc_header :: "wire \<Rightarrow> bytes" where
  "enc_header w = pack 8 (w_client w) @ pack 4 (w_cxid w) @ pack 8 (w_zxid w) @ pack 8 (w_time w) @
     pack 4 (type_code (w_entry w))"

definition payload :: "wire \<Rightarrow> bytes" where
  "payload w = enc_header w @ enc_entry (w_entry w) @ w_tail w"

definition frame :: "wire \<Rightarrow> bytes" where
  "frame w = pack 8 (w_crc w) @ pack 4 (int (length (payload w))) @ payload w @ [w_eor w]"

definition int32 :: "int \<Rightarrow> bool" where
  "int32 v \<longleftrightarrow> - (2 ^ 31) \<le> v \<and> v < 2 ^ 31"

primrec wf_entry :: "zentry \<Rightarrow> bool" where
  "wf_entry (ZCreate path data acls eph) \<longleftrightarrow> (\<forall>a \<in> set acls. int32 (perms a))"
| "wf_entry (ZDelete path) \<longleftrightarrow> True"
| "wf_entry (ZSetData path data v) \<longleftrightarrow> int32 v"
| "wf_entry (ZSetAcl path acls v) \<longleftrightarrow> (\<forall>a \<in> set acls. int32 (perms a)) \<and> int32 v"
| "wf_entry (ZSessionCreate t) \<longleftrightarrow> int32 t"
| "wf_entry ZSessionClose \<longleftrightarrow> True"
| "wf_entry (ZError e) \<longleftrightarrow> int32 e"
| "wf_entry ZMulti \<longleftrightarrow> True"
| "wf_entry (ZOther t) \<longleftrightarrow>
     int32 t \<and> t \<notin> {CREATE, DELETE, SETDATA, SETACL, SESSIONCREATE, SESSIONCLOSE, ERROR, MULTI}"

definition wf_wire :: "wire \<Rightarrow> bool" where
  "wf_wire w \<longleftrightarrow> wf_entry (w_entry w) \<and> int (length (payload w)) < 2 ^ 31"

subsection \<open>Reading back\<close>

lemma length_enc_string [simp]: "length (enc_string bs) = 4 + length bs"
  by (simp add: enc_string_def)

text \<open>What a reader and an encoder promise each other: a value is read back from its bytes, whatever
  follows them. So sequences of values are read back too, and the bytes determine the value.\<close>

locale wire_codec =
  fixes rd :: "'a reader" and enc :: "'a \<Rightarrow> bytes" and ok :: "'a \<Rightarrow> bool"
  assumes decodes: "ok x \<Longrightarrow> rd (enc x @ s) = Inr (x, s)"
begin

lemma bind_back: "ok x \<Longrightarrow> bindR rd f (enc x @ s) = f x s"
  by (simp add: bindR_def decodes)

lemma times_back:
  "\<forall>x \<in> set xs. ok x \<Longrightarrow> times (length xs) rd (concat (map enc xs) @ s) = Inr (xs, s)"
  by (induction xs arbitrary: s) (simp_all add: returnR_def bind_back, simp add: bindR_def)

lemma enc_determines: "ok x \<Longrightarrow> ok y \<Longrightarrow> enc x @ s = enc y @ s' \<Longrightarrow> x = y \<and> s = s'"
  by (metis Inr_inject Pair_inject decodes)

end

lemma read_struct_append: "length bs = n \<Longrightarrow> read_struct n f (bs @ s) = Inr (f bs, s)"
  by (simp add: read_struct_def bindR_def record_read_def slice_bound_def unpack_def)

lemma read_int_pack: "int32 v \<Longrightarrow> read_int (pack 4 v @ s) = Inr (v, s)"
  unfolding read_int_def by (subst read_struct_append) (simp_all add: be_signed_pack int32_def)

lemma read_string_enc: "int (length bs) < 2 ^ 31 \<Longrightarrow> read_string (enc_string bs @ s) = Inr (bs, s)"
  by (simp add: read_string_def enc_string_def bindR_def read_int_pack int32_def read_struct_append)

lemma record_read_append: "record_read (int (length bs)) (bs @ s) = Inr (bs, s)"
  by (simp add: record_read_def slice_bound_def)

lemma read_data_enc: "int (length bs) < 2 ^ 31 \<Longrightarrow> read_data (enc_string bs @ s) = Inr (bs, s)"
  by (simp add: read_data_def enc_string_def bindR_def read_int_pack int32_def record_read_append)

interpretation intc: wire_codec read_int "pack 4" int32
  by unfold_locales (rule read_int_pack)

interpretation strc: wire_codec read_string enc_string "\<lambda>bs. int (length bs) < 2 ^ 31"
  by unfold_locales (rule read_string_enc)

interpretation datac: wire_codec read_data enc_string "\<lambda>bs. int (length bs) < 2 ^ 31"
  by unfold_locales (rule read_data_enc)

lemmas read_back = intc.bind_back strc.bind_back datac.bind_back

lemma read_acl_enc:
  assumes "int32 (perms a)" and "int (length (enc_acl a)) < 2 ^ 31"
  shows "read_acl (enc_acl a @ s) = Inr (a, s)"
proof -
  from assms(2) have "int (length (scheme a)) < 2 ^ 31" "int (length (acl_id a)) < 2 ^ 31"
    by (simp_all add: enc_acl_def enc_string_def)
  with assms(1) show ?thesis
    by (simp add: read_acl_def enc_acl_def read_back returnR_def)
qed

interpretation aclc: wire_codec read_acl enc_acl "\<lambda>a. int32 (perms a) \<and> int (length (enc_acl a)) < 2 ^ 31"
  by unfold_locales (simp add: read_acl_enc)

lemma length_concat_member: "x \<in> set xs \<Longrightarrow> length (f x) \<le> length (concat (map f xs))"
  by (induction xs) auto

lemma read_acls_enc:
  assumes "\<forall>a \<in> set as. int32 (perms a)" and "int (length (enc_acls as)) < 2 ^ 31"
  shows "read_acls (enc_acls as @ s) = Inr (as, s)"
proof -
  have each: "int (length (enc_acl a)) < 2 ^ 31" if "a \<in> set as" for a
    using length_concat_member [OF that, of enc_acl] assms(2) by (simp add: enc_acls_def)
  have "length as \<le> length (concat (map enc_acl as))"
    by (induction as) (simp_all add: enc_acl_def enc_string_def)
  with assms(2) have "int32 (int (length as))" by (simp add: enc_acls_def int32_def)
  moreover have "times (length as) read_acl (concat (map enc_acl as) @ s) = Inr (as, s)"
    using assms(1) each by (intro aclc.times_back) blast
  ultimately show ?thesis
    by (simp add: read_acls_def enc_acls_def read_back)
qed

interpretation aclsc: wire_codec read_acls enc_acls
  "\<lambda>as. (\<forall>a \<in> set as. int32 (perms a)) \<and> int (length (enc_acls as)) < 2 ^ 31"
  by unfold_locales (simp add: read_acls_enc)

subsection \<open>Creations\<close>

text \<open>Readers that raise nothing but \<^verbatim>\<open>struct.error\<close>.\<close>

definition only_struct :: "'a reader \<Rightarrow> bool" where
  "only_struct m \<longleftrightarrow> (\<forall>s e. m s = Inl e \<longrightarrow> e = StructError)"

lemma only_struct_bind: "only_struct m \<Longrightarrow> (\<And>x. only_struct (f x)) \<Longrightarrow> only_struct (bindR m f)"
  unfolding only_struct_def bindR_def by (fastforce split: sum.splits prod.splits)

lemma only_struct_basic:
  "only_struct (returnR x)" "only_struct (raiseR StructError)" "only_struct (record_read n)"
  "only_struct (read_struct k f)"
  by (auto simp: only_struct_def returnR_def raiseR_def record_read_def read_struct_def bindR_def unpack_def
      split: sum.splits if_splits)

lemma only_struct_times: "only_struct m \<Longrightarrow> only_struct (times n m)"
  by (induction n) (simp_all add: only_struct_basic only_struct_bind)

lemma only_struct_create: "only_struct create_without_data"
  unfolding create_without_data_def read_acls_def read_acl_def read_string_def read_int_def read_bool_def
  by (intro only_struct_bind only_struct_times only_struct_basic)
     (simp add: only_struct_basic split: if_split)+

lemma read_bool_False: "read_bool s = Inr (b, s') \<Longrightarrow> \<not> b"
  by (auto simp: read_bool_def read_struct_def bindR_Inr unpack_def split: sum.splits if_splits)

lemma new_TxnCreate_persistent: "new_TxnCreate s = Inr (e, s') \<Longrightarrow> \<not> is_ephemeral (Some e)"
  unfolding new_TxnCreate_def create_without_data_def create_with_data_def
  by (auto simp: bindR_Inr is_ephemeral_def dest!: read_bool_False split: sum.splits py_error.splits)

lemma read_entry_persistent:
  assumes "read_entry t s = Inr (e, s')"
  shows "\<not> is_ephemeral e"
proof (cases "t = CREATE")
  case True
  with assms obtain x where "e = Some x" "new_TxnCreate s = Inr (x, s')"
    by (auto simp: read_entry_def bindR_Inr)
  then show ?thesis using new_TxnCreate_persistent by blast
next
  case False
  with assms show ?thesis
    by (auto simp: read_entry_def bindR_Inr is_ephemeral_def new_TxnDelete_def new_TxnSetData_def
        new_TxnSetAcl_def new_TxnSessionCreate_def new_TxnError_def split: if_splits)
qed

lemma read_bool_ok: "s \<noteq> [] \<Longrightarrow> read_bool s = Inr (False, tl s)"
  by (cases s) (simp_all add: read_bool_def read_struct_append [of "[x]" for x, simplified])

lemma new_TxnCreate_enc:
  assumes "wf_entry (ZCreate path data acls eph)" and "int (length (enc_entry (ZCreate path data acls eph))) < 2 ^ 31"
  shows "\<exists>e s'. new_TxnCreate (enc_entry (ZCreate path data acls eph) @ s) = Inr (e, s')"
proof (cases data)
  case None
  from assms(2) have "int (length path) < 2 ^ 31" by (simp add: enc_string_def)
  then have "create_without_data (enc_entry (ZCreate path data acls eph) @ s) =
      Inr (TxnCreate path [] [] False, tl (enc_acls acls @ [if eph then 1 else 0] @ s))"
    by (simp add: None create_without_data_def bindR_def read_string_enc enc_buffer_def read_acls_def
        read_int_pack int32_def returnR_def read_bool_ok)
  then show ?thesis by (simp add: new_TxnCreate_def)
next
  case (Some bs)
  from assms(2) have "int (length path) < 2 ^ 31" "int (length bs) < 2 ^ 31" "int (length (enc_acls acls)) < 2 ^ 31"
    by (simp_all add: Some enc_buffer_def enc_string_def)
  with assms(1) have "create_with_data (enc_entry (ZCreate path data acls eph) @ s) =
      Inr (TxnCreate path bs acls False, s)"
    by (simp add: Some create_with_data_def bindR_def read_string_enc enc_buffer_def read_data_enc
        read_acls_enc returnR_def read_bool_ok)
  moreover have "e = StructError"
    if "create_without_data (enc_entry (ZCreate path data acls eph) @ s) = Inl e" for e
    using that only_struct_create unfolding only_struct_def by blast
  ultimately show ?thesis
    unfolding new_TxnCreate_def
    by (cases "create_without_data (enc_entry (ZCreate path data acls eph) @ s)") (fastforce, force)
qed

subsection \<open>Frames\<close>

text \<open>The records the parser understands.\<close>

fun supported :: "zentry \<Rightarrow> bool" where
  "supported (ZOther t) \<longleftrightarrow> False"
| "supported (ZSetData path None v) \<longleftrightarrow> False"
| "supported (ZError e) \<longleftrightarrow> e \<in> set errorcodes"
| "supported _ \<longleftrightarrow> True"

definition str_entry_ok :: "TxnEntry option \<Rightarrow> bool" where
  "str_entry_ok e = (case e of Some (TxnError err) \<Rightarrow> err \<in> set errorcodes | _ \<Rightarrow> True)"

lemma read_entry_enc:
  assumes "wf_entry z" and "int (length (enc_entry z)) < 2 ^ 31" and "supported z"
  shows "\<exists>e s'. read_entry (type_code z) (enc_entry z @ s) = Inr (e, s') \<and> str_entry_ok e"
proof (cases z)
  case (ZCreate path data acls eph)
  with assms new_TxnCreate_enc [of path data acls eph s] obtain e s' where
    run: "new_TxnCreate (enc_entry z @ s) = Inr (e, s')" by auto
  then have "\<exists>p d a b. e = TxnCreate p d a b"
    unfolding new_TxnCreate_def create_without_data_def create_with_data_def
    by (auto simp: bindR_Inr split: sum.splits py_error.splits)
  with run ZCreate show ?thesis
    by (auto simp: read_entry_def bindR_def returnR_def str_entry_ok_def simp del: enc_entry.simps)
next
  case (ZSetData path data v)
  with assms obtain bs where bs: "data = Some bs" by (cases data) auto
  with ZSetData assms show ?thesis
    by (simp add: read_entry_def new_TxnSetData_def bindR_def enc_buffer_def read_string_enc read_data_enc
        read_int_pack returnR_def str_entry_ok_def opcode_defs)
qed (use assms in \<open>auto simp: read_entry_def new_TxnDelete_def new_TxnSetAcl_def new_TxnSessionCreate_def
      new_TxnError_def bindR_def returnR_def read_string_enc read_acls_enc read_int_pack str_entry_ok_def
      opcode_defs\<close>)

lemma type_code_int32: "wf_entry z \<Longrightarrow> int32 (type_code z)"
  by (cases z) (auto simp: int32_def opcode_defs)

lemma new_TxnHeader_enc:
  assumes "wf_entry (w_entry w)"
  shows "\<exists>h. new_TxnHeader (enc_header w @ s) = Inr (h, s) \<and> txn_type h = type_code (w_entry w)"
proof -
  have "be_signed (pack 4 (type_code (w_entry w))) = type_code (w_entry w)"
    using type_code_int32 [OF assms] by (simp add: int32_def be_signed_pack)
  then show ?thesis
    unfolding new_TxnHeader_def by (subst read_struct_append) (simp_all add: enc_header_def)
qed

definition is_session :: "zentry \<Rightarrow> bool" where
  "is_session z \<longleftrightarrow> type_code z \<in> {SESSIONCREATE, SESSIONCLOSE}"

text \<open>Reading a frame comes down to reading its entry.\<close>

lemma new_Txn_frame:
  assumes wf: "wf_wire w"
  obtains h where "txn_type h = type_code (w_entry w)"
    "new_Txn (frame w @ s) =
       (case read_entry (type_code (w_entry w)) (enc_entry (w_entry w) @ w_tail w) of
          Inl e \<Rightarrow> Inl e
        | Inr (e, _) \<Rightarrow> Inr (\<lparr>header = h, entry = e,
            transaction_bytes = (if is_session (w_entry w) then [] else frame w)\<rparr>, s))"
proof -
  let ?head = "pack 8 (w_crc w) @ pack 4 (int (length (payload w)))"
  from wf obtain h where
    h: "new_TxnHeader (enc_header w @ enc_entry (w_entry w) @ w_tail w) =
          Inr (h, enc_entry (w_entry w) @ w_tail w)" "txn_type h = type_code (w_entry w)"
    using new_TxnHeader_enc by (auto simp: wf_wire_def)
  have pos: "length (payload w) > 0" by (simp add: payload_def enc_header_def)
  have len: "be_signed (pack 4 (int (length (payload w)))) = int (length (payload w))"
    using wf by (simp add: wf_wire_def be_signed_pack)
  have "file_read 12 (frame w @ s) = Inr (?head, payload w @ w_eor w # s)"
    by (simp add: frame_def file_read_def)
  moreover have "file_read (int (length (payload w))) (payload w @ w_eor w # s) = Inr (payload w, w_eor w # s)"
    by (simp add: file_read_def)
  ultimately have "new_Txn (frame w @ s) = finish_Txn ?head (payload w) (w_eor w # s)"
    using len pos by (simp add: new_Txn_def bindR_def unpack_def)
  also have "\<dots> = (case read_entry (type_code (w_entry w)) (enc_entry (w_entry w) @ w_tail w) of
          Inl e \<Rightarrow> Inl e
        | Inr (e, _) \<Rightarrow> Inr (\<lparr>header = h, entry = e,
            transaction_bytes = (if is_session (w_entry w) then [] else frame w)\<rparr>, s))"
    using h read_entry_persistent
    by (fastforce simp: finish_Txn_def payload_def bindR_def returnR_def file_read_def is_session_def frame_def
        split: sum.splits)
  finally show thesis using that h(2) by blast
qed

lemma new_Txn_supported:
  assumes "wf_wire w" and "supported (w_entry w)"
  shows "\<exists>t. new_Txn (frame w @ s) = Inr (t, s) \<and> str_Txn t = Inr () \<and>
    txn_type (header t) = type_code (w_entry w) \<and>
    transaction_bytes t = (if is_session (w_entry w) then [] else frame w)"
proof -
  from assms(1) have wf: "wf_entry (w_entry w)" "int (length (enc_entry (w_entry w))) < 2 ^ 31"
    by (auto simp: wf_wire_def payload_def)
  from read_entry_enc [OF wf assms(2)] obtain e s' where
    e: "read_entry (type_code (w_entry w)) (enc_entry (w_entry w) @ w_tail w) = Inr (e, s')" "str_entry_ok e"
    by blast
  from e(2) have "str_Txn t = Inr ()" if "entry t = e" for t
    using that by (auto simp: str_Txn_def str_entry_ok_def split: option.splits TxnEntry.splits)
  with e(1) show ?thesis by (rule_tac new_Txn_frame [OF assms(1), of s]) auto
qed

lemma new_Txn_unknown:
  assumes "wf_wire w" and "w_entry w = ZOther k"
  shows "new_Txn (frame w @ s) = Inl (UnknownType k)"
proof -
  from assms have "read_entry k bs = Inl (UnknownType k)" for bs
    by (auto simp: wf_wire_def read_entry_def raiseR_def)
  with assms show ?thesis by (rule_tac new_Txn_frame [OF assms(1), of s]) simp
qed

lemma read_entry_null_data:
  assumes "wf_entry (ZSetData path None v)" and "int (length path) < 2 ^ 31"
  shows "read_entry SETDATA (enc_entry (ZSetData path None v) @ tail) = Inl StructError"
proof -
  have "length (drop (slice_bound (-1) (pack 4 v @ tail)) (pack 4 v @ tail)) = 1"
    by (simp add: slice_bound_def)
  then have "read_int (drop (slice_bound (-1) (pack 4 v @ tail)) (pack 4 v @ tail)) = Inl StructError"
    by (simp add: read_int_def read_struct_def bindR_def record_read_def unpack_def slice_bound_def del: length_drop)
  with assms(2) show ?thesis
    by (simp add: read_entry_def new_TxnSetData_def bindR_def read_string_enc enc_buffer_def read_data_def
        read_int_pack int32_def record_read_def opcode_defs)
qed

section \<open>Properties\<close>

lemma filter_loop_frames:
  assumes "\<forall>w \<in> set ws. wf_wire w \<and> supported (w_entry w)"
  shows "filter_loop (concat (map frame ws) @ s) =
    (concat (map frame (filter (\<lambda>w. \<not> is_session (w_entry w)) ws)) @ fst (filter_loop s), snd (filter_loop s))"
  using assms
proof (induction ws)
  case (Cons w ws)
  from Cons.prems new_Txn_supported [of w "concat (map frame ws) @ s"] obtain t where
    "new_Txn (frame w @ concat (map frame ws) @ s) = Inr (t, concat (map frame ws) @ s)"
    "str_Txn t = Inr ()" "transaction_bytes t = (if is_session (w_entry w) then [] else frame w)" by auto
  with Cons.IH Cons.prems show ?case
    by (subst filter_loop.simps) (simp split: prod.splits)
qed simp

lemma filter_loop_end [simp]: "filter_loop (END_OF_STREAM @ s) = (END_OF_STREAM, None)"
proof -
  have "new_Txn (END_OF_STREAM @ s) = Inl EOS"
    by (simp add: new_Txn_def END_OF_STREAM_def bindR_def file_read_def unpack_def be_signed_def
        be_unsigned_def numeral_eq_Suc)
  then show ?thesis by (subst filter_loop.simps) simp
qed

lemma filter_log_header:
  assumes "length start = 16"
  shows "filter_and_store_transaction_log (start @ s) = (start @ fst (filter_loop s), snd (filter_loop s))"
  using assms
  by (simp add: filter_and_store_transaction_log_def new_LogFileHeader_def bindR_def file_read_def unpack_def
      split: prod.splits)

lemma new_Txn_piece:
  assumes "new_Txn s = Inr (t, s')"
  shows "\<exists>consumed. s = consumed @ s' \<and> length consumed \<ge> 12 \<and>
    transaction_bytes t =
      (if txn_type (header t) \<in> {SESSIONCREATE, SESSIONCLOSE} then [] else consumed)"
  using assms
proof (rule new_Txn_Inr)
  fix head s1 initial s2 h e rest eor
  assume head: "file_read 12 s = Inr (head, s1)" "length head = 12"
    and initial: "file_read (be_signed (drop 8 head)) s1 = Inr (initial, s2)"
    and parse: "bindR new_TxnHeader (\<lambda>h. bindR (read_entry (txn_type h)) (\<lambda>e. returnR (h, e))) initial =
      Inr ((h, e), rest)"
    and eor: "file_read 1 s2 = Inr (eor, s')"
    and t: "t = \<lparr>header = h, entry = e, transaction_bytes =
       (if txn_type h = SESSIONCREATE \<or> txn_type h = SESSIONCLOSE \<or> txn_type h = CREATE \<and> is_ephemeral e
        then [] else head @ initial @ eor)\<rparr>"
  from parse have "\<not> is_ephemeral e" by (auto simp: bindR_Inr dest: read_entry_persistent)
  moreover have "s = (head @ initial @ eor) @ s'"
    using file_read_Inr [OF head(1)] file_read_Inr [OF initial] file_read_Inr [OF eor] by simp
  ultimately show ?thesis
    using head(2) unfolding t by (intro exI [of _ "head @ initial @ eor"]) simp
qed

text \<open>A transaction that was read from the middle of a stream is read in the same way from any other.\<close>

lemma file_read_local:
  assumes "file_read n (x @ y) = Inr (x, y)" and "y \<noteq> []"
  shows "file_read n (x @ z) = Inr (x, z)"
proof -
  from assms have n: "0 \<le> n" "take (nat n) (x @ y) = x" "drop (nat n) (x @ y) = y"
    by (auto simp: file_read_def split: if_splits)
  from arg_cong [OF n(3), of length] assms(2) have "nat n = length x" by (cases y) auto
  with n(1) show ?thesis by (simp add: file_read_def)
qed

lemma new_Txn_local:
  assumes run: "new_Txn (consumed @ s') = Inr (t, s')" and "s' \<noteq> []"
  shows "new_Txn (consumed @ x) = Inr (t, x)"
  using run
proof (rule new_Txn_Inr)
  fix head s1 initial s2 h e rest eor
  assume head: "file_read 12 (consumed @ s') = Inr (head, s1)" "length head = 12" "be_signed (drop 8 head) \<noteq> 0"
    and initial: "file_read (be_signed (drop 8 head)) s1 = Inr (initial, s2)"
    and parse: "bindR new_TxnHeader (\<lambda>h. bindR (read_entry (txn_type h)) (\<lambda>e. returnR (h, e))) initial =
      Inr ((h, e), rest)"
    and eor: "file_read 1 s2 = Inr (eor, s')"
    and t: "t = \<lparr>header = h, entry = e, transaction_bytes =
       (if txn_type h = SESSIONCREATE \<or> txn_type h = SESSIONCLOSE \<or> txn_type h = CREATE \<and> is_ephemeral e
        then [] else head @ initial @ eor)\<rparr>"
  have s2: "s2 = eor @ s'" using file_read_Inr [OF eor] .
  have s1: "s1 = initial @ eor @ s'" using file_read_Inr [OF initial] s2 by simp
  have cons: "consumed = head @ initial @ eor" using file_read_Inr [OF head(1)] s1 by simp
  have "file_read 12 (head @ (initial @ eor @ x)) = Inr (head, initial @ eor @ x)"
    using head(2) by (simp add: file_read_def)
  moreover have "file_read (be_signed (drop 8 head)) (initial @ (eor @ x)) = Inr (initial, eor @ x)"
    using file_read_local [OF initial [unfolded s1 s2]] assms(2) by simp
  moreover have "file_read 1 (eor @ x) = Inr (eor, x)"
    using file_read_local [OF eor [unfolded s2] assms(2)] .
  ultimately show ?thesis
    using head(2,3) parse
    by (simp add: cons t new_Txn_def bindR_def [of "file_read n" for n] unpack_def finish_Txn_def returnR_def)
qed

lemma filter_loop_again: "filter_loop s = (out, None) \<Longrightarrow> filter_loop out = (out, None)"
proof (induction s arbitrary: out rule: filter_loop.induct)
  case (1 s)
  show ?case
  proof (cases "new_Txn s")
    case (Inl e)
    with "1.prems" have "out = END_OF_STREAM"
      by (auto simp: filter_loop.simps [of s] split: py_error.splits)
    then show ?thesis using filter_loop_end [of "[]"] by simp
  next
    case (Inr p)
    then obtain t s' where run: "new_Txn s = Inr (t, s')" by (cases p) simp
    with "1.prems" obtain out' where
      str: "str_Txn t = Inr ()" and rest: "filter_loop s' = (out', None)" and out: "out = transaction_bytes t @ out'"
      by (auto simp: filter_loop.simps [of s] split: sum.splits prod.splits)
    from "1.IH" run str rest have again: "filter_loop out' = (out', None)" by blast
    have "s' \<noteq> []"
      using rest by (auto simp: filter_loop.simps [of "[]"] new_Txn_def bindR_def file_read_def unpack_def)
    from new_Txn_piece [OF run] obtain consumed where
      c: "s = consumed @ s'" "transaction_bytes t =
        (if txn_type (header t) \<in> {SESSIONCREATE, SESSIONCLOSE} then [] else consumed)" by blast
    have "new_Txn (consumed @ out') = Inr (t, out')"
      using new_Txn_local run c(1) \<open>s' \<noteq> []\<close> by blast
    with str again c(2) out show ?thesis
      by (cases "txn_type (header t) \<in> {SESSIONCREATE, SESSIONCLOSE}")
         (auto simp: filter_loop.simps [of "consumed @ out'"])
  qed
qed

text \<open>
  C31. Filtering is idempotent: for any file at all, when the filter ends without an exception, filtering its
  output gives the same bytes again.
\<close>

theorem filter_idempotent:
  assumes "filter_and_store_transaction_log input = (out, None)"
  shows "filter_and_store_transaction_log out = (out, None)"
proof -
  let ?start = "take 16 input"
  from assms have len: "length ?start = 16"
    by (auto simp: filter_and_store_transaction_log_def new_LogFileHeader_def bindR_def file_read_def unpack_def
        split: if_splits)
  with assms have "out = ?start @ fst (filter_loop (drop 16 input))" "snd (filter_loop (drop 16 input)) = None"
    using filter_log_header [OF len, of "drop 16 input"] by simp_all
  with filter_loop_again [of "drop 16 input"] filter_log_header [OF len] show ?thesis
    by (metis fst_conv prod.collapse snd_conv)
qed


text \<open>
  A record of a type the parser does not know ends the copy without an exception: the log is closed with the
  end marker, and whatever transactions follow are lost.
\<close>

theorem unknown_type_truncates:
  assumes "length start = 16" and "\<forall>w \<in> set ws. wf_wire w \<and> supported (w_entry w)"
    and "wf_wire u" and "w_entry u = ZOther k"
  shows "filter_and_store_transaction_log (start @ concat (map frame ws) @ frame u @ s) =
    (start @ concat (map frame (filter (\<lambda>w. \<not> is_session (w_entry w)) ws)) @ END_OF_STREAM, None)"
proof -
  have "filter_loop (frame u @ s) = (END_OF_STREAM, None)"
    using new_Txn_unknown [OF assms(3,4), of s] by (subst filter_loop.simps) simp
  with assms(1,2) show ?thesis by (simp add: filter_log_header filter_loop_frames)
qed

text \<open>
  A znode that was set to no data at all (a buffer of length -1) stops the backup: the parser takes the length for the bound
  of a slice, runs out of bytes and raises \<^verbatim>\<open>struct.error\<close>, which nothing catches.
\<close>

theorem null_data_aborts:
  assumes "length start = 16" and "\<forall>w \<in> set ws. wf_wire w \<and> supported (w_entry w)"
    and "wf_wire u" and "w_entry u = ZSetData path None v"
  shows "filter_and_store_transaction_log (start @ concat (map frame ws) @ frame u @ s) =
    (start @ concat (map frame (filter (\<lambda>w. \<not> is_session (w_entry w)) ws)), Some StructError)"
proof -
  from assms(3,4) have wf: "wf_entry (ZSetData path None v)" "int (length path) < 2 ^ 31"
    by (auto simp: wf_wire_def payload_def)
  have "new_Txn (frame u @ s) = Inl StructError"
    using read_entry_null_data [OF wf, of "w_tail u"] assms(4)
    by (rule_tac new_Txn_frame [OF assms(3), of s]) (simp del: enc_entry.simps)
  then have "filter_loop (frame u @ s) = ([], Some StructError)" by (subst filter_loop.simps) simp
  with assms(1,2) show ?thesis by (simp add: filter_log_header filter_loop_frames)
qed

lemma new_Txn_short: "length s < 12 \<Longrightarrow> new_Txn s = Inl StructError"
  by (simp add: new_Txn_def bindR_def file_read_def unpack_def)

lemma filter_loop_kept:
  "filter_loop s = (out, e) \<Longrightarrow> length out \<le> length s \<and>
     (\<exists>kept. subseq kept s \<and> out = kept @ (if e = None then END_OF_STREAM else []))"
proof (induction s arbitrary: out e rule: filter_loop.induct)
  case (1 s)
  show ?case
  proof (cases "new_Txn s")
    case (Inl err)
    then have "length s \<ge> 12 \<or> err = StructError" using new_Txn_short [of s] by fastforce
    with Inl "1.prems" show ?thesis
      by (auto simp: filter_loop.simps [of s] END_OF_STREAM_def split: py_error.splits)
  next
    case (Inr p)
    then obtain t s' where run: "new_Txn s = Inr (t, s')" by (cases p) simp
    from new_Txn_piece [OF run] obtain consumed where
      s: "s = consumed @ s'" and bytes: "transaction_bytes t = [] \<or> transaction_bytes t = consumed" by metis
    show ?thesis
    proof (cases "str_Txn t")
      case (Inl err)
      with run "1.prems" show ?thesis by (auto simp: filter_loop.simps [of s])
    next
      case (Inr u)
      obtain out' e' where rest: "filter_loop s' = (out', e')" by fastforce
      with run Inr "1.prems" have "out = transaction_bytes t @ out'" "e' = e"
        by (auto simp: filter_loop.simps [of s])
      moreover from "1.IH" [OF run refl _ rest] Inr obtain kept where
        "length out' \<le> length s'" "subseq kept s'" "out' = kept @ (if e' = None then END_OF_STREAM else [])" by auto
      ultimately show ?thesis using bytes
        by (intro conjI exI [of _ "transaction_bytes t @ kept"]) (auto simp: s intro: list_emb_append_mono)
    qed
  qed
qed

text \<open>
  C34. The backup of a log is never larger than the log, whatever bytes the file has and however the filter ends: it is bytes of
  the log in their order, and the end marker when no exception left the function. So the copy fits where the log did.
\<close>

theorem filter_never_grows:
  "case filter_and_store_transaction_log input of (out, e) \<Rightarrow> length out \<le> length input \<and>
     (\<exists>kept. subseq kept input \<and> out = kept @ (if e = None then END_OF_STREAM else []))"
proof (cases "length input < 16")
  case True
  then show ?thesis
    by (simp add: filter_and_store_transaction_log_def new_LogFileHeader_def bindR_def file_read_def unpack_def)
next
  case False
  let ?start = "take 16 input"
  obtain out e where loop: "filter_loop (drop 16 input) = (out, e)" by fastforce
  from filter_loop_kept [OF loop] obtain kept where
    k: "length out \<le> length (drop 16 input)" "subseq kept (drop 16 input)"
      "out = kept @ (if e = None then END_OF_STREAM else [])" by blast
  have "subseq (?start @ kept) (?start @ drop 16 input)" using k(2) by (intro list_emb_append_mono) simp_all
  then have "subseq (?start @ kept) input" by simp
  moreover have "filter_and_store_transaction_log input = (?start @ out, e)"
    using filter_log_header [of ?start "drop 16 input"] False loop by simp
  ultimately show ?thesis using k False by (auto intro!: exI [of _ "?start @ kept"])
qed

text \<open>
  Reading a transaction takes a piece of the stream. The piece is what is written to the backup,
  except for the records of sessions: the creation of an ephemeral znode is always kept, since
  \<^verbatim>\<open>read_bool\<close> compares a tuple with a number.
\<close>

theorem creations_always_kept:
  assumes "new_Txn s = Inr (t, s')"
  shows "\<exists>consumed. s = consumed @ s' \<and> length consumed \<ge> 12 \<and>
    transaction_bytes t =
      (if txn_type (header t) \<in> {SESSIONCREATE, SESSIONCLOSE} then [] else consumed)"
  using assms by (rule new_Txn_piece)

section \<open>Witnesses\<close>

definition demo_wire :: "zentry \<Rightarrow> wire" where
  "demo_wire z = \<lparr>w_crc = 0, w_client = 1, w_cxid = 2, w_zxid = 3, w_time = 4, w_entry = z, w_tail = [], w_eor = 0x42\<rparr>"

definition demo_start :: bytes where
  "demo_start = [0x5A, 0x4B, 0x4C, 0x47] @ pack 4 2 @ pack 8 0"

definition demo_session :: wire where
  "demo_session = demo_wire (ZSessionCreate 4000)"

text \<open>The creation of an ephemeral znode \<^verbatim>\<open>/a\<close> with one byte of data.\<close>

definition demo_ephemeral :: wire where
  "demo_ephemeral = demo_wire (ZCreate [0x2F, 0x61] (Some [7]) [] True)"

definition demo_create2 :: wire where
  "demo_create2 = demo_wire (ZOther 15)"

definition demo_unset :: wire where
  "demo_unset = demo_wire (ZSetData [0x2F, 0x61] None 0)"

lemma demo_start_length: "length demo_start = 16"
  by (simp add: demo_start_def)

lemma demo_wf:
  "wf_wire demo_session" "wf_wire demo_ephemeral" "wf_wire demo_create2" "wf_wire demo_unset"
  by (simp_all add: wf_wire_def payload_def enc_header_def enc_buffer_def enc_acls_def demo_session_def
      demo_ephemeral_def demo_create2_def demo_unset_def demo_wire_def int32_def opcode_defs)

lemma demo_supported: "\<forall>w \<in> set [demo_session, demo_ephemeral]. wf_wire w \<and> supported (w_entry w)"
  using demo_wf by (simp add: demo_session_def demo_ephemeral_def demo_wire_def)

lemma demo_kept:
  "filter (\<lambda>w. \<not> is_session (w_entry w)) [demo_session, demo_ephemeral] = [demo_ephemeral]"
  by (simp add: is_session_def demo_session_def demo_ephemeral_def demo_wire_def opcode_defs)


theorem unknown_type_truncates_witness:
  "filter_and_store_transaction_log
     (demo_start @ concat (map frame [demo_session, demo_ephemeral]) @ frame demo_create2 @
       frame demo_ephemeral @ END_OF_STREAM) =
   (demo_start @ frame demo_ephemeral @ END_OF_STREAM, None)"
  using unknown_type_truncates [OF demo_start_length demo_supported demo_wf(3), of 15 "frame demo_ephemeral @ END_OF_STREAM"]
  unfolding demo_kept by (simp add: demo_create2_def demo_wire_def)

theorem null_data_aborts_witness:
  "filter_and_store_transaction_log
     (demo_start @ concat (map frame [demo_session, demo_ephemeral]) @ frame demo_unset @ END_OF_STREAM) =
   (demo_start @ frame demo_ephemeral, Some StructError)"
  using null_data_aborts [OF demo_start_length demo_supported demo_wf(4), of "[0x2F, 0x61]" 0 END_OF_STREAM]
  unfolding demo_kept by (simp add: demo_unset_def demo_wire_def)

theorem creations_always_kept_witness:
  "\<exists>t. new_Txn (frame demo_ephemeral @ [9]) = Inr (t, [9]) \<and> txn_type (header t) = CREATE \<and>
     transaction_bytes t = frame demo_ephemeral"
proof -
  from new_Txn_supported [OF demo_wf(2), of "[9]"] obtain t where
    run: "new_Txn (frame demo_ephemeral @ [9]) = Inr (t, [9])" "txn_type (header t) = CREATE"
    by (auto simp: demo_ephemeral_def demo_wire_def)
  from creations_always_kept [OF run(1)] run show ?thesis by (auto simp: opcode_defs)
qed

theorem filter_idempotent_witness:
  "filter_and_store_transaction_log (demo_start @ frame demo_ephemeral @ END_OF_STREAM) =
     (demo_start @ frame demo_ephemeral @ END_OF_STREAM, None)"
proof -
  have "filter_and_store_transaction_log
      (demo_start @ concat (map frame [demo_session, demo_ephemeral]) @ END_OF_STREAM @ []) =
      (demo_start @ frame demo_ephemeral @ END_OF_STREAM, None)"
    unfolding filter_log_header [OF demo_start_length] filter_loop_frames [OF demo_supported] filter_loop_end
      demo_kept by simp
  from filter_idempotent [OF this] show ?thesis .
qed

end
