(* ===== verification/PyRuntime.thy ===== *)
theory PyRuntime
  imports TransactionLogs GoStrings
begin

text \<open>
  What the scripts of the backup daemon share: Python computations with exceptions, the strings they
  handle, and the calls they make to the operating system, to ZooKeeper (\<^verbatim>\<open>kazoo\<close>) and to other
  services, as fields of \<open>py_sys\<close>. Messages of exceptions raised by the scripts are kept; logging is
  left out.
\<close>

section \<open>Computations\<close>

datatype py_exn =
    Exception string
  | OSError string
  | ParseError py_error
  | SystemExit int

type_synonym ('w, 'a) py = "'w \<Rightarrow> (py_exn + 'a) \<times> 'w"

definition pret :: "'a \<Rightarrow> ('w, 'a) py" where
  "pret x = (\<lambda>w. (Inr x, w))"

definition praise :: "py_exn \<Rightarrow> ('w, 'a) py" where
  "praise e = (\<lambda>w. (Inl e, w))"

definition pbind :: "('w, 'a) py \<Rightarrow> ('a \<Rightarrow> ('w, 'b) py) \<Rightarrow> ('w, 'b) py" where
  "pbind m f = (\<lambda>w. case m w of (Inl e, w') \<Rightarrow> (Inl e, w') | (Inr x, w') \<Rightarrow> f x w')"

definition pgets :: "('w \<Rightarrow> 'a) \<Rightarrow> ('w, 'a) py" where
  "pgets f = (\<lambda>w. (Inr (f w), w))"

text \<open>\<^verbatim>\<open>try: m finally: c\<close>: an exception of \<^verbatim>\<open>c\<close> replaces the outcome of \<^verbatim>\<open>m\<close>.\<close>

definition pfinally :: "('w, 'a) py \<Rightarrow> ('w, unit) py \<Rightarrow> ('w, 'a) py" where
  "pfinally m c = (\<lambda>w. case m w of (r, w1) \<Rightarrow>
     (case c w1 of (Inl e, w2) \<Rightarrow> (Inl e, w2) | (Inr _, w2) \<Rightarrow> (r, w2)))"

primrec pfor :: "'a list \<Rightarrow> ('a \<Rightarrow> ('w, unit) py) \<Rightarrow> ('w, unit) py" where
  "pfor [] f = pret ()"
| "pfor (x # xs) f = pbind (f x) (\<lambda>_. pfor xs f)"

lemma py_run [simp]:
  "pret x w = (Inr x, w)" "praise e w = (Inl e, w)" "pgets f w = (Inr (f w), w)"
  by (simp_all add: pret_def praise_def pgets_def)

lemma pbind_eq_Inr: "pbind m f w = (Inr y, w') \<longleftrightarrow> (\<exists>x w1. m w = (Inr x, w1) \<and> f x w1 = (Inr y, w'))"
  by (auto simp: pbind_def split: prod.splits sum.splits)

lemma pbindE:
  assumes "pbind m f w = (Inr y, w')"
  obtains x w1 where "m w = (Inr x, w1)" "f x w1 = (Inr y, w')"
  using assms unfolding pbind_eq_Inr by blast

lemma pfinally_eq_Inr:
  "pfinally m c w = (Inr y, w') \<longleftrightarrow> (\<exists>w1. m w = (Inr y, w1) \<and> c w1 = (Inr (), w'))"
  by (auto simp: pfinally_def split: prod.splits sum.splits)

lemma pbind_assoc: "pbind (pbind m f) g = pbind m (\<lambda>x. pbind (f x) g)"
  by (rule ext) (simp add: pbind_def split: prod.splits sum.splits)

section \<open>Strings\<close>

definition contains :: "string \<Rightarrow> string \<Rightarrow> bool" where
  "contains needle s \<longleftrightarrow> sublist needle s"

definition startswith :: "string \<Rightarrow> string \<Rightarrow> bool" where
  "startswith p s \<longleftrightarrow> prefix p s"

definition is_py_space :: "char \<Rightarrow> bool" where
  "is_py_space c \<longleftrightarrow> of_char c \<in> set [9, 10, 11, 12, 13, 28, 29, 30, 31, 32, 133, 160 :: nat]"

definition strip :: "string \<Rightarrow> string" where
  "strip s = rev (dropWhile is_py_space (rev (dropWhile is_py_space s)))"

text \<open>The truth value of a string or of \<^verbatim>\<open>None\<close>.\<close>

definition truthy :: "string option \<Rightarrow> bool" where
  "truthy s \<longleftrightarrow> s \<noteq> None \<and> s \<noteq> Some ''''"

definition str2bool :: "string \<Rightarrow> bool" where
  "str2bool v \<longleftrightarrow> ToLower v \<in> {''yes'', ''true'', ''t'', ''1''}"

text \<open>\<^verbatim>\<open>os.path.join\<close> of two parts.\<close>

definition path_join :: "string \<Rightarrow> string \<Rightarrow> string" where
  "path_join d name =
     (if startswith ''/'' name then name
      else if d = '''' \<or> last d = CHR ''/'' then d @ name else d @ ''/'' @ name)"

text \<open>The components of an absolute path, and \<^verbatim>\<open>os.path.relpath\<close>.\<close>

definition norm_step :: "string \<Rightarrow> string list \<Rightarrow> string list" where
  "norm_step c acc = (if c = '''' \<or> c = ''.'' then acc else if c = ''..'' then butlast acc else acc @ [c])"

definition comps :: "string \<Rightarrow> string list" where
  "comps p = fold norm_step (Split (CHR ''/'') p) []"

definition relpath :: "string \<Rightarrow> string \<Rightarrow> string" where
  "relpath p start =
     (let a = comps p; b = comps start; k = length (longest_common_prefix a b);
          r = replicate (length b - k) ''..'' @ drop k a
      in if r = [] then ''.'' else Join r ''/'')"

section \<open>Calls\<close>

record kazoo =
  k_hosts :: string
  k_keyfile :: "string option"
  k_certfile :: "string option"
  k_ca :: "string option"
  k_use_ssl :: bool
  k_auth_data :: "(string \<times> string) list"

record 'w py_sys =
  getenv :: "string \<Rightarrow> string option"
  listdir :: "string \<Rightarrow> ('w, string list) py"
  isfile :: "string \<Rightarrow> 'w \<Rightarrow> bool"
  isdir :: "string \<Rightarrow> 'w \<Rightarrow> bool"
  path_exists :: "string \<Rightarrow> 'w \<Rightarrow> bool"
  st_mtime :: "string \<Rightarrow> ('w, int) py"
  makedirs :: "string \<Rightarrow> ('w, unit) py"
  rmtree :: "string \<Rightarrow> ('w, unit) py"
  copy2 :: "string \<Rightarrow> string \<Rightarrow> ('w, unit) py"
  walk :: "string \<Rightarrow> ('w, (string \<times> string list \<times> string list) list) py"
  read_bytes :: "string \<Rightarrow> ('w, bytes) py"
  write_bytes :: "string \<Rightarrow> bytes \<Rightarrow> ('w, unit) py"
  read_text :: "string \<Rightarrow> ('w, int list) py"
  write_text :: "string \<Rightarrow> int list \<Rightarrow> ('w, unit) py"
  read_secret :: "string \<Rightarrow> ('w, string) py"
  make_archive :: "string \<Rightarrow> ('w, unit) py"
  namelist :: "string \<Rightarrow> ('w, string list) py"
  extract_member :: "string \<Rightarrow> string \<Rightarrow> string \<Rightarrow> ('w, unit) py"
  kazoo_start :: "kazoo \<Rightarrow> ('w, int) py"
  kazoo_stop :: "int \<Rightarrow> ('w, unit) py"
  kazoo_close :: "int \<Rightarrow> ('w, unit) py"
  kazoo_command :: "int \<Rightarrow> string \<Rightarrow> ('w, string) py"
  get_children :: "int \<Rightarrow> string \<Rightarrow> ('w, string list) py"
  get_znode :: "int \<Rightarrow> string \<Rightarrow> ('w, bytes \<times> int) py"
  znode_exists :: "int \<Rightarrow> string \<Rightarrow> ('w, bool) py"
  delete_recursive :: "int \<Rightarrow> string \<Rightarrow> ('w, unit) py"
  create_znode :: "int \<Rightarrow> string \<Rightarrow> bytes \<Rightarrow> ('w, unit) py"
  post_status :: "string \<Rightarrow> ('w, string) py"
  scale_down :: "string \<Rightarrow> string \<Rightarrow> string option \<Rightarrow> ('w, unit) py"
  scale_up :: "string \<Rightarrow> string \<Rightarrow> string option \<Rightarrow> ('w, unit) py"

section \<open>The client of ZooKeeper\<close>

text \<open>\<^verbatim>\<open>backup-daemon/scripts/zookeeper_client.py\<close>\<close>

record ZooKeeperClient =
  zkc_host :: string
  zkc_port :: string
  zkc_username :: "string option"
  zkc_password :: "string option"
  zkc_ca :: "string option"
  zkc_certfile :: "string option"
  zkc_keyfile :: "string option"
  zkc_use_ssl :: bool

definition new_ZooKeeperClient ::
  "'w py_sys \<Rightarrow> string \<Rightarrow> string \<Rightarrow> string option \<Rightarrow> string option \<Rightarrow> ZooKeeperClient" where
  "new_ZooKeeperClient c zookeeper_host zookeeper_port zookeeper_username zookeeper_password =
     (let ssl = str2bool (case getenv c ''ZOOKEEPER_ENABLE_SSL'' of None \<Rightarrow> ''false'' | Some v \<Rightarrow> v);
          opt = (\<lambda>p. if ssl then Some p else None)
      in \<lparr>zkc_host = zookeeper_host, zkc_port = zookeeper_port, zkc_username = zookeeper_username,
          zkc_password = zookeeper_password, zkc_ca = opt ''/tls/ca.crt'',
          zkc_certfile = opt ''/tls/tls.crt'', zkc_keyfile = opt ''/tls/tls.key'', zkc_use_ssl = ssl\<rparr>)"

definition connect_to_zookeeper ::
  "'w py_sys \<Rightarrow> ZooKeeperClient \<Rightarrow> string option \<Rightarrow> ('w, int) py" where
  "connect_to_zookeeper c client zookeeper_host =
     (let host = (if truthy zookeeper_host then the zookeeper_host else zkc_host client)
      in kazoo_start c
           \<lparr>k_hosts = host @ '':'' @ zkc_port client, k_keyfile = zkc_keyfile client,
            k_certfile = zkc_certfile client, k_ca = zkc_ca client, k_use_ssl = zkc_use_ssl client,
            k_auth_data =
              (if truthy (zkc_username client) \<and> truthy (zkc_password client)
               then [(''sasl'', the (zkc_username client) @ '':'' @ the (zkc_password client))] else [])\<rparr>)"

definition execute_command :: "'w py_sys \<Rightarrow> int \<Rightarrow> string \<Rightarrow> ('w, string) py" where
  "execute_command c zk command = kazoo_command c zk command"

definition disconnect_from_zookeeper :: "'w py_sys \<Rightarrow> int \<Rightarrow> ('w, unit) py" where
  "disconnect_from_zookeeper c zk = pbind (kazoo_stop c zk) (\<lambda>_. kazoo_close c zk)"

end
