(* ===== verification/BackupLogs.thy ===== *)
theory BackupLogs
  imports PyRuntime
begin

text \<open>
  \<^verbatim>\<open>backup-daemon/scripts/process_zookeeper_logs.py\<close> and the transactional mode of \<^verbatim>\<open>backup.py\<close> and
  \<^verbatim>\<open>restore.py\<close>: the snapshot and the transaction logs of the leader are copied to the backup, and back.
\<close>

section \<open>Files\<close>

text \<open>The fold over the snapshots: the first one with the greatest modification time.\<close>

primrec newest :: "'w py_sys \<Rightarrow> string list \<Rightarrow> string \<times> int \<Rightarrow> ('w, string \<times> int) py" where
  "newest c [] best = pret best"
| "newest c (snapshot # rest) best =
     pbind (st_mtime c snapshot) (\<lambda>mtime. newest c rest (if mtime > snd best then (snapshot, mtime) else best))"

primrec newer_than :: "'w py_sys \<Rightarrow> int \<Rightarrow> string list \<Rightarrow> ('w, string list) py" where
  "newer_than c bound [] = pret []"
| "newer_than c bound (transaction_log # rest) =
     pbind (st_mtime c transaction_log) (\<lambda>mtime. pbind (newer_than c bound rest) (\<lambda>logs.
     pret (if mtime > bound then transaction_log # logs else logs)))"

definition get_snapshot_and_transaction_logs :: "'w py_sys \<Rightarrow> string \<Rightarrow> ('w, string \<times> string list) py" where
  "get_snapshot_and_transaction_logs c directory =
     pbind (listdir c directory) (\<lambda>names. pbind (pgets (\<lambda>w p. isfile c p w)) (\<lambda>is_file.
     let paths = (\<lambda>part. map (path_join directory)
           (filter (\<lambda>name. is_file (path_join directory name) \<and> contains part name) names));
         snapshots = paths ''snapshot.'';
         transaction_logs = paths ''log.''
     in case snapshots of
          [] \<Rightarrow> praise (SystemExit 1)
        | snapshot # _ \<Rightarrow>
            pbind (st_mtime c snapshot) (\<lambda>mtime.
            pbind (newest c snapshots (snapshot, mtime)) (\<lambda>best.
            pbind (newer_than c (snd best) transaction_logs) (\<lambda>actual.
            pret (fst best, actual))))))"

definition basename :: "string \<Rightarrow> string" where
  "basename p = rev (takeWhile (\<lambda>ch. ch \<noteq> CHR ''/'') (rev p))"

text \<open>The file written is complete when no exception leaves the filter, and what was written so far
  when one does.\<close>

definition filter_file :: "'w py_sys \<Rightarrow> string \<Rightarrow> string \<Rightarrow> ('w, unit) py" where
  "filter_file c storage_folder transaction_logs_file =
     pbind (read_bytes c transaction_logs_file) (\<lambda>input.
     case filter_and_store_transaction_log input of (out, e) \<Rightarrow>
     pbind (write_bytes c (storage_folder @ ''/'' @ basename transaction_logs_file) out) (\<lambda>_.
     case e of None \<Rightarrow> pret () | Some err \<Rightarrow> praise (ParseError err)))"

definition filter_and_store_transaction_logs :: "'w py_sys \<Rightarrow> string list \<Rightarrow> string \<Rightarrow> ('w, unit) py" where
  "filter_and_store_transaction_logs c transaction_logs_files storage_folder =
     pfor transaction_logs_files (filter_file c storage_folder)"

definition copy_zookeeper_logs :: "'w py_sys \<Rightarrow> string \<Rightarrow> string \<Rightarrow> ('w, unit) py" where
  "copy_zookeeper_logs c directory_from directory_to =
     pbind (listdir c directory_from) (\<lambda>names. pfor names (\<lambda>file_name.
     pbind (pgets (isfile c (path_join directory_from file_name))) (\<lambda>is_file.
     if is_file then copy2 c (path_join directory_from file_name) directory_to else pret ())))"

definition copy_snapshot :: "'w py_sys \<Rightarrow> string \<Rightarrow> string \<Rightarrow> ('w, unit) py" where
  "copy_snapshot c snapshot storage_folder = copy2 c snapshot storage_folder"

definition create_directory :: "'w py_sys \<Rightarrow> string \<Rightarrow> ('w, unit) py" where
  "create_directory c directory =
     pbind (pgets (path_exists c directory)) (\<lambda>there. if \<not> there then makedirs c directory else pret ())"

definition remove_directory_with_content :: "'w py_sys \<Rightarrow> string \<Rightarrow> ('w, unit) py" where
  "remove_directory_with_content c directory =
     pbind (pgets (path_exists c directory)) (\<lambda>there. if there then rmtree c directory else pret ())"

definition is_file_system_shared :: "'w py_sys \<Rightarrow> bool" where
  "is_file_system_shared c \<longleftrightarrow>
     truthy (getenv c ''PV_TYPE'') \<and> getenv c ''PV_TYPE'' \<noteq> Some ''standalone''"

section \<open>The backup\<close>

definition ZOOKEEPER_BACKUP_TMP_DIR :: string where
  "ZOOKEEPER_BACKUP_TMP_DIR = ''/opt/zookeeper/backup-storage/tmp''"

definition SECRETS_DIR :: "'w py_sys \<Rightarrow> string" where
  "SECRETS_DIR c = (case getenv c ''BACKUP_DAEMON_SECRETS_DIR'' of
     None \<Rightarrow> ''/etc/secrets/backup-daemon-pod-secrets'' | Some d \<Rightarrow> d)"

definition get_env_or_file :: "'w py_sys \<Rightarrow> string \<Rightarrow> ('w, string option) py" where
  "get_env_or_file c name =
     (let default_file_path = path_join (SECRETS_DIR c) name in
      pbind (pgets (isfile c default_file_path)) (\<lambda>is_file.
      if is_file then pbind (read_secret c default_file_path) (\<lambda>text. pret (Some (strip text)))
      else pret (getenv c name)))"

record Backup =
  bk_client :: ZooKeeperClient
  bk_storage_folder :: string

definition new_Backup :: "'w py_sys \<Rightarrow> string \<Rightarrow> ('w, Backup) py" where
  "new_Backup c storage_folder =
     pbind (get_env_or_file c ''ZOOKEEPER_ADMIN_USERNAME'') (\<lambda>username.
     pbind (get_env_or_file c ''ZOOKEEPER_ADMIN_PASSWORD'') (\<lambda>password.
     let host = getenv c ''ZOOKEEPER_HOST''; port = getenv c ''ZOOKEEPER_PORT'' in
     if \<not> truthy host \<or> \<not> truthy port then praise (SystemExit 1)
     else pret \<lparr>bk_client = new_ZooKeeperClient c (the host) (the port) username password,
                bk_storage_folder = storage_folder\<rparr>))"

text \<open>The search for \<^verbatim>\<open>server\<close>, a dot, digits, an equals sign, a host name of word characters, dashes
  and dots, and a colon. The classes of the pattern share no character with what follows them, so a match
  takes the longest run of each. The configuration is ASCII text.\<close>

definition is_ascii_digit :: "char \<Rightarrow> bool" where
  "is_ascii_digit ch \<longleftrightarrow> ch \<in> set ''0123456789''"

definition is_host_char :: "char \<Rightarrow> bool" where
  "is_host_char ch \<longleftrightarrow> ch \<in> set
     ''abcdefghijklmnopqrstuvwxyzABCDEFGHIJKLMNOPQRSTUVWXYZ0123456789_-.''"

definition match_server :: "string \<Rightarrow> (string \<times> string) option" where
  "match_server s =
     (if \<not> startswith ''server.'' s then None
      else let s1 = drop 7 s; digits = takeWhile is_ascii_digit s1; s2 = dropWhile is_ascii_digit s1 in
      if digits = [] \<or> \<not> startswith ''='' s2 then None
      else let s3 = tl s2; host = takeWhile is_host_char s3; s4 = dropWhile is_host_char s3 in
      if host = [] \<or> \<not> startswith '':'' s4 then None else Some (host, tl s4))"

lemma match_server_shorter:
  assumes "match_server s = Some (h, r)"
  shows "length r < length s"
proof -
  define d where "d = dropWhile is_host_char (tl (dropWhile is_ascii_digit (drop 7 s)))"
  from assms have r: "r = tl d" and p: "prefix '':'' d"
    by (auto simp: match_server_def Let_def startswith_def d_def split: if_splits)
  have "length d \<le> length s"
    using length_dropWhile_le [of is_host_char "tl (dropWhile is_ascii_digit (drop 7 s))"]
      length_dropWhile_le [of is_ascii_digit "drop 7 s"] by (simp add: d_def)
  with r p show ?thesis by (cases d) auto
qed

function servers_in :: "string \<Rightarrow> string list" where
  "servers_in s = (case match_server s of
     Some (host, rest) \<Rightarrow> host # servers_in rest
   | None \<Rightarrow> (case s of [] \<Rightarrow> [] | _ # s' \<Rightarrow> servers_in s'))"
  by pat_completeness auto

termination
  by (relation "measure length") (auto dest: match_server_shorter)

definition get_zookeeper_servers :: "'w py_sys \<Rightarrow> Backup \<Rightarrow> ('w, string list) py" where
  "get_zookeeper_servers c b =
     pbind (connect_to_zookeeper c (bk_client b) None) (\<lambda>zk.
     pbind (pfinally (execute_command c zk ''conf'') (disconnect_from_zookeeper c zk)) (\<lambda>conf_response.
     pret (servers_in conf_response)))"

primrec find_zookeeper_leader :: "'w py_sys \<Rightarrow> Backup \<Rightarrow> string list \<Rightarrow> ('w, string option) py" where
  "find_zookeeper_leader c b [] = pret None"
| "find_zookeeper_leader c b (server # servers) =
     pbind (connect_to_zookeeper c (bk_client b) (Some server)) (\<lambda>zk.
     pbind (pfinally (execute_command c zk ''srvr'') (disconnect_from_zookeeper c zk)) (\<lambda>srvr_response.
     if contains ''Mode: leader'' srvr_response then pret (Some server)
     else find_zookeeper_leader c b servers))"

definition copy_logs_from_zookeeper_leader :: "'w py_sys \<Rightarrow> string \<Rightarrow> ('w, unit) py" where
  "copy_logs_from_zookeeper_leader c leader =
     pbind (post_status c (''http://'' @ leader @ '':8081/store'')) (\<lambda>status.
     if status \<noteq> ''Ok'' then praise (SystemExit 1) else pret ())"

text \<open>The rest of the steps, once the leader is looked for. The message of the exception also lists the
  servers.\<close>

definition backup_from :: "'w py_sys \<Rightarrow> Backup \<Rightarrow> string option \<Rightarrow> ('w, unit) py" where
  "backup_from c b leader = (case leader of
     None \<Rightarrow> praise (Exception ''ZooKeeper leader isn't found in servers'')
   | Some zookeeper_leader \<Rightarrow>
       pbind (copy_logs_from_zookeeper_leader c zookeeper_leader) (\<lambda>_.
       pbind (get_snapshot_and_transaction_logs c ZOOKEEPER_BACKUP_TMP_DIR) (\<lambda>(snapshot, transaction_logs).
       pbind (copy_snapshot c snapshot (bk_storage_folder b)) (\<lambda>_.
       filter_and_store_transaction_logs c transaction_logs (bk_storage_folder b)))))"

definition backup_steps :: "'w py_sys \<Rightarrow> Backup \<Rightarrow> ('w, unit) py" where
  "backup_steps c b =
     pbind (create_directory c ZOOKEEPER_BACKUP_TMP_DIR) (\<lambda>_.
     pbind (get_zookeeper_servers c b) (\<lambda>servers.
     pbind (find_zookeeper_leader c b servers) (backup_from c b)))"

definition transactional_backup :: "'w py_sys \<Rightarrow> Backup \<Rightarrow> ('w, unit) py" where
  "transactional_backup c b =
     pfinally (backup_steps c b) (remove_directory_with_content c ZOOKEEPER_BACKUP_TMP_DIR)"

section \<open>The recovery\<close>

definition ZOOKEEPER_RESTORE_TMP_DIR :: string where
  "ZOOKEEPER_RESTORE_TMP_DIR = ''/opt/zookeeper/backup-storage/recover''"

record Restore =
  rs_project :: "string option"
  rs_host :: string
  rs_client :: ZooKeeperClient
  rs_storage_folder :: string

definition new_Restore :: "'w py_sys \<Rightarrow> string \<Rightarrow> ('w, Restore) py" where
  "new_Restore c storage_folder =
     pbind (get_env_or_file c ''ZOOKEEPER_ADMIN_USERNAME'') (\<lambda>username.
     pbind (get_env_or_file c ''ZOOKEEPER_ADMIN_PASSWORD'') (\<lambda>password.
     let host = getenv c ''ZOOKEEPER_HOST''; port = getenv c ''ZOOKEEPER_PORT'' in
     if \<not> truthy host \<or> \<not> truthy port then praise (SystemExit 1)
     else pret \<lparr>rs_project = getenv c ''NAMESPACE'', rs_host = the host,
                rs_client = new_ZooKeeperClient c (the host) (the port) username password,
                rs_storage_folder = storage_folder\<rparr>))"

definition is_log_name :: "string \<Rightarrow> bool" where
  "is_log_name file_name \<longleftrightarrow> contains ''snapshot.'' file_name \<or> contains ''log.'' file_name"

primrec any_log :: "'w py_sys \<Rightarrow> string \<Rightarrow> string list \<Rightarrow> 'w \<Rightarrow> bool" where
  "any_log c folder [] w = False"
| "any_log c folder (file_name # rest) w =
     (if isfile c (path_join folder file_name) w \<and> is_log_name file_name then True
      else any_log c folder rest w)"

definition determine_mode :: "'w py_sys \<Rightarrow> Restore \<Rightarrow> ('w, string) py" where
  "determine_mode c r =
     pbind (listdir c (rs_storage_folder r)) (\<lambda>names.
     pbind (pgets (any_log c (rs_storage_folder r) names)) (\<lambda>found.
     pret (if found then ''transactional'' else ''hierarchical'')))"

definition managed_by_operator :: "'w py_sys \<Rightarrow> string" where
  "managed_by_operator c =
     (if truthy (getenv c ''MANAGED_BY_OPERATOR'') \<and>
         ToLower (the (getenv c ''MANAGED_BY_OPERATOR'')) = ''false''
      then ''false'' else ''true'')"

definition transactional_recovery :: "'w py_sys \<Rightarrow> Restore \<Rightarrow> ('w, unit) py" where
  "transactional_recovery c r =
     pfinally
       (pbind (create_directory c ZOOKEEPER_RESTORE_TMP_DIR) (\<lambda>_.
        pbind (copy_zookeeper_logs c (rs_storage_folder r) ZOOKEEPER_RESTORE_TMP_DIR) (\<lambda>_.
        pbind (scale_down c (managed_by_operator c) (rs_host r) (rs_project r)) (\<lambda>_.
        scale_up c (managed_by_operator c) (rs_host r) (rs_project r)))))
       (remove_directory_with_content c ZOOKEEPER_RESTORE_TMP_DIR)"

section \<open>Properties\<close>

subsection \<open>The snapshot and its logs\<close>

lemma newest_run:
  assumes "\<forall>p. st_mtime c p w = (Inr (mt p), w)"
  shows "\<exists>p. newest c ss (best, mt best) w = (Inr (p, mt p), w) \<and>
    (\<exists>pre post. best # ss = pre @ p # post \<and> (\<forall>q \<in> set pre. mt q < mt p) \<and> (\<forall>q \<in> set post. mt q \<le> mt p))"
proof (induction ss arbitrary: best)
  case Nil
  show ?case by (intro exI [of _ best] conjI exI [of _ "[]"]) simp_all
next
  case (Cons s ss)
  define b where "b = (if mt s > mt best then s else best)"
  have "newest c (s # ss) (best, mt best) w = newest c ss (b, mt b) w"
    using assms by (simp add: pbind_def b_def)
  with Cons.IH [of b] obtain p pre post where
    p: "newest c (s # ss) (best, mt best) w = (Inr (p, mt p), w)" and
    split: "b # ss = pre @ p # post" "\<forall>q \<in> set pre. mt q < mt p" "\<forall>q \<in> set post. mt q \<le> mt p" by auto
  have "\<exists>pre' post'. best # s # ss = pre' @ p # post' \<and>
      (\<forall>q \<in> set pre'. mt q < mt p) \<and> (\<forall>q \<in> set post'. mt q \<le> mt p)"
  proof (cases "b = s \<and> mt s > mt best")
    case True
    have "mt s \<le> mt p" using split True by (cases pre) auto
    with True split show ?thesis by (intro exI [of _ "best # pre"] exI [of _ post]) auto
  next
    case False
    then have b: "b = best" "mt s \<le> mt best" by (auto simp: b_def split: if_splits)
    show ?thesis
    proof (cases pre)
      case Nil
      with split b show ?thesis by (intro exI [of _ "[]"] exI [of _ "s # post"]) auto
    next
      case (Cons x xs)
      with split b show ?thesis by (intro exI [of _ "best # s # xs"] exI [of _ post]) auto
    qed
  qed
  with p show ?case by blast
qed

lemma newer_than_run:
  assumes "\<forall>p. st_mtime c p w = (Inr (mt p), w)"
  shows "newer_than c bound ls w = (Inr (filter (\<lambda>p. mt p > bound) ls), w)"
  using assms by (induction ls) (simp_all add: pbind_def)

text \<open>The regular files of a directory whose names contain a text, in the order of the listing.\<close>

definition named_files :: "'w py_sys \<Rightarrow> string \<Rightarrow> string list \<Rightarrow> 'w \<Rightarrow> string \<Rightarrow> string list" where
  "named_files c d names w part =
     map (path_join d) (filter (\<lambda>name. isfile c (path_join d name) w \<and> contains part name) names)"


subsection \<open>The backup\<close>

lemma find_leader_Some:
  assumes "find_zookeeper_leader c b servers w = (Inr (Some leader), w')"
  shows "\<exists>pre post zk w1 w2 answer w3. servers = pre @ leader # post \<and>
    connect_to_zookeeper c (bk_client b) (Some leader) w1 = (Inr zk, w2) \<and>
    kazoo_command c zk ''srvr'' w2 = (Inr answer, w3) \<and> contains ''Mode: leader'' answer \<and>
    disconnect_from_zookeeper c zk w3 = (Inr (), w')"
  using assms
proof (induction servers arbitrary: w)
  case (Cons s ss)
  from Cons.prems obtain zk w1 answer w2 w3 where
    zk: "connect_to_zookeeper c (bk_client b) (Some s) w = (Inr zk, w1)" and
    ans: "kazoo_command c zk ''srvr'' w1 = (Inr answer, w2)" "disconnect_from_zookeeper c zk w2 = (Inr (), w3)" and
    rest: "(if contains ''Mode: leader'' answer then pret (Some s) else find_zookeeper_leader c b ss) w3
      = (Inr (Some leader), w')"
    by (auto simp: pbind_eq_Inr pfinally_eq_Inr execute_command_def)
  show ?case
  proof (cases "contains ''Mode: leader'' answer")
    case True
    with rest have "leader = s" "w' = w3" by simp_all
    with zk ans True show ?thesis by blast
  next
    case False
    with rest have "find_zookeeper_leader c b ss w3 = (Inr (Some leader), w')" by simp
    from Cons.IH [OF this] show ?thesis by (metis append_Cons)
  qed
qed simp

text \<open>The chain of calls of a complete backup.\<close>

definition backed_up :: "'w py_sys \<Rightarrow> Backup \<Rightarrow> 'w \<Rightarrow> 'w \<Rightarrow> bool" where
  "backed_up c b v w \<longleftrightarrow> (\<exists>servers v0 leader zk v1 v2 answer v3 v4 v5 v6 v7 snapshot logs.
     get_zookeeper_servers c b v = (Inr servers, v0) \<and> leader \<in> set servers \<and>
     find_zookeeper_leader c b servers v0 = (Inr (Some leader), v4) \<and>
     connect_to_zookeeper c (bk_client b) (Some leader) v1 = (Inr zk, v2) \<and>
     kazoo_command c zk ''srvr'' v2 = (Inr answer, v3) \<and> contains ''Mode: leader'' answer \<and>
     disconnect_from_zookeeper c zk v3 = (Inr (), v4) \<and>
     post_status c (''http://'' @ leader @ '':8081/store'') v4 = (Inr ''Ok'', v5) \<and>
     get_snapshot_and_transaction_logs c ZOOKEEPER_BACKUP_TMP_DIR v5 = (Inr (snapshot, logs), v6) \<and>
     copy2 c snapshot (bk_storage_folder b) v6 = (Inr (), v7) \<and>
     pfor logs (filter_file c (bk_storage_folder b)) v7 = (Inr (), w))"

lemma backup_steps_Inr:
  assumes "backup_steps c b w = (Inr (), w')"
  shows "\<exists>v. create_directory c ZOOKEEPER_BACKUP_TMP_DIR w = (Inr (), v) \<and> backed_up c b v w'"
proof -
  from assms obtain v servers v0 found v4 where
    v: "create_directory c ZOOKEEPER_BACKUP_TMP_DIR w = (Inr (), v)" and
    servers: "get_zookeeper_servers c b v = (Inr servers, v0)" and
    found: "find_zookeeper_leader c b servers v0 = (Inr found, v4)" and
    rest: "backup_from c b found v4 = (Inr (), w')"
    unfolding backup_steps_def by (elim pbindE) (auto intro: that)
  from rest obtain leader where leader: "found = Some leader" by (cases found) (auto simp: backup_from_def)
  with rest obtain v5 snapshot logs v6 v7 where
    "post_status c (''http://'' @ leader @ '':8081/store'') v4 = (Inr ''Ok'', v5)"
    "get_snapshot_and_transaction_logs c ZOOKEEPER_BACKUP_TMP_DIR v5 = (Inr (snapshot, logs), v6)"
    "copy2 c snapshot (bk_storage_folder b) v6 = (Inr (), v7)"
    "pfor logs (filter_file c (bk_storage_folder b)) v7 = (Inr (), w')"
    by (auto simp: backup_from_def pbind_eq_Inr copy_logs_from_zookeeper_leader_def copy_snapshot_def
        filter_and_store_transaction_logs_def split: if_splits)
  moreover from find_leader_Some [OF found [unfolded leader]] obtain zk v1 v2 answer v3 where
    "leader \<in> set servers"
    "connect_to_zookeeper c (bk_client b) (Some leader) v1 = (Inr zk, v2)"
    "kazoo_command c zk ''srvr'' v2 = (Inr answer, v3)" "contains ''Mode: leader'' answer"
    "disconnect_from_zookeeper c zk v3 = (Inr (), v4)" by auto
  ultimately show ?thesis using v servers found [unfolded leader] unfolding backed_up_def by blast
qed

text \<open>
  A transactional backup that succeeds took the logs from a configured server that answered to be the
  leader and that reported the copy as \<^verbatim>\<open>Ok\<close>, stored the chosen snapshot and filtered the chosen
  logs. Whatever the outcome, the removal of the temporary directory is its last step.
\<close>

theorem backup_from_leader:
  assumes "transactional_backup c b w = (r, w')"
  shows "\<exists>r1 w1. backup_steps c b w = (r1, w1) \<and>
    snd (remove_directory_with_content c ZOOKEEPER_BACKUP_TMP_DIR w1) = w' \<and>
    (r = Inr () \<longrightarrow> (\<exists>v. create_directory c ZOOKEEPER_BACKUP_TMP_DIR w = (Inr (), v) \<and> backed_up c b v w1))"
proof -
  obtain r1 w1 where steps: "backup_steps c b w = (r1, w1)" by fastforce
  with assms have "snd (remove_directory_with_content c ZOOKEEPER_BACKUP_TMP_DIR w1) = w'"
    and "r = Inr () \<Longrightarrow> r1 = Inr ()"
    by (auto simp: transactional_backup_def pfinally_def split: prod.splits sum.splits)
  with steps backup_steps_Inr [of c b w w1] show ?thesis by blast
qed

end
