(* ===== verification/ZnodeHierarchy.thy ===== *)
theory ZnodeHierarchy
  imports PyRuntime
begin

text \<open>
  \<^verbatim>\<open>backup-daemon/scripts/process_znode_hierarchy.py\<close>: the hierarchical backup writes every persistent
  znode to a directory, its value to a file \<^verbatim>\<open>content\<close> in it, and archives the tree; the recovery walks
  the directories and creates the znodes again. The visit of the znodes may go on for as long as the
  server has children to show, so it is a partial function.
\<close>

section \<open>Text files\<close>

text \<open>The code points of code page 437: the second half of the table differs from ASCII.\<close>

definition cp437_high :: "int list" where
  "cp437_high =
     [199, 252, 233, 226, 228, 224, 229, 231, 234, 235, 232, 239, 238, 236, 196, 197,
      201, 230, 198, 244, 246, 242, 251, 249, 255, 214, 220, 162, 163, 165, 8359, 402,
      225, 237, 243, 250, 241, 209, 170, 186, 191, 8976, 172, 189, 188, 161, 171, 187,
      9617, 9618, 9619, 9474, 9508, 9569, 9570, 9558, 9557, 9571, 9553, 9559, 9565, 9564, 9563, 9488,
      9492, 9524, 9516, 9500, 9472, 9532, 9566, 9567, 9562, 9556, 9577, 9574, 9568, 9552, 9580, 9575,
      9576, 9572, 9573, 9561, 9560, 9554, 9555, 9579, 9578, 9496, 9484, 9608, 9604, 9612, 9616, 9600,
      945, 223, 915, 960, 931, 963, 181, 964, 934, 920, 937, 948, 8734, 966, 949, 8745,
      8801, 177, 8805, 8804, 8992, 8993, 247, 8776, 176, 8729, 183, 8730, 8319, 178, 9632, 160]"

definition cp437_table :: "int list" where
  "cp437_table = [0..127] @ cp437_high"

definition decode_cp437 :: "bytes \<Rightarrow> int list" where
  "decode_cp437 bs = map (\<lambda>b. cp437_table ! unat b) bs"

fun index_of :: "'a \<Rightarrow> 'a list \<Rightarrow> nat option" where
  "index_of x [] = None"
| "index_of x (y # ys) = (if x = y then Some 0 else map_option Suc (index_of x ys))"

primrec encode_cp437 :: "int list \<Rightarrow> bytes option" where
  "encode_cp437 [] = Some []"
| "encode_cp437 (x # xs) =
     (case index_of x cp437_table of
        None \<Rightarrow> None
      | Some i \<Rightarrow> map_option ((#) (of_nat i)) (encode_cp437 xs))"

text \<open>Reading in text mode turns every line end into a line feed; writing changes nothing on the
  systems the image runs on.\<close>

fun universal_newlines :: "int list \<Rightarrow> int list" where
  "universal_newlines [] = []"
| "universal_newlines [x] = [if x = 13 then 10 else x]"
| "universal_newlines (x # y # xs) =
     (if x = 13 then 10 # universal_newlines (if y = 10 then xs else y # xs)
      else x # universal_newlines (y # xs))"

section \<open>The backup\<close>

definition write_value :: "'w py_sys \<Rightarrow> string \<Rightarrow> bytes \<Rightarrow> ('w, unit) py" where
  "write_value c fpath value =
     (if value \<noteq> [] then write_text c (fpath @ ''/content'') (decode_cp437 value) else pret ())"

definition store_data :: "'w py_sys \<Rightarrow> string \<Rightarrow> bytes \<Rightarrow> string \<Rightarrow> ('w, unit) py" where
  "store_data c path value storage_folder =
     (let fpath = storage_folder @ path in
      pbind (pgets (path_exists c fpath)) (\<lambda>there w.
        case (if \<not> there then makedirs c fpath else pret ()) w of
          (Inl (OSError _), w') \<Rightarrow> (Inr (), w')
        | (Inl e, w') \<Rightarrow> (Inl e, w')
        | (Inr _, w') \<Rightarrow> write_value c fpath value w'))"

definition child_path :: "string \<Rightarrow> string \<Rightarrow> string" where
  "child_path path child = path @ (if path = ''/'' then '''' else ''/'') @ child"

text \<open>One call of \<^verbatim>\<open>visit_nodes\<close> up to its loop; the result are the paths the loop visits.\<close>

definition visit_node :: "'w py_sys \<Rightarrow> int \<Rightarrow> string \<Rightarrow> string \<Rightarrow> ('w, string list) py" where
  "visit_node c zk storage_folder path =
     pbind (get_children c zk path) (\<lambda>children.
     pbind (get_znode c zk path) (\<lambda>(value, ephemeral_owner).
     if ephemeral_owner = 0
     then pbind (store_data c path value storage_folder) (\<lambda>_. pret (map (child_path path) children))
     else pret []))"

text \<open>The recursion: the paths that are still to visit, in order.\<close>

partial_function (option) visit_stack ::
  "'w py_sys \<Rightarrow> int \<Rightarrow> string \<Rightarrow> string list \<Rightarrow> 'w \<Rightarrow> ((py_exn + unit) \<times> 'w) option" where
  "visit_stack c zk storage_folder stack w =
     (case stack of
        [] \<Rightarrow> Some (Inr (), w)
      | path # rest \<Rightarrow>
          (case visit_node c zk storage_folder path w of
             (Inl e, w') \<Rightarrow> Some (Inl e, w')
           | (Inr children, w') \<Rightarrow> visit_stack c zk storage_folder (children @ rest) w'))"

definition visit_nodes :: "'w py_sys \<Rightarrow> int \<Rightarrow> string \<Rightarrow> string \<Rightarrow> 'w \<Rightarrow> ((py_exn + unit) \<times> 'w) option" where
  "visit_nodes c zk path storage_folder = visit_stack c zk storage_folder [path]"

definition clean_up :: "'w py_sys \<Rightarrow> int \<Rightarrow> string \<Rightarrow> ('w, unit) py" where
  "clean_up c zk znodes_folder =
     pbind (disconnect_from_zookeeper c zk) (\<lambda>_.
     pbind (pgets (isdir c znodes_folder)) (\<lambda>there. if there then rmtree c znodes_folder else pret ()))"

definition backup_body :: "'w py_sys \<Rightarrow> int \<Rightarrow> string \<Rightarrow> string list \<Rightarrow> 'w \<Rightarrow> ((py_exn + unit) \<times> 'w) option" where
  "backup_body c zk znodes_folder znodes w =
     (case makedirs c znodes_folder w of
        (Inl e, w1) \<Rightarrow> Some (Inl e, w1)
      | (Inr _, w1) \<Rightarrow>
          map_option (\<lambda>(r, w2). case r of Inl e \<Rightarrow> (Inl e, w2) | Inr _ \<Rightarrow> make_archive c znodes_folder w2)
            (if znodes = [] then visit_nodes c zk ''/'' znodes_folder w1
             else visit_stack c zk (znodes_folder @ ''/'') znodes w1))"

definition hierarchical_backup ::
  "'w py_sys \<Rightarrow> ZooKeeperClient \<Rightarrow> string \<Rightarrow> string list \<Rightarrow> 'w \<Rightarrow> ((py_exn + unit) \<times> 'w) option" where
  "hierarchical_backup c client storage_folder znodes w =
     (let znodes_folder = storage_folder @ ''/znodes'' in
      case connect_to_zookeeper c client None w of
        (Inl e, w1) \<Rightarrow> Some (Inl e, w1)
      | (Inr zk, w1) \<Rightarrow>
          map_option (\<lambda>(r, w2). pfinally (\<lambda>w. (r, w)) (clean_up c zk znodes_folder) w2)
            (backup_body c zk znodes_folder znodes w1))"

section \<open>The recovery\<close>

text \<open>A name of one component and a slash.\<close>

definition top_level :: "string \<Rightarrow> bool" where
  "top_level x \<longleftrightarrow> length x > 1 \<and> last x = CHR ''/'' \<and> CHR ''/'' \<notin> set (butlast x)"

definition get_znodes_list_from_archive :: "'w py_sys \<Rightarrow> string \<Rightarrow> ('w, string list) py" where
  "get_znodes_list_from_archive c znodes_folder =
     pbind (namelist c (znodes_folder @ ''.zip'')) (\<lambda>names.
     let nodes_to_restore = map butlast (filter top_level names) in
     if ''zookeeper'' \<in> set nodes_to_restore then pret (remove1 ''zookeeper'' nodes_to_restore)
     else praise (Exception ''list.remove(x): x not in list''))"

definition members_below :: "string \<Rightarrow> string list \<Rightarrow> string list" where
  "members_below znode names =
     filter (\<lambda>file. startswith (znode @ ''/'') file \<and> file \<noteq> znode @ ''/'') names"

definition extract_znode_from_archive :: "'w py_sys \<Rightarrow> string \<Rightarrow> string \<Rightarrow> ('w, unit) py" where
  "extract_znode_from_archive c znode znodes_folder =
     pbind (namelist c (znodes_folder @ ''.zip'')) (\<lambda>names.
     pfor (members_below znode names)
       (\<lambda>file. extract_member c (znodes_folder @ ''.zip'') file (znodes_folder @ ''/'')))"

text \<open>The value for one directory, and the attempt to create the znode: every exception in it is
  swallowed.\<close>

definition read_value :: "'w py_sys \<Rightarrow> string \<Rightarrow> string list \<Rightarrow> ('w, int list) py" where
  "read_value c root files =
     (if ''content'' \<in> set files
      then pbind (read_text c (root @ ''/content'')) (\<lambda>text. pret (universal_newlines text))
      else pret [])"

definition try_create :: "'w py_sys \<Rightarrow> int \<Rightarrow> string \<Rightarrow> int list \<Rightarrow> ('w, unit) py" where
  "try_create c zk znode data = (\<lambda>w.
     case encode_cp437 data of
       None \<Rightarrow> (Inr (), w)
     | Some bs \<Rightarrow> (Inr (), snd (create_znode c zk znode bs w)))"

definition restore_node :: "'w py_sys \<Rightarrow> int \<Rightarrow> string \<Rightarrow> string \<times> string list \<times> string list \<Rightarrow> ('w, unit) py" where
  "restore_node c zk storage_folder = (\<lambda>(root, dirs, files).
     let znode = ''/'' @ relpath root storage_folder in
     pbind (znode_exists c zk znode) (\<lambda>there.
     pbind (if there then delete_recursive c zk znode else pret ()) (\<lambda>_.
     pbind (read_value c root files) (\<lambda>data. try_create c zk znode data))))"

definition visit_nodes_while_restoring :: "'w py_sys \<Rightarrow> int \<Rightarrow> string \<Rightarrow> string \<Rightarrow> ('w, unit) py" where
  "visit_nodes_while_restoring c zk node storage_folder =
     pbind (walk c (storage_folder @ ''/'' @ node)) (\<lambda>entries. pfor entries (restore_node c zk storage_folder))"

definition restore_body :: "'w py_sys \<Rightarrow> int \<Rightarrow> string list \<Rightarrow> string \<Rightarrow> ('w, unit) py" where
  "restore_body c zk nodes_to_restore storage_folder =
     (let znodes_folder = storage_folder @ ''/znodes'' in
      pbind (pgets (isfile c (znodes_folder @ ''.zip''))) (\<lambda>archived.
      if archived
      then pbind (if nodes_to_restore = [] then get_znodes_list_from_archive c znodes_folder
                  else pret nodes_to_restore) (\<lambda>nodes.
           pfor nodes (\<lambda>znode.
             pbind (extract_znode_from_archive c znode znodes_folder) (\<lambda>_.
             visit_nodes_while_restoring c zk znode znodes_folder)))
      else if nodes_to_restore = []
      then praise (Exception ''Restoring operation requires specifying nodes to recover.'')
      else pfor nodes_to_restore (\<lambda>node. visit_nodes_while_restoring c zk node storage_folder)))"

definition hierarchical_restore :: "'w py_sys \<Rightarrow> ZooKeeperClient \<Rightarrow> string list \<Rightarrow> string \<Rightarrow> ('w, unit) py" where
  "hierarchical_restore c client nodes_to_restore storage_folder =
     pbind (connect_to_zookeeper c client None) (\<lambda>zk.
     pfinally (restore_body c zk nodes_to_restore storage_folder)
       (clean_up c zk (storage_folder @ ''/znodes'')))"

section \<open>Properties\<close>

subsection \<open>Which znodes are stored\<close>

text \<open>A tree of znodes as the server has it: the value, the session of an ephemeral znode or 0, the
  children.\<close>

datatype znode_tree = Znode bytes int "(string \<times> znode_tree) list"

fun serves :: "'w py_sys \<Rightarrow> int \<Rightarrow> string \<Rightarrow> znode_tree \<Rightarrow> bool" where
  "serves c zk path (Znode v owner kids) \<longleftrightarrow>
     (\<forall>w. get_children c zk path w = (Inr (map fst kids), w)) \<and>
     (\<forall>w. get_znode c zk path w = (Inr (v, owner), w)) \<and>
     (\<forall>(name, t) \<in> set kids. serves c zk (child_path path name) t)"

fun persistent :: "string \<Rightarrow> znode_tree \<Rightarrow> (string \<times> bytes) list" where
  "persistent path (Znode v owner kids) =
     (if owner = 0
      then (path, v) # concat (map (\<lambda>(name, t). persistent (child_path path name) t) kids)
      else [])"

fun znodes_in :: "znode_tree \<Rightarrow> nat" where
  "znodes_in (Znode v owner kids) = Suc (sum_list (map (\<lambda>(name, t). znodes_in t) kids))"

lemma visit_node_served:
  assumes "serves c zk p (Znode v owner kids)"
  shows "visit_node c zk folder p w =
    (if owner = 0 then pbind (store_data c p v folder) (\<lambda>_. pret (map (\<lambda>(name, t). child_path p name) kids)) w
     else (Inr [], w))"
  using assms by (simp add: visit_node_def pbind_def comp_def case_prod_unfold)

lemma visit_stack_trees:
  assumes "\<forall>(p, t) \<in> set pts. serves c zk p t"
  shows "visit_stack c zk folder (map fst pts) w =
    Some (pfor (concat (map (\<lambda>(p, t). persistent p t) pts)) (\<lambda>(p, v). store_data c p v folder) w)"
  using assms
proof (induction "sum_list (map (\<lambda>(p, t). znodes_in t) pts)" arbitrary: pts w rule: less_induct)
  case less
  show ?case
  proof (cases pts)
    case Nil
    then show ?thesis by (simp add: visit_stack.simps)
  next
    case (Cons pt rest)
    obtain p v owner kids where pt: "pt = (p, Znode v owner kids)" by (metis prod.exhaust znode_tree.exhaust)
    let ?kids = "map (\<lambda>(name, t). (child_path p name, t)) kids"
    have served: "serves c zk p (Znode v owner kids)" "\<forall>(p, t) \<in> set rest. serves c zk p t"
      "\<forall>(p, t) \<in> set ?kids. serves c zk p t"
      using less.prems by (auto simp: Cons pt)
    have sizes: "sum_list (map (\<lambda>(p, t). znodes_in t) (?kids @ rest)) < sum_list (map (\<lambda>(p, t). znodes_in t) pts)"
      "sum_list (map (\<lambda>(p, t). znodes_in t) rest) < sum_list (map (\<lambda>(p, t). znodes_in t) pts)"
      by (simp_all add: Cons pt comp_def case_prod_unfold)
    have stack: "map (\<lambda>(name, t). child_path p name) kids @ map fst rest = map fst (?kids @ rest)"
      by (simp add: case_prod_unfold)
    have kids: "concat (map (\<lambda>(p, t). persistent p t) ?kids) =
        concat (map (\<lambda>(name, t). persistent (child_path p name) t) kids)"
      by (simp add: comp_def case_prod_unfold)
    show ?thesis
    proof (cases "owner = 0")
      case True
      have "visit_stack c zk folder (map fst pts) w =
          (case store_data c p v folder w of
             (Inl e, w') \<Rightarrow> Some (Inl e, w')
           | (Inr _, w') \<Rightarrow> visit_stack c zk folder (map fst (?kids @ rest)) w')"
        unfolding stack [symmetric]
        unfolding Cons pt by (subst visit_stack.simps)
          (simp add: visit_node_served [OF served(1)] True pbind_def split: prod.splits sum.splits)
      moreover have "visit_stack c zk folder (map fst (?kids @ rest)) w' =
          Some (pfor (concat (map (\<lambda>(p, t). persistent p t) (?kids @ rest))) (\<lambda>(p, v). store_data c p v folder) w')"
        for w' using served(2,3) by (intro less.hyps [OF sizes(1)]) auto
      moreover have "concat (map (\<lambda>(p, t). persistent p t) pts) =
          (p, v) # concat (map (\<lambda>(p, t). persistent p t) (?kids @ rest))"
        using kids by (simp add: Cons pt True)
      ultimately show ?thesis by (simp add: pbind_def split: prod.splits sum.splits)
    next
      case False
      have "visit_stack c zk folder (map fst pts) w = visit_stack c zk folder (map fst rest) w"
        unfolding Cons pt by (subst visit_stack.simps) (simp add: visit_node_served [OF served(1)] False)
      then show ?thesis using less.hyps [OF sizes(2)] served(2) by (simp add: Cons pt False)
    qed
  qed
qed


subsection \<open>What a value looks like after the recovery\<close>

lemma index_of_nth: "distinct xs \<Longrightarrow> i < length xs \<Longrightarrow> index_of (xs ! i) xs = Some i"
proof (induction xs arbitrary: i)
  case (Cons x xs)
  then show ?case by (cases i) (auto simp: nth_mem)
qed simp

lemma unat_byte: "unat (b :: 8 word) < 256"
  using unsigned_less [of b] by simp

lemma cp437_length: "length cp437_table = 256"
  by (simp add: cp437_table_def cp437_high_def)

lemma cp437_distinct: "distinct cp437_table"
proof -
  have "distinct cp437_high" by code_simp
  moreover have "\<forall>x \<in> set cp437_high. 127 < x" by (simp add: cp437_high_def)
  ultimately show ?thesis by (auto simp: cp437_table_def)
qed

lemma cp437_ascii: "i < 128 \<Longrightarrow> cp437_table ! i = int i"
  by (simp add: cp437_table_def nth_append nth_upto)

lemma encode_decode_cp437: "encode_cp437 (decode_cp437 bs) = Some bs"
proof (induction bs)
  case (Cons b bs)
  have "unat b < length cp437_table" by (simp add: cp437_length unat_byte)
  with index_of_nth [OF cp437_distinct] Cons.IH show ?case by (simp add: decode_cp437_def)
qed (simp add: decode_cp437_def)

fun byte_newlines :: "bytes \<Rightarrow> bytes" where
  "byte_newlines [] = []"
| "byte_newlines [x] = [if x = 13 then 10 else x]"
| "byte_newlines (x # y # xs) =
     (if x = 13 then 10 # byte_newlines (if y = 10 then xs else y # xs)
      else x # byte_newlines (y # xs))"

lemma cp437_code:
  fixes b :: "8 word"
  assumes "i < 128"
  shows "cp437_table ! unat b = int i \<longleftrightarrow> unat b = i"
  using assms nth_eq_iff_index_eq [OF cp437_distinct, of "unat b" i] cp437_ascii [OF assms]
  by (simp add: cp437_length unat_byte)

lemma cp437_newline:
  fixes b :: "8 word"
  shows "cp437_table ! unat b = 13 \<longleftrightarrow> b = 13" "cp437_table ! unat b = 10 \<longleftrightarrow> b = 10"
  "cp437_table ! 10 = 10"
  using cp437_code [of 13 b] cp437_code [of 10 b] cp437_ascii [of 10]
  by (simp_all add: word_unat_eq_iff)

lemma universal_newlines_decode: "universal_newlines (decode_cp437 bs) = decode_cp437 (byte_newlines bs)"
  by (induction bs rule: byte_newlines.induct) (auto simp: decode_cp437_def cp437_newline)

lemma byte_newlines_id: "byte_newlines bs = bs \<longleftrightarrow> 13 \<notin> set bs"
proof (induction bs rule: byte_newlines.induct)
  case (3 x y xs)
  have "length (byte_newlines bs) \<le> length bs" for bs by (induction bs rule: byte_newlines.induct) auto
  with 3 show ?case by auto
qed auto


subsection \<open>Empty znodes at the top\<close>

text \<open>
  A znode at the top of the hierarchy without value and children is not recovered from an archive:
  only what is below its directory is extracted, which is nothing.
\<close>

theorem empty_top_znode_not_extracted:
  assumes "\<forall>file \<in> set names. startswith (znode @ ''/'') file \<longrightarrow> file = znode @ ''/''"
    and "namelist c (folder @ ''.zip'') w = (Inr names, w1)"
  shows "extract_znode_from_archive c znode folder w = (Inr (), w1)"
proof -
  from assms(1) have "members_below znode names = []" by (auto simp: members_below_def filter_empty_conv)
  with assms(2) show ?thesis by (simp add: extract_znode_from_archive_def pbind_def)
qed

end
