(* ===== verification/BackupRuns.thy ===== *)
theory BackupRuns
  imports BackupLogs ZnodeHierarchy
begin

text \<open>
  The commands \<^verbatim>\<open>backup.py\<close> and \<^verbatim>\<open>restore.py\<close> as they are started, and runs of the scripts against a small
  machine whose world is the list of the calls made.
\<close>

section \<open>The commands\<close>

text \<open>The arguments are the folder, the mode and the list of znodes as \<^verbatim>\<open>literal_eval\<close> reads it. A run of the hierarchical backup
  may not end.\<close>

definition backup_main ::
  "'w py_sys \<Rightarrow> string \<Rightarrow> string option \<Rightarrow> string list \<Rightarrow> 'w \<Rightarrow> ((py_exn + unit) \<times> 'w) option" where
  "backup_main c folder mode znodes w =
     (case new_Backup c folder w of
        (Inl e, w1) \<Rightarrow> Some (Inl e, w1)
      | (Inr b, w1) \<Rightarrow>
          (if mode = Some ''transactional''
           then if \<not> is_file_system_shared c
                then Some (Inl (Exception ''Configuration is not suitable to make transactional backup.''), w1)
                else Some (transactional_backup c b w1)
           else hierarchical_backup c (bk_client b) (bk_storage_folder b) znodes w1))"

definition restore_main :: "'w py_sys \<Rightarrow> string \<Rightarrow> string list \<Rightarrow> ('w, unit) py" where
  "restore_main c folder znodes =
     pbind (new_Restore c folder) (\<lambda>r.
     pbind (determine_mode c r) (\<lambda>mode.
     if mode = ''transactional''
     then if \<not> is_file_system_shared c
          then praise (Exception ''Configuration is not suitable to restore from transactional backup.'')
          else transactional_recovery c r
     else hierarchical_restore c (rs_client r) znodes (rs_storage_folder r)))"

section \<open>A machine\<close>

definition noted :: "string \<Rightarrow> 'a \<Rightarrow> (string list, 'a) py" where
  "noted what x = (\<lambda>w. (Inr x, w @ [what]))"

definition demo_files :: "string list" where
  "demo_files = [''snapshot.1'', ''log.1'', ''snapshot.2'', ''log.2'']"

definition demo_mtime :: "string \<Rightarrow> int" where
  "demo_mtime p = (if p = path_join ZOOKEEPER_BACKUP_TMP_DIR ''snapshot.2'' then 20
     else if p = path_join ZOOKEEPER_BACKUP_TMP_DIR ''log.2'' then 25 else 10)"

definition demo_tree :: znode_tree where
  "demo_tree = Znode [] 0
     [(''a'', Znode [7] 0 []), (''e'', Znode [8] 77 [(''x'', Znode [9] 0 [])])]"

definition demo_sys :: "string list py_sys" where
  "demo_sys =
     \<lparr>getenv = (\<lambda>n. if n = ''ZOOKEEPER_HOST'' then Some ''zookeeper'' else if n = ''ZOOKEEPER_PORT'' then Some ''2181''
        else if n = ''PV_TYPE'' then Some ''nfs'' else None),
      listdir = (\<lambda>d w. (Inr demo_files, w)),
      isfile = (\<lambda>p w. \<not> startswith ''/etc'' p),
      isdir = (\<lambda>p w. False), path_exists = (\<lambda>p w. False),
      st_mtime = (\<lambda>p w. (Inr (demo_mtime p), w)),
      makedirs = (\<lambda>p. noted ''makedirs'' ()), rmtree = (\<lambda>p. noted ''rmtree'' ()),
      copy2 = (\<lambda>p d. noted (''copy '' @ p) ()),
      walk = (\<lambda>p w. (Inr [], w)),
      read_bytes = (\<lambda>p w. (Inr (demo_start @ END_OF_STREAM), w)),
      write_bytes = (\<lambda>p bs. noted (''write '' @ p) ()),
      read_text = (\<lambda>p w. (Inr [], w)), write_text = (\<lambda>p text. noted (''write '' @ p) ()),
      read_secret = (\<lambda>p w. (Inr '''', w)),
      make_archive = (\<lambda>p. noted ''archive'' ()),
      namelist = (\<lambda>p w. (Inr [''a/'', ''b/'', ''b/content'', ''zookeeper/''], w)),
      extract_member = (\<lambda>z f d. noted (''extract '' @ f) ()),
      kazoo_start = (\<lambda>k. noted (''connect '' @ k_hosts k) 1),
      kazoo_stop = (\<lambda>zk. noted ''stop'' ()), kazoo_close = (\<lambda>zk. noted ''close'' ()),
      kazoo_command = (\<lambda>zk command w. (Inr (if command = ''conf''
        then ''server.1=zk-1:2888:3888'' else ''Mode: leader''), w)),
      get_children = (\<lambda>zk p w. (Inr (if p = ''/'' then [''a'', ''e''] else if p = ''/e'' then [''x''] else []), w)),
      get_znode = (\<lambda>zk p w. (Inr (if p = ''/'' then ([], 0) else if p = ''/a'' then ([7], 0)
        else if p = ''/e'' then ([8], 77) else ([9], 0)), w)),
      znode_exists = (\<lambda>zk p w. (Inr False, w)),
      delete_recursive = (\<lambda>zk p. noted ''delete'' ()),
      create_znode = (\<lambda>zk p v. noted (''create '' @ p) ()),
      post_status = (\<lambda>url. noted (''post '' @ url) ''Ok''),
      scale_down = (\<lambda>m h p. noted ''down'' ()), scale_up = (\<lambda>m h p. noted ''up'' ())\<rparr>"

section \<open>Runs\<close>

lemma demo_listed: "listdir demo_sys d w = (Inr demo_files, w)"
  by (simp add: demo_sys_def)

lemma demo_stat: "\<forall>p. st_mtime demo_sys p w = (Inr (demo_mtime p), w)"
  by (simp add: demo_sys_def)

lemma demo_named:
  "named_files demo_sys ZOOKEEPER_BACKUP_TMP_DIR demo_files w ''snapshot.'' =
     [path_join ZOOKEEPER_BACKUP_TMP_DIR ''snapshot.1'', path_join ZOOKEEPER_BACKUP_TMP_DIR ''snapshot.2'']"
  "named_files demo_sys ZOOKEEPER_BACKUP_TMP_DIR demo_files w ''log.'' =
     [path_join ZOOKEEPER_BACKUP_TMP_DIR ''log.1'', path_join ZOOKEEPER_BACKUP_TMP_DIR ''log.2'']"
  by (simp_all add: named_files_def demo_files_def demo_sys_def path_join_def startswith_def contains_def
      ZOOKEEPER_BACKUP_TMP_DIR_def sublist_code)

lemma demo_mtimes:
  "demo_mtime (path_join ZOOKEEPER_BACKUP_TMP_DIR ''snapshot.1'') = 10"
  "demo_mtime (path_join ZOOKEEPER_BACKUP_TMP_DIR ''snapshot.2'') = 20"
  "demo_mtime (path_join ZOOKEEPER_BACKUP_TMP_DIR ''log.1'') = 10"
  "demo_mtime (path_join ZOOKEEPER_BACKUP_TMP_DIR ''log.2'') = 25"
  by (simp_all add: demo_mtime_def path_join_def startswith_def ZOOKEEPER_BACKUP_TMP_DIR_def)



theorem empty_top_znode_not_extracted_witness:
  "extract_znode_from_archive demo_sys ''a'' ''f'' [] = (Inr (), [])"
proof -
  let ?names = "[''a/'', ''b/'', ''b/content'', ''zookeeper/'']"
  have "\<forall>file \<in> set ?names. startswith (''a'' @ ''/'') file \<longrightarrow> file = ''a'' @ ''/''"
    by (simp add: startswith_def)
  moreover have "namelist demo_sys (''f'' @ ''.zip'') [] = (Inr ?names, [])" by (simp add: demo_sys_def)
  ultimately show ?thesis by (rule empty_top_znode_not_extracted)
qed

definition demo_backup :: Backup where
  "demo_backup = \<lparr>bk_client = new_ZooKeeperClient demo_sys ''zookeeper'' ''2181'' None None, bk_storage_folder = ''/b''\<rparr>"

lemma demo_servers: "servers_in ''server.1=zk-1:2888:3888'' = [''zk-1'']"
  by code_simp

lemma demo_filtered: "filter_and_store_transaction_log (demo_start @ END_OF_STREAM) = (demo_start @ END_OF_STREAM, None)"
  using filter_log_header [OF demo_start_length, of "END_OF_STREAM @ []"] unfolding filter_loop_end by simp

theorem backup_from_leader_witness:
  "\<exists>r1 w1 w' v. transactional_backup demo_sys demo_backup [] = (Inr (), w') \<and>
     backup_steps demo_sys demo_backup [] = (r1, w1) \<and> backed_up demo_sys demo_backup v w1"
proof -
  have chosen: "get_snapshot_and_transaction_logs demo_sys ZOOKEEPER_BACKUP_TMP_DIR w =
      (Inr (path_join ZOOKEEPER_BACKUP_TMP_DIR ''snapshot.2'', [path_join ZOOKEEPER_BACKUP_TMP_DIR ''log.2'']), w)" for w
    using demo_named [of w] demo_mtimes
    by (simp add: get_snapshot_and_transaction_logs_def named_files_def pbind_def demo_listed demo_stat [rule_format])
  have "fst (transactional_backup demo_sys demo_backup []) = Inr ()"
    using demo_servers demo_filtered chosen
    by (simp add: transactional_backup_def pfinally_def backup_steps_def pbind_def create_directory_def
        get_zookeeper_servers_def backup_from_def copy_logs_from_zookeeper_leader_def copy_snapshot_def
        filter_and_store_transaction_logs_def filter_file_def remove_directory_with_content_def
        connect_to_zookeeper_def disconnect_from_zookeeper_def execute_command_def noted_def contains_def
        demo_sys_def)
  then obtain w' where run: "transactional_backup demo_sys demo_backup [] = (Inr (), w')" by (metis prod.collapse)
  from backup_from_leader [OF run] run show ?thesis by blast
qed

end
