(* ===== verification/MonitoringScripts.thy ===== *)
theory MonitoringScripts
  imports PyRuntime
begin

text \<open>
  The scripts of \<^verbatim>\<open>monitoring/exec-scripts\<close>: what Telegraf reads about the health of the servers, the state of
  the backups, the persistent volumes and the version. The environment, files, processes and requests are fields of
  \<open>mon_sys\<close>; numbers in JSON are integers, and \<open>show_json\<close> is Python's \<^verbatim>\<open>str\<close>.
\<close>

section \<open>Data and calls\<close>

datatype json =
    JNone
  | JBool bool
  | JInt int
  | JStr string
  | JList "json list"
  | JDict "(string \<times> json) list"

record 'w mon_sys =
  m_getenv :: "string \<Rightarrow> string option"
  m_isfile :: "string \<Rightarrow> 'w \<Rightarrow> bool"
  m_read_secret :: "string \<Rightarrow> ('w, string) py"
  Popen_communicate :: "string list \<Rightarrow> string \<Rightarrow> ('w, string) py"
  shell_run :: "string \<Rightarrow> ('w, int \<times> string) py"
  http_get :: "string \<Rightarrow> string option \<times> string option \<Rightarrow> string option \<Rightarrow> ('w, int \<times> (py_exn + json)) py"
  show_json :: "json \<Rightarrow> string"

text \<open>\<^verbatim>\<open>str.split()\<close>: the words between white space.\<close>

function py_words :: "string \<Rightarrow> string list" where
  "py_words s = (let s' = dropWhile is_py_space s in
     if s' = [] then []
     else takeWhile (\<lambda>ch. \<not> is_py_space ch) s' # py_words (dropWhile (\<lambda>ch. \<not> is_py_space ch) s'))"
  by pat_completeness auto

termination
proof (relation "measure length")
  fix s s' :: string
  assume s': "s' = dropWhile is_py_space s" and ne: "s' \<noteq> []"
  from ne have "\<not> is_py_space (hd s')" unfolding s' by (rule hd_dropWhile)
  with ne have "length (dropWhile (\<lambda>ch. \<not> is_py_space ch) s') < length s'"
    by (cases s') (auto simp: le_imp_less_Suc length_dropWhile_le)
  also have "\<dots> \<le> length s" unfolding s' by (rule length_dropWhile_le)
  finally show "(dropWhile (\<lambda>ch. \<not> is_py_space ch) s', s) \<in> measure length" by simp
qed simp

text \<open>
  \<^verbatim>\<open>shlex.split\<close>: words with quotes and backslashes. A backslash between double quotes stays unless it
  precedes a double quote or a backslash; a quote or a backslash left open is an exception.
\<close>

datatype shlex_state = Blank | Word | Quote char | Escape "char option"

fun shlex :: "shlex_state \<Rightarrow> string \<Rightarrow> string \<Rightarrow> py_exn + string list" where
  "shlex Blank token [] = Inr []"
| "shlex Word token [] = Inr [token]"
| "shlex (Quote q) token [] = Inl (Exception ''No closing quotation'')"
| "shlex (Escape e) token [] = Inl (Exception ''No escaped character'')"
| "shlex Blank token (ch # s) =
     (if ch \<in> {CHR '' '', CHR 0x09, CHR 0x0D, CHR 0x0A} then shlex Blank [] s
      else if ch = CHR 0x5C then shlex (Escape None) [] s
      else if ch = CHR 0x27 \<or> ch = CHR 0x22 then shlex (Quote ch) [] s
      else shlex Word [ch] s)"
| "shlex Word token (ch # s) =
     (if ch \<in> {CHR '' '', CHR 0x09, CHR 0x0D, CHR 0x0A} then map_sum id (Cons token) (shlex Blank [] s)
      else if ch = CHR 0x5C then shlex (Escape None) token s
      else if ch = CHR 0x27 \<or> ch = CHR 0x22 then shlex (Quote ch) token s
      else shlex Word (token @ [ch]) s)"
| "shlex (Quote q) token (ch # s) =
     (if ch = q then shlex Word token s
      else if ch = CHR 0x5C \<and> q = CHR 0x22 then shlex (Escape (Some q)) token s
      else shlex (Quote q) (token @ [ch]) s)"
| "shlex (Escape None) token (ch # s) = shlex Word (token @ [ch]) s"
| "shlex (Escape (Some q)) token (ch # s) =
     shlex (Quote q) (token @ (if ch \<noteq> CHR 0x5C \<and> ch \<noteq> q then [CHR 0x5C, ch] else [ch])) s"

definition shlex_split :: "string \<Rightarrow> py_exn + string list" where
  "shlex_split s = shlex Blank [] s"

definition plift :: "py_exn + 'a \<Rightarrow> ('w, 'a) py" where
  "plift r = (\<lambda>w. (r, w))"

text \<open>\<^verbatim>\<open>template.format(x)\<close> for a template with one pair of braces, given as the text before and after.\<close>

definition format1 :: "string \<times> string \<Rightarrow> string \<Rightarrow> string" where
  "format1 template x = fst template @ x @ snd template"

section \<open>Health\<close>

definition m_tls_formatted_command :: "string \<times> string" where
  "m_tls_formatted_command = (''openssl s_client -crlf -quiet -connect '',
     '' -cert /tls/tls.crt -key /tls/tls.key -CAfile /tls/ca.crt'')"

definition non_encrypted_formatted_command :: "string \<times> string" where
  "non_encrypted_formatted_command = (''nc '', '''')"

definition clean_server :: "string \<Rightarrow> string" where
  "clean_server server = filter (\<lambda>ch. ch \<noteq> CHR 0x27 \<and> ch \<noteq> CHR '' '') server"

definition ask_ruok :: "'w mon_sys \<Rightarrow> string \<times> string \<Rightarrow> string \<Rightarrow> ('w, string) py" where
  "ask_ruok c formatted_command server =
     pbind (plift (shlex_split (format1 formatted_command (clean_server server)))) (\<lambda>args.
     Popen_communicate c args ''ruok'')"

text \<open>An exception of the process is logged and counts as no answer.\<close>

primrec get_number_of_alive_nodes :: "'w mon_sys \<Rightarrow> string list \<Rightarrow> string \<times> string \<Rightarrow> 'w \<Rightarrow> int \<times> 'w" where
  "get_number_of_alive_nodes c [] formatted_command w = (0, w)"
| "get_number_of_alive_nodes c (server # servers) formatted_command w =
     (case ask_ruok c formatted_command server w of (r, w1) \<Rightarrow>
      case get_number_of_alive_nodes c servers formatted_command w1 of (n, w2) \<Rightarrow>
      ((case r of Inr response \<Rightarrow> if response = ''imok'' then 1 + n else n | Inl _ \<Rightarrow> n), w2))"

definition get_status_code :: "int \<Rightarrow> int \<Rightarrow> int" where
  "get_status_code alive_nodes total_nodes =
     (if alive_nodes = 0 then 10 else if alive_nodes < total_nodes then 5
      else if alive_nodes = total_nodes then 0 else 10)"

definition use_ssl :: "'w mon_sys \<Rightarrow> bool" where
  "use_ssl c = str2bool (case m_getenv c ''ZOOKEEPER_ENABLE_SSL'' of None \<Rightarrow> ''false'' | Some v \<Rightarrow> v)"

definition ZK_SERVER_STATE_NON_TLS_COMMAND :: "string \<times> string" where
  "ZK_SERVER_STATE_NON_TLS_COMMAND = (''echo mntr | nc -w 5 '', '' | grep zk_server_state'')"

definition ZK_SERVER_STATE_TLS_COMMAND :: "string \<times> string" where
  "ZK_SERVER_STATE_TLS_COMMAND = (''echo mntr | openssl s_client -crlf -quiet -connect '',
     '' -cert /tls/tls.crt -key /tls/tls.key -CAfile /tls/ca.crt | grep zk_server_state'')"

definition get_server_state :: "'w mon_sys \<Rightarrow> string \<Rightarrow> 'w \<Rightarrow> string \<times> 'w" where
  "get_server_state c server_address w =
     (let formatted_command = (if use_ssl c then ZK_SERVER_STATE_TLS_COMMAND else ZK_SERVER_STATE_NON_TLS_COMMAND)
      in case shell_run c (format1 formatted_command (clean_server server_address)) w of
           (Inl _, w1) \<Rightarrow> (''NA'', w1)
         | (Inr (returncode, stdout), w1) \<Rightarrow>
             (if returncode = 0 \<and> stdout \<noteq> [] \<and> length (py_words stdout) \<ge> 2
              then strip (last (py_words stdout)) else ''NA'', w1))"

definition strip_quotes :: "string \<Rightarrow> string" where
  "strip_quotes s = rev (dropWhile (\<lambda>ch. ch = CHR 0x27) (rev (dropWhile (\<lambda>ch. ch = CHR 0x27) s)))"

definition hostname :: "string \<Rightarrow> string" where
  "hostname host = hd (Split (CHR '':'') (strip_quotes host))"

primrec server_states :: "'w mon_sys \<Rightarrow> string list \<Rightarrow> 'w \<Rightarrow> (string \<times> string) list \<times> 'w" where
  "server_states c [] w = ([], w)"
| "server_states c (host # hosts) w =
     (case get_server_state c host w of (server_info, w1) \<Rightarrow>
      case server_states c hosts w1 of (results, w2) \<Rightarrow> ((hostname host, server_info) # results, w2))"

definition get_leader_node :: "'w mon_sys \<Rightarrow> string list \<Rightarrow> 'w \<Rightarrow> string \<times> 'w" where
  "get_leader_node c zookeeper_hosts w =
     (case server_states c zookeeper_hosts w of (results, w1) \<Rightarrow>
      (case map fst (filter (\<lambda>(host, state). state = ''leader'') results) of
         [leader] \<Rightarrow> leader | _ \<Rightarrow> ''NA'', w1))"

definition health_line :: "string \<Rightarrow> int \<Rightarrow> int \<Rightarrow> int \<Rightarrow> string" where
  "health_line leader_name status_code alive_nodes total_nodes =
     ''zookeeper,leader='' @ leader_name @ '' status_code='' @ Itoa status_code @ '',alive_nodes='' @
     Itoa alive_nodes @ '',total_nodes='' @ Itoa total_nodes"

definition collect_health_metrics :: "'w mon_sys \<Rightarrow> string \<Rightarrow> 'w \<Rightarrow> string \<times> 'w" where
  "collect_health_metrics c servers w =
     (let servers_list = Split (CHR '','') servers;
          formatted_command = (if use_ssl c then m_tls_formatted_command else non_encrypted_formatted_command)
      in case get_number_of_alive_nodes c servers_list formatted_command w of (alive_nodes, w1) \<Rightarrow>
         let total_nodes = int (length servers_list);
             status_code = get_status_code alive_nodes total_nodes
         in case get_leader_node c servers_list w1 of (leader_name, w2) \<Rightarrow>
            (health_line leader_name status_code alive_nodes total_nodes, w2))"

definition no_split :: "('w, 'a) py" where
  "no_split = praise (Exception ''NoneType object has no attribute split'')"

definition health_metric_run :: "'w mon_sys \<Rightarrow> ('w, string) py" where
  "health_metric_run c = (case m_getenv c ''ZOOKEEPER_HOST'' of
     None \<Rightarrow> no_split
   | Some servers \<Rightarrow> (\<lambda>w. case collect_health_metrics c servers w of (message, w1) \<Rightarrow> (Inr message, w1)))"

section \<open>Volumes and version\<close>

primrec pv_tags :: "int \<Rightarrow> string list \<Rightarrow> string list" where
  "pv_tags i [] = []"
| "pv_tags i (pv_name # rest) = (''zk_pv_name'' @ Itoa i @ ''='' @ pv_name) # pv_tags (i + 1) rest"

definition prepare_zookeeper_pv_list :: "string list \<Rightarrow> string" where
  "prepare_zookeeper_pv_list pv_names = Join (pv_tags 1 pv_names) '',''"

definition collect_pv_metrics :: "string option \<Rightarrow> string" where
  "collect_pv_metrics pv_names =
     (let pv_names_list = (if truthy pv_names then Split (CHR '','') (the pv_names) else [''empty''])
      in ''zookeeper_ext,'' @ prepare_zookeeper_pv_list pv_names_list @ '' pv_count='' @
         Itoa (int (length pv_names_list)))"

definition zk_project_info_run :: "'w mon_sys \<Rightarrow> string" where
  "zk_project_info_run c = collect_pv_metrics (m_getenv c ''ZOOKEEPER_PV_NAMES'')"

definition is_dec :: "char \<Rightarrow> bool" where
  "is_dec ch \<longleftrightarrow> ch \<in> set ''0123456789''"

text \<open>Three numbers with dots between them at the start of a text; the search looks for the first place.\<close>

definition match_version :: "string \<Rightarrow> string option" where
  "match_version s =
     (let a = takeWhile is_dec s; s1 = dropWhile is_dec s in
      if a = [] \<or> \<not> startswith ''.'' s1 then None
      else let b = takeWhile is_dec (tl s1); s2 = dropWhile is_dec (tl s1) in
      if b = [] \<or> \<not> startswith ''.'' s2 then None
      else let d = takeWhile is_dec (tl s2) in
      if d = [] then None else Some (a @ ''.'' @ b @ ''.'' @ d))"

primrec search_version :: "string \<Rightarrow> string option" where
  "search_version [] = None"
| "search_version (ch # s) = (case match_version (ch # s) of Some v \<Rightarrow> Some v | None \<Rightarrow> search_version s)"

primrec version_in_lines :: "string list \<Rightarrow> string option" where
  "version_in_lines [] = None"
| "version_in_lines (line # lines) =
     (if startswith ''zk_version'' line
      then case search_version line of Some v \<Rightarrow> Some v | None \<Rightarrow> version_in_lines lines
      else version_in_lines lines)"

definition version_commands :: "'w mon_sys \<Rightarrow> string \<times> string" where
  "version_commands c =
     (if use_ssl c then (''echo mntr | openssl s_client -crlf -quiet -connect '',
        '' -cert /tls/tls.crt -key /tls/tls.key -CAfile /tls/ca.crt'')
      else (''echo mntr | nc '', '' 2181''))"

definition get_zk_version :: "'w mon_sys \<Rightarrow> string \<Rightarrow> ('w, string option) py" where
  "get_zk_version c server =
     pbind (shell_run c (format1 (version_commands c) server)) (\<lambda>(returncode, stdout).
     pret (version_in_lines (Split (CHR 0x0A) (strip stdout))))"

definition collect_version_metrics :: "'w mon_sys \<Rightarrow> string \<Rightarrow> ('w, string) py" where
  "collect_version_metrics c servers =
     pbind (get_zk_version c (clean_server (hd (Split (CHR '','') servers)))) (\<lambda>version.
     pret (''zookeeper,version='' @ (case version of None \<Rightarrow> ''None'' | Some v \<Rightarrow> v) @ '' version=1''))"

definition version_info_run :: "'w mon_sys \<Rightarrow> ('w, string) py" where
  "version_info_run c = (case m_getenv c ''ZOOKEEPER_HOST'' of
     None \<Rightarrow> no_split | Some servers \<Rightarrow> collect_version_metrics c servers)"

section \<open>Backups\<close>

fun json_truthy :: "json \<Rightarrow> bool" where
  "json_truthy JNone = False"
| "json_truthy (JBool b) = b"
| "json_truthy (JInt n) = (n \<noteq> 0)"
| "json_truthy (JStr s) = (s \<noteq> [])"
| "json_truthy (JList xs) = (xs \<noteq> [])"
| "json_truthy (JDict m) = (m \<noteq> [])"

text \<open>\<^verbatim>\<open>d[key]\<close> and \<^verbatim>\<open>d.get(key, default)\<close>\<close>

fun jget :: "json \<Rightarrow> string \<Rightarrow> py_exn + json" where
  "jget (JDict m) key = (case map_of m key of Some v \<Rightarrow> Inr v | None \<Rightarrow> Inl (Exception key))"
| "jget _ key = Inl (Exception ''indices must be integers'')"

fun jget_default :: "json \<Rightarrow> string \<Rightarrow> json \<Rightarrow> py_exn + json" where
  "jget_default (JDict m) key d = Inr (case map_of m key of Some v \<Rightarrow> v | None \<Rightarrow> d)"
| "jget_default _ key d = Inl (Exception ''object has no attribute get'')"

text \<open>The number a value is in a comparison with an integer.\<close>

fun number_of :: "json \<Rightarrow> int option" where
  "number_of (JInt n) = Some n"
| "number_of (JBool b) = Some (if b then 1 else 0)"
| "number_of _ = None"

definition mon_get_env_or_file :: "'w mon_sys \<Rightarrow> string \<Rightarrow> ('w, string option) py" where
  "mon_get_env_or_file c name =
     (let secrets_dir = (case m_getenv c ''MONITORING_SECRETS_DIR'' of
            None \<Rightarrow> ''/etc/secrets/monitoring-pod-secrets'' | Some d \<Rightarrow> d);
          default_file_path = path_join secrets_dir name in
      pbind (pgets (m_isfile c default_file_path)) (\<lambda>is_file.
      if is_file then pbind (m_read_secret c default_file_path) (\<lambda>text. pret (Some (strip text)))
      else pret (m_getenv c name)))"

definition BACKUP_DAEMON_TLS_ENABLED :: "'w mon_sys \<Rightarrow> bool" where
  "BACKUP_DAEMON_TLS_ENABLED c = (case m_getenv c ''BACKUP_DAEMON_TLS_ENABLED'' of
     None \<Rightarrow> False | Some v \<Rightarrow> v \<noteq> [] \<and> str2bool v)"

text \<open>The certificate to verify with; without TLS the value \<^verbatim>\<open>True\<close>, here \<open>None\<close>.\<close>

definition TLS_ROOT_CA_CERTIFICATE :: "'w mon_sys \<Rightarrow> string option" where
  "TLS_ROOT_CA_CERTIFICATE c = (if BACKUP_DAEMON_TLS_ENABLED c then Some ''/tls/backup/ca.crt'' else None)"

text \<open>\<^verbatim>\<open>requests.get\<close> as both places of the script call it.\<close>

definition daemon_get :: "'w mon_sys \<Rightarrow> string \<Rightarrow> ('w, int \<times> (py_exn + json)) py" where
  "daemon_get c url =
     pbind (mon_get_env_or_file c ''ZOOKEEPER_BACKUP_DAEMON_USERNAME'') (\<lambda>username.
     pbind (mon_get_env_or_file c ''ZOOKEEPER_BACKUP_DAEMON_PASSWORD'') (\<lambda>password.
     http_get c url (username, password) (TLS_ROOT_CA_CERTIFICATE c)))"

definition get_request_with_path :: "'w mon_sys \<Rightarrow> string \<Rightarrow> string \<Rightarrow> 'w \<Rightarrow> json \<times> 'w" where
  "get_request_with_path c url path w =
     (case daemon_get c (url @ ''/'' @ path) w of
        (Inr (_, Inr j), w') \<Rightarrow> (j, w')
      | (_, w') \<Rightarrow> (JStr '''', w'))"

definition get_backup_daemon_status_code :: "json \<Rightarrow> int" where
  "get_backup_daemon_status_code status =
     (if status = JStr ''UP'' then 0 else if status = JStr ''Warning'' then 3 else -1)"

definition get_backup_status_code :: "json \<Rightarrow> int" where
  "get_backup_status_code status =
     (if status = JStr ''Successful'' then 1 else if status = JStr ''Processing'' then 2
      else if status = JStr ''Queued'' then 3 else if status = JStr ''Failed'' then 4 else -1)"

definition get_storage_code :: "string \<Rightarrow> int" where
  "get_storage_code storage_type =
     (if storage_type = ''fs'' then 1 else if storage_type = ''s3'' then 2 else -1)"

definition collect_status_metrics :: "json \<Rightarrow> py_exn + string" where
  "collect_status_metrics health = (case jget health ''status'' of
     Inl e \<Rightarrow> Inl e
   | Inr status \<Rightarrow> Inr (''zookeeper_backup_metric status='' @ Itoa (get_backup_daemon_status_code status)))"

definition collect_storage_metrics :: "'w mon_sys \<Rightarrow> json \<Rightarrow> ('w, string) py" where
  "collect_storage_metrics c storage =
     (let s3 = str2bool (case m_getenv c ''S3_ENABLED'' of None \<Rightarrow> ''false'' | Some v \<Rightarrow> v);
          storage_code = get_storage_code (if s3 then ''s3'' else ''fs'') in
      pbind (plift (jget_default storage ''total_space'' (JInt 0))) (\<lambda>storage_size.
      pbind (plift (jget_default storage ''free_space'' (JInt 0))) (\<lambda>storage_free_space.
      pbind (plift (jget storage ''dump_count'')) (\<lambda>available_backups_count.
      pret (''zookeeper_backup_metric storage_size='' @ show_json c storage_size @ '',storage_free_space='' @
        show_json c storage_free_space @ '',storage_type='' @ Itoa storage_code @ '',backups_count='' @
        show_json c available_backups_count)))))"

text \<open>\<^verbatim>\<open>response.json().get('status') or 'Failed'\<close>\<close>

definition reported_status :: "json \<Rightarrow> py_exn + json" where
  "reported_status j = (case jget_default j ''status'' JNone of
     Inl e \<Rightarrow> Inl e | Inr s \<Rightarrow> Inr (if json_truthy s then s else JStr ''Failed''))"

definition last_backup_status :: "'w mon_sys \<Rightarrow> string \<Rightarrow> json \<Rightarrow> json \<Rightarrow> ('w, json) py" where
  "last_backup_status c url last_backup last_backup_id =
     pbind (plift (jget last_backup ''failed'')) (\<lambda>failed.
     pbind (daemon_get c (url @ ''/jobstatus/'' @ show_json c last_backup_id)) (\<lambda>(status_code, answer).
     if status_code \<noteq> 404 then pbind (plift answer) (\<lambda>j. plift (reported_status j))
     else pret (JStr (if json_truthy failed then ''Failed'' else ''Successful''))))"

definition collect_last_backup_metrics :: "'w mon_sys \<Rightarrow> string \<Rightarrow> json \<Rightarrow> ('w, string) py" where
  "collect_last_backup_metrics c url storage =
     pbind (plift (jget storage ''dump_count'')) (\<lambda>dump_count.
     if json_truthy dump_count
     then pbind (plift (jget storage ''last'')) (\<lambda>last_backup.
          pbind (plift (jget last_backup ''id'')) (\<lambda>last_backup_id.
          pbind (plift (jget last_backup ''ts'')) (\<lambda>last_backup_time.
          pbind (plift (jget last_backup ''metrics'')) (\<lambda>last_backup_metrics.
          pbind (plift (jget last_backup_metrics ''size'')) (\<lambda>last_backup_size.
          pbind (plift (jget last_backup_metrics ''spent_time'')) (\<lambda>last_backup_spent_time.
          pbind (last_backup_status c url last_backup last_backup_id) (\<lambda>status.
          pret (''zookeeper_backup_metric last_backup_time='' @ show_json c last_backup_time @
            '',last_backup_status='' @ Itoa (get_backup_status_code status) @ '',last_backup_size='' @
            show_json c last_backup_size @ '',last_backup_spent_time='' @ show_json c last_backup_spent_time))))))))
     else pret ''zookeeper_backup_metric last_backup_time=-1,last_backup_status=-1'')"

text \<open>The items a \<^verbatim>\<open>for\<close> loop sees.\<close>

fun json_items :: "json \<Rightarrow> py_exn + json list" where
  "json_items (JList xs) = Inr xs"
| "json_items (JStr s) = Inr (map (\<lambda>ch. JStr [ch]) s)"
| "json_items (JDict m) = Inr (map (JStr \<circ> fst) m)"
| "json_items _ = Inl (Exception ''object is not iterable'')"

primrec successful_loop :: "'w mon_sys \<Rightarrow> string \<Rightarrow> json list \<Rightarrow> int \<times> json \<Rightarrow> ('w, int \<times> json) py" where
  "successful_loop c url [] acc = pret acc"
| "successful_loop c url (backup # rest) acc = (\<lambda>w.
     case get_request_with_path c url (''listbackups/'' @ show_json c backup) w of (info, w1) \<Rightarrow>
     pbind (plift (jget info ''failed'')) (\<lambda>failed.
     if \<not> json_truthy failed
     then pbind (plift (jget_default info ''ts'' (JInt (-1)))) (\<lambda>ts.
          case (number_of ts, number_of (snd acc)) of
            (Some backup_time, Some last_time) \<Rightarrow>
              successful_loop c url rest (fst acc + 1, if backup_time > last_time then ts else snd acc)
          | _ \<Rightarrow> praise (Exception ''not supported between instances''))
     else successful_loop c url rest acc) w1)"

definition get_successful_backups_info :: "'w mon_sys \<Rightarrow> string \<Rightarrow> json \<Rightarrow> ('w, int \<times> json) py" where
  "get_successful_backups_info c url storage = (\<lambda>w.
     case get_request_with_path c url ''listbackups'' w of (backups_list, w1) \<Rightarrow>
     pbind (plift (json_items backups_list)) (\<lambda>backups.
     pbind (successful_loop c url backups (0, JInt (-1))) (\<lambda>(count, last_time).
     if last_time = JInt (-1)
     then pbind (plift (jget_default storage ''lastSuccessful'' (JDict []))) (\<lambda>ls.
          pbind (plift (jget_default ls ''ts'' (JInt (-1)))) (\<lambda>ts. pret (count, ts)))
     else pret (count, last_time))) w1)"

definition collect_successful_backups_metrics :: "'w mon_sys \<Rightarrow> string \<Rightarrow> json \<Rightarrow> ('w, string) py" where
  "collect_successful_backups_metrics c url storage =
     pbind (get_successful_backups_info c url storage) (\<lambda>(count, time).
     pret (''zookeeper_backup_metric successful_backups_count='' @ Itoa count @
       '',last_successful_backup_time='' @ show_json c time))"

text \<open>The lines printed, and the exception that ends the script, if any.\<close>

definition collect_backup_metrics :: "'w mon_sys \<Rightarrow> string \<Rightarrow> 'w \<Rightarrow> string list \<times> py_exn option \<times> 'w" where
  "collect_backup_metrics c url w =
     (case get_request_with_path c url ''health'' w of (health, w1) \<Rightarrow>
      if \<not> json_truthy health then ([''zookeeper_backup_metric status=-2''], None, w1)
      else case collect_status_metrics health of
        Inl e \<Rightarrow> ([], Some e, w1)
      | Inr l1 \<Rightarrow>
          (case jget health ''storage'' of
             Inl e \<Rightarrow> ([l1], Some e, w1)
           | Inr storage \<Rightarrow>
               (case collect_storage_metrics c storage w1 of
                  (Inl e, w2) \<Rightarrow> ([l1], Some e, w2)
                | (Inr l2, w2) \<Rightarrow>
                    (case collect_last_backup_metrics c url storage w2 of
                       (Inl e, w3) \<Rightarrow> ([l1, l2], Some e, w3)
                     | (Inr l3, w3) \<Rightarrow>
                         (case collect_successful_backups_metrics c url storage w3 of
                            (Inl e, w4) \<Rightarrow> ([l1, l2, l3], Some e, w4)
                          | (Inr l4, w4) \<Rightarrow> ([l1, l2, l3, l4], None, w4))))))"

definition backup_metric_run :: "'w mon_sys \<Rightarrow> 'w \<Rightarrow> string list \<times> py_exn option \<times> 'w" where
  "backup_metric_run c w =
     (let (protocol, port) = (if BACKUP_DAEMON_TLS_ENABLED c then (''https'', ''8443'') else (''http'', ''8080''))
      in if truthy (m_getenv c ''ZOOKEEPER_BACKUP_DAEMON_HOST'')
         then collect_backup_metrics c
                (protocol @ ''://'' @ the (m_getenv c ''ZOOKEEPER_BACKUP_DAEMON_HOST'') @ '':'' @ port) w
         else ([''zookeeper_backup_metric status=-3''], None, w))"

section \<open>Properties\<close>

definition answers_imok :: "'w mon_sys \<Rightarrow> string \<Rightarrow> 'w \<Rightarrow> bool" where
  "answers_imok c server w \<longleftrightarrow>
     fst (ask_ruok c (if use_ssl c then m_tls_formatted_command else non_encrypted_formatted_command) server w) =
     Inr ''imok''"

definition claims_lead :: "'w mon_sys \<Rightarrow> string \<Rightarrow> 'w \<Rightarrow> bool" where
  "claims_lead c server w \<longleftrightarrow> fst (get_server_state c server w) = ''leader''"

lemma ask_ruok_same:
  assumes "\<forall>args input. snd (Popen_communicate c args input w) = w"
  shows "snd (ask_ruok c formatted_command server w) = w"
  using assms by (simp add: ask_ruok_def pbind_def plift_def split: sum.split)

lemma alive_count:
  assumes "\<forall>args input. snd (Popen_communicate c args input w) = w"
  shows "get_number_of_alive_nodes c servers
      (if use_ssl c then m_tls_formatted_command else non_encrypted_formatted_command) w =
    (int (length (filter (\<lambda>s. answers_imok c s w) servers)), w)"
proof (induction servers)
  case (Cons s ss)
  obtain r where "ask_ruok c (if use_ssl c then m_tls_formatted_command
      else non_encrypted_formatted_command) s w = (r, w)"
    using ask_ruok_same [OF assms] by (metis prod.collapse)
  with Cons.IH show ?case by (cases r) (auto simp: answers_imok_def)
qed simp

lemma server_states_run:
  assumes "\<forall>command. snd (shell_run c command w) = w"
  shows "server_states c hosts w = (map (\<lambda>h. (hostname h, fst (get_server_state c h w))) hosts, w)"
proof (induction hosts)
  case (Cons h hs)
  have "snd (get_server_state c h w) = w"
    using assms by (auto simp: get_server_state_def Let_def split: prod.splits sum.splits) (metis snd_conv)+
  with Cons.IH show ?case by (auto split: prod.splits)
qed simp

lemma status_code_of_counts:
  "a \<le> n \<Longrightarrow> 0 < n \<Longrightarrow>
     get_status_code (int a) (int n) = (if a = n then 0 else if a = 0 then 10 else 5)"
  by (auto simp: get_status_code_def)

text \<open>
  C39. The line of health metrics, for servers whose answers do not change during the run: it counts the servers that answer
  \<^verbatim>\<open>imok\<close>, its status is 0 when all do, 10 when none does and 5 otherwise, and it names the
  leader when exactly one server claims to be it.
\<close>

theorem health_metrics_line:
  assumes "\<forall>args input. snd (Popen_communicate c args input w) = w"
    and "\<forall>command. snd (shell_run c command w) = w"
  shows "let ss = Split (CHR '','') servers;
      alive = length (filter (\<lambda>s. answers_imok c s w) ss);
      leaders = filter (\<lambda>s. claims_lead c s w) ss
    in collect_health_metrics c servers w =
       (health_line (case leaders of [l] \<Rightarrow> hostname l | _ \<Rightarrow> ''NA'')
          (if alive = length ss then 0 else if alive = 0 then 10 else 5) (int alive) (int (length ss)), w)"
proof -
  let ?ss = "Split (CHR '','') servers"
  let ?alive = "length (filter (\<lambda>s. answers_imok c s w) ?ss)"
  have code: "get_status_code (int ?alive) (int (length ?ss)) =
      (if ?alive = length ?ss then 0 else if ?alive = 0 then 10 else 5)"
    by (rule status_code_of_counts) (simp_all add: Split_nonempty)
  have "map fst (filter (\<lambda>(host, state). state = ''leader'')
      (map (\<lambda>h. (hostname h, fst (get_server_state c h w))) ?ss)) =
      map hostname (filter (\<lambda>s. claims_lead c s w) ?ss)"
    by (simp add: filter_map comp_def claims_lead_def)
  then have "get_leader_node c ?ss w =
      (case filter (\<lambda>s. claims_lead c s w) ?ss of [l] \<Rightarrow> hostname l | _ \<Rightarrow> ''NA'', w)"
    by (auto simp: get_leader_node_def server_states_run [OF assms(2)] split: list.splits)
  then show ?thesis
    by (simp add: collect_health_metrics_def Let_def alive_count [OF assms(1)] code)
qed

lemma successful_loop_run:
  assumes "\<forall>b \<in> set bs. daemon_get c (url @ ''/'' @ ''listbackups/'' @ show_json c b) w =
      (Inr (200, Inr (JDict [(''failed'', JBool (bad b)), (''ts'', JInt (ts b))])), w)"
  shows "successful_loop c url bs (n, JInt m) w =
    (Inr (n + int (length (filter (\<lambda>b. \<not> bad b) bs)), JInt (fold max (map ts (filter (\<lambda>b. \<not> bad b) bs)) m)), w)"
  using assms
proof (induction bs arbitrary: n m)
  case (Cons b bs)
  have "get_request_with_path c url (''listbackups/'' @ show_json c b) w =
      (JDict [(''failed'', JBool (bad b)), (''ts'', JInt (ts b))], w)"
    using Cons.prems by (simp add: get_request_with_path_def)
  with Cons show ?case by (simp add: pbind_def plift_def max_def)
qed simp

text \<open>
  The metrics of the successful backups: when the backup daemon lists its backups and describes each,
  their number is the number of backups that did not fail, and the time is the latest of theirs.
\<close>

theorem successful_backups_counted:
  assumes "daemon_get c (url @ ''/listbackups'') w = (Inr (200, Inr (JList bs)), w)"
    and "\<forall>b \<in> set bs. daemon_get c (url @ ''/'' @ ''listbackups/'' @ show_json c b) w =
      (Inr (200, Inr (JDict [(''failed'', JBool (bad b)), (''ts'', JInt (ts b))])), w)"
    and "\<forall>b \<in> set bs. 0 \<le> ts b" and "\<exists>b \<in> set bs. \<not> bad b"
  shows "get_successful_backups_info c url storage w =
    (Inr (int (length (filter (\<lambda>b. \<not> bad b) bs)), JInt (Max (ts ` {b \<in> set bs. \<not> bad b}))), w)"
proof -
  let ?good = "filter (\<lambda>b. \<not> bad b) bs"
  have set: "set (map ts ?good) = ts ` {b \<in> set bs. \<not> bad b}" by auto
  have ne: "map ts ?good \<noteq> []" using assms(4) by (auto simp: filter_empty_conv)
  have pos: "0 \<le> Max (set (map ts ?good))"
    using ne assms(3) by (subst Max_ge_iff) (auto simp: filter_empty_conv)
  have "fold max (map ts ?good) (-1) = Max (insert (-1) (set (map ts ?good)))"
    by (metis Max.set_eq_fold list.simps(15))
  also have "\<dots> = Max (set (map ts ?good))" using pos ne by (subst Max_insert) (simp_all del: set_map)
  finally have m: "fold max (map ts ?good) (-1) = Max (ts ` {b \<in> set bs. \<not> bad b})" unfolding set .
  from successful_loop_run [OF assms(2), of 0 "-1"] m pos [unfolded set] assms(1) show ?thesis
    by (simp add: get_successful_backups_info_def get_request_with_path_def pbind_def plift_def)
qed

section \<open>Witnesses\<close>

definition demo_mon :: "unit mon_sys" where
  "demo_mon =
     \<lparr>m_getenv = (\<lambda>_. None),
      m_isfile = (\<lambda>_ _. False), m_read_secret = (\<lambda>name. praise (OSError name)),
      Popen_communicate = (\<lambda>args input w. (Inr (if args = [''nc'', ''zk-2:2181''] then '''' else ''imok''), w)),
      shell_run = (\<lambda>command w. (Inr (0, if command = ''echo mntr | nc -w 5 zk-1:2181 | grep zk_server_state''
        then ''zk_server_state leader'' else ''zk_server_state follower''), w)),
      http_get = (\<lambda>url auth verify w. (Inr (200, Inr (if url = ''u/listbackups'' then JList [JStr ''x'', JStr ''y'', JStr ''z'']
        else JDict [(''failed'', JBool (url = ''u/listbackups/y'')),
          (''ts'', JInt (if url = ''u/listbackups/x'' then 30 else if url = ''u/listbackups/y'' then 50 else 40))])), w)),
      show_json = (\<lambda>j. case j of JStr s \<Rightarrow> s | _ \<Rightarrow> '''')\<rparr>"

theorem health_metrics_line_witness:
  "collect_health_metrics demo_mon ''zk-1:2181,zk-2:2181'' () =
     (''zookeeper,leader=zk-1 status_code=5,alive_nodes=1,total_nodes=2'', ())"
proof -
  have split: "Split (CHR '','') ''zk-1:2181,zk-2:2181'' = [''zk-1:2181'', ''zk-2:2181'']" by code_simp
  have alive: "answers_imok demo_mon ''zk-1:2181'' ()" "\<not> answers_imok demo_mon ''zk-2:2181'' ()"
    by (code_simp, code_simp)
  have lead: "claims_lead demo_mon ''zk-1:2181'' ()" "\<not> claims_lead demo_mon ''zk-2:2181'' ()"
    by (code_simp, code_simp)
  have line: "health_line (hostname ''zk-1:2181'') 5 1 2 =
      ''zookeeper,leader=zk-1 status_code=5,alive_nodes=1,total_nodes=2''" by code_simp
  have "\<forall>args input. snd (Popen_communicate demo_mon args input ()) = ()"
    "\<forall>command. snd (shell_run demo_mon command ()) = ()" by simp_all
  from health_metrics_line [OF this, of "''zk-1:2181,zk-2:2181''"] alive lead line show ?thesis
    by (simp add: split Let_def)
qed

theorem successful_backups_counted_witness:
  "get_successful_backups_info demo_mon ''u'' JNone () = (Inr (2, JInt 40), ())"
proof -
  let ?bad = "\<lambda>b. b = JStr ''y''"
  let ?ts = "\<lambda>b. if b = JStr ''x'' then 30 else if b = JStr ''y'' then 50 else 40"
  let ?bs = "[JStr ''x'', JStr ''y'', JStr ''z'']"
  have "get_successful_backups_info demo_mon ''u'' JNone () =
      (Inr (int (length (filter (\<lambda>b. \<not> ?bad b) ?bs)), JInt (Max (?ts ` {b \<in> set ?bs. \<not> ?bad b}))), ())"
    by (rule successful_backups_counted)
      (simp_all add: demo_mon_def daemon_get_def mon_get_env_or_file_def pbind_def pgets_def pret_def)
  moreover have "{b \<in> set ?bs. \<not> ?bad b} = {JStr ''x'', JStr ''z''}" by auto
  ultimately show ?thesis by simp
qed

end
