(* ===== verification/GoMemory.thy ===== *)
theory GoMemory
  imports Prelude
begin

text \<open>
  Memory for the deep copies of the API types. A heap is the list of its blocks and an address a position in it; a
  block holds what Go allocates as one piece: a struct behind a pointer, the array of a slice, a map.
  A reading (\<open>look\<close>) of a value follows its references and returns what it means, as a value of the
  types the operator is modelled with, together with the addresses it visited. The locale
  \<open>deep_copier\<close> is the contract of \<^verbatim>\<open>DeepCopyInto\<close>; the lemmas below build copiers from copiers the way the
  generated code does.
\<close>

section \<open>Computations on the heap\<close>

type_synonym addr = nat
type_synonym ('c, 'a) mem = "'c list \<Rightarrow> ('a \<times> 'c list) option"
type_synonym ('c, 'v) look = "'c list \<Rightarrow> ('v \<times> addr list) option"

definition mret :: "'a \<Rightarrow> ('c, 'a) mem" where
  "mret x = (\<lambda>h. Some (x, h))"

definition mbind :: "('c, 'a) mem \<Rightarrow> ('a \<Rightarrow> ('c, 'b) mem) \<Rightarrow> ('c, 'b) mem" where
  "mbind m f = (\<lambda>h. case m h of None \<Rightarrow> None | Some (x, h') \<Rightarrow> f x h')"

definition new_block :: "'c \<Rightarrow> ('c, addr) mem" where
  "new_block x = (\<lambda>h. Some (length h, h @ [x]))"

definition load :: "('c \<Rightarrow> 'a option) \<Rightarrow> addr \<Rightarrow> ('c, 'a) mem" where
  "load sel a = (\<lambda>h. if a < length h then map_option (\<lambda>x. (x, h)) (sel (h ! a)) else None)"

definition store :: "addr \<Rightarrow> 'c \<Rightarrow> ('c, unit) mem" where
  "store a x = (\<lambda>h. if a < length h then Some ((), h[a := x]) else None)"

primrec mmap :: "('a \<Rightarrow> ('c, 'b) mem) \<Rightarrow> 'a list \<Rightarrow> ('c, 'b list) mem" where
  "mmap f [] = mret []"
| "mmap f (x # xs) = mbind (f x) (\<lambda>y. mbind (mmap f xs) (\<lambda>ys. mret (y # ys)))"

lemma mbind_assoc: "mbind (mbind m f) g = mbind m (\<lambda>x. mbind (f x) g)"
  by (rule ext) (simp add: mbind_def split: option.split)

lemma mbind_mret [simp]: "mbind (mret x) f = f x"
  by (rule ext) (simp add: mbind_def mret_def)

section \<open>Readings\<close>

definition lret :: "'v \<Rightarrow> ('c, 'v) look" where
  "lret v = (\<lambda>h. Some (v, []))"

definition lbind :: "('c, 'u) look \<Rightarrow> ('u \<Rightarrow> ('c, 'v) look) \<Rightarrow> ('c, 'v) look" where
  "lbind l f = (\<lambda>h. case l h of
     None \<Rightarrow> None
   | Some (u, A) \<Rightarrow> map_option (\<lambda>(v, B). (v, A @ B)) (f u h))"

definition lblock :: "('c \<Rightarrow> 'a option) \<Rightarrow> addr \<Rightarrow> ('c, 'a) look" where
  "lblock sel a = (\<lambda>h. if a < length h then map_option (\<lambda>x. (x, [a])) (sel (h ! a)) else None)"

primrec lmap :: "('a \<Rightarrow> ('c, 'v) look) \<Rightarrow> 'a list \<Rightarrow> ('c, 'v list) look" where
  "lmap l [] = lret []"
| "lmap l (x # xs) = lbind (l x) (\<lambda>v. lbind (lmap l xs) (\<lambda>vs. lret (v # vs)))"

lemma lbind_assoc: "lbind (lbind l f) g = lbind l (\<lambda>x. lbind (f x) g)"
  by (rule ext) (auto simp: lbind_def map_option_case split: option.split prod.split)

lemma lbind_lret [simp]: "lbind (lret v) f = f v"
  by (rule ext) (auto simp: lbind_def lret_def map_option_case split: option.split)

lemma lbind_eq_Some:
  "lbind l f h = Some (v, A) \<longleftrightarrow> (\<exists>u B C. l h = Some (u, B) \<and> f u h = Some (v, C) \<and> A = B @ C)"
  by (auto simp: lbind_def split: option.splits)

text \<open>A reading depends on the blocks it visits and on no others, and these are allocated.\<close>

definition local :: "('c, 'v) look \<Rightarrow> bool" where
  "local l \<longleftrightarrow> (\<forall>h v A. l h = Some (v, A) \<longrightarrow> (\<forall>a \<in> set A. a < length h) \<and>
     (\<forall>h'. (\<forall>a \<in> set A. a < length h' \<and> h' ! a = h ! a) \<longrightarrow> l h' = Some (v, A)))"

lemma local_allocated: "local l \<Longrightarrow> l h = Some (v, A) \<Longrightarrow> a \<in> set A \<Longrightarrow> a < length h"
  unfolding local_def by blast

lemma local_same:
  "local l \<Longrightarrow> l h = Some (v, A) \<Longrightarrow> (\<And>a. a \<in> set A \<Longrightarrow> a < length h' \<and> h' ! a = h ! a) \<Longrightarrow> l h' = Some (v, A)"
  unfolding local_def by blast

lemma local_extended: "local l \<Longrightarrow> l h = Some (v, A) \<Longrightarrow> l (h @ new) = Some (v, A)"
  by (rule local_same) (auto dest: local_allocated simp: nth_append)

lemma local_lret [intro]: "local (lret v)"
  by (simp add: local_def lret_def)

lemma local_lblock [intro]: "local (lblock sel a)"
  by (auto simp: local_def lblock_def split: if_splits)

lemma local_lbind [intro]:
  assumes "local l" and "\<And>u. local (f u)"
  shows "local (lbind l f)"
  unfolding local_def
proof (intro allI impI)
  fix h v A
  assume "lbind l f h = Some (v, A)"
  then obtain u B C where parts: "l h = Some (u, B)" "f u h = Some (v, C)" "A = B @ C"
    unfolding lbind_eq_Some by blast
  have "lbind l f h' = Some (v, A)" if "\<forall>a \<in> set A. a < length h' \<and> h' ! a = h ! a" for h'
  proof -
    from that parts(3) have "l h' = Some (u, B)" "f u h' = Some (v, C)"
      using local_same [OF assms(1) parts(1), of h'] local_same [OF assms(2) parts(2), of h'] by auto
    with parts(3) show ?thesis unfolding lbind_eq_Some by blast
  qed
  moreover have "\<forall>a \<in> set A. a < length h"
    using parts local_allocated [OF assms(1) parts(1)] local_allocated [OF assms(2) parts(2)] by auto
  ultimately show "(\<forall>a \<in> set A. a < length h) \<and>
      (\<forall>h'. (\<forall>a \<in> set A. a < length h' \<and> h' ! a = h ! a) \<longrightarrow> lbind l f h' = Some (v, A))" by blast
qed

lemma local_lmap [intro]: "(\<And>x. local (l x)) \<Longrightarrow> local (lmap l xs)"
  by (induction xs) auto

section \<open>Deep copies\<close>

text \<open>The writes a program makes through addresses it holds.\<close>

definition writes :: "(addr \<times> 'c) list \<Rightarrow> 'c list \<Rightarrow> 'c list" where
  "writes ws h = fold (\<lambda>(a, x) h. h[a := x]) ws h"

lemma length_writes [simp]: "length (writes ws h) = length h"
  by (induction ws arbitrary: h) (auto simp: writes_def)

lemma writes_elsewhere: "a \<notin> fst ` set ws \<Longrightarrow> writes ws h ! a = h ! a"
proof (induction ws arbitrary: h)
  case (Cons w ws)
  then show ?case by (cases w) (auto simp: writes_def)
qed (simp add: writes_def)

text \<open>
  The contract: on a value that can be read, the copy returns. It changes no block that was there. The
  copy reads as the same value, and its blocks are new and all different.
\<close>

definition fresh_copy :: "('a \<Rightarrow> ('c, 'v) look) \<Rightarrow> 'v \<Rightarrow> 'c list \<Rightarrow> ('a \<times> 'c list) option \<Rightarrow> bool" where
  "fresh_copy look v h r \<longleftrightarrow> (\<exists>y new B. r = Some (y, h @ new) \<and> look y (h @ new) = Some (v, B) \<and>
     set B \<subseteq> {length h ..< length h + length new} \<and> distinct B)"

locale deep_copier =
  fixes copy :: "'a \<Rightarrow> ('c, 'a) mem" and look :: "'a \<Rightarrow> ('c, 'v) look"
  assumes local_look: "local (look x)"
    and copies: "look x h = Some (v, A) \<Longrightarrow> fresh_copy look v h (copy x h)"
begin

lemma copied:
  assumes "look x h = Some (v, A)"
  obtains y new B where "copy x h = Some (y, h @ new)" "look y (h @ new) = Some (v, B)"
    "set B \<subseteq> {length h ..< length h + length new}" "distinct B"
  using copies [OF assms] unfolding fresh_copy_def by blast

text \<open>Nothing that is written through the copy is seen through the original, and the other way round.\<close>

lemma isolated:
  assumes "look x h = Some (v, A)"
  shows "\<exists>y h' B. copy x h = Some (y, h') \<and> look y h' = Some (v, B) \<and> look x h' = Some (v, A) \<and>
    set A \<inter> set B = {} \<and>
    (\<forall>ws. fst ` set ws \<subseteq> set B \<longrightarrow> look x (writes ws h') = Some (v, A)) \<and>
    (\<forall>ws. fst ` set ws \<subseteq> set A \<longrightarrow> look y (writes ws h') = Some (v, B))"
proof -
  from copied [OF assms] obtain y new B where
    y: "copy x h = Some (y, h @ new)" "look y (h @ new) = Some (v, B)" and
    B: "set B \<subseteq> {length h ..< length h + length new}" by metis
  have x: "look x (h @ new) = Some (v, A)" using local_extended [OF local_look assms] .
  have A: "a < length h" if "a \<in> set A" for a using local_allocated [OF local_look assms that] .
  have untouched: "look z (writes ws (h @ new)) = Some (v, D)"
    if "look z (h @ new) = Some (v, D)" "fst ` set ws \<inter> set D = {}" for z D ws
  proof (rule local_same [OF local_look that(1)])
    fix a
    assume a: "a \<in> set D"
    with that(2) have "a \<notin> fst ` set ws" by blast
    with local_allocated [OF local_look that(1) a]
    show "a < length (writes ws (h @ new)) \<and> writes ws (h @ new) ! a = (h @ new) ! a"
      by (simp add: writes_elsewhere)
  qed
  have disjoint: "set A \<inter> set B = {}"
  proof (rule ccontr)
    assume "set A \<inter> set B \<noteq> {}"
    then obtain a where "a \<in> set A" "a \<in> set B" by blast
    with A [of a] B show False by auto
  qed
  have "look x (writes ws (h @ new)) = Some (v, A)" if "fst ` set ws \<subseteq> set B" for ws
    using untouched [OF x, of ws] that disjoint by blast
  moreover have "look y (writes ws (h @ new)) = Some (v, B)" if "fst ` set ws \<subseteq> set A" for ws
    using untouched [OF y(2), of ws] that disjoint by blast
  ultimately show ?thesis using y x disjoint by (intro exI conjI allI impI) assumption+
qed

end

section \<open>Copiers from copiers\<close>

text \<open>A value without references.\<close>

lemma deep_plain: "deep_copier mret lret"
  by unfold_locales (rule local_lret, auto simp: fresh_copy_def mret_def lret_def)

text \<open>
  A reference whose block has no references: \<^verbatim>\<open>new\<close> and an assignment, \<^verbatim>\<open>make\<close> and \<^verbatim>\<open>copy\<close> for
  a slice, \<^verbatim>\<open>make\<close> and a loop over all entries for a map. The block is written once, complete.
\<close>

definition copy_block :: "('c \<Rightarrow> 'a option) \<Rightarrow> ('a \<Rightarrow> 'c) \<Rightarrow> addr option \<Rightarrow> ('c, addr option) mem" where
  "copy_block sel mk p = (case p of
     None \<Rightarrow> mret None
   | Some a \<Rightarrow> mbind (load sel a) (\<lambda>x. mbind (new_block (mk x)) (\<lambda>b. mret (Some b))))"

text \<open>
  A reference whose block has references: the block is allocated with the old contents (\<^verbatim>\<open>*out = *in\<close>),
  the copies are made, and the block is left with them.
\<close>

definition copy_into ::
  "('c \<Rightarrow> 'a option) \<Rightarrow> ('a \<Rightarrow> 'c) \<Rightarrow> ('a \<Rightarrow> ('c, 'a) mem) \<Rightarrow> addr option \<Rightarrow> ('c, addr option) mem" where
  "copy_into sel mk c p = (case p of
     None \<Rightarrow> mret None
   | Some a \<Rightarrow>
       mbind (load sel a) (\<lambda>x. mbind (new_block (mk x)) (\<lambda>b. mbind (c x) (\<lambda>y.
       mbind (store b (mk y)) (\<lambda>_. mret (Some b))))))"

definition look_ref :: "('c \<Rightarrow> 'a option) \<Rightarrow> ('a \<Rightarrow> ('c, 'v) look) \<Rightarrow> addr option \<Rightarrow> ('c, 'v option) look" where
  "look_ref sel l p = (case p of
     None \<Rightarrow> lret None
   | Some a \<Rightarrow> lbind (lblock sel a) (\<lambda>x. lbind (l x) (\<lambda>v. lret (Some v))))"

lemma local_look_ref: "(\<And>x. local (l x)) \<Longrightarrow> local (look_ref sel l p)"
  unfolding look_ref_def by (cases p) auto

lemma look_ref_Some:
  "look_ref sel l (Some a) h = Some (w, A) \<longleftrightarrow>
     (\<exists>x v B. a < length h \<and> sel (h ! a) = Some x \<and> l x h = Some (v, B) \<and> w = Some v \<and> A = a # B)"
  by (auto simp: look_ref_def lbind_eq_Some lblock_def lret_def)

lemma deep_into:
  assumes "deep_copier c l" and "\<And>x. sel (mk x) = Some x"
  shows "deep_copier (copy_into sel mk c) (look_ref sel l)"
proof (unfold_locales)
  show "local (look_ref sel l p)" for p
    by (rule local_look_ref) (rule deep_copier.local_look [OF assms(1)])
next
  fix p h w A
  assume look: "look_ref sel l p h = Some (w, A)"
  note loc = deep_copier.local_look [OF assms(1)]
  show "fresh_copy (look_ref sel l) w h (copy_into sel mk c p h)"
  proof (cases p)
    case None
    with look show ?thesis by (auto simp: copy_into_def look_ref_def fresh_copy_def mret_def lret_def)
  next
    case (Some a)
    from look [unfolded Some look_ref_Some] obtain x v A' where
      x: "a < length h" "sel (h ! a) = Some x" "l x h = Some (v, A')" "w = Some v" by blast
    from local_extended [OF loc x(3), of "[mk x]"] have "l x (h @ [mk x]) = Some (v, A')" .
    from deep_copier.copied [OF assms(1) this] obtain y n B where
      y: "c x (h @ [mk x]) = Some (y, (h @ [mk x]) @ n)" "l y ((h @ [mk x]) @ n) = Some (v, B)" and
      B: "set B \<subseteq> {length (h @ [mk x]) ..< length (h @ [mk x]) + length n}" "distinct B" by metis
    let ?h = "h @ mk y # n"
    have "copy_into sel mk c p h = Some (Some (length h), ?h)"
      using x y(1) by (simp add: Some copy_into_def mbind_def load_def new_block_def store_def mret_def)
    moreover have "l y ?h = Some (v, B)"
    proof (rule local_same [OF loc y(2)])
      fix b
      assume "b \<in> set B"
      with B(1) have "length h < b" "b < length h + 1 + length n" by auto
      then show "b < length ?h \<and> ?h ! b = ((h @ [mk x]) @ n) ! b" by (auto simp: nth_append)
    qed
    with x(4) have "look_ref sel l (Some (length h)) ?h = Some (w, length h # B)"
      by (auto simp: look_ref_Some assms(2))
    moreover have "set (length h # B) \<subseteq> {length h ..< length h + length (mk y # n)}"
      "distinct (length h # B)" using B by (fastforce, fastforce)
    ultimately show ?thesis unfolding fresh_copy_def by blast
  qed
qed

lemma deep_block:
  assumes "\<And>x. sel (mk x) = Some x"
  shows "deep_copier (copy_block sel mk) (look_ref sel lret)"
proof (unfold_locales)
  show "local (look_ref sel lret p)" for p by (rule local_look_ref) (rule local_lret)
next
  fix p h w A
  assume look: "look_ref sel lret p h = Some (w, A)"
  show "fresh_copy (look_ref sel lret) w h (copy_block sel mk p h)"
  proof (cases p)
    case None
    with look show ?thesis by (auto simp: copy_block_def look_ref_def fresh_copy_def mret_def lret_def)
  next
    case (Some a)
    from look [unfolded Some look_ref_Some] obtain x where
      x: "a < length h" "sel (h ! a) = Some x" "w = Some x" by (auto simp: lret_def)
    have "copy_block sel mk p h = Some (Some (length h), h @ [mk x])"
      using x by (simp add: Some copy_block_def mbind_def load_def new_block_def mret_def)
    moreover have "look_ref sel lret (Some (length h)) (h @ [mk x]) = Some (w, [length h])"
      using x by (auto simp: look_ref_Some assms lret_def)
    ultimately show ?thesis unfolding fresh_copy_def by fastforce
  qed
qed

text \<open>The elements of an array.\<close>

lemma deep_mmap:
  assumes "deep_copier c l"
  shows "deep_copier (mmap c) (lmap l)"
proof (unfold_locales)
  show "local (lmap l xs)" for xs using deep_copier.local_look [OF assms] by blast
next
  fix xs h vs A
  assume "lmap l xs h = Some (vs, A)"
  then show "fresh_copy (lmap l) vs h (mmap c xs h)"
  proof (induction xs arbitrary: vs A h)
    case Nil
    then show ?case by (auto simp: fresh_copy_def mret_def lret_def)
  next
    case (Cons x xs)
    note loc = deep_copier.local_look [OF assms] local_lmap [OF deep_copier.local_look [OF assms]]
    from Cons.prems obtain v us A1 A2 where
      v: "l x h = Some (v, A1)" "lmap l xs h = Some (us, A2)" "vs = v # us"
      by (auto simp: lbind_eq_Some lret_def)
    from deep_copier.copied [OF assms v(1)] obtain y n B where
      y: "c x h = Some (y, h @ n)" "l y (h @ n) = Some (v, B)"
      "set B \<subseteq> {length h ..< length h + length n}" "distinct B" by metis
    from Cons.IH [OF local_extended [OF loc(2) v(2)], of n] obtain ys n' B' where
      ys: "mmap c xs (h @ n) = Some (ys, (h @ n) @ n')" "lmap l ys ((h @ n) @ n') = Some (us, B')"
      "set B' \<subseteq> {length (h @ n) ..< length (h @ n) + length n'}" "distinct B'"
      unfolding fresh_copy_def by blast
    have "l y ((h @ n) @ n') = Some (v, B)" using local_extended [OF loc(1) y(2)] .
    with ys(2) v(3) have "lmap l (y # ys) (h @ n @ n') = Some (vs, B @ B')"
      by (auto simp: lbind_eq_Some lret_def)
    moreover have "mmap c (x # xs) h = Some (y # ys, h @ n @ n')"
      using y(1) ys(1) by (simp add: mbind_def mret_def)
    moreover have "set (B @ B') \<subseteq> {length h ..< length h + length (n @ n')}" "distinct (B @ B')"
      using y ys by (fastforce, fastforce)
    ultimately show ?case unfolding fresh_copy_def by blast
  qed
qed

text \<open>The kind of a block: a test and the contents.\<close>

definition sel_of :: "('c \<Rightarrow> bool) \<Rightarrow> ('c \<Rightarrow> 'a) \<Rightarrow> 'c \<Rightarrow> 'a option" where
  "sel_of is_kind val x = (if is_kind x then Some (val x) else None)"

text \<open>A slice: nil has no elements.\<close>

definition slice :: "'a list option \<Rightarrow> 'a list" where
  "slice s = (case s of None \<Rightarrow> [] | Some xs \<Rightarrow> xs)"

section \<open>Structs\<close>

text \<open>
  A struct is copied field by field. \<open>copies_as l m L\<close>: the computation \<open>m\<close> copies what \<open>l\<close> reads to something
  that \<open>L\<close> reads; \<open>ensures m P\<close>: what \<open>m\<close> returns has the property \<open>P\<close>. The step copies one field and goes on with the
  rest; at the end the fields are the copies.
\<close>

definition copies_as :: "('c, 'v) look \<Rightarrow> ('c, 'r) mem \<Rightarrow> ('r \<Rightarrow> ('c, 'v) look) \<Rightarrow> bool" where
  "copies_as l m L \<longleftrightarrow> local l \<and> (\<forall>h v A. l h = Some (v, A) \<longrightarrow> fresh_copy L v h (m h))"

definition ensures :: "('c, 'a) mem \<Rightarrow> ('a \<Rightarrow> bool) \<Rightarrow> bool" where
  "ensures m P \<longleftrightarrow> (\<forall>h x h'. m h = Some (x, h') \<longrightarrow> P x)"

lemma ensures_bind: "(\<And>x. ensures (f x) P) \<Longrightarrow> ensures (mbind m f) P"
  unfolding ensures_def mbind_def by (auto split: option.splits)

lemma ensures_ret: "P x \<Longrightarrow> ensures (mret x) P"
  by (simp add: ensures_def mret_def)

lemma deep_copierI: "(\<And>x. copies_as (look x) (copy x) look) \<Longrightarrow> deep_copier copy look"
  by unfold_locales (simp_all add: copies_as_def)

lemma copies_end: "L r = lret v \<Longrightarrow> copies_as (lret v) (mret r) L"
  by (auto simp: copies_as_def fresh_copy_def lret_def mret_def local_lret [unfolded lret_def])

lemma copies_field:
  assumes "deep_copier c l"
    and rest: "\<And>y v. copies_as (k v) (m y) (\<lambda>r. K r v)"
    and kept: "\<And>y. ensures (m y) (\<lambda>r. f r = y)"
  shows "copies_as (lbind (l x) k) (mbind (c x) m) (\<lambda>r. lbind (l (f r)) (K r))"
proof -
  note loc = deep_copier.local_look [OF assms(1)]
  have loc_rest: "local (k v)" for v using rest by (simp add: copies_as_def)
  have "fresh_copy (\<lambda>r. lbind (l (f r)) (K r)) w h (mbind (c x) m h)"
    if "lbind (l x) k h = Some (w, A)" for h w A
  proof -
    from that obtain v A1 A2 where v: "l x h = Some (v, A1)" "k v h = Some (w, A2)"
      by (auto simp: lbind_eq_Some)
    from deep_copier.copied [OF assms(1) v(1)] obtain y n1 B1 where
      y: "c x h = Some (y, h @ n1)" "l y (h @ n1) = Some (v, B1)" and
      B1: "set B1 \<subseteq> {length h ..< length h + length n1}" "distinct B1" by metis
    from local_extended [OF loc_rest v(2)] rest [of v y] obtain r n2 B2 where
      r: "m y (h @ n1) = Some (r, (h @ n1) @ n2)" "K r v ((h @ n1) @ n2) = Some (w, B2)" and
      B2: "set B2 \<subseteq> {length (h @ n1) ..< length (h @ n1) + length n2}" "distinct B2"
      unfolding copies_as_def fresh_copy_def by blast
    from kept [of y] r(1) have "f r = y" unfolding ensures_def by blast
    with local_extended [OF loc y(2), of n2] r(2)
    have "lbind (l (f r)) (K r) (h @ n1 @ n2) = Some (w, B1 @ B2)" by (auto simp: lbind_eq_Some)
    moreover have "mbind (c x) m h = Some (r, h @ n1 @ n2)" using y(1) r(1) by (simp add: mbind_def)
    moreover have "set (B1 @ B2) \<subseteq> {length h ..< length h + length (n1 @ n2)}" "distinct (B1 @ B2)"
      using B1 B2 by (fastforce, fastforce)
    ultimately show ?thesis unfolding fresh_copy_def by blast
  qed
  moreover have "local (lbind (l x) k)" by (rule local_lbind) (rule loc, rule loc_rest)
  ultimately show ?thesis unfolding copies_as_def by blast
qed

text \<open>The kinds of fields: a reference to a plain block, to a struct or to an array of structs.\<close>

lemma sel_of_mk: "is_kind (mk x) \<Longrightarrow> val (mk x) = x \<Longrightarrow> sel_of is_kind val (mk x) = Some x"
  by (simp add: sel_of_def)

lemmas copies_block = copies_field [OF deep_block]
lemmas copies_into = copies_field [OF deep_into]
lemmas copies_array = copies_field [OF deep_into [OF deep_mmap]]
lemmas copies_fields = copies_end copies_block copies_into copies_array ensures_bind ensures_ret

end
