(* ===== verification/DeepCopyV1.thy ===== *)
theory DeepCopyV1
  imports ApiTypes GoMemory
begin

text \<open>
  \<^verbatim>\<open>operator/api/v1/zz_generated.deepcopy.go\<close> over explicit memory. The rest of the development models the custom
  resource as a value; these copies, which the client library makes of every object it hands out,
      are why that is sound:
  a copy reads as the same value and shares no memory with its original.
\<close>

section \<open>Memory images\<close>

text \<open>The structs as they lie in memory: a slice, a map and a pointer are a reference or nil,
    a struct of a library is
  some \<open>'k\<close>. Structs without references are their own image.\<close>

record SnapshotStorage_m =
  mss_PersistentVolumeType :: string
  mss_PersistentVolumeName :: string
  mss_PersistentVolumeClaimName :: string
  mss_NodeName :: string
  mss_VolumeSize :: string
  mss_PersistentVolumeLabel :: string
  mss_StorageClass :: "addr option"
  mss_NfsServer :: string
  mss_NfsPath :: string

record Storage_m =
  mst_Volumes :: "addr option"
  mst_Nodes :: "addr option"
  mst_Labels :: "addr option"
  mst_ClassName :: "addr option"
  mst_Size :: string

record Ssl_m =
  mssl_CipherSuites :: "addr option"
  mssl_EnableTwoWaySsl :: bool
  mssl_AllowNonencryptedAccess :: bool

record PVCMetadata_m =
  mpvcm_Annotations :: "addr option"

record PVC_m =
  mpvcc_PVCMetadata :: PVCMetadata_m

record Global_m =
  mg_WaitForPodsReady :: bool
  mg_PodsReadyTimeout :: int
  mg_CustomLabels :: "addr option"
  mg_DefaultLabels :: "addr option"
  mg_ZooKeeperSsl :: ZooKeeperSsl
  mg_PVC :: PVC_m

record 'k BackupDaemon_m =
  mbd_DockerImage :: string
  mbd_Affinity :: 'k
  mbd_Tolerations :: "addr option"
  mbd_PriorityClassName :: string
  mbd_BackupStorage :: SnapshotStorage_m
  mbd_Resources :: 'k
  mbd_BackupSchedule :: string
  mbd_S3 :: "addr option"
  mbd_EvictionPolicy :: string
  mbd_IPv6 :: bool
  mbd_ZooKeeperHost :: string
  mbd_ZooKeeperPort :: int
  mbd_SecretName :: string
  mbd_SecurityContext :: 'k
  mbd_CustomLabels :: "addr option"
  mbd_BackupDaemonSsl :: BackupDaemonSsl

record 'k Monitoring_m =
  mmon_DockerImage :: string
  mmon_Affinity :: 'k
  mmon_Tolerations :: "addr option"
  mmon_PriorityClassName :: string
  mmon_Resources :: 'k
  mmon_MonitoringType :: string
  mmon_ZooKeeperHost :: string
  mmon_ZooKeeperBackupDaemonHost :: string
  mmon_SecretName :: string
  mmon_ZooKeeperJolokiaPort :: int32
  mmon_SecurityContext :: 'k
  mmon_CustomLabels :: "addr option"
  mmon_ZooKeeperVolumes :: string
  mmon_NeedToCleanInfluxDb :: bool
  mmon_SmDbHost :: string
  mmon_SmDbName :: string

record SecretPaths_m =
  mpaths_Monitoring :: "addr option"

record VaultSecretManagement_m =
  mvsm_DockerImage :: string
  mvsm_Enabled :: bool
  mvsm_Path :: string
  mvsm_Url :: string
  mvsm_Role :: string
  mvsm_Method :: string
  mvsm_PasswordGenerationMechanism :: string
  mvsm_WritePolicies :: bool
  mvsm_SecretPaths :: SecretPaths_m

record 'k ZooKeeper_m =
  mzk_DockerImage :: string
  mzk_Affinity :: 'k
  mzk_Tolerations :: "addr option"
  mzk_PriorityClassName :: string
  mzk_Replicas :: int
  mzk_Storage :: Storage_m
  mzk_SnapshotStorage :: SnapshotStorage_m
  mzk_HeapSize :: int
  mzk_Resources :: 'k
  mzk_SecretName :: string
  mzk_QuorumAuthEnabled :: bool
  mzk_Ssl :: Ssl_m
  mzk_SecurityContext :: 'k
  mzk_JolokiaPort :: int32
  mzk_EnvironmentVariables :: "addr option"
  mzk_RollingUpdate :: bool
  mzk_CustomLabels :: "addr option"
  mzk_Diagnostics :: Diagnostics
  mzk_AuditEnabled :: bool

record ZooKeeperServiceSpec_m =
  mspec_Global :: "addr option"
  mspec_ZooKeeper :: "addr option"
  mspec_Monitoring :: "addr option"
  mspec_BackupDaemon :: "addr option"
  mspec_VaultSecretManagement :: "addr option"
  mspec_IntegrationTests :: "addr option"

record ZooKeeperStatus_m =
  mzs_Servers :: "addr option"

record MonitoringStatus_m =
  mms_Nodes :: "addr option"

record BackupDaemonStatus_m =
  mbs_Nodes :: "addr option"

record PVCStatus_m =
  mpvcs_Annotations :: "addr option"

record VaultSecretManagementStatus_m =
  mvs_SecretVersions :: "addr option"

record ZooKeeperServiceStatus_m =
  mstatus_ZooKeeperStatus :: ZooKeeperStatus_m
  mstatus_MonitoringStatus :: MonitoringStatus_m
  mstatus_BackupDaemonStatus :: BackupDaemonStatus_m
  mstatus_PVCStatus :: PVCStatus_m
  mstatus_VaultSecretManagementStatus :: VaultSecretManagementStatus_m
  mstatus_Conditions :: "addr option"

record 'k ZooKeeperService_m =
  mcr_APIVersion :: string
  mcr_Kind :: string
  mcr_Meta :: 'k
  mcr_Spec :: ZooKeeperServiceSpec_m
  mcr_Status :: ZooKeeperServiceStatus_m

record 'k ZooKeeperServiceList_m =
  msl_APIVersion :: string
  msl_Kind :: string
  msl_Meta :: 'k
  msl_Items :: "addr option"

text \<open>What one block of memory holds.\<close>

datatype 'k block =
    Strings (un_Strings: "string list")
  | Labels (un_Labels: "(string, string) fmap")
  | Versions (un_Versions: "(string, int) fmap")
  | Str (un_Str: string)
  | Conds (un_Conds: "StatusCondition list")
  | Tolerations (un_Tolerations: "'k list")
  | Items (un_Items: "'k ZooKeeperService_m list")
  | Library (un_Library: 'k)
  | B_Diagnostics (un_B_Diagnostics: Diagnostics)
  | B_BackupDaemonSsl (un_B_BackupDaemonSsl: BackupDaemonSsl)
  | B_ZooKeeperSsl (un_B_ZooKeeperSsl: ZooKeeperSsl)
  | B_S3 (un_B_S3: S3)
  | B_IntegrationTests (un_B_IntegrationTests: IntegrationTests)
  | B_StatusCondition (un_B_StatusCondition: StatusCondition)
  | B_SnapshotStorage (un_B_SnapshotStorage: SnapshotStorage_m)
  | B_Storage (un_B_Storage: Storage_m)
  | B_Ssl (un_B_Ssl: Ssl_m)
  | B_PVCMetadata (un_B_PVCMetadata: PVCMetadata_m)
  | B_PVC (un_B_PVC: PVC_m)
  | B_Global (un_B_Global: Global_m)
  | B_BackupDaemon (un_B_BackupDaemon: "'k BackupDaemon_m")
  | B_Monitoring (un_B_Monitoring: "'k Monitoring_m")
  | B_SecretPaths (un_B_SecretPaths: SecretPaths_m)
  | B_VaultSecretManagement (un_B_VaultSecretManagement: VaultSecretManagement_m)
  | B_ZooKeeper (un_B_ZooKeeper: "'k ZooKeeper_m")
  | B_ZooKeeperServiceSpec (un_B_ZooKeeperServiceSpec: ZooKeeperServiceSpec_m)
  | B_ZooKeeperStatus (un_B_ZooKeeperStatus: ZooKeeperStatus_m)
  | B_MonitoringStatus (un_B_MonitoringStatus: MonitoringStatus_m)
  | B_BackupDaemonStatus (un_B_BackupDaemonStatus: BackupDaemonStatus_m)
  | B_PVCStatus (un_B_PVCStatus: PVCStatus_m)
  | B_VaultSecretManagementStatus (un_B_VaultSecretManagementStatus: VaultSecretManagementStatus_m)
  | B_ZooKeeperServiceStatus (un_B_ZooKeeperServiceStatus: ZooKeeperServiceStatus_m)
  | B_ZooKeeperService (un_B_ZooKeeperService: "'k ZooKeeperService_m")
  | B_ZooKeeperServiceList (un_B_ZooKeeperServiceList: "'k ZooKeeperServiceList_m")

text \<open>
  The copies of the structs from the Kubernetes libraries (affinity, tolerations, resources, security context,
      metadata)
  and how their images are read. \<open>kube_documented\<close>: these copies are deep,
      as their documentation says.
\<close>

record 'k kube =
  Affinity_Into :: "'k \<Rightarrow> ('k block, 'k) mem"
  look_Affinity :: "'k \<Rightarrow> ('k block, Affinity) look"
  Toleration_Into :: "'k \<Rightarrow> ('k block, 'k) mem"
  look_Toleration :: "'k \<Rightarrow> ('k block, toleration) look"
  Resources_Into :: "'k \<Rightarrow> ('k block, 'k) mem"
  look_Resources :: "'k \<Rightarrow> ('k block, resource_requirements) look"
  SecurityContext_Into :: "'k \<Rightarrow> ('k block, 'k) mem"
  look_SecurityContext :: "'k \<Rightarrow> ('k block, pod_security_context) look"
  ObjectMeta_Into :: "'k \<Rightarrow> ('k block, 'k) mem"
  look_ObjectMeta :: "'k \<Rightarrow> ('k block, ObjectMeta) look"
  ListMeta_Into :: "'k \<Rightarrow> ('k block, 'k) mem"
  look_ListMeta :: "'k \<Rightarrow> ('k block, list_meta) look"

definition kube_documented :: "'k kube \<Rightarrow> bool" where
  "kube_documented K \<longleftrightarrow>
     deep_copier (Affinity_Into K) (look_Affinity K) \<and>
     deep_copier (Toleration_Into K) (look_Toleration K) \<and>
     deep_copier (Resources_Into K) (look_Resources K) \<and>
     deep_copier (SecurityContext_Into K) (look_SecurityContext K) \<and>
     deep_copier (ObjectMeta_Into K) (look_ObjectMeta K) \<and>
     deep_copier (ListMeta_Into K) (look_ListMeta K)"

lemma kube_deep:
  assumes "kube_documented K"
  shows "deep_copier (Affinity_Into K) (look_Affinity K)"
    and "deep_copier (Toleration_Into K) (look_Toleration K)"
    and "deep_copier (Resources_Into K) (look_Resources K)"
    and "deep_copier (SecurityContext_Into K) (look_SecurityContext K)"
    and "deep_copier (ObjectMeta_Into K) (look_ObjectMeta K)"
    and "deep_copier (ListMeta_Into K) (look_ListMeta K)"
  using assms by (simp_all add: kube_documented_def)

lemmas kube_fields = kube_deep [THEN copies_field]


text \<open>References to plain blocks.\<close>

abbreviation copy_strings :: "addr option \<Rightarrow> ('k block, addr option) mem" where
  "copy_strings \<equiv> copy_block (sel_of is_Strings un_Strings) Strings"

abbreviation look_strings :: "addr option \<Rightarrow> ('k block, string list option) look" where
  "look_strings \<equiv> look_ref (sel_of is_Strings un_Strings) lret"

abbreviation copy_labels :: "addr option \<Rightarrow> ('k block, addr option) mem" where
  "copy_labels \<equiv> copy_block (sel_of is_Labels un_Labels) Labels"

abbreviation look_labels :: "addr option \<Rightarrow> ('k block, (string, string) fmap option) look" where
  "look_labels \<equiv> look_ref (sel_of is_Labels un_Labels) lret"

abbreviation copy_versions :: "addr option \<Rightarrow> ('k block, addr option) mem" where
  "copy_versions \<equiv> copy_block (sel_of is_Versions un_Versions) Versions"

abbreviation look_versions :: "addr option \<Rightarrow> ('k block, (string, int) fmap option) look" where
  "look_versions \<equiv> look_ref (sel_of is_Versions un_Versions) lret"

abbreviation copy_string :: "addr option \<Rightarrow> ('k block, addr option) mem" where
  "copy_string \<equiv> copy_block (sel_of is_Str un_Str) Str"

abbreviation look_string :: "addr option \<Rightarrow> ('k block, string option) look" where
  "look_string \<equiv> look_ref (sel_of is_Str un_Str) lret"

abbreviation copy_conditions :: "addr option \<Rightarrow> ('k block, addr option) mem" where
  "copy_conditions \<equiv> copy_block (sel_of is_Conds un_Conds) Conds"

abbreviation look_conditions :: "addr option \<Rightarrow> ('k block, StatusCondition list option) look" where
  "look_conditions \<equiv> look_ref (sel_of is_Conds un_Conds) lret"

section \<open>The copies\<close>

text \<open>
  \<^verbatim>\<open>DeepCopyInto\<close> starts with the assignment \<^verbatim>\<open>*out = *in\<close>,
      so the result is the image with the copied references
  replaced. \<^verbatim>\<open>DeepCopy\<close> returns nil for nil, and a new block with the copy otherwise.
\<close>

definition Diagnostics_DeepCopyInto ::
  "Diagnostics \<Rightarrow> ('k block, Diagnostics) mem" where
  "Diagnostics_DeepCopyInto inn = mret inn"

definition Diagnostics_DeepCopy ::
  "addr option \<Rightarrow> ('k block, addr option) mem" where
  "Diagnostics_DeepCopy = copy_into
      (sel_of is_B_Diagnostics un_B_Diagnostics) B_Diagnostics Diagnostics_DeepCopyInto"

definition BackupDaemonSsl_DeepCopyInto ::
  "BackupDaemonSsl \<Rightarrow> ('k block, BackupDaemonSsl) mem" where
  "BackupDaemonSsl_DeepCopyInto inn = mret inn"

definition BackupDaemonSsl_DeepCopy ::
  "addr option \<Rightarrow> ('k block, addr option) mem" where
  "BackupDaemonSsl_DeepCopy = copy_into
      (sel_of is_B_BackupDaemonSsl un_B_BackupDaemonSsl) B_BackupDaemonSsl BackupDaemonSsl_DeepCopyInto"

definition ZooKeeperSsl_DeepCopyInto ::
  "ZooKeeperSsl \<Rightarrow> ('k block, ZooKeeperSsl) mem" where
  "ZooKeeperSsl_DeepCopyInto inn = mret inn"

definition ZooKeeperSsl_DeepCopy ::
  "addr option \<Rightarrow> ('k block, addr option) mem" where
  "ZooKeeperSsl_DeepCopy = copy_into
      (sel_of is_B_ZooKeeperSsl un_B_ZooKeeperSsl) B_ZooKeeperSsl ZooKeeperSsl_DeepCopyInto"

definition S3_DeepCopyInto ::
  "S3 \<Rightarrow> ('k block, S3) mem" where
  "S3_DeepCopyInto inn = mret inn"

definition S3_DeepCopy ::
  "addr option \<Rightarrow> ('k block, addr option) mem" where
  "S3_DeepCopy = copy_into (sel_of is_B_S3 un_B_S3) B_S3 S3_DeepCopyInto"

definition IntegrationTests_DeepCopyInto ::
  "IntegrationTests \<Rightarrow> ('k block, IntegrationTests) mem" where
  "IntegrationTests_DeepCopyInto inn = mret inn"

definition IntegrationTests_DeepCopy ::
  "addr option \<Rightarrow> ('k block, addr option) mem" where
  "IntegrationTests_DeepCopy = copy_into
      (sel_of is_B_IntegrationTests un_B_IntegrationTests) B_IntegrationTests IntegrationTests_DeepCopyInto"

definition StatusCondition_DeepCopyInto ::
  "StatusCondition \<Rightarrow> ('k block, StatusCondition) mem" where
  "StatusCondition_DeepCopyInto inn = mret inn"

definition StatusCondition_DeepCopy ::
  "addr option \<Rightarrow> ('k block, addr option) mem" where
  "StatusCondition_DeepCopy = copy_into
      (sel_of is_B_StatusCondition un_B_StatusCondition) B_StatusCondition StatusCondition_DeepCopyInto"

definition SnapshotStorage_DeepCopyInto ::
  "SnapshotStorage_m \<Rightarrow> ('k block, SnapshotStorage_m) mem" where
  "SnapshotStorage_DeepCopyInto inn =
     mbind (copy_string (mss_StorageClass inn)) (\<lambda>storageClass'.
     mret (inn\<lparr>mss_StorageClass := storageClass'\<rparr>))"

definition look_SnapshotStorage ::
  "SnapshotStorage_m \<Rightarrow> ('k block, SnapshotStorage) look" where
  "look_SnapshotStorage r =
     lbind (look_string (mss_StorageClass r)) (\<lambda>storageClass'.
     lret \<lparr>ss_PersistentVolumeType = mss_PersistentVolumeType r,
       ss_PersistentVolumeName = mss_PersistentVolumeName r,
       ss_PersistentVolumeClaimName = mss_PersistentVolumeClaimName r,
       ss_NodeName = mss_NodeName r, ss_VolumeSize = mss_VolumeSize r,
       ss_PersistentVolumeLabel = mss_PersistentVolumeLabel r, ss_StorageClass = storageClass',
       ss_NfsServer = mss_NfsServer r, ss_NfsPath = mss_NfsPath r\<rparr>)"

definition SnapshotStorage_DeepCopy ::
  "addr option \<Rightarrow> ('k block, addr option) mem" where
  "SnapshotStorage_DeepCopy = copy_into
      (sel_of is_B_SnapshotStorage un_B_SnapshotStorage) B_SnapshotStorage SnapshotStorage_DeepCopyInto"

definition Storage_DeepCopyInto ::
  "Storage_m \<Rightarrow> ('k block, Storage_m) mem" where
  "Storage_DeepCopyInto inn =
     mbind (copy_strings (mst_Volumes inn)) (\<lambda>volumes'.
     mbind (copy_strings (mst_Nodes inn)) (\<lambda>nodes'.
     mbind (copy_strings (mst_Labels inn)) (\<lambda>labels'.
     mbind (copy_strings (mst_ClassName inn)) (\<lambda>className'.
     mret (inn\<lparr>mst_Volumes := volumes', mst_Nodes := nodes', mst_Labels := labels',
       mst_ClassName := className'\<rparr>)))))"

definition look_Storage ::
  "Storage_m \<Rightarrow> ('k block, Storage) look" where
  "look_Storage r =
     lbind (look_strings (mst_Volumes r)) (\<lambda>volumes'.
     lbind (look_strings (mst_Nodes r)) (\<lambda>nodes'.
     lbind (look_strings (mst_Labels r)) (\<lambda>labels'.
     lbind (look_strings (mst_ClassName r)) (\<lambda>className'.
     lret \<lparr>st_Volumes = slice volumes', st_Nodes = slice nodes', st_Labels = slice labels',
       st_ClassName = slice className', st_Size = mst_Size r\<rparr>))))"

definition Storage_DeepCopy ::
  "addr option \<Rightarrow> ('k block, addr option) mem" where
  "Storage_DeepCopy = copy_into (sel_of is_B_Storage un_B_Storage) B_Storage Storage_DeepCopyInto"

definition Ssl_DeepCopyInto ::
  "Ssl_m \<Rightarrow> ('k block, Ssl_m) mem" where
  "Ssl_DeepCopyInto inn =
     mbind (copy_strings (mssl_CipherSuites inn)) (\<lambda>cipherSuites'.
     mret (inn\<lparr>mssl_CipherSuites := cipherSuites'\<rparr>))"

definition look_Ssl ::
  "Ssl_m \<Rightarrow> ('k block, Ssl) look" where
  "look_Ssl r =
     lbind (look_strings (mssl_CipherSuites r)) (\<lambda>cipherSuites'.
     lret \<lparr>ssl_CipherSuites = slice cipherSuites', ssl_EnableTwoWaySsl = mssl_EnableTwoWaySsl r,
       ssl_AllowNonencryptedAccess = mssl_AllowNonencryptedAccess r\<rparr>)"

definition Ssl_DeepCopy ::
  "addr option \<Rightarrow> ('k block, addr option) mem" where
  "Ssl_DeepCopy = copy_into (sel_of is_B_Ssl un_B_Ssl) B_Ssl Ssl_DeepCopyInto"

definition PVCMetadata_DeepCopyInto ::
  "PVCMetadata_m \<Rightarrow> ('k block, PVCMetadata_m) mem" where
  "PVCMetadata_DeepCopyInto inn =
     mbind (copy_labels (mpvcm_Annotations inn)) (\<lambda>annotations'.
     mret (inn\<lparr>mpvcm_Annotations := annotations'\<rparr>))"

definition look_PVCMetadata ::
  "PVCMetadata_m \<Rightarrow> ('k block, string gomap) look" where
  "look_PVCMetadata r =
     lbind (look_labels (mpvcm_Annotations r)) (\<lambda>annotations'.
     lret annotations')"

definition PVCMetadata_DeepCopy ::
  "addr option \<Rightarrow> ('k block, addr option) mem" where
  "PVCMetadata_DeepCopy = copy_into
      (sel_of is_B_PVCMetadata un_B_PVCMetadata) B_PVCMetadata PVCMetadata_DeepCopyInto"

definition PVC_DeepCopyInto ::
  "PVC_m \<Rightarrow> ('k block, PVC_m) mem" where
  "PVC_DeepCopyInto inn =
     mbind (PVCMetadata_DeepCopyInto (mpvcc_PVCMetadata inn)) (\<lambda>pVCMetadata'.
     mret (inn\<lparr>mpvcc_PVCMetadata := pVCMetadata'\<rparr>))"

definition look_PVC ::
  "PVC_m \<Rightarrow> ('k block, PVC) look" where
  "look_PVC r =
     lbind (look_PVCMetadata (mpvcc_PVCMetadata r)) (\<lambda>pVCMetadata'.
     lret \<lparr>pvcc_Annotations = pVCMetadata'\<rparr>)"

definition PVC_DeepCopy ::
  "addr option \<Rightarrow> ('k block, addr option) mem" where
  "PVC_DeepCopy = copy_into (sel_of is_B_PVC un_B_PVC) B_PVC PVC_DeepCopyInto"

definition Global_DeepCopyInto ::
  "Global_m \<Rightarrow> ('k block, Global_m) mem" where
  "Global_DeepCopyInto inn =
     mbind (copy_labels (mg_CustomLabels inn)) (\<lambda>customLabels'.
     mbind (copy_labels (mg_DefaultLabels inn)) (\<lambda>defaultLabels'.
     mbind (PVC_DeepCopyInto (mg_PVC inn)) (\<lambda>pVC'.
     mret (inn\<lparr>mg_CustomLabels := customLabels', mg_DefaultLabels := defaultLabels',
         mg_PVC := pVC'\<rparr>))))"

definition look_Global ::
  "Global_m \<Rightarrow> ('k block, Global) look" where
  "look_Global r =
     lbind (look_labels (mg_CustomLabels r)) (\<lambda>customLabels'.
     lbind (look_labels (mg_DefaultLabels r)) (\<lambda>defaultLabels'.
     lbind (look_PVC (mg_PVC r)) (\<lambda>pVC'.
     lret \<lparr>g_WaitForPodsReady = mg_WaitForPodsReady r, g_PodsReadyTimeout = mg_PodsReadyTimeout r,
       g_CustomLabels = customLabels', g_DefaultLabels = defaultLabels',
       g_ZooKeeperSsl = mg_ZooKeeperSsl r, g_PVC = pVC'\<rparr>)))"

definition Global_DeepCopy ::
  "addr option \<Rightarrow> ('k block, addr option) mem" where
  "Global_DeepCopy = copy_into (sel_of is_B_Global un_B_Global) B_Global Global_DeepCopyInto"

definition BackupDaemon_DeepCopyInto ::
  "'k kube \<Rightarrow> 'k BackupDaemon_m \<Rightarrow> ('k block, 'k BackupDaemon_m) mem" where
  "BackupDaemon_DeepCopyInto K inn =
     mbind (Affinity_Into K (mbd_Affinity inn)) (\<lambda>affinity'.
     mbind (copy_into (sel_of is_Tolerations un_Tolerations) Tolerations (mmap (Toleration_Into K))
         (mbd_Tolerations inn)) (\<lambda>tolerations'.
     mbind (SnapshotStorage_DeepCopyInto (mbd_BackupStorage inn)) (\<lambda>backupStorage'.
     mbind (Resources_Into K (mbd_Resources inn)) (\<lambda>resources'.
     mbind (copy_block (sel_of is_B_S3 un_B_S3) B_S3 (mbd_S3 inn)) (\<lambda>s3'.
     mbind (SecurityContext_Into K (mbd_SecurityContext inn)) (\<lambda>securityContext'.
     mbind (copy_labels (mbd_CustomLabels inn)) (\<lambda>customLabels'.
     mret (inn\<lparr>mbd_Affinity := affinity', mbd_Tolerations := tolerations',
       mbd_BackupStorage := backupStorage', mbd_Resources := resources', mbd_S3 := s3',
       mbd_SecurityContext := securityContext', mbd_CustomLabels := customLabels'\<rparr>))))))))"

definition look_BackupDaemon ::
  "'k kube \<Rightarrow> 'k BackupDaemon_m \<Rightarrow> ('k block, BackupDaemon) look" where
  "look_BackupDaemon K r =
     lbind (look_Affinity K (mbd_Affinity r)) (\<lambda>affinity'.
     lbind (look_ref (sel_of is_Tolerations un_Tolerations) (lmap (look_Toleration K)) (mbd_Tolerations r))
         (\<lambda>tolerations'.
     lbind (look_SnapshotStorage (mbd_BackupStorage r)) (\<lambda>backupStorage'.
     lbind (look_Resources K (mbd_Resources r)) (\<lambda>resources'.
     lbind (look_ref (sel_of is_B_S3 un_B_S3) lret (mbd_S3 r)) (\<lambda>s3'.
     lbind (look_SecurityContext K (mbd_SecurityContext r)) (\<lambda>securityContext'.
     lbind (look_labels (mbd_CustomLabels r)) (\<lambda>customLabels'.
     lret \<lparr>bd_DockerImage = mbd_DockerImage r, bd_Affinity = affinity',
       bd_Tolerations = slice tolerations', bd_PriorityClassName = mbd_PriorityClassName r,
       bd_BackupStorage = backupStorage', bd_Resources = resources',
       bd_BackupSchedule = mbd_BackupSchedule r, bd_S3 = s3',
       bd_EvictionPolicy = mbd_EvictionPolicy r, bd_IPv6 = mbd_IPv6 r,
       bd_ZooKeeperHost = mbd_ZooKeeperHost r, bd_ZooKeeperPort = mbd_ZooKeeperPort r,
       bd_SecretName = mbd_SecretName r, bd_SecurityContext = securityContext',
       bd_CustomLabels = customLabels', bd_BackupDaemonSsl = mbd_BackupDaemonSsl r\<rparr>)))))))"

definition BackupDaemon_DeepCopy ::
  "'k kube \<Rightarrow> addr option \<Rightarrow> ('k block, addr option) mem" where
  "BackupDaemon_DeepCopy K = copy_into (sel_of is_B_BackupDaemon un_B_BackupDaemon) B_BackupDaemon
      (BackupDaemon_DeepCopyInto K)"

definition Monitoring_DeepCopyInto ::
  "'k kube \<Rightarrow> 'k Monitoring_m \<Rightarrow> ('k block, 'k Monitoring_m) mem" where
  "Monitoring_DeepCopyInto K inn =
     mbind (Affinity_Into K (mmon_Affinity inn)) (\<lambda>affinity'.
     mbind (copy_into (sel_of is_Tolerations un_Tolerations) Tolerations (mmap (Toleration_Into K))
         (mmon_Tolerations inn)) (\<lambda>tolerations'.
     mbind (Resources_Into K (mmon_Resources inn)) (\<lambda>resources'.
     mbind (SecurityContext_Into K (mmon_SecurityContext inn)) (\<lambda>securityContext'.
     mbind (copy_labels (mmon_CustomLabels inn)) (\<lambda>customLabels'.
     mret (inn\<lparr>mmon_Affinity := affinity', mmon_Tolerations := tolerations',
       mmon_Resources := resources', mmon_SecurityContext := securityContext',
       mmon_CustomLabels := customLabels'\<rparr>))))))"

definition look_Monitoring ::
  "'k kube \<Rightarrow> 'k Monitoring_m \<Rightarrow> ('k block, Monitoring) look" where
  "look_Monitoring K r =
     lbind (look_Affinity K (mmon_Affinity r)) (\<lambda>affinity'.
     lbind (look_ref (sel_of is_Tolerations un_Tolerations) (lmap (look_Toleration K)) (mmon_Tolerations r))
         (\<lambda>tolerations'.
     lbind (look_Resources K (mmon_Resources r)) (\<lambda>resources'.
     lbind (look_SecurityContext K (mmon_SecurityContext r)) (\<lambda>securityContext'.
     lbind (look_labels (mmon_CustomLabels r)) (\<lambda>customLabels'.
     lret \<lparr>mon_DockerImage = mmon_DockerImage r, mon_Affinity = affinity',
       mon_Tolerations = slice tolerations', mon_PriorityClassName = mmon_PriorityClassName r,
       mon_Resources = resources', mon_MonitoringType = mmon_MonitoringType r,
       mon_ZooKeeperHost = mmon_ZooKeeperHost r,
       mon_ZooKeeperBackupDaemonHost = mmon_ZooKeeperBackupDaemonHost r,
       mon_SecretName = mmon_SecretName r, mon_ZooKeeperJolokiaPort = mmon_ZooKeeperJolokiaPort r,
       mon_SecurityContext = securityContext', mon_CustomLabels = customLabels',
       mon_ZooKeeperVolumes = mmon_ZooKeeperVolumes r,
       mon_NeedToCleanInfluxDb = mmon_NeedToCleanInfluxDb r, mon_SmDbHost = mmon_SmDbHost r,
       mon_SmDbName = mmon_SmDbName r\<rparr>)))))"

definition Monitoring_DeepCopy ::
  "'k kube \<Rightarrow> addr option \<Rightarrow> ('k block, addr option) mem" where
  "Monitoring_DeepCopy K = copy_into (sel_of is_B_Monitoring un_B_Monitoring) B_Monitoring
      (Monitoring_DeepCopyInto K)"

definition SecretPaths_DeepCopyInto ::
  "SecretPaths_m \<Rightarrow> ('k block, SecretPaths_m) mem" where
  "SecretPaths_DeepCopyInto inn =
     mbind (copy_labels (mpaths_Monitoring inn)) (\<lambda>monitoring'.
     mret (inn\<lparr>mpaths_Monitoring := monitoring'\<rparr>))"

definition look_SecretPaths ::
  "SecretPaths_m \<Rightarrow> ('k block, SecretPaths) look" where
  "look_SecretPaths r =
     lbind (look_labels (mpaths_Monitoring r)) (\<lambda>monitoring'.
     lret \<lparr>paths_Monitoring = monitoring'\<rparr>)"

definition SecretPaths_DeepCopy ::
  "addr option \<Rightarrow> ('k block, addr option) mem" where
  "SecretPaths_DeepCopy = copy_into
      (sel_of is_B_SecretPaths un_B_SecretPaths) B_SecretPaths SecretPaths_DeepCopyInto"

definition VaultSecretManagement_DeepCopyInto ::
  "VaultSecretManagement_m \<Rightarrow> ('k block, VaultSecretManagement_m) mem" where
  "VaultSecretManagement_DeepCopyInto inn =
     mbind (SecretPaths_DeepCopyInto (mvsm_SecretPaths inn)) (\<lambda>secretPaths'.
     mret (inn\<lparr>mvsm_SecretPaths := secretPaths'\<rparr>))"

definition look_VaultSecretManagement ::
  "VaultSecretManagement_m \<Rightarrow> ('k block, VaultSecretManagement) look" where
  "look_VaultSecretManagement r =
     lbind (look_SecretPaths (mvsm_SecretPaths r)) (\<lambda>secretPaths'.
     lret \<lparr>vsm_DockerImage = mvsm_DockerImage r, vsm_Enabled = mvsm_Enabled r, vsm_Path = mvsm_Path r,
       vsm_Url = mvsm_Url r, vsm_Role = mvsm_Role r, vsm_Method = mvsm_Method r,
       vsm_PasswordGenerationMechanism = mvsm_PasswordGenerationMechanism r,
       vsm_WritePolicies = mvsm_WritePolicies r, vsm_SecretPaths = secretPaths'\<rparr>)"

definition VaultSecretManagement_DeepCopy ::
  "addr option \<Rightarrow> ('k block, addr option) mem" where
  "VaultSecretManagement_DeepCopy = copy_into
      (sel_of is_B_VaultSecretManagement un_B_VaultSecretManagement) B_VaultSecretManagement VaultSecretManagement_DeepCopyInto"

definition ZooKeeper_DeepCopyInto ::
  "'k kube \<Rightarrow> 'k ZooKeeper_m \<Rightarrow> ('k block, 'k ZooKeeper_m) mem" where
  "ZooKeeper_DeepCopyInto K inn =
     mbind (Affinity_Into K (mzk_Affinity inn)) (\<lambda>affinity'.
     mbind (copy_into (sel_of is_Tolerations un_Tolerations) Tolerations (mmap (Toleration_Into K))
         (mzk_Tolerations inn)) (\<lambda>tolerations'.
     mbind (Storage_DeepCopyInto (mzk_Storage inn)) (\<lambda>storage'.
     mbind (SnapshotStorage_DeepCopyInto (mzk_SnapshotStorage inn)) (\<lambda>snapshotStorage'.
     mbind (Resources_Into K (mzk_Resources inn)) (\<lambda>resources'.
     mbind (Ssl_DeepCopyInto (mzk_Ssl inn)) (\<lambda>ssl'.
     mbind (SecurityContext_Into K (mzk_SecurityContext inn)) (\<lambda>securityContext'.
     mbind (copy_strings (mzk_EnvironmentVariables inn)) (\<lambda>environmentVariables'.
     mbind (copy_labels (mzk_CustomLabels inn)) (\<lambda>customLabels'.
     mret (inn\<lparr>mzk_Affinity := affinity', mzk_Tolerations := tolerations', mzk_Storage := storage',
       mzk_SnapshotStorage := snapshotStorage', mzk_Resources := resources', mzk_Ssl := ssl',
       mzk_SecurityContext := securityContext',
       mzk_EnvironmentVariables := environmentVariables', mzk_CustomLabels := customLabels'\<rparr>))))))))))"

definition look_ZooKeeper ::
  "'k kube \<Rightarrow> 'k ZooKeeper_m \<Rightarrow> ('k block, ZooKeeper) look" where
  "look_ZooKeeper K r =
     lbind (look_Affinity K (mzk_Affinity r)) (\<lambda>affinity'.
     lbind (look_ref (sel_of is_Tolerations un_Tolerations) (lmap (look_Toleration K)) (mzk_Tolerations r))
         (\<lambda>tolerations'.
     lbind (look_Storage (mzk_Storage r)) (\<lambda>storage'.
     lbind (look_SnapshotStorage (mzk_SnapshotStorage r)) (\<lambda>snapshotStorage'.
     lbind (look_Resources K (mzk_Resources r)) (\<lambda>resources'.
     lbind (look_Ssl (mzk_Ssl r)) (\<lambda>ssl'.
     lbind (look_SecurityContext K (mzk_SecurityContext r)) (\<lambda>securityContext'.
     lbind (look_strings (mzk_EnvironmentVariables r)) (\<lambda>environmentVariables'.
     lbind (look_labels (mzk_CustomLabels r)) (\<lambda>customLabels'.
     lret \<lparr>zk_DockerImage = mzk_DockerImage r, zk_Affinity = affinity',
       zk_Tolerations = slice tolerations', zk_PriorityClassName = mzk_PriorityClassName r,
       zk_Replicas = mzk_Replicas r, zk_Storage = storage', zk_SnapshotStorage = snapshotStorage',
       zk_HeapSize = mzk_HeapSize r, zk_Resources = resources', zk_SecretName = mzk_SecretName r,
       zk_QuorumAuthEnabled = mzk_QuorumAuthEnabled r, zk_Ssl = ssl',
       zk_SecurityContext = securityContext', zk_JolokiaPort = mzk_JolokiaPort r,
       zk_EnvironmentVariables = slice environmentVariables',
       zk_RollingUpdate = mzk_RollingUpdate r, zk_CustomLabels = customLabels',
       zk_Diagnostics = mzk_Diagnostics r, zk_AuditEnabled = mzk_AuditEnabled r\<rparr>)))))))))"

definition ZooKeeper_DeepCopy ::
  "'k kube \<Rightarrow> addr option \<Rightarrow> ('k block, addr option) mem" where
  "ZooKeeper_DeepCopy K = copy_into (sel_of is_B_ZooKeeper un_B_ZooKeeper) B_ZooKeeper
      (ZooKeeper_DeepCopyInto K)"

definition ZooKeeperServiceSpec_DeepCopyInto ::
  "'k kube \<Rightarrow> ZooKeeperServiceSpec_m \<Rightarrow> ('k block, ZooKeeperServiceSpec_m) mem" where
  "ZooKeeperServiceSpec_DeepCopyInto K inn =
     mbind (copy_into (sel_of is_B_Global un_B_Global) B_Global Global_DeepCopyInto (mspec_Global inn))
         (\<lambda>global'.
     mbind (copy_into (sel_of is_B_ZooKeeper un_B_ZooKeeper) B_ZooKeeper (ZooKeeper_DeepCopyInto K)
         (mspec_ZooKeeper inn)) (\<lambda>zooKeeper'.
     mbind (copy_into (sel_of is_B_Monitoring un_B_Monitoring) B_Monitoring (Monitoring_DeepCopyInto K)
         (mspec_Monitoring inn)) (\<lambda>monitoring'.
     mbind (copy_into (sel_of is_B_BackupDaemon un_B_BackupDaemon) B_BackupDaemon
         (BackupDaemon_DeepCopyInto K) (mspec_BackupDaemon inn)) (\<lambda>backupDaemon'.
     mbind (copy_into
         (sel_of is_B_VaultSecretManagement un_B_VaultSecretManagement) B_VaultSecretManagement VaultSecretManagement_DeepCopyInto (mspec_VaultSecretManagement inn)) (\<lambda>vaultSecretManagement'.
     mbind (copy_block (sel_of is_B_IntegrationTests un_B_IntegrationTests) B_IntegrationTests
         (mspec_IntegrationTests inn)) (\<lambda>integrationTests'.
     mret (inn\<lparr>mspec_Global := global', mspec_ZooKeeper := zooKeeper', mspec_Monitoring := monitoring',
       mspec_BackupDaemon := backupDaemon',
       mspec_VaultSecretManagement := vaultSecretManagement',
       mspec_IntegrationTests := integrationTests'\<rparr>)))))))"

definition look_ZooKeeperServiceSpec ::
  "'k kube \<Rightarrow> ZooKeeperServiceSpec_m \<Rightarrow> ('k block, ZooKeeperServiceSpec) look" where
  "look_ZooKeeperServiceSpec K r =
     lbind (look_ref (sel_of is_B_Global un_B_Global) look_Global (mspec_Global r)) (\<lambda>global'.
     lbind (look_ref (sel_of is_B_ZooKeeper un_B_ZooKeeper) (look_ZooKeeper K) (mspec_ZooKeeper r))
         (\<lambda>zooKeeper'.
     lbind (look_ref (sel_of is_B_Monitoring un_B_Monitoring) (look_Monitoring K) (mspec_Monitoring r))
         (\<lambda>monitoring'.
     lbind (look_ref (sel_of is_B_BackupDaemon un_B_BackupDaemon) (look_BackupDaemon K)
         (mspec_BackupDaemon r)) (\<lambda>backupDaemon'.
     lbind (look_ref (sel_of is_B_VaultSecretManagement un_B_VaultSecretManagement) look_VaultSecretManagement
         (mspec_VaultSecretManagement r)) (\<lambda>vaultSecretManagement'.
     lbind (look_ref (sel_of is_B_IntegrationTests un_B_IntegrationTests) lret (mspec_IntegrationTests r))
         (\<lambda>integrationTests'.
     lret \<lparr>spec_Global = global', spec_ZooKeeper = zooKeeper', spec_Monitoring = monitoring',
       spec_BackupDaemon = backupDaemon', spec_VaultSecretManagement = vaultSecretManagement',
       spec_IntegrationTests = integrationTests'\<rparr>))))))"

definition ZooKeeperServiceSpec_DeepCopy ::
  "'k kube \<Rightarrow> addr option \<Rightarrow> ('k block, addr option) mem" where
  "ZooKeeperServiceSpec_DeepCopy K = copy_into
      (sel_of is_B_ZooKeeperServiceSpec un_B_ZooKeeperServiceSpec) B_ZooKeeperServiceSpec
      (ZooKeeperServiceSpec_DeepCopyInto K)"

definition ZooKeeperStatus_DeepCopyInto ::
  "ZooKeeperStatus_m \<Rightarrow> ('k block, ZooKeeperStatus_m) mem" where
  "ZooKeeperStatus_DeepCopyInto inn =
     mbind (copy_strings (mzs_Servers inn)) (\<lambda>servers'.
     mret (inn\<lparr>mzs_Servers := servers'\<rparr>))"

definition look_ZooKeeperStatus ::
  "ZooKeeperStatus_m \<Rightarrow> ('k block, ZooKeeperStatus) look" where
  "look_ZooKeeperStatus r =
     lbind (look_strings (mzs_Servers r)) (\<lambda>servers'.
     lret \<lparr>zs_Servers = slice servers'\<rparr>)"

definition ZooKeeperStatus_DeepCopy ::
  "addr option \<Rightarrow> ('k block, addr option) mem" where
  "ZooKeeperStatus_DeepCopy = copy_into
      (sel_of is_B_ZooKeeperStatus un_B_ZooKeeperStatus) B_ZooKeeperStatus ZooKeeperStatus_DeepCopyInto"

definition MonitoringStatus_DeepCopyInto ::
  "MonitoringStatus_m \<Rightarrow> ('k block, MonitoringStatus_m) mem" where
  "MonitoringStatus_DeepCopyInto inn =
     mbind (copy_strings (mms_Nodes inn)) (\<lambda>nodes'.
     mret (inn\<lparr>mms_Nodes := nodes'\<rparr>))"

definition look_MonitoringStatus ::
  "MonitoringStatus_m \<Rightarrow> ('k block, MonitoringStatus) look" where
  "look_MonitoringStatus r =
     lbind (look_strings (mms_Nodes r)) (\<lambda>nodes'.
     lret \<lparr>ms_Nodes = slice nodes'\<rparr>)"

definition MonitoringStatus_DeepCopy ::
  "addr option \<Rightarrow> ('k block, addr option) mem" where
  "MonitoringStatus_DeepCopy = copy_into
      (sel_of is_B_MonitoringStatus un_B_MonitoringStatus) B_MonitoringStatus MonitoringStatus_DeepCopyInto"

definition BackupDaemonStatus_DeepCopyInto ::
  "BackupDaemonStatus_m \<Rightarrow> ('k block, BackupDaemonStatus_m) mem" where
  "BackupDaemonStatus_DeepCopyInto inn =
     mbind (copy_strings (mbs_Nodes inn)) (\<lambda>nodes'.
     mret (inn\<lparr>mbs_Nodes := nodes'\<rparr>))"

definition look_BackupDaemonStatus ::
  "BackupDaemonStatus_m \<Rightarrow> ('k block, BackupDaemonStatus) look" where
  "look_BackupDaemonStatus r =
     lbind (look_strings (mbs_Nodes r)) (\<lambda>nodes'.
     lret \<lparr>bs_Nodes = slice nodes'\<rparr>)"

definition BackupDaemonStatus_DeepCopy ::
  "addr option \<Rightarrow> ('k block, addr option) mem" where
  "BackupDaemonStatus_DeepCopy = copy_into
      (sel_of is_B_BackupDaemonStatus un_B_BackupDaemonStatus) B_BackupDaemonStatus BackupDaemonStatus_DeepCopyInto"

definition PVCStatus_DeepCopyInto ::
  "PVCStatus_m \<Rightarrow> ('k block, PVCStatus_m) mem" where
  "PVCStatus_DeepCopyInto inn =
     mbind (copy_labels (mpvcs_Annotations inn)) (\<lambda>annotations'.
     mret (inn\<lparr>mpvcs_Annotations := annotations'\<rparr>))"

definition look_PVCStatus ::
  "PVCStatus_m \<Rightarrow> ('k block, PVCStatus) look" where
  "look_PVCStatus r =
     lbind (look_labels (mpvcs_Annotations r)) (\<lambda>annotations'.
     lret \<lparr>pvcs_Annotations = annotations'\<rparr>)"

definition PVCStatus_DeepCopy ::
  "addr option \<Rightarrow> ('k block, addr option) mem" where
  "PVCStatus_DeepCopy = copy_into (sel_of is_B_PVCStatus un_B_PVCStatus) B_PVCStatus PVCStatus_DeepCopyInto"

definition VaultSecretManagementStatus_DeepCopyInto ::
  "VaultSecretManagementStatus_m \<Rightarrow> ('k block, VaultSecretManagementStatus_m) mem" where
  "VaultSecretManagementStatus_DeepCopyInto inn =
     mbind (copy_versions (mvs_SecretVersions inn)) (\<lambda>secretVersions'.
     mret (inn\<lparr>mvs_SecretVersions := secretVersions'\<rparr>))"

definition look_VaultSecretManagementStatus ::
  "VaultSecretManagementStatus_m \<Rightarrow> ('k block, VaultSecretManagementStatus) look" where
  "look_VaultSecretManagementStatus r =
     lbind (look_versions (mvs_SecretVersions r)) (\<lambda>secretVersions'.
     lret \<lparr>vs_SecretVersions = secretVersions'\<rparr>)"

definition VaultSecretManagementStatus_DeepCopy ::
  "addr option \<Rightarrow> ('k block, addr option) mem" where
  "VaultSecretManagementStatus_DeepCopy = copy_into
      (sel_of is_B_VaultSecretManagementStatus un_B_VaultSecretManagementStatus) B_VaultSecretManagementStatus VaultSecretManagementStatus_DeepCopyInto"

definition ZooKeeperServiceStatus_DeepCopyInto ::
  "ZooKeeperServiceStatus_m \<Rightarrow> ('k block, ZooKeeperServiceStatus_m) mem" where
  "ZooKeeperServiceStatus_DeepCopyInto inn =
     mbind (ZooKeeperStatus_DeepCopyInto (mstatus_ZooKeeperStatus inn)) (\<lambda>zooKeeperStatus'.
     mbind (MonitoringStatus_DeepCopyInto (mstatus_MonitoringStatus inn)) (\<lambda>monitoringStatus'.
     mbind (BackupDaemonStatus_DeepCopyInto (mstatus_BackupDaemonStatus inn)) (\<lambda>backupDaemonStatus'.
     mbind (PVCStatus_DeepCopyInto (mstatus_PVCStatus inn)) (\<lambda>pVCStatus'.
     mbind (VaultSecretManagementStatus_DeepCopyInto (mstatus_VaultSecretManagementStatus inn))
         (\<lambda>vaultSecretManagementStatus'.
     mbind (copy_conditions (mstatus_Conditions inn)) (\<lambda>conditions'.
     mret (inn\<lparr>mstatus_ZooKeeperStatus := zooKeeperStatus',
       mstatus_MonitoringStatus := monitoringStatus',
       mstatus_BackupDaemonStatus := backupDaemonStatus', mstatus_PVCStatus := pVCStatus',
       mstatus_VaultSecretManagementStatus := vaultSecretManagementStatus',
       mstatus_Conditions := conditions'\<rparr>)))))))"

definition look_ZooKeeperServiceStatus ::
  "ZooKeeperServiceStatus_m \<Rightarrow> ('k block, ZooKeeperServiceStatus) look" where
  "look_ZooKeeperServiceStatus r =
     lbind (look_ZooKeeperStatus (mstatus_ZooKeeperStatus r)) (\<lambda>zooKeeperStatus'.
     lbind (look_MonitoringStatus (mstatus_MonitoringStatus r)) (\<lambda>monitoringStatus'.
     lbind (look_BackupDaemonStatus (mstatus_BackupDaemonStatus r)) (\<lambda>backupDaemonStatus'.
     lbind (look_PVCStatus (mstatus_PVCStatus r)) (\<lambda>pVCStatus'.
     lbind (look_VaultSecretManagementStatus (mstatus_VaultSecretManagementStatus r))
         (\<lambda>vaultSecretManagementStatus'.
     lbind (look_conditions (mstatus_Conditions r)) (\<lambda>conditions'.
     lret \<lparr>status_ZooKeeperStatus = zooKeeperStatus', status_MonitoringStatus = monitoringStatus',
       status_BackupDaemonStatus = backupDaemonStatus', status_PVCStatus = pVCStatus',
       status_VaultSecretManagementStatus = vaultSecretManagementStatus',
       status_Conditions = slice conditions'\<rparr>))))))"

definition ZooKeeperServiceStatus_DeepCopy ::
  "addr option \<Rightarrow> ('k block, addr option) mem" where
  "ZooKeeperServiceStatus_DeepCopy = copy_into
      (sel_of is_B_ZooKeeperServiceStatus un_B_ZooKeeperServiceStatus) B_ZooKeeperServiceStatus ZooKeeperServiceStatus_DeepCopyInto"

definition ZooKeeperService_DeepCopyInto ::
  "'k kube \<Rightarrow> 'k ZooKeeperService_m \<Rightarrow> ('k block, 'k ZooKeeperService_m) mem" where
  "ZooKeeperService_DeepCopyInto K inn =
     mbind (ObjectMeta_Into K (mcr_Meta inn)) (\<lambda>meta'.
     mbind (ZooKeeperServiceSpec_DeepCopyInto K (mcr_Spec inn)) (\<lambda>spec'.
     mbind (ZooKeeperServiceStatus_DeepCopyInto (mcr_Status inn)) (\<lambda>status'.
     mret (inn\<lparr>mcr_Meta := meta', mcr_Spec := spec', mcr_Status := status'\<rparr>))))"

definition look_ZooKeeperService ::
  "'k kube \<Rightarrow> 'k ZooKeeperService_m \<Rightarrow> ('k block, ZooKeeperService) look" where
  "look_ZooKeeperService K r =
     lbind (look_ObjectMeta K (mcr_Meta r)) (\<lambda>meta'.
     lbind (look_ZooKeeperServiceSpec K (mcr_Spec r)) (\<lambda>spec'.
     lbind (look_ZooKeeperServiceStatus (mcr_Status r)) (\<lambda>status'.
     lret \<lparr>cr_APIVersion = mcr_APIVersion r, cr_Kind = mcr_Kind r, cr_Meta = meta', cr_Spec = spec',
       cr_Status = status'\<rparr>)))"

definition ZooKeeperService_DeepCopy ::
  "'k kube \<Rightarrow> addr option \<Rightarrow> ('k block, addr option) mem" where
  "ZooKeeperService_DeepCopy K = copy_into
      (sel_of is_B_ZooKeeperService un_B_ZooKeeperService) B_ZooKeeperService (ZooKeeperService_DeepCopyInto K)"

definition ZooKeeperServiceList_DeepCopyInto ::
  "'k kube \<Rightarrow> 'k ZooKeeperServiceList_m \<Rightarrow> ('k block,
      'k ZooKeeperServiceList_m) mem" where
  "ZooKeeperServiceList_DeepCopyInto K inn =
     mbind (ListMeta_Into K (msl_Meta inn)) (\<lambda>meta'.
     mbind (copy_into (sel_of is_Items un_Items) Items (mmap (ZooKeeperService_DeepCopyInto K))
         (msl_Items inn)) (\<lambda>items'.
     mret (inn\<lparr>msl_Meta := meta', msl_Items := items'\<rparr>)))"

definition look_ZooKeeperServiceList ::
  "'k kube \<Rightarrow> 'k ZooKeeperServiceList_m \<Rightarrow> ('k block, ZooKeeperServiceList) look" where
  "look_ZooKeeperServiceList K r =
     lbind (look_ListMeta K (msl_Meta r)) (\<lambda>meta'.
     lbind (look_ref (sel_of is_Items un_Items) (lmap (look_ZooKeeperService K)) (msl_Items r))
         (\<lambda>items'.
     lret \<lparr>sl_APIVersion = msl_APIVersion r, sl_Kind = msl_Kind r, sl_Meta = meta',
       sl_Items = slice items'\<rparr>))"

definition ZooKeeperServiceList_DeepCopy ::
  "'k kube \<Rightarrow> addr option \<Rightarrow> ('k block, addr option) mem" where
  "ZooKeeperServiceList_DeepCopy K = copy_into
      (sel_of is_B_ZooKeeperServiceList un_B_ZooKeeperServiceList) B_ZooKeeperServiceList
      (ZooKeeperServiceList_DeepCopyInto K)"

section \<open>What they promise\<close>

lemma deep_Diagnostics: "deep_copier Diagnostics_DeepCopyInto lret"
  unfolding Diagnostics_DeepCopyInto_def [abs_def] by (rule deep_plain)

lemma deep_BackupDaemonSsl: "deep_copier BackupDaemonSsl_DeepCopyInto lret"
  unfolding BackupDaemonSsl_DeepCopyInto_def [abs_def] by (rule deep_plain)

lemma deep_ZooKeeperSsl: "deep_copier ZooKeeperSsl_DeepCopyInto lret"
  unfolding ZooKeeperSsl_DeepCopyInto_def [abs_def] by (rule deep_plain)

lemma deep_S3: "deep_copier S3_DeepCopyInto lret"
  unfolding S3_DeepCopyInto_def [abs_def] by (rule deep_plain)

lemma deep_IntegrationTests: "deep_copier IntegrationTests_DeepCopyInto lret"
  unfolding IntegrationTests_DeepCopyInto_def [abs_def] by (rule deep_plain)

lemma deep_StatusCondition: "deep_copier StatusCondition_DeepCopyInto lret"
  unfolding StatusCondition_DeepCopyInto_def [abs_def] by (rule deep_plain)

lemma deep_SnapshotStorage: "deep_copier SnapshotStorage_DeepCopyInto look_SnapshotStorage"
  unfolding SnapshotStorage_DeepCopyInto_def [abs_def] look_SnapshotStorage_def [abs_def]
  by (rule deep_copierI) (intro copies_fields | assumption | simp add: sel_of_def)+

lemma deep_Storage: "deep_copier Storage_DeepCopyInto look_Storage"
  unfolding Storage_DeepCopyInto_def [abs_def] look_Storage_def [abs_def]
  by (rule deep_copierI) (intro copies_fields | assumption | simp add: sel_of_def)+

lemma deep_Ssl: "deep_copier Ssl_DeepCopyInto look_Ssl"
  unfolding Ssl_DeepCopyInto_def [abs_def] look_Ssl_def [abs_def]
  by (rule deep_copierI) (intro copies_fields | assumption | simp add: sel_of_def)+

lemma deep_PVCMetadata: "deep_copier PVCMetadata_DeepCopyInto look_PVCMetadata"
  unfolding PVCMetadata_DeepCopyInto_def [abs_def] look_PVCMetadata_def [abs_def]
  by (rule deep_copierI) (intro copies_fields | assumption | simp add: sel_of_def)+

lemma deep_PVC: "deep_copier PVC_DeepCopyInto look_PVC"
  unfolding PVC_DeepCopyInto_def [abs_def] look_PVC_def [abs_def]
  by (rule deep_copierI)
      (intro copies_fields copies_field [OF deep_PVCMetadata] | assumption | simp add: sel_of_def)+

lemma deep_Global: "deep_copier Global_DeepCopyInto look_Global"
  unfolding Global_DeepCopyInto_def [abs_def] look_Global_def [abs_def]
  by (rule deep_copierI) (intro copies_fields copies_field [OF deep_PVC] | assumption | simp add: sel_of_def)+

lemma deep_BackupDaemon:
  "kube_documented K \<Longrightarrow> deep_copier (BackupDaemon_DeepCopyInto K) (look_BackupDaemon K)"
  unfolding BackupDaemon_DeepCopyInto_def [abs_def] look_BackupDaemon_def [abs_def]
  by (rule deep_copierI)
      (intro copies_fields copies_field [OF deep_SnapshotStorage] kube_fields kube_deep(2) | assumption | simp add: sel_of_def)+

lemma deep_Monitoring:
  "kube_documented K \<Longrightarrow> deep_copier (Monitoring_DeepCopyInto K) (look_Monitoring K)"
  unfolding Monitoring_DeepCopyInto_def [abs_def] look_Monitoring_def [abs_def]
  by (rule deep_copierI) (intro copies_fields kube_fields kube_deep(2) | assumption | simp add: sel_of_def)+

lemma deep_SecretPaths: "deep_copier SecretPaths_DeepCopyInto look_SecretPaths"
  unfolding SecretPaths_DeepCopyInto_def [abs_def] look_SecretPaths_def [abs_def]
  by (rule deep_copierI) (intro copies_fields | assumption | simp add: sel_of_def)+

lemma deep_VaultSecretManagement: "deep_copier VaultSecretManagement_DeepCopyInto look_VaultSecretManagement"
  unfolding VaultSecretManagement_DeepCopyInto_def [abs_def] look_VaultSecretManagement_def [abs_def]
  by (rule deep_copierI)
      (intro copies_fields copies_field [OF deep_SecretPaths] | assumption | simp add: sel_of_def)+

lemma deep_ZooKeeper:
  "kube_documented K \<Longrightarrow> deep_copier (ZooKeeper_DeepCopyInto K) (look_ZooKeeper K)"
  unfolding ZooKeeper_DeepCopyInto_def [abs_def] look_ZooKeeper_def [abs_def]
  by (rule deep_copierI)
      (intro copies_fields copies_field [OF deep_Storage] copies_field [OF deep_SnapshotStorage] copies_field [OF deep_Ssl] kube_fields kube_deep(2) | assumption | simp add: sel_of_def)+

lemma deep_ZooKeeperServiceSpec:
  "kube_documented K \<Longrightarrow> deep_copier (ZooKeeperServiceSpec_DeepCopyInto K)
      (look_ZooKeeperServiceSpec K)"
  unfolding ZooKeeperServiceSpec_DeepCopyInto_def [abs_def] look_ZooKeeperServiceSpec_def [abs_def]
  by (rule deep_copierI)
      (intro copies_fields deep_Global deep_ZooKeeper deep_Monitoring deep_BackupDaemon deep_VaultSecretManagement | assumption | simp add: sel_of_def)+

lemma deep_ZooKeeperStatus: "deep_copier ZooKeeperStatus_DeepCopyInto look_ZooKeeperStatus"
  unfolding ZooKeeperStatus_DeepCopyInto_def [abs_def] look_ZooKeeperStatus_def [abs_def]
  by (rule deep_copierI) (intro copies_fields | assumption | simp add: sel_of_def)+

lemma deep_MonitoringStatus: "deep_copier MonitoringStatus_DeepCopyInto look_MonitoringStatus"
  unfolding MonitoringStatus_DeepCopyInto_def [abs_def] look_MonitoringStatus_def [abs_def]
  by (rule deep_copierI) (intro copies_fields | assumption | simp add: sel_of_def)+

lemma deep_BackupDaemonStatus: "deep_copier BackupDaemonStatus_DeepCopyInto look_BackupDaemonStatus"
  unfolding BackupDaemonStatus_DeepCopyInto_def [abs_def] look_BackupDaemonStatus_def [abs_def]
  by (rule deep_copierI) (intro copies_fields | assumption | simp add: sel_of_def)+

lemma deep_PVCStatus: "deep_copier PVCStatus_DeepCopyInto look_PVCStatus"
  unfolding PVCStatus_DeepCopyInto_def [abs_def] look_PVCStatus_def [abs_def]
  by (rule deep_copierI) (intro copies_fields | assumption | simp add: sel_of_def)+

lemma deep_VaultSecretManagementStatus: "deep_copier VaultSecretManagementStatus_DeepCopyInto look_VaultSecretManagementStatus"
  unfolding VaultSecretManagementStatus_DeepCopyInto_def [abs_def] look_VaultSecretManagementStatus_def [abs_def]
  by (rule deep_copierI) (intro copies_fields | assumption | simp add: sel_of_def)+

lemma deep_ZooKeeperServiceStatus: "deep_copier ZooKeeperServiceStatus_DeepCopyInto look_ZooKeeperServiceStatus"
  unfolding ZooKeeperServiceStatus_DeepCopyInto_def [abs_def] look_ZooKeeperServiceStatus_def [abs_def]
  by (rule deep_copierI)
      (intro copies_fields copies_field [OF deep_ZooKeeperStatus] copies_field [OF deep_MonitoringStatus] copies_field [OF deep_BackupDaemonStatus] copies_field [OF deep_PVCStatus] copies_field [OF deep_VaultSecretManagementStatus] | assumption | simp add: sel_of_def)+

lemma deep_ZooKeeperService:
  "kube_documented K \<Longrightarrow> deep_copier (ZooKeeperService_DeepCopyInto K) (look_ZooKeeperService K)"
  unfolding ZooKeeperService_DeepCopyInto_def [abs_def] look_ZooKeeperService_def [abs_def]
  by (rule deep_copierI)
      (intro copies_fields copies_field [OF deep_ZooKeeperServiceSpec] copies_field [OF deep_ZooKeeperServiceStatus] kube_fields | assumption | simp add: sel_of_def)+

lemma deep_ZooKeeperServiceList:
  "kube_documented K \<Longrightarrow> deep_copier (ZooKeeperServiceList_DeepCopyInto K)
      (look_ZooKeeperServiceList K)"
  unfolding ZooKeeperServiceList_DeepCopyInto_def [abs_def] look_ZooKeeperServiceList_def [abs_def]
  by (rule deep_copierI)
      (intro copies_fields kube_fields deep_ZooKeeperService | assumption | simp add: sel_of_def)+

section \<open>The custom resource\<close>

text \<open>What \<^verbatim>\<open>DeepCopyObject\<close> returns: a pointer to one of the two registered types, or nil.\<close>

datatype runtime_object = CustomResource addr | CustomResourceList addr

definition ZooKeeperService_DeepCopyObject ::
  "'k kube \<Rightarrow> addr option \<Rightarrow> ('k block, runtime_object option) mem" where
  "ZooKeeperService_DeepCopyObject K inn =
     mbind (ZooKeeperService_DeepCopy K inn) (\<lambda>c. case c of
       None \<Rightarrow> mret None | Some a \<Rightarrow> mret (Some (CustomResource a)))"

definition ZooKeeperServiceList_DeepCopyObject ::
  "'k kube \<Rightarrow> addr option \<Rightarrow> ('k block, runtime_object option) mem" where
  "ZooKeeperServiceList_DeepCopyObject K inn =
     mbind (ZooKeeperServiceList_DeepCopy K inn) (\<lambda>c. case c of
       None \<Rightarrow> mret None | Some a \<Rightarrow> mret (Some (CustomResourceList a)))"

text \<open>Reading a custom resource through a pointer.\<close>

definition look_cr :: "'k kube \<Rightarrow> addr option \<Rightarrow> ('k block, ZooKeeperService option) look" where
  "look_cr K = look_ref (sel_of is_B_ZooKeeperService un_B_ZooKeeperService) (look_ZooKeeperService K)"

definition look_cr_list :: "'k kube \<Rightarrow> addr option \<Rightarrow> ('k block, ZooKeeperServiceList option) look" where
  "look_cr_list K =
     look_ref (sel_of is_B_ZooKeeperServiceList un_B_ZooKeeperServiceList) (look_ZooKeeperServiceList K)"

lemma deep_cr: "kube_documented K \<Longrightarrow> deep_copier (ZooKeeperService_DeepCopy K) (look_cr K)"
  unfolding ZooKeeperService_DeepCopy_def look_cr_def
  by (intro deep_into deep_ZooKeeperService) (simp_all add: sel_of_def)

lemma deep_cr_list: "kube_documented K \<Longrightarrow> deep_copier (ZooKeeperServiceList_DeepCopy K) (look_cr_list K)"
  unfolding ZooKeeperServiceList_DeepCopy_def look_cr_list_def
  by (intro deep_into deep_ZooKeeperServiceList) (simp_all add: sel_of_def)

text \<open>The sections without structs of the libraries are deep copiers outright.\<close>

interpretation storagec: deep_copier Storage_DeepCopyInto look_Storage by (rule deep_Storage)

interpretation globalc: deep_copier Global_DeepCopyInto look_Global by (rule deep_Global)

interpretation vaultc: deep_copier VaultSecretManagement_DeepCopyInto look_VaultSecretManagement
  by (rule deep_VaultSecretManagement)

interpretation statusc: deep_copier ZooKeeperServiceStatus_DeepCopyInto look_ZooKeeperServiceStatus
  by (rule deep_ZooKeeperServiceStatus)

text \<open>
  C13. A copy of a custom resource is the same value in memory of its own. Where the memory of
  the original is well formed, \<^verbatim>\<open>DeepCopy\<close> returns; the copy reads as the same custom resource (nil for
  nil), the original still reads as it did, the two share no block, and whatever is written
  into the blocks of one is not seen through the other. Hypothesis: the copies of the structs from the libraries are deep.
\<close>

theorem custom_resource_copy_isolated:
  assumes "kube_documented K" and "look_cr K p h = Some (v, A)"
  shows "\<exists>q h' B. ZooKeeperService_DeepCopy K p h = Some (q, h') \<and>
    look_cr K q h' = Some (v, B) \<and> look_cr K p h' = Some (v, A) \<and> set A \<inter> set B = {} \<and>
    (\<forall>ws. fst ` set ws \<subseteq> set B \<longrightarrow> look_cr K p (writes ws h') = Some (v, A)) \<and>
    (\<forall>ws. fst ` set ws \<subseteq> set A \<longrightarrow> look_cr K q (writes ws h') = Some (v, B))"
  using deep_copier.isolated [OF deep_cr [OF assms(1)] assms(2)] .

section \<open>A witness\<close>

text \<open>Structs of the libraries as a name and a reference to labels, which the metadata copies.\<close>

definition demo_kube :: "(string \<times> addr option) kube" where
  "demo_kube =
     \<lparr>Affinity_Into = mret, look_Affinity = (\<lambda>k. lret \<lparr>af_NodeAffinity = None, af_PodAffinity = fst k\<rparr>),
      Toleration_Into = mret, look_Toleration = (\<lambda>k. lret (Toleration (fst k))),
      Resources_Into = mret, look_Resources = (\<lambda>k. lret (ResourceRequirements (fst k))),
      SecurityContext_Into = mret, look_SecurityContext = (\<lambda>k. lret (PodSecurityContext (fst k))),
      ObjectMeta_Into = (\<lambda>k. mbind (copy_labels (snd k)) (\<lambda>labels'. mret (fst k, labels'))),
      look_ObjectMeta = (\<lambda>k. lbind (look_labels (snd k)) (\<lambda>labels'. lret (new_meta (fst k) '''' labels' None))),
      ListMeta_Into = mret, look_ListMeta = (\<lambda>k. lret (ListMeta (fst k)))\<rparr>"

lemma deep_opaque: "deep_copier mret (\<lambda>k. lret (f k))"
  by (rule deep_copierI) (rule copies_end, rule refl)

lemma demo_kube_documented: "kube_documented demo_kube"
proof -
  have "deep_copier (\<lambda>k. mbind (copy_labels (snd k)) (\<lambda>labels'. mret (fst k, labels')))
      (\<lambda>k. lbind (look_labels (snd k)) (\<lambda>labels'. lret (new_meta (fst k) '''' labels' None)))"
    by (rule deep_copierI) (intro copies_fields | simp add: sel_of_def)+
  then show ?thesis by (simp add: kube_documented_def demo_kube_def deep_opaque)
qed

definition demo_memory :: "(string \<times> addr option) block list" where
  "demo_memory =
     [Labels (fmupd ''team'' ''zk'' fmempty),
      B_Global \<lparr>mg_WaitForPodsReady = True, mg_PodsReadyTimeout = 300, mg_CustomLabels = Some 0, mg_DefaultLabels = None,
        mg_ZooKeeperSsl = \<lparr>zssl_Enabled = False, zssl_SecretName = ''''\<rparr>,
        mg_PVC = \<lparr>mpvcc_PVCMetadata = \<lparr>mpvcm_Annotations = None\<rparr>\<rparr>\<rparr>,
      Strings [''zookeeper-1''],
      B_ZooKeeperService \<lparr>mcr_APIVersion = ''netcracker.com/v1'', mcr_Kind = ''ZooKeeperService'',
        mcr_Meta = (''zookeeper'', Some 0),
        mcr_Spec = \<lparr>mspec_Global = Some 1, mspec_ZooKeeper = None, mspec_Monitoring = None, mspec_BackupDaemon = None,
          mspec_VaultSecretManagement = None, mspec_IntegrationTests = None\<rparr>,
        mcr_Status = \<lparr>mstatus_ZooKeeperStatus = \<lparr>mzs_Servers = Some 2\<rparr>, mstatus_MonitoringStatus = \<lparr>mms_Nodes = None\<rparr>,
          mstatus_BackupDaemonStatus = \<lparr>mbs_Nodes = None\<rparr>, mstatus_PVCStatus = \<lparr>mpvcs_Annotations = None\<rparr>,
          mstatus_VaultSecretManagementStatus = \<lparr>mvs_SecretVersions = None\<rparr>, mstatus_Conditions = None\<rparr>\<rparr>]"

lemmas look_defs = look_cr_def look_ZooKeeperService_def look_ZooKeeperServiceSpec_def look_Global_def look_PVC_def
  look_PVCMetadata_def look_ZooKeeperServiceStatus_def look_ZooKeeperStatus_def look_MonitoringStatus_def
  look_BackupDaemonStatus_def look_PVCStatus_def look_VaultSecretManagementStatus_def look_ref_def lbind_def lret_def
  lblock_def sel_of_def

lemma demo_read:
  "\<exists>v. look_cr demo_kube (Some 3) demo_memory = Some (Some v, [3, 0, 1, 0, 2]) \<and>
     g_CustomLabels (the (spec_Global (cr_Spec v))) = Some (fmupd ''team'' ''zk'' fmempty)"
  by (simp add: look_defs demo_memory_def demo_kube_def)

theorem custom_resource_copy_isolated_witness:
  "\<exists>q h' B v. ZooKeeperService_DeepCopy demo_kube (Some 3) demo_memory = Some (q, h') \<and>
     look_cr demo_kube q h' = Some (Some v, B) \<and> set [3, 0, 1, 0, 2] \<inter> set B = {} \<and>
     g_CustomLabels (the (spec_Global (cr_Spec v))) = Some (fmupd ''team'' ''zk'' fmempty) \<and>
     (\<forall>ws. fst ` set ws \<subseteq> set B \<longrightarrow> look_cr demo_kube (Some 3) (writes ws h') = Some (Some v, [3, 0, 1, 0, 2]))"
proof -
  from demo_read obtain v where
    v: "look_cr demo_kube (Some 3) demo_memory = Some (Some v, [3, 0, 1, 0, 2])"
    "g_CustomLabels (the (spec_Global (cr_Spec v))) = Some (fmupd ''team'' ''zk'' fmempty)" by blast
  from custom_resource_copy_isolated [OF demo_kube_documented v(1)] v(2) show ?thesis by blast
qed

end
