(* ===== verification/DeepCopyAlpha.thy ===== *)
theory DeepCopyAlpha
  imports ApiTypes GoMemory
begin

text \<open>
  The older version of the custom resource,
      \<^verbatim>\<open>operator/api/v1alpha1/zookeeperservice_types.go\<close>, and its generated copies,
  \<^verbatim>\<open>zz_generated.deepcopy.go\<close> beside it. The operator registers the types with its scheme; the client library
  copies their objects as it copies those of the current version.
\<close>

section \<open>The types\<close>

record SnapshotStorage_alpha =
  a_ss_PersistentVolumeType :: string
  a_ss_PersistentVolumeName :: string
  a_ss_PersistentVolumeClaimName :: string
  a_ss_VolumeSize :: string
  a_ss_NfsServer :: string
  a_ss_NfsPath :: string

record BackupStorage_alpha =
  a_bst_PersistentVolumeType :: string
  a_bst_PersistentVolumeName :: string
  a_bst_PersistentVolumeClaimName :: string
  a_bst_NodeName :: string
  a_bst_VolumeSize :: string
  a_bst_PersistentVolumeLabel :: string
  a_bst_StorageClass :: "string option"
  a_bst_NfsServer :: string
  a_bst_NfsPath :: string

record Storage_alpha =
  a_st_Volumes :: "string list"
  a_st_Nodes :: "string list"
  a_st_Labels :: "string list"
  a_st_ClassName :: "string list"
  a_st_Size :: string

record ZooKeeper_alpha =
  a_zk_DockerImage :: string
  a_zk_Affinity :: Affinity
  a_zk_Replicas :: int
  a_zk_Storage :: Storage_alpha
  a_zk_SnapshotStorage :: SnapshotStorage_alpha
  a_zk_HeapSize :: int
  a_zk_Resources :: resource_requirements
  a_zk_SecretName :: string
  a_zk_QuorumAuthEnabled :: bool
  a_zk_SecurityContext :: pod_security_context
  a_zk_JolokiaPort :: int32
  a_zk_EnvironmentVariables :: "string list"

record Monitoring_alpha =
  a_mon_DockerImage :: string
  a_mon_Affinity :: Affinity
  a_mon_Resources :: resource_requirements
  a_mon_ZooKeeperHost :: string
  a_mon_ZooKeeperVolumes :: string
  a_mon_NeedToCleanInfluxDb :: bool
  a_mon_ZooKeeperBackupDaemonHost :: string
  a_mon_SecretName :: string
  a_mon_SmDbHost :: string
  a_mon_SmDbName :: string
  a_mon_ZooKeeperJolokiaPort :: int32
  a_mon_SecurityContext :: pod_security_context

record BackupDaemon_alpha =
  a_bd_DockerImage :: string
  a_bd_Affinity :: Affinity
  a_bd_BackupStorage :: BackupStorage_alpha
  a_bd_Resources :: resource_requirements
  a_bd_BackupSchedule :: string
  a_bd_EvictionPolicy :: string
  a_bd_IPv6 :: bool
  a_bd_ZooKeeperHost :: string
  a_bd_ZooKeeperPort :: int
  a_bd_SecretName :: string
  a_bd_SecurityContext :: pod_security_context

record ZooKeeperServiceSpec_alpha =
  a_spec_ZooKeeper :: "ZooKeeper_alpha option"
  a_spec_Monitoring :: "Monitoring_alpha option"
  a_spec_BackupDaemon :: "BackupDaemon_alpha option"

record ZooKeeperStatus_alpha =
  a_zs_Servers :: "string list"

record MonitoringStatus_alpha =
  a_ms_Nodes :: "string list"

record BackupDaemonStatus_alpha =
  a_bs_Nodes :: "string list"

record ZooKeeperServiceStatus_alpha =
  a_status_ZooKeeperStatus :: ZooKeeperStatus_alpha
  a_status_MonitoringStatus :: MonitoringStatus_alpha
  a_status_BackupDaemonStatus :: BackupDaemonStatus_alpha

record ZooKeeperService_alpha =
  a_cr_APIVersion :: string
  a_cr_Kind :: string
  a_cr_Meta :: ObjectMeta
  a_cr_Spec :: ZooKeeperServiceSpec_alpha
  a_cr_Status :: ZooKeeperServiceStatus_alpha

record ZooKeeperServiceList_alpha =
  a_sl_APIVersion :: string
  a_sl_Kind :: string
  a_sl_Meta :: list_meta
  a_sl_Items :: "ZooKeeperService_alpha list"

section \<open>Memory images\<close>

text \<open>The structs as they lie in memory.\<close>

record BackupStorage_m_alpha =
  ma_bst_PersistentVolumeType :: string
  ma_bst_PersistentVolumeName :: string
  ma_bst_PersistentVolumeClaimName :: string
  ma_bst_NodeName :: string
  ma_bst_VolumeSize :: string
  ma_bst_PersistentVolumeLabel :: string
  ma_bst_StorageClass :: "addr option"
  ma_bst_NfsServer :: string
  ma_bst_NfsPath :: string

record Storage_m_alpha =
  ma_st_Volumes :: "addr option"
  ma_st_Nodes :: "addr option"
  ma_st_Labels :: "addr option"
  ma_st_ClassName :: "addr option"
  ma_st_Size :: string

record 'k ZooKeeper_m_alpha =
  ma_zk_DockerImage :: string
  ma_zk_Affinity :: 'k
  ma_zk_Replicas :: int
  ma_zk_Storage :: Storage_m_alpha
  ma_zk_SnapshotStorage :: SnapshotStorage_alpha
  ma_zk_HeapSize :: int
  ma_zk_Resources :: 'k
  ma_zk_SecretName :: string
  ma_zk_QuorumAuthEnabled :: bool
  ma_zk_SecurityContext :: 'k
  ma_zk_JolokiaPort :: int32
  ma_zk_EnvironmentVariables :: "addr option"

record 'k Monitoring_m_alpha =
  ma_mon_DockerImage :: string
  ma_mon_Affinity :: 'k
  ma_mon_Resources :: 'k
  ma_mon_ZooKeeperHost :: string
  ma_mon_ZooKeeperVolumes :: string
  ma_mon_NeedToCleanInfluxDb :: bool
  ma_mon_ZooKeeperBackupDaemonHost :: string
  ma_mon_SecretName :: string
  ma_mon_SmDbHost :: string
  ma_mon_SmDbName :: string
  ma_mon_ZooKeeperJolokiaPort :: int32
  ma_mon_SecurityContext :: 'k

record 'k BackupDaemon_m_alpha =
  ma_bd_DockerImage :: string
  ma_bd_Affinity :: 'k
  ma_bd_BackupStorage :: BackupStorage_m_alpha
  ma_bd_Resources :: 'k
  ma_bd_BackupSchedule :: string
  ma_bd_EvictionPolicy :: string
  ma_bd_IPv6 :: bool
  ma_bd_ZooKeeperHost :: string
  ma_bd_ZooKeeperPort :: int
  ma_bd_SecretName :: string
  ma_bd_SecurityContext :: 'k

record ZooKeeperServiceSpec_m_alpha =
  ma_spec_ZooKeeper :: "addr option"
  ma_spec_Monitoring :: "addr option"
  ma_spec_BackupDaemon :: "addr option"

record ZooKeeperStatus_m_alpha =
  ma_zs_Servers :: "addr option"

record MonitoringStatus_m_alpha =
  ma_ms_Nodes :: "addr option"

record BackupDaemonStatus_m_alpha =
  ma_bs_Nodes :: "addr option"

record ZooKeeperServiceStatus_m_alpha =
  ma_status_ZooKeeperStatus :: ZooKeeperStatus_m_alpha
  ma_status_MonitoringStatus :: MonitoringStatus_m_alpha
  ma_status_BackupDaemonStatus :: BackupDaemonStatus_m_alpha

record 'k ZooKeeperService_m_alpha =
  ma_cr_APIVersion :: string
  ma_cr_Kind :: string
  ma_cr_Meta :: 'k
  ma_cr_Spec :: ZooKeeperServiceSpec_m_alpha
  ma_cr_Status :: ZooKeeperServiceStatus_m_alpha

record 'k ZooKeeperServiceList_m_alpha =
  ma_sl_APIVersion :: string
  ma_sl_Kind :: string
  ma_sl_Meta :: 'k
  ma_sl_Items :: "addr option"

text \<open>What one block of memory holds.\<close>

datatype 'k block_alpha =
    Strings_alpha (un_Strings_alpha: "string list")
  | Str_alpha (un_Str_alpha: string)
  | Items_alpha (un_Items_alpha: "'k ZooKeeperService_m_alpha list")
  | Library_alpha (un_Library_alpha: 'k)
  | B_alpha_SnapshotStorage (un_B_alpha_SnapshotStorage: SnapshotStorage_alpha)
  | B_alpha_BackupStorage (un_B_alpha_BackupStorage: BackupStorage_m_alpha)
  | B_alpha_Storage (un_B_alpha_Storage: Storage_m_alpha)
  | B_alpha_ZooKeeper (un_B_alpha_ZooKeeper: "'k ZooKeeper_m_alpha")
  | B_alpha_Monitoring (un_B_alpha_Monitoring: "'k Monitoring_m_alpha")
  | B_alpha_BackupDaemon (un_B_alpha_BackupDaemon: "'k BackupDaemon_m_alpha")
  | B_alpha_ZooKeeperServiceSpec (un_B_alpha_ZooKeeperServiceSpec: ZooKeeperServiceSpec_m_alpha)
  | B_alpha_ZooKeeperStatus (un_B_alpha_ZooKeeperStatus: ZooKeeperStatus_m_alpha)
  | B_alpha_MonitoringStatus (un_B_alpha_MonitoringStatus: MonitoringStatus_m_alpha)
  | B_alpha_BackupDaemonStatus (un_B_alpha_BackupDaemonStatus: BackupDaemonStatus_m_alpha)
  | B_alpha_ZooKeeperServiceStatus (un_B_alpha_ZooKeeperServiceStatus: ZooKeeperServiceStatus_m_alpha)
  | B_alpha_ZooKeeperService (un_B_alpha_ZooKeeperService: "'k ZooKeeperService_m_alpha")
  | B_alpha_ZooKeeperServiceList (un_B_alpha_ZooKeeperServiceList: "'k ZooKeeperServiceList_m_alpha")

text \<open>
  The copies of the structs from the Kubernetes libraries (affinity, resources, security context, metadata)
  and how their images are read. \<open>kube_documented_alpha\<close>: these copies are deep,
      as their documentation says.
\<close>

record 'k kube_alpha =
  Affinity_Into_alpha :: "'k \<Rightarrow> ('k block_alpha, 'k) mem"
  look_Affinity_alpha :: "'k \<Rightarrow> ('k block_alpha, Affinity) look"
  Resources_Into_alpha :: "'k \<Rightarrow> ('k block_alpha, 'k) mem"
  look_Resources_alpha :: "'k \<Rightarrow> ('k block_alpha, resource_requirements) look"
  SecurityContext_Into_alpha :: "'k \<Rightarrow> ('k block_alpha, 'k) mem"
  look_SecurityContext_alpha :: "'k \<Rightarrow> ('k block_alpha, pod_security_context) look"
  ObjectMeta_Into_alpha :: "'k \<Rightarrow> ('k block_alpha, 'k) mem"
  look_ObjectMeta_alpha :: "'k \<Rightarrow> ('k block_alpha, ObjectMeta) look"
  ListMeta_Into_alpha :: "'k \<Rightarrow> ('k block_alpha, 'k) mem"
  look_ListMeta_alpha :: "'k \<Rightarrow> ('k block_alpha, list_meta) look"

definition kube_documented_alpha :: "'k kube_alpha \<Rightarrow> bool" where
  "kube_documented_alpha K \<longleftrightarrow>
     deep_copier (Affinity_Into_alpha K) (look_Affinity_alpha K) \<and>
     deep_copier (Resources_Into_alpha K) (look_Resources_alpha K) \<and>
     deep_copier (SecurityContext_Into_alpha K) (look_SecurityContext_alpha K) \<and>
     deep_copier (ObjectMeta_Into_alpha K) (look_ObjectMeta_alpha K) \<and>
     deep_copier (ListMeta_Into_alpha K) (look_ListMeta_alpha K)"

lemma kube_deep_alpha:
  assumes "kube_documented_alpha K"
  shows "deep_copier (Affinity_Into_alpha K) (look_Affinity_alpha K)"
    and "deep_copier (Resources_Into_alpha K) (look_Resources_alpha K)"
    and "deep_copier (SecurityContext_Into_alpha K) (look_SecurityContext_alpha K)"
    and "deep_copier (ObjectMeta_Into_alpha K) (look_ObjectMeta_alpha K)"
    and "deep_copier (ListMeta_Into_alpha K) (look_ListMeta_alpha K)"
  using assms by (simp_all add: kube_documented_alpha_def)

lemmas kube_fields_alpha = kube_deep_alpha [THEN copies_field]


text \<open>References to plain blocks.\<close>

abbreviation copy_strings_alpha :: "addr option \<Rightarrow> ('k block_alpha, addr option) mem" where
  "copy_strings_alpha \<equiv> copy_block (sel_of is_Strings_alpha un_Strings_alpha) Strings_alpha"

abbreviation look_strings_alpha :: "addr option \<Rightarrow> ('k block_alpha, string list option) look" where
  "look_strings_alpha \<equiv> look_ref (sel_of is_Strings_alpha un_Strings_alpha) lret"

abbreviation copy_string_alpha :: "addr option \<Rightarrow> ('k block_alpha, addr option) mem" where
  "copy_string_alpha \<equiv> copy_block (sel_of is_Str_alpha un_Str_alpha) Str_alpha"

abbreviation look_string_alpha :: "addr option \<Rightarrow> ('k block_alpha, string option) look" where
  "look_string_alpha \<equiv> look_ref (sel_of is_Str_alpha un_Str_alpha) lret"

section \<open>The copies\<close>


definition SnapshotStorage_DeepCopyInto_alpha ::
  "SnapshotStorage_alpha \<Rightarrow> ('k block_alpha, SnapshotStorage_alpha) mem" where
  "SnapshotStorage_DeepCopyInto_alpha inn = mret inn"

definition SnapshotStorage_DeepCopy_alpha ::
  "addr option \<Rightarrow> ('k block_alpha, addr option) mem" where
  "SnapshotStorage_DeepCopy_alpha = copy_into
      (sel_of is_B_alpha_SnapshotStorage un_B_alpha_SnapshotStorage) B_alpha_SnapshotStorage SnapshotStorage_DeepCopyInto_alpha"

definition BackupStorage_DeepCopyInto_alpha ::
  "BackupStorage_m_alpha \<Rightarrow> ('k block_alpha, BackupStorage_m_alpha) mem" where
  "BackupStorage_DeepCopyInto_alpha inn =
     mbind (copy_string_alpha (ma_bst_StorageClass inn)) (\<lambda>storageClass'.
     mret (inn\<lparr>ma_bst_StorageClass := storageClass'\<rparr>))"

definition look_BackupStorage_alpha ::
  "BackupStorage_m_alpha \<Rightarrow> ('k block_alpha, BackupStorage_alpha) look" where
  "look_BackupStorage_alpha r =
     lbind (look_string_alpha (ma_bst_StorageClass r)) (\<lambda>storageClass'.
     lret \<lparr>a_bst_PersistentVolumeType = ma_bst_PersistentVolumeType r,
       a_bst_PersistentVolumeName = ma_bst_PersistentVolumeName r,
       a_bst_PersistentVolumeClaimName = ma_bst_PersistentVolumeClaimName r,
       a_bst_NodeName = ma_bst_NodeName r, a_bst_VolumeSize = ma_bst_VolumeSize r,
       a_bst_PersistentVolumeLabel = ma_bst_PersistentVolumeLabel r,
       a_bst_StorageClass = storageClass', a_bst_NfsServer = ma_bst_NfsServer r,
       a_bst_NfsPath = ma_bst_NfsPath r\<rparr>)"

definition BackupStorage_DeepCopy_alpha ::
  "addr option \<Rightarrow> ('k block_alpha, addr option) mem" where
  "BackupStorage_DeepCopy_alpha = copy_into
      (sel_of is_B_alpha_BackupStorage un_B_alpha_BackupStorage) B_alpha_BackupStorage BackupStorage_DeepCopyInto_alpha"

definition Storage_DeepCopyInto_alpha ::
  "Storage_m_alpha \<Rightarrow> ('k block_alpha, Storage_m_alpha) mem" where
  "Storage_DeepCopyInto_alpha inn =
     mbind (copy_strings_alpha (ma_st_Volumes inn)) (\<lambda>volumes'.
     mbind (copy_strings_alpha (ma_st_Nodes inn)) (\<lambda>nodes'.
     mbind (copy_strings_alpha (ma_st_Labels inn)) (\<lambda>labels'.
     mbind (copy_strings_alpha (ma_st_ClassName inn)) (\<lambda>className'.
     mret (inn\<lparr>ma_st_Volumes := volumes', ma_st_Nodes := nodes', ma_st_Labels := labels',
       ma_st_ClassName := className'\<rparr>)))))"

definition look_Storage_alpha ::
  "Storage_m_alpha \<Rightarrow> ('k block_alpha, Storage_alpha) look" where
  "look_Storage_alpha r =
     lbind (look_strings_alpha (ma_st_Volumes r)) (\<lambda>volumes'.
     lbind (look_strings_alpha (ma_st_Nodes r)) (\<lambda>nodes'.
     lbind (look_strings_alpha (ma_st_Labels r)) (\<lambda>labels'.
     lbind (look_strings_alpha (ma_st_ClassName r)) (\<lambda>className'.
     lret \<lparr>a_st_Volumes = slice volumes', a_st_Nodes = slice nodes', a_st_Labels = slice labels',
       a_st_ClassName = slice className', a_st_Size = ma_st_Size r\<rparr>))))"

definition Storage_DeepCopy_alpha ::
  "addr option \<Rightarrow> ('k block_alpha, addr option) mem" where
  "Storage_DeepCopy_alpha = copy_into
      (sel_of is_B_alpha_Storage un_B_alpha_Storage) B_alpha_Storage Storage_DeepCopyInto_alpha"

definition ZooKeeper_DeepCopyInto_alpha ::
  "'k kube_alpha \<Rightarrow> 'k ZooKeeper_m_alpha \<Rightarrow> ('k block_alpha,
      'k ZooKeeper_m_alpha) mem" where
  "ZooKeeper_DeepCopyInto_alpha K inn =
     mbind (Affinity_Into_alpha K (ma_zk_Affinity inn)) (\<lambda>affinity'.
     mbind (Storage_DeepCopyInto_alpha (ma_zk_Storage inn)) (\<lambda>storage'.
     mbind (Resources_Into_alpha K (ma_zk_Resources inn)) (\<lambda>resources'.
     mbind (SecurityContext_Into_alpha K (ma_zk_SecurityContext inn)) (\<lambda>securityContext'.
     mbind (copy_strings_alpha (ma_zk_EnvironmentVariables inn)) (\<lambda>environmentVariables'.
     mret (inn\<lparr>ma_zk_Affinity := affinity', ma_zk_Storage := storage', ma_zk_Resources := resources',
       ma_zk_SecurityContext := securityContext',
       ma_zk_EnvironmentVariables := environmentVariables'\<rparr>))))))"

definition look_ZooKeeper_alpha ::
  "'k kube_alpha \<Rightarrow> 'k ZooKeeper_m_alpha \<Rightarrow> ('k block_alpha, ZooKeeper_alpha) look" where
  "look_ZooKeeper_alpha K r =
     lbind (look_Affinity_alpha K (ma_zk_Affinity r)) (\<lambda>affinity'.
     lbind (look_Storage_alpha (ma_zk_Storage r)) (\<lambda>storage'.
     lbind (look_Resources_alpha K (ma_zk_Resources r)) (\<lambda>resources'.
     lbind (look_SecurityContext_alpha K (ma_zk_SecurityContext r)) (\<lambda>securityContext'.
     lbind (look_strings_alpha (ma_zk_EnvironmentVariables r)) (\<lambda>environmentVariables'.
     lret \<lparr>a_zk_DockerImage = ma_zk_DockerImage r, a_zk_Affinity = affinity',
       a_zk_Replicas = ma_zk_Replicas r, a_zk_Storage = storage',
       a_zk_SnapshotStorage = ma_zk_SnapshotStorage r, a_zk_HeapSize = ma_zk_HeapSize r,
       a_zk_Resources = resources', a_zk_SecretName = ma_zk_SecretName r,
       a_zk_QuorumAuthEnabled = ma_zk_QuorumAuthEnabled r,
       a_zk_SecurityContext = securityContext', a_zk_JolokiaPort = ma_zk_JolokiaPort r,
       a_zk_EnvironmentVariables = slice environmentVariables'\<rparr>)))))"

definition ZooKeeper_DeepCopy_alpha ::
  "'k kube_alpha \<Rightarrow> addr option \<Rightarrow> ('k block_alpha, addr option) mem" where
  "ZooKeeper_DeepCopy_alpha K = copy_into (sel_of is_B_alpha_ZooKeeper un_B_alpha_ZooKeeper) B_alpha_ZooKeeper
      (ZooKeeper_DeepCopyInto_alpha K)"

definition Monitoring_DeepCopyInto_alpha ::
  "'k kube_alpha \<Rightarrow> 'k Monitoring_m_alpha \<Rightarrow> ('k block_alpha,
      'k Monitoring_m_alpha) mem" where
  "Monitoring_DeepCopyInto_alpha K inn =
     mbind (Affinity_Into_alpha K (ma_mon_Affinity inn)) (\<lambda>affinity'.
     mbind (Resources_Into_alpha K (ma_mon_Resources inn)) (\<lambda>resources'.
     mbind (SecurityContext_Into_alpha K (ma_mon_SecurityContext inn)) (\<lambda>securityContext'.
     mret (inn\<lparr>ma_mon_Affinity := affinity', ma_mon_Resources := resources',
       ma_mon_SecurityContext := securityContext'\<rparr>))))"

definition look_Monitoring_alpha ::
  "'k kube_alpha \<Rightarrow> 'k Monitoring_m_alpha \<Rightarrow> ('k block_alpha,
      Monitoring_alpha) look" where
  "look_Monitoring_alpha K r =
     lbind (look_Affinity_alpha K (ma_mon_Affinity r)) (\<lambda>affinity'.
     lbind (look_Resources_alpha K (ma_mon_Resources r)) (\<lambda>resources'.
     lbind (look_SecurityContext_alpha K (ma_mon_SecurityContext r)) (\<lambda>securityContext'.
     lret \<lparr>a_mon_DockerImage = ma_mon_DockerImage r, a_mon_Affinity = affinity',
       a_mon_Resources = resources', a_mon_ZooKeeperHost = ma_mon_ZooKeeperHost r,
       a_mon_ZooKeeperVolumes = ma_mon_ZooKeeperVolumes r,
       a_mon_NeedToCleanInfluxDb = ma_mon_NeedToCleanInfluxDb r,
       a_mon_ZooKeeperBackupDaemonHost = ma_mon_ZooKeeperBackupDaemonHost r,
       a_mon_SecretName = ma_mon_SecretName r, a_mon_SmDbHost = ma_mon_SmDbHost r,
       a_mon_SmDbName = ma_mon_SmDbName r,
       a_mon_ZooKeeperJolokiaPort = ma_mon_ZooKeeperJolokiaPort r,
       a_mon_SecurityContext = securityContext'\<rparr>)))"

definition Monitoring_DeepCopy_alpha ::
  "'k kube_alpha \<Rightarrow> addr option \<Rightarrow> ('k block_alpha, addr option) mem" where
  "Monitoring_DeepCopy_alpha K = copy_into
      (sel_of is_B_alpha_Monitoring un_B_alpha_Monitoring) B_alpha_Monitoring (Monitoring_DeepCopyInto_alpha K)"

definition BackupDaemon_DeepCopyInto_alpha ::
  "'k kube_alpha \<Rightarrow> 'k BackupDaemon_m_alpha \<Rightarrow> ('k block_alpha,
      'k BackupDaemon_m_alpha) mem" where
  "BackupDaemon_DeepCopyInto_alpha K inn =
     mbind (Affinity_Into_alpha K (ma_bd_Affinity inn)) (\<lambda>affinity'.
     mbind (BackupStorage_DeepCopyInto_alpha (ma_bd_BackupStorage inn)) (\<lambda>backupStorage'.
     mbind (Resources_Into_alpha K (ma_bd_Resources inn)) (\<lambda>resources'.
     mbind (SecurityContext_Into_alpha K (ma_bd_SecurityContext inn)) (\<lambda>securityContext'.
     mret (inn\<lparr>ma_bd_Affinity := affinity', ma_bd_BackupStorage := backupStorage',
       ma_bd_Resources := resources', ma_bd_SecurityContext := securityContext'\<rparr>)))))"

definition look_BackupDaemon_alpha ::
  "'k kube_alpha \<Rightarrow> 'k BackupDaemon_m_alpha \<Rightarrow> ('k block_alpha,
      BackupDaemon_alpha) look" where
  "look_BackupDaemon_alpha K r =
     lbind (look_Affinity_alpha K (ma_bd_Affinity r)) (\<lambda>affinity'.
     lbind (look_BackupStorage_alpha (ma_bd_BackupStorage r)) (\<lambda>backupStorage'.
     lbind (look_Resources_alpha K (ma_bd_Resources r)) (\<lambda>resources'.
     lbind (look_SecurityContext_alpha K (ma_bd_SecurityContext r)) (\<lambda>securityContext'.
     lret \<lparr>a_bd_DockerImage = ma_bd_DockerImage r, a_bd_Affinity = affinity',
       a_bd_BackupStorage = backupStorage', a_bd_Resources = resources',
       a_bd_BackupSchedule = ma_bd_BackupSchedule r, a_bd_EvictionPolicy = ma_bd_EvictionPolicy r,
       a_bd_IPv6 = ma_bd_IPv6 r, a_bd_ZooKeeperHost = ma_bd_ZooKeeperHost r,
       a_bd_ZooKeeperPort = ma_bd_ZooKeeperPort r, a_bd_SecretName = ma_bd_SecretName r,
       a_bd_SecurityContext = securityContext'\<rparr>))))"

definition BackupDaemon_DeepCopy_alpha ::
  "'k kube_alpha \<Rightarrow> addr option \<Rightarrow> ('k block_alpha, addr option) mem" where
  "BackupDaemon_DeepCopy_alpha K = copy_into
      (sel_of is_B_alpha_BackupDaemon un_B_alpha_BackupDaemon) B_alpha_BackupDaemon
      (BackupDaemon_DeepCopyInto_alpha K)"

definition ZooKeeperServiceSpec_DeepCopyInto_alpha ::
  "'k kube_alpha \<Rightarrow> ZooKeeperServiceSpec_m_alpha \<Rightarrow> ('k block_alpha,
      ZooKeeperServiceSpec_m_alpha) mem" where
  "ZooKeeperServiceSpec_DeepCopyInto_alpha K inn =
     mbind (copy_into (sel_of is_B_alpha_ZooKeeper un_B_alpha_ZooKeeper) B_alpha_ZooKeeper
         (ZooKeeper_DeepCopyInto_alpha K) (ma_spec_ZooKeeper inn)) (\<lambda>zooKeeper'.
     mbind (copy_into (sel_of is_B_alpha_Monitoring un_B_alpha_Monitoring) B_alpha_Monitoring
         (Monitoring_DeepCopyInto_alpha K) (ma_spec_Monitoring inn)) (\<lambda>monitoring'.
     mbind (copy_into (sel_of is_B_alpha_BackupDaemon un_B_alpha_BackupDaemon) B_alpha_BackupDaemon
         (BackupDaemon_DeepCopyInto_alpha K) (ma_spec_BackupDaemon inn)) (\<lambda>backupDaemon'.
     mret (inn\<lparr>ma_spec_ZooKeeper := zooKeeper', ma_spec_Monitoring := monitoring',
       ma_spec_BackupDaemon := backupDaemon'\<rparr>))))"

definition look_ZooKeeperServiceSpec_alpha ::
  "'k kube_alpha \<Rightarrow> ZooKeeperServiceSpec_m_alpha \<Rightarrow> ('k block_alpha,
      ZooKeeperServiceSpec_alpha) look" where
  "look_ZooKeeperServiceSpec_alpha K r =
     lbind (look_ref (sel_of is_B_alpha_ZooKeeper un_B_alpha_ZooKeeper) (look_ZooKeeper_alpha K)
         (ma_spec_ZooKeeper r)) (\<lambda>zooKeeper'.
     lbind (look_ref (sel_of is_B_alpha_Monitoring un_B_alpha_Monitoring) (look_Monitoring_alpha K)
         (ma_spec_Monitoring r)) (\<lambda>monitoring'.
     lbind (look_ref (sel_of is_B_alpha_BackupDaemon un_B_alpha_BackupDaemon) (look_BackupDaemon_alpha K)
         (ma_spec_BackupDaemon r)) (\<lambda>backupDaemon'.
     lret \<lparr>a_spec_ZooKeeper = zooKeeper', a_spec_Monitoring = monitoring',
       a_spec_BackupDaemon = backupDaemon'\<rparr>)))"

definition ZooKeeperServiceSpec_DeepCopy_alpha ::
  "'k kube_alpha \<Rightarrow> addr option \<Rightarrow> ('k block_alpha, addr option) mem" where
  "ZooKeeperServiceSpec_DeepCopy_alpha K = copy_into
      (sel_of is_B_alpha_ZooKeeperServiceSpec un_B_alpha_ZooKeeperServiceSpec) B_alpha_ZooKeeperServiceSpec
      (ZooKeeperServiceSpec_DeepCopyInto_alpha K)"

definition ZooKeeperStatus_DeepCopyInto_alpha ::
  "ZooKeeperStatus_m_alpha \<Rightarrow> ('k block_alpha, ZooKeeperStatus_m_alpha) mem" where
  "ZooKeeperStatus_DeepCopyInto_alpha inn =
     mbind (copy_strings_alpha (ma_zs_Servers inn)) (\<lambda>servers'.
     mret (inn\<lparr>ma_zs_Servers := servers'\<rparr>))"

definition look_ZooKeeperStatus_alpha ::
  "ZooKeeperStatus_m_alpha \<Rightarrow> ('k block_alpha, ZooKeeperStatus_alpha) look" where
  "look_ZooKeeperStatus_alpha r =
     lbind (look_strings_alpha (ma_zs_Servers r)) (\<lambda>servers'.
     lret \<lparr>a_zs_Servers = slice servers'\<rparr>)"

definition ZooKeeperStatus_DeepCopy_alpha ::
  "addr option \<Rightarrow> ('k block_alpha, addr option) mem" where
  "ZooKeeperStatus_DeepCopy_alpha = copy_into
      (sel_of is_B_alpha_ZooKeeperStatus un_B_alpha_ZooKeeperStatus) B_alpha_ZooKeeperStatus ZooKeeperStatus_DeepCopyInto_alpha"

definition MonitoringStatus_DeepCopyInto_alpha ::
  "MonitoringStatus_m_alpha \<Rightarrow> ('k block_alpha, MonitoringStatus_m_alpha) mem" where
  "MonitoringStatus_DeepCopyInto_alpha inn =
     mbind (copy_strings_alpha (ma_ms_Nodes inn)) (\<lambda>nodes'.
     mret (inn\<lparr>ma_ms_Nodes := nodes'\<rparr>))"

definition look_MonitoringStatus_alpha ::
  "MonitoringStatus_m_alpha \<Rightarrow> ('k block_alpha, MonitoringStatus_alpha) look" where
  "look_MonitoringStatus_alpha r =
     lbind (look_strings_alpha (ma_ms_Nodes r)) (\<lambda>nodes'.
     lret \<lparr>a_ms_Nodes = slice nodes'\<rparr>)"

definition MonitoringStatus_DeepCopy_alpha ::
  "addr option \<Rightarrow> ('k block_alpha, addr option) mem" where
  "MonitoringStatus_DeepCopy_alpha = copy_into
      (sel_of is_B_alpha_MonitoringStatus un_B_alpha_MonitoringStatus) B_alpha_MonitoringStatus MonitoringStatus_DeepCopyInto_alpha"

definition BackupDaemonStatus_DeepCopyInto_alpha ::
  "BackupDaemonStatus_m_alpha \<Rightarrow> ('k block_alpha, BackupDaemonStatus_m_alpha) mem" where
  "BackupDaemonStatus_DeepCopyInto_alpha inn =
     mbind (copy_strings_alpha (ma_bs_Nodes inn)) (\<lambda>nodes'.
     mret (inn\<lparr>ma_bs_Nodes := nodes'\<rparr>))"

definition look_BackupDaemonStatus_alpha ::
  "BackupDaemonStatus_m_alpha \<Rightarrow> ('k block_alpha, BackupDaemonStatus_alpha) look" where
  "look_BackupDaemonStatus_alpha r =
     lbind (look_strings_alpha (ma_bs_Nodes r)) (\<lambda>nodes'.
     lret \<lparr>a_bs_Nodes = slice nodes'\<rparr>)"

definition BackupDaemonStatus_DeepCopy_alpha ::
  "addr option \<Rightarrow> ('k block_alpha, addr option) mem" where
  "BackupDaemonStatus_DeepCopy_alpha = copy_into
      (sel_of is_B_alpha_BackupDaemonStatus un_B_alpha_BackupDaemonStatus) B_alpha_BackupDaemonStatus BackupDaemonStatus_DeepCopyInto_alpha"

definition ZooKeeperServiceStatus_DeepCopyInto_alpha ::
  "ZooKeeperServiceStatus_m_alpha \<Rightarrow> ('k block_alpha, ZooKeeperServiceStatus_m_alpha) mem" where
  "ZooKeeperServiceStatus_DeepCopyInto_alpha inn =
     mbind (ZooKeeperStatus_DeepCopyInto_alpha (ma_status_ZooKeeperStatus inn)) (\<lambda>zooKeeperStatus'.
     mbind (MonitoringStatus_DeepCopyInto_alpha (ma_status_MonitoringStatus inn)) (\<lambda>monitoringStatus'.
     mbind (BackupDaemonStatus_DeepCopyInto_alpha (ma_status_BackupDaemonStatus inn))
         (\<lambda>backupDaemonStatus'.
     mret (inn\<lparr>ma_status_ZooKeeperStatus := zooKeeperStatus',
       ma_status_MonitoringStatus := monitoringStatus',
       ma_status_BackupDaemonStatus := backupDaemonStatus'\<rparr>))))"

definition look_ZooKeeperServiceStatus_alpha ::
  "ZooKeeperServiceStatus_m_alpha \<Rightarrow> ('k block_alpha, ZooKeeperServiceStatus_alpha) look" where
  "look_ZooKeeperServiceStatus_alpha r =
     lbind (look_ZooKeeperStatus_alpha (ma_status_ZooKeeperStatus r)) (\<lambda>zooKeeperStatus'.
     lbind (look_MonitoringStatus_alpha (ma_status_MonitoringStatus r)) (\<lambda>monitoringStatus'.
     lbind (look_BackupDaemonStatus_alpha (ma_status_BackupDaemonStatus r)) (\<lambda>backupDaemonStatus'.
     lret \<lparr>a_status_ZooKeeperStatus = zooKeeperStatus', a_status_MonitoringStatus = monitoringStatus',
       a_status_BackupDaemonStatus = backupDaemonStatus'\<rparr>)))"

definition ZooKeeperServiceStatus_DeepCopy_alpha ::
  "addr option \<Rightarrow> ('k block_alpha, addr option) mem" where
  "ZooKeeperServiceStatus_DeepCopy_alpha = copy_into
      (sel_of is_B_alpha_ZooKeeperServiceStatus un_B_alpha_ZooKeeperServiceStatus) B_alpha_ZooKeeperServiceStatus ZooKeeperServiceStatus_DeepCopyInto_alpha"

definition ZooKeeperService_DeepCopyInto_alpha ::
  "'k kube_alpha \<Rightarrow> 'k ZooKeeperService_m_alpha \<Rightarrow> ('k block_alpha,
      'k ZooKeeperService_m_alpha) mem" where
  "ZooKeeperService_DeepCopyInto_alpha K inn =
     mbind (ObjectMeta_Into_alpha K (ma_cr_Meta inn)) (\<lambda>meta'.
     mbind (ZooKeeperServiceSpec_DeepCopyInto_alpha K (ma_cr_Spec inn)) (\<lambda>spec'.
     mbind (ZooKeeperServiceStatus_DeepCopyInto_alpha (ma_cr_Status inn)) (\<lambda>status'.
     mret (inn\<lparr>ma_cr_Meta := meta', ma_cr_Spec := spec', ma_cr_Status := status'\<rparr>))))"

definition look_ZooKeeperService_alpha ::
  "'k kube_alpha \<Rightarrow> 'k ZooKeeperService_m_alpha \<Rightarrow> ('k block_alpha,
      ZooKeeperService_alpha) look" where
  "look_ZooKeeperService_alpha K r =
     lbind (look_ObjectMeta_alpha K (ma_cr_Meta r)) (\<lambda>meta'.
     lbind (look_ZooKeeperServiceSpec_alpha K (ma_cr_Spec r)) (\<lambda>spec'.
     lbind (look_ZooKeeperServiceStatus_alpha (ma_cr_Status r)) (\<lambda>status'.
     lret \<lparr>a_cr_APIVersion = ma_cr_APIVersion r, a_cr_Kind = ma_cr_Kind r, a_cr_Meta = meta',
       a_cr_Spec = spec', a_cr_Status = status'\<rparr>)))"

definition ZooKeeperService_DeepCopy_alpha ::
  "'k kube_alpha \<Rightarrow> addr option \<Rightarrow> ('k block_alpha, addr option) mem" where
  "ZooKeeperService_DeepCopy_alpha K = copy_into
      (sel_of is_B_alpha_ZooKeeperService un_B_alpha_ZooKeeperService) B_alpha_ZooKeeperService
      (ZooKeeperService_DeepCopyInto_alpha K)"

definition ZooKeeperServiceList_DeepCopyInto_alpha ::
  "'k kube_alpha \<Rightarrow> 'k ZooKeeperServiceList_m_alpha \<Rightarrow> ('k block_alpha,
      'k ZooKeeperServiceList_m_alpha) mem" where
  "ZooKeeperServiceList_DeepCopyInto_alpha K inn =
     mbind (ListMeta_Into_alpha K (ma_sl_Meta inn)) (\<lambda>meta'.
     mbind (copy_into (sel_of is_Items_alpha un_Items_alpha) Items_alpha (mmap
         (ZooKeeperService_DeepCopyInto_alpha K)) (ma_sl_Items inn)) (\<lambda>items'.
     mret (inn\<lparr>ma_sl_Meta := meta', ma_sl_Items := items'\<rparr>)))"

definition look_ZooKeeperServiceList_alpha ::
  "'k kube_alpha \<Rightarrow> 'k ZooKeeperServiceList_m_alpha \<Rightarrow> ('k block_alpha,
      ZooKeeperServiceList_alpha) look" where
  "look_ZooKeeperServiceList_alpha K r =
     lbind (look_ListMeta_alpha K (ma_sl_Meta r)) (\<lambda>meta'.
     lbind (look_ref (sel_of is_Items_alpha un_Items_alpha) (lmap (look_ZooKeeperService_alpha K))
         (ma_sl_Items r)) (\<lambda>items'.
     lret \<lparr>a_sl_APIVersion = ma_sl_APIVersion r, a_sl_Kind = ma_sl_Kind r, a_sl_Meta = meta',
       a_sl_Items = slice items'\<rparr>))"

definition ZooKeeperServiceList_DeepCopy_alpha ::
  "'k kube_alpha \<Rightarrow> addr option \<Rightarrow> ('k block_alpha, addr option) mem" where
  "ZooKeeperServiceList_DeepCopy_alpha K = copy_into
      (sel_of is_B_alpha_ZooKeeperServiceList un_B_alpha_ZooKeeperServiceList) B_alpha_ZooKeeperServiceList
      (ZooKeeperServiceList_DeepCopyInto_alpha K)"

section \<open>What they promise\<close>

lemma deep_SnapshotStorage_alpha: "deep_copier SnapshotStorage_DeepCopyInto_alpha lret"
  unfolding SnapshotStorage_DeepCopyInto_alpha_def [abs_def] by (rule deep_plain)

lemma deep_BackupStorage_alpha: "deep_copier BackupStorage_DeepCopyInto_alpha look_BackupStorage_alpha"
  unfolding BackupStorage_DeepCopyInto_alpha_def [abs_def] look_BackupStorage_alpha_def [abs_def]
  by (rule deep_copierI) (intro copies_fields | assumption | simp add: sel_of_def)+

lemma deep_Storage_alpha: "deep_copier Storage_DeepCopyInto_alpha look_Storage_alpha"
  unfolding Storage_DeepCopyInto_alpha_def [abs_def] look_Storage_alpha_def [abs_def]
  by (rule deep_copierI) (intro copies_fields | assumption | simp add: sel_of_def)+

lemma deep_ZooKeeper_alpha:
  "kube_documented_alpha K \<Longrightarrow> deep_copier (ZooKeeper_DeepCopyInto_alpha K)
      (look_ZooKeeper_alpha K)"
  unfolding ZooKeeper_DeepCopyInto_alpha_def [abs_def] look_ZooKeeper_alpha_def [abs_def]
  by (rule deep_copierI)
      (intro copies_fields copies_field [OF deep_Storage_alpha] kube_fields_alpha | assumption | simp add: sel_of_def)+

lemma deep_Monitoring_alpha:
  "kube_documented_alpha K \<Longrightarrow> deep_copier (Monitoring_DeepCopyInto_alpha K)
      (look_Monitoring_alpha K)"
  unfolding Monitoring_DeepCopyInto_alpha_def [abs_def] look_Monitoring_alpha_def [abs_def]
  by (rule deep_copierI) (intro copies_fields kube_fields_alpha | assumption | simp add: sel_of_def)+

lemma deep_BackupDaemon_alpha:
  "kube_documented_alpha K \<Longrightarrow> deep_copier (BackupDaemon_DeepCopyInto_alpha K)
      (look_BackupDaemon_alpha K)"
  unfolding BackupDaemon_DeepCopyInto_alpha_def [abs_def] look_BackupDaemon_alpha_def [abs_def]
  by (rule deep_copierI)
      (intro copies_fields copies_field [OF deep_BackupStorage_alpha] kube_fields_alpha | assumption | simp add: sel_of_def)+

lemma deep_ZooKeeperServiceSpec_alpha:
  "kube_documented_alpha K \<Longrightarrow> deep_copier (ZooKeeperServiceSpec_DeepCopyInto_alpha K)
      (look_ZooKeeperServiceSpec_alpha K)"
  unfolding ZooKeeperServiceSpec_DeepCopyInto_alpha_def [abs_def] look_ZooKeeperServiceSpec_alpha_def [abs_def]
  by (rule deep_copierI)
      (intro copies_fields deep_ZooKeeper_alpha deep_Monitoring_alpha deep_BackupDaemon_alpha | assumption | simp add: sel_of_def)+

lemma deep_ZooKeeperStatus_alpha: "deep_copier ZooKeeperStatus_DeepCopyInto_alpha look_ZooKeeperStatus_alpha"
  unfolding ZooKeeperStatus_DeepCopyInto_alpha_def [abs_def] look_ZooKeeperStatus_alpha_def [abs_def]
  by (rule deep_copierI) (intro copies_fields | assumption | simp add: sel_of_def)+

lemma deep_MonitoringStatus_alpha: "deep_copier MonitoringStatus_DeepCopyInto_alpha look_MonitoringStatus_alpha"
  unfolding MonitoringStatus_DeepCopyInto_alpha_def [abs_def] look_MonitoringStatus_alpha_def [abs_def]
  by (rule deep_copierI) (intro copies_fields | assumption | simp add: sel_of_def)+

lemma deep_BackupDaemonStatus_alpha: "deep_copier BackupDaemonStatus_DeepCopyInto_alpha look_BackupDaemonStatus_alpha"
  unfolding BackupDaemonStatus_DeepCopyInto_alpha_def [abs_def] look_BackupDaemonStatus_alpha_def [abs_def]
  by (rule deep_copierI) (intro copies_fields | assumption | simp add: sel_of_def)+

lemma deep_ZooKeeperServiceStatus_alpha: "deep_copier ZooKeeperServiceStatus_DeepCopyInto_alpha look_ZooKeeperServiceStatus_alpha"
  unfolding ZooKeeperServiceStatus_DeepCopyInto_alpha_def [abs_def] look_ZooKeeperServiceStatus_alpha_def [abs_def]
  by (rule deep_copierI)
      (intro copies_fields copies_field [OF deep_ZooKeeperStatus_alpha] copies_field [OF deep_MonitoringStatus_alpha] copies_field [OF deep_BackupDaemonStatus_alpha] | assumption | simp add: sel_of_def)+

lemma deep_ZooKeeperService_alpha:
  "kube_documented_alpha K \<Longrightarrow> deep_copier (ZooKeeperService_DeepCopyInto_alpha K)
      (look_ZooKeeperService_alpha K)"
  unfolding ZooKeeperService_DeepCopyInto_alpha_def [abs_def] look_ZooKeeperService_alpha_def [abs_def]
  by (rule deep_copierI)
      (intro copies_fields copies_field [OF deep_ZooKeeperServiceSpec_alpha] copies_field [OF deep_ZooKeeperServiceStatus_alpha] kube_fields_alpha | assumption | simp add: sel_of_def)+

lemma deep_ZooKeeperServiceList_alpha:
  "kube_documented_alpha K \<Longrightarrow> deep_copier (ZooKeeperServiceList_DeepCopyInto_alpha K)
      (look_ZooKeeperServiceList_alpha K)"
  unfolding ZooKeeperServiceList_DeepCopyInto_alpha_def [abs_def] look_ZooKeeperServiceList_alpha_def [abs_def]
  by (rule deep_copierI)
      (intro copies_fields kube_fields_alpha deep_ZooKeeperService_alpha | assumption | simp add: sel_of_def)+

section \<open>The custom resource\<close>

datatype runtime_object_alpha = CustomResource_alpha addr | CustomResourceList_alpha addr

definition ZooKeeperService_DeepCopyObject_alpha ::
  "'k kube_alpha \<Rightarrow> addr option \<Rightarrow> ('k block_alpha, runtime_object_alpha option) mem" where
  "ZooKeeperService_DeepCopyObject_alpha K inn =
     mbind (ZooKeeperService_DeepCopy_alpha K inn) (\<lambda>c. case c of
       None \<Rightarrow> mret None | Some a \<Rightarrow> mret (Some (CustomResource_alpha a)))"

definition ZooKeeperServiceList_DeepCopyObject_alpha ::
  "'k kube_alpha \<Rightarrow> addr option \<Rightarrow> ('k block_alpha, runtime_object_alpha option) mem" where
  "ZooKeeperServiceList_DeepCopyObject_alpha K inn =
     mbind (ZooKeeperServiceList_DeepCopy_alpha K inn) (\<lambda>c. case c of
       None \<Rightarrow> mret None | Some a \<Rightarrow> mret (Some (CustomResourceList_alpha a)))"

interpretation storagea: deep_copier Storage_DeepCopyInto_alpha look_Storage_alpha by (rule deep_Storage_alpha)

interpretation statusa: deep_copier ZooKeeperServiceStatus_DeepCopyInto_alpha look_ZooKeeperServiceStatus_alpha
  by (rule deep_ZooKeeperServiceStatus_alpha)

lemma deep_cr_alpha:
  "kube_documented_alpha K \<Longrightarrow> deep_copier (ZooKeeperService_DeepCopy_alpha K)
     (look_ref (sel_of is_B_alpha_ZooKeeperService un_B_alpha_ZooKeeperService) (look_ZooKeeperService_alpha K))"
  unfolding ZooKeeperService_DeepCopy_alpha_def
  by (intro deep_into deep_ZooKeeperService_alpha) (simp_all add: sel_of_def)

lemma deep_cr_list_alpha:
  "kube_documented_alpha K \<Longrightarrow> deep_copier (ZooKeeperServiceList_DeepCopy_alpha K)
     (look_ref (sel_of is_B_alpha_ZooKeeperServiceList un_B_alpha_ZooKeeperServiceList) (look_ZooKeeperServiceList_alpha K))"
  unfolding ZooKeeperServiceList_DeepCopy_alpha_def
  by (intro deep_into deep_ZooKeeperServiceList_alpha) (simp_all add: sel_of_def)

end
