(* ===== verification/OperatorMain.thy ===== *)
theory OperatorMain
  imports Controller
begin

text \<open>
  \<^verbatim>\<open>operator/main.go\<close> and \<^verbatim>\<open>SetupWithManager\<close>: the flags, the registration of types, the manager and the
  controller. The manager is the controller library's; its calls are fields of \<open>boot\<close>. A step that fails ends the process.
\<close>

section \<open>Flags\<close>

record main_flags =
  metricsAddr :: string
  probeAddr :: string
  enableLeaderElection :: bool

definition default_flags :: main_flags where
  "default_flags = \<lparr>metricsAddr = '':8080'', probeAddr = '':8081'', enableLeaderElection = False\<rparr>"

text \<open>\<^verbatim>\<open>strconv.ParseBool\<close>\<close>

definition ParseBool :: "string \<Rightarrow> bool option" where
  "ParseBool s =
     (if s \<in> {''1'', ''t'', ''T'', ''true'', ''TRUE'', ''True''} then Some True
      else if s \<in> {''0'', ''f'', ''F'', ''false'', ''FALSE'', ''False''} then Some False else None)"

text \<open>
  \<^verbatim>\<open>Set\<close> of the flag of a name. The flags of the logger, which the library adds, are an argument: for each name whether the
  flag is boolean and which values it takes.
\<close>

type_synonym zap_flags = "string \<Rightarrow> (bool \<times> (string \<Rightarrow> bool)) option"

definition is_bool_flag :: "zap_flags \<Rightarrow> string \<Rightarrow> bool option" where
  "is_bool_flag zap name =
     (if name \<in> {''metrics-bind-address'', ''health-probe-bind-address''} then Some False
      else if name = ''leader-elect'' then Some True
      else map_option fst (zap name))"

definition set_flag :: "zap_flags \<Rightarrow> string \<Rightarrow> string \<Rightarrow> main_flags \<Rightarrow> main_flags option" where
  "set_flag zap name value f =
     (if name = ''metrics-bind-address'' then Some (f\<lparr>metricsAddr := value\<rparr>)
      else if name = ''health-probe-bind-address'' then Some (f\<lparr>probeAddr := value\<rparr>)
      else if name = ''leader-elect'' then map_option (\<lambda>b. f\<lparr>enableLeaderElection := b\<rparr>) (ParseBool value)
      else case zap name of
        Some (_, accepts) \<Rightarrow> if accepts value then Some f else None
      | None \<Rightarrow> None)"

text \<open>The name and the value of \<^verbatim>\<open>name=value\<close>; the search for the sign starts at the second character.\<close>

definition split_flag :: "string \<Rightarrow> string \<times> string option" where
  "split_flag s = (case s of
     [] \<Rightarrow> ([], None)
   | ch # rest \<Rightarrow>
       (let name = ch # takeWhile (\<lambda>d. d \<noteq> CHR ''='') rest; tail = dropWhile (\<lambda>d. d \<noteq> CHR ''='') rest
        in (name, if tail = [] then None else Some (tl tail))))"

datatype flag_result = Parsed main_flags | HelpWanted | BadFlags

definition flag_name :: "string \<Rightarrow> string" where
  "flag_name s = (if take 2 s = ''--'' then drop 2 s else drop 1 s)"

definition is_flag :: "string \<Rightarrow> bool" where
  "is_flag s \<longleftrightarrow> length s \<ge> 2 \<and> hd s = CHR ''-'' \<and> s \<noteq> ''--''"

definition bad_syntax :: "string \<Rightarrow> bool" where
  "bad_syntax name \<longleftrightarrow> name = [] \<or> hd name = CHR ''-'' \<or> hd name = CHR ''=''"

text \<open>\<^verbatim>\<open>flag.Parse\<close>: up to the first argument that is not a flag.\<close>

fun parse_flags :: "zap_flags \<Rightarrow> string list \<Rightarrow> main_flags \<Rightarrow> flag_result" where
  "parse_flags zap [] f = Parsed f"
| "parse_flags zap (s # args) f =
     (if \<not> is_flag s then Parsed f
      else if bad_syntax (flag_name s) then BadFlags
      else case split_flag (flag_name s) of (name, value) \<Rightarrow>
        (case is_bool_flag zap name of
           None \<Rightarrow> if name = ''help'' \<or> name = ''h'' then HelpWanted else BadFlags
         | Some True \<Rightarrow>
             (case set_flag zap name (case value of Some v \<Rightarrow> v | None \<Rightarrow> ''true'') f of
                None \<Rightarrow> BadFlags | Some f' \<Rightarrow> parse_flags zap args f')
         | Some False \<Rightarrow>
             (case value of
                Some v \<Rightarrow> (case set_flag zap name v f of None \<Rightarrow> BadFlags | Some f' \<Rightarrow> parse_flags zap args f')
              | None \<Rightarrow>
                  (case args of
                     [] \<Rightarrow> BadFlags
                   | v # args' \<Rightarrow>
                       (case set_flag zap name v f of
                          None \<Rightarrow> BadFlags | Some f' \<Rightarrow> parse_flags zap args' f')))))"

section \<open>The controller\<close>

text \<open>
  What \<^verbatim>\<open>SetupWithManager\<close> registers: the kind to reconcile and the kind it owns, with their filters, and the tables the
  reconciler starts with.
\<close>

record controller =
  For :: string
  For_Update :: "ObjectMeta \<Rightarrow> ObjectMeta \<Rightarrow> bool"
  For_Delete :: "bool \<Rightarrow> bool"
  Owns :: string
  Owns_Update :: "ObjectMeta \<Rightarrow> ObjectMeta \<Rightarrow> bool"
  tables :: "(string, string) fmap \<times> (string, string) fmap"

record manager_options =
  DefaultNamespaces :: "string list"
  Metrics_BindAddress :: string
  Webhook_Port :: int
  HealthProbeBindAddress :: string
  LeaderElection :: bool
  LeaderElectionNamespace :: string
  LeaderElectionID :: string

record ('m, 'w) boot =
  AddToScheme_client :: "('w, unit) ext"
  AddToScheme_v1alpha1 :: "('w, unit) ext"
  AddToScheme_v1 :: "('w, unit) ext"
  zap_BindFlags :: zap_flags
  LookupEnv :: "string \<Rightarrow> string option"
  GetConfig :: "('w, unit) ext"
  NewManager :: "manager_options \<Rightarrow> ('w, 'm) ext"
  Complete :: "'m \<Rightarrow> controller \<Rightarrow> ('w, unit) ext"
  AddHealthzCheck :: "'m \<Rightarrow> string \<Rightarrow> ('w, unit) ext"
  AddReadyzCheck :: "'m \<Rightarrow> string \<Rightarrow> ('w, unit) ext"
  Start :: "'m \<Rightarrow> ('w, unit) ext"

definition SetupWithManager ::
  "('m, 'w) boot \<Rightarrow> (string, string) fmap \<Rightarrow> (string, string) fmap \<Rightarrow> 'm \<Rightarrow> ('w, unit) ext" where
  "SetupWithManager b versions hashes mgr = Complete b mgr
     \<lparr>For = ''ZooKeeperService'', For_Update = statusPredicate_Update, For_Delete = statusPredicate_Delete,
      Owns = ''Secret'', Owns_Update = secretPredicate_Update,
      tables = (versions, hashes)\<rparr>"

section \<open>The process\<close>

datatype exit = Exit int | Crash go_error

type_synonym ('w, 'a) process = "'w \<Rightarrow> (exit + 'a) \<times> 'w"

definition pr_bind :: "('w, 'a) process \<Rightarrow> ('a \<Rightarrow> ('w, 'b) process) \<Rightarrow> ('w, 'b) process" where
  "pr_bind m f = (\<lambda>w. case m w of (Inl e, w') \<Rightarrow> (Inl e, w') | (Inr x, w') \<Rightarrow> f x w')"

definition pr_ret :: "'a \<Rightarrow> ('w, 'a) process" where
  "pr_ret x = (\<lambda>w. (Inr x, w))"

definition pr_exit :: "exit \<Rightarrow> ('w, 'a) process" where
  "pr_exit e = (\<lambda>w. (Inl e, w))"

text \<open>\<^verbatim>\<open>if err != nil { os.Exit(1) }\<close>, and \<^verbatim>\<open>utilruntime.Must\<close>, which panics.\<close>

definition orExit :: "('w, 'a) ext \<Rightarrow> ('w, 'a) process" where
  "orExit m = (\<lambda>w. case m w of (Inl _, w') \<Rightarrow> (Inl (Exit 1), w') | (Inr x, w') \<Rightarrow> (Inr x, w'))"

definition Must :: "('w, 'a) ext \<Rightarrow> ('w, 'a) process" where
  "Must m = (\<lambda>w. case m w of (Inl e, w') \<Rightarrow> (Inl (Crash e), w') | (Inr x, w') \<Rightarrow> (Inr x, w'))"

definition main_init :: "('m, 'w) boot \<Rightarrow> ('w, unit) process" where
  "main_init b =
     pr_bind (Must (AddToScheme_client b)) (\<lambda>_.
     pr_bind (Must (AddToScheme_v1alpha1 b)) (\<lambda>_.
     Must (AddToScheme_v1 b)))"

text \<open>\<^verbatim>\<open>flag.Parse\<close> of the command line ends the process with 0 for help and with 2 for a flag it does not take.\<close>

definition flag_Parse :: "('m, 'w) boot \<Rightarrow> string list \<Rightarrow> ('w, main_flags) process" where
  "flag_Parse b args = (case parse_flags (zap_BindFlags b) args default_flags of
     Parsed f \<Rightarrow> pr_ret f | HelpWanted \<Rightarrow> pr_exit (Exit 0) | BadFlags \<Rightarrow> pr_exit (Exit 2))"

definition manager_of :: "main_flags \<Rightarrow> string \<Rightarrow> manager_options" where
  "manager_of f namespace =
     \<lparr>DefaultNamespaces = [namespace], Metrics_BindAddress = metricsAddr f, Webhook_Port = 9443,
      HealthProbeBindAddress = probeAddr f, LeaderElection = enableLeaderElection f,
      LeaderElectionNamespace = namespace,
      LeaderElectionID = ''zookeeperservice.'' @ namespace @ ''.netcracker.com''\<rparr>"

definition operator_main :: "('m, 'w) boot \<Rightarrow> string list \<Rightarrow> ('w, unit) process" where
  "operator_main b args =
     pr_bind (main_init b) (\<lambda>_.
     pr_bind (flag_Parse b args) (\<lambda>f.
     pr_bind (orExit (\<lambda>w. (getWatchNamespace (LookupEnv b), w))) (\<lambda>namespace.
     pr_bind (orExit (GetConfig b)) (\<lambda>_.
     pr_bind (orExit (NewManager b (manager_of f namespace))) (\<lambda>mgr.
     pr_bind (orExit (SetupWithManager b fmempty fmempty mgr)) (\<lambda>_.
     pr_bind (orExit (AddHealthzCheck b mgr ''healthz'')) (\<lambda>_.
     pr_bind (orExit (AddReadyzCheck b mgr ''readyz'')) (\<lambda>_.
     orExit (Start b mgr)))))))))"

section \<open>Properties\<close>

lemma pr_bind_Inr: "pr_bind m f w = (Inr x, w') \<longleftrightarrow> (\<exists>y w1. m w = (Inr y, w1) \<and> f y w1 = (Inr x, w'))"
  by (auto simp: pr_bind_def split: prod.splits sum.splits)

lemma pr_bind_Inl:
  "pr_bind m f w = (Inl e, w') \<longleftrightarrow> m w = (Inl e, w') \<or> (\<exists>y w1. m w = (Inr y, w1) \<and> f y w1 = (Inl e, w'))"
  by (auto simp: pr_bind_def split: prod.splits sum.splits)

lemma orExit_Inr [simp]: "orExit m w = (Inr x, w') \<longleftrightarrow> m w = (Inr x, w')"
  by (auto simp: orExit_def split: prod.splits sum.splits)

lemma orExit_Inl: "orExit m w = (Inl e, w') \<Longrightarrow> e = Exit 1"
  by (auto simp: orExit_def split: prod.splits sum.splits)

lemma Must_Inr [simp]: "Must m w = (Inr x, w') \<longleftrightarrow> m w = (Inr x, w')"
  by (auto simp: Must_def split: prod.splits sum.splits)

lemma Must_Inl: "Must m w = (Inl e, w') \<Longrightarrow> \<exists>err. e = Crash err \<and> m w = (Inl err, w')"
  by (auto simp: Must_def split: prod.splits sum.splits)

text \<open>The flags the chart passes are read back.\<close>

lemma while_sep:
  "c \<notin> set xs \<Longrightarrow> takeWhile (\<lambda>d. d \<noteq> c) (xs @ c # v) = xs"
  "c \<notin> set xs \<Longrightarrow> dropWhile (\<lambda>d. d \<noteq> c) (xs @ c # v) = c # v"
  by (induction xs) auto

lemma split_flag_value:
  "CHR ''='' \<notin> set n \<Longrightarrow> n \<noteq> [] \<Longrightarrow> split_flag (n @ CHR ''='' # v) = (n, Some v)"
  by (cases n) (simp_all add: split_flag_def Let_def while_sep)

definition print_flag :: "string \<Rightarrow> string \<Rightarrow> string" where
  "print_flag name value = ''--'' @ name @ ''='' @ value"

lemma parse_printed:
  assumes "name \<noteq> []" and "hd name \<noteq> CHR ''-''" and "CHR ''='' \<notin> set name"
    and "is_bool_flag zap name \<noteq> None" and "set_flag zap name value f = Some f'"
  shows "parse_flags zap (print_flag name value # args) f = parse_flags zap args f'"
proof -
  from assms(1) obtain ch rest where name: "name = ch # rest" by (cases name) auto
  have "flag_name (print_flag name value) = name @ CHR ''='' # value" "is_flag (print_flag name value)"
    by (simp_all add: print_flag_def flag_name_def is_flag_def name)
  moreover have "\<not> bad_syntax (name @ CHR ''='' # value)"
    using assms(2,3) by (auto simp: bad_syntax_def name)
  moreover have "split_flag (name @ CHR ''='' # value) = (name, Some value)"
    using assms(1,3) by (simp add: split_flag_value)
  moreover obtain is_bool where "is_bool_flag zap name = Some is_bool" using assms(4) by blast
  ultimately show ?thesis using assms(5) by (cases is_bool) simp_all
qed

lemma flags_round_trip:
  "parse_flags zap [print_flag ''metrics-bind-address'' (metricsAddr f),
     print_flag ''health-probe-bind-address'' (probeAddr f),
     print_flag ''leader-elect'' (FormatBool (enableLeaderElection f))] g = Parsed f"
proof -
  let ?g1 = "g\<lparr>metricsAddr := metricsAddr f\<rparr>" and ?n1 = "''metrics-bind-address''"
  let ?g2 = "?g1\<lparr>probeAddr := probeAddr f\<rparr>" and ?n2 = "''health-probe-bind-address''"
  let ?a = "print_flag ?n1 (metricsAddr f)" and ?b = "print_flag ?n2 (probeAddr f)"
    and ?c = "print_flag ''leader-elect'' (FormatBool (enableLeaderElection f))"
  have set: "set_flag zap ?n1 (metricsAddr f) g = Some ?g1" "set_flag zap ?n2 (probeAddr f) ?g1 = Some ?g2"
    "set_flag zap ''leader-elect'' (FormatBool (enableLeaderElection f)) ?g2 = Some f"
    by (simp_all add: set_flag_def, cases f, cases g, simp add: FormatBool_def ParseBool_def)
  have "parse_flags zap [?a, ?b, ?c] g = parse_flags zap [?b, ?c] ?g1"
    by (rule parse_printed [OF _ _ _ _ set(1)]) (simp_all add: is_bool_flag_def)
  also have "\<dots> = parse_flags zap [?c] ?g2"
    by (rule parse_printed [OF _ _ _ _ set(2)]) (simp_all add: is_bool_flag_def)
  also have "\<dots> = parse_flags zap [] f"
    by (rule parse_printed [OF _ _ _ _ set(3)]) (simp_all add: is_bool_flag_def)
  finally show ?thesis by simp
qed

lemma flag_Parse_cases:
  "flag_Parse b args w = (r, w') \<Longrightarrow> w' = w \<and>
     (case parse_flags (zap_BindFlags b) args default_flags of
        Parsed f \<Rightarrow> r = Inr f | HelpWanted \<Rightarrow> r = Inl (Exit 0) | BadFlags \<Rightarrow> r = Inl (Exit 2))"
  by (auto simp: flag_Parse_def pr_ret_def pr_exit_def split: flag_result.splits)

lemma main_init_Inl: "main_init b w = (Inl e, w') \<Longrightarrow> \<exists>err. e = Crash err"
  unfolding main_init_def pr_bind_Inl by (blast dest: Must_Inl)

text \<open>After the flags, every step that fails ends the process with 1.\<close>

definition after_flags :: "('m, 'w) boot \<Rightarrow> main_flags \<Rightarrow> ('w, unit) process" where
  "after_flags b f =
     pr_bind (orExit (\<lambda>w. (getWatchNamespace (LookupEnv b), w))) (\<lambda>namespace.
     pr_bind (orExit (GetConfig b)) (\<lambda>_.
     pr_bind (orExit (NewManager b (manager_of f namespace))) (\<lambda>mgr.
     pr_bind (orExit (SetupWithManager b fmempty fmempty mgr)) (\<lambda>_.
     pr_bind (orExit (AddHealthzCheck b mgr ''healthz'')) (\<lambda>_.
     pr_bind (orExit (AddReadyzCheck b mgr ''readyz'')) (\<lambda>_.
     orExit (Start b mgr)))))))"

lemma after_flags_Inl: "after_flags b f w = (Inl e, w') \<Longrightarrow> e = Exit 1"
  unfolding after_flags_def pr_bind_Inl by (auto dest: orExit_Inl)

lemma after_flags_Inr:
  "after_flags b f w0 = (Inr (), w') \<longleftrightarrow>
    (\<exists>ns mgr w1 w2 w3 w4 w5. LookupEnv b ''WATCH_NAMESPACE'' = Some ns \<and> GetConfig b w0 = (Inr (), w1) \<and>
       NewManager b (manager_of f ns) w1 = (Inr mgr, w2) \<and> SetupWithManager b fmempty fmempty mgr w2 = (Inr (), w3) \<and>
       AddHealthzCheck b mgr ''healthz'' w3 = (Inr (), w4) \<and> AddReadyzCheck b mgr ''readyz'' w4 = (Inr (), w5) \<and>
       Start b mgr w5 = (Inr (), w'))"
  unfolding after_flags_def
  by (simp add: pr_bind_Inr getWatchNamespace_def split: option.splits) blast

lemma operator_main_split:
  "operator_main b args = pr_bind (main_init b) (\<lambda>_. pr_bind (flag_Parse b args) (after_flags b))"
  by (simp add: operator_main_def after_flags_def [abs_def])

text \<open>
  C33. How the operator ends. The process ends without an error only after a manager for exactly the namespace of
  \<^verbatim>\<open>WATCH_NAMESPACE\<close> was created with the flags given, the controller was set up with it, and it was
  run. A flag the operator does not take ends it with 2, a request for help with 0; then no call but the registration of
  types was made. Any failing step after the flags ends it with 1, and types that cannot be registered with a panic.
\<close>

theorem operator_main_ends:
  "case operator_main b args w of
     (Inr _, w') \<Rightarrow> \<exists>f ns mgr w0 w1 w2 w3 w4 w5.
       parse_flags (zap_BindFlags b) args default_flags = Parsed f \<and>
       LookupEnv b ''WATCH_NAMESPACE'' = Some ns \<and>
       main_init b w = (Inr (), w0) \<and> GetConfig b w0 = (Inr (), w1) \<and>
       NewManager b (manager_of f ns) w1 = (Inr mgr, w2) \<and> SetupWithManager b fmempty fmempty mgr w2 = (Inr (), w3) \<and>
       AddHealthzCheck b mgr ''healthz'' w3 = (Inr (), w4) \<and> AddReadyzCheck b mgr ''readyz'' w4 = (Inr (), w5) \<and>
       Start b mgr w5 = (Inr (), w')
   | (Inl (Exit k), w') \<Rightarrow>
       (case parse_flags (zap_BindFlags b) args default_flags of
          HelpWanted \<Rightarrow> k = 0 \<and> main_init b w = (Inr (), w')
        | BadFlags \<Rightarrow> k = 2 \<and> main_init b w = (Inr (), w')
        | Parsed f \<Rightarrow> k = 1)
   | (Inl (Crash err), w') \<Rightarrow> main_init b w = (Inl (Crash err), w')"
proof -
  let ?p = "parse_flags (zap_BindFlags b) args default_flags"
  obtain r w' where run: "operator_main b args w = (r, w')" by fastforce
  show ?thesis
  proof (cases r)
    case (Inr u)
    from run [unfolded Inr operator_main_split pr_bind_Inr] obtain f w0 w1 where
      init: "main_init b w = (Inr (), w0)" and flags: "flag_Parse b args w0 = (Inr f, w1)"
      and ran: "after_flags b f w1 = (Inr (), w')" by auto
    from flag_Parse_cases [OF flags] have p: "?p = Parsed f" and same: "w1 = w0"
      by (auto split: flag_result.splits)
    from p init ran [unfolded same after_flags_Inr] show ?thesis
      unfolding run Inr prod.case sum.case by blast
  next
    case (Inl e)
    from run [unfolded Inl operator_main_split pr_bind_Inl] consider
        "main_init b w = (Inl e, w')"
      | w0 where "main_init b w = (Inr (), w0)" "flag_Parse b args w0 = (Inl e, w')"
      | w0 f w1 where "flag_Parse b args w0 = (Inr f, w1)" "after_flags b f w1 = (Inl e, w')" by auto
    then show ?thesis
    proof cases
      case 1
      with main_init_Inl [OF 1] run Inl show ?thesis by auto
    next
      case 2
      with flag_Parse_cases [OF 2(2)] run Inl show ?thesis by (auto split: flag_result.splits)
    next
      case 3
      with flag_Parse_cases [OF 3(1)] after_flags_Inl [OF 3(2)] run Inl show ?thesis
        by (auto split: flag_result.splits)
    qed
  qed
qed

end
