(* ===== verification/StatusTypes.thy ===== *)
theory StatusTypes
  imports Controller
begin

text \<open>
  The type of a status. \<^verbatim>\<open>api/v1/zookeeperservice_types.go\<close> documents which types a condition may have and which
  status goes with each; the controllers add which component writes which type, and \<^verbatim>\<open>condition.go\<close> one condition per reason.
\<close>

section \<open>Well-typed conditions\<close>

definition component_reasons :: "string list" where
  "component_reasons = [zooKeeperConditionReason, backupDaemonConditionReason, monitoringConditionReason,
     integrationTestsConditionReason]"

text \<open>A cycle is in progress, failed or successful; a component is in progress, failed or ready.\<close>

definition condition_type :: "StatusCondition \<Rightarrow> bool" where
  "condition_type d \<longleftrightarrow>
     (cond_Type d, cond_Status d) \<in> {(typeInProgress, statusFalse), (typeFailed, statusFalse)} \<and>
       cond_Reason d \<in> set (zooKeeperServiceConditionReason # component_reasons) \<or>
     (cond_Type d, cond_Status d) = (typeSuccessful, statusTrue) \<and> cond_Reason d = zooKeeperServiceConditionReason \<or>
     (cond_Type d, cond_Status d) = (typeReady, statusTrue) \<and> cond_Reason d \<in> set component_reasons"

definition conditions_type :: "StatusCondition list \<Rightarrow> bool" where
  "conditions_type ds \<longleftrightarrow> list_all condition_type ds \<and> distinct (map cond_Reason ds)"

lemma conditions_type_Nil [simp]: "conditions_type []"
  by (simp add: conditions_type_def)

lemma addCondition_type: "conditions_type ds \<Longrightarrow> condition_type d \<Longrightarrow> conditions_type (addCondition ds d)"
  by (auto simp: conditions_type_def list_all_iff intro: addCondition_distinct dest: in_addCondition)

lemma condition_type_cycle:
  "condition_type (NewCondition statusFalse typeInProgress zooKeeperServiceConditionReason m)"
  "condition_type (NewCondition statusFalse typeFailed zooKeeperServiceConditionReason m)"
  "condition_type (NewCondition statusTrue typeSuccessful zooKeeperServiceConditionReason m)"
  by (simp_all add: condition_type_def NewCondition_def)

lemma condition_type_component:
  assumes "reason \<in> set component_reasons"
  shows "condition_type (NewCondition statusFalse typeInProgress reason m)"
    "condition_type (NewCondition statusFalse typeFailed reason m)"
    "condition_type (NewCondition statusTrue typeReady reason m)"
  using assms by (simp_all add: condition_type_def NewCondition_def)

section \<open>Every step keeps them\<close>

definition typed_frame :: "'w opstate \<Rightarrow> 'w opstate \<Rightarrow> bool" where
  "typed_frame s t \<longleftrightarrow> (conditions_type (conditions_of s) \<longrightarrow> conditions_type (conditions_of t))"

interpretation yf: world_frame "typed_frame :: 'w opstate \<Rightarrow> 'w opstate \<Rightarrow> bool"
  by unfold_locales (auto simp: typed_frame_def conditions_of_def)

lemma typed_of_conds: "stays conds_frame m \<Longrightarrow> stays typed_frame m"
  by (auto simp: stays_def conds_frame_def typed_frame_def)

lemma stays_typed_updateConditions:
  assumes doc: "status_documented c" and ty: "condition_type d"
  shows "stays typed_frame (updateConditions c d)"
proof (rule staysI)
  fix s r t
  assume "updateConditions c d s = (r, t)"
  from updateConditions_conditions [OF this doc] obtain now where
    t: "conditions_of t = addCondition (conditions_of s) (d\<lparr>cond_LastTransitionTime := now\<rparr>)" by blast
  from ty have "condition_type (d\<lparr>cond_LastTransitionTime := now\<rparr>)" by (simp add: condition_type_def)
  then show "typed_frame s t" by (simp add: typed_frame_def t addCondition_type)
qed

lemma stays_typed_healthCheck:
  assumes doc: "control_documented c" "status_documented c" and ready: "stays only_world ready"
    and reason: "reason \<in> set component_reasons"
  shows "stays typed_frame (healthCheck c reason m1 timeout ready m2 m3)"
  unfolding healthCheck_def
  by (intro yf.world_rules yf.stays_poll [OF doc(1)] yf.stays_only_world [OF ready]
      stays_typed_updateConditions [OF doc(2)] condition_type_component [OF reason])

lemma stays_typed_Status_of:
  assumes doc: "control_documented c" "status_documented c"
  shows "stays typed_frame (Status_of c r)"
proof (cases r)
  case ReconcileIntegrationTests
  have "stays typed_frame (it_Status c)"
    unfolding it_Status_def
    by (intro yf.world_rules stays_typed_healthCheck [OF doc stays_it_podReady]) (simp add: component_reasons_def)
  with ReconcileIntegrationTests show ?thesis by simp
qed (simp_all add: zk_Status_def bd_Status_def mon_Status_def component_reasons_def
      stays_typed_healthCheck [OF doc] stays_zk_podsReady stays_bd_podReady stays_mon_podReady)

lemma stays_typed_writeFailedStatus: "status_documented c \<Longrightarrow> stays typed_frame (writeFailedStatus c msg)"
  unfolding writeFailedStatus_def
  by (intro yf.world_rules stays_typed_updateConditions condition_type_cycle)

lemma stays_typed_orWriteFailed:
  "status_documented c \<Longrightarrow> stays typed_frame m \<Longrightarrow> stays typed_frame (orWriteFailed c msg m)"
  unfolding orWriteFailed_def by (intro yf.world_rules stays_typed_writeFailedStatus)

lemma stays_typed_progress: "status_documented c \<Longrightarrow> stays typed_frame (progress c msg)"
  unfolding progress_def by (intro stays_typed_updateConditions condition_type_cycle)

lemma stays_typed_startCycle: "status_documented c \<Longrightarrow> stays typed_frame (startCycle c)"
  unfolding startCycle_def
  by (intro yf.world_rules yf.stays_modify stays_typed_progress) (simp_all add: typed_frame_def conditions_of_def)

lemma stays_typed_finishCycle: "status_documented c \<Longrightarrow> stays typed_frame (finishCycle c)"
  unfolding finishCycle_def by (intro yf.world_rules stays_typed_updateConditions condition_type_cycle)

lemma stays_typed_waitForPods:
  "control_documented c \<Longrightarrow> status_documented c \<Longrightarrow> stays typed_frame (waitForPods c rs)"
  unfolding waitForPods_def runStatuses_def
  by (intro yf.world_rules stays_typed_progress stays_typed_orWriteFailed stays_typed_Status_of)

lemma stays_typed_reconcileBody:
  assumes doc: "control_documented c" "status_documented c"
  shows "stays typed_frame (reconcileBody c)"
proof -
  have "stays typed_frame (initHashes c)"
    by (auto intro!: staysI simp: initHashes_def bindM_def typed_frame_def conditions_of_def split: outcome.splits)
  then show ?thesis
    unfolding reconcileBody_def reconcileRest_def initVault_def runReconcilers_def
    by (intro yf.world_rules stays_typed_startCycle stays_typed_orWriteFailed stays_typed_finishCycle
        stays_typed_waitForPods InitVaultClient_conds [THEN typed_of_conds]
        stays_conds_Reconcile_of [THEN typed_of_conds] stays_conds_updateStatus [THEN typed_of_conds] doc)
qed

text \<open>
  C32. The status is well typed. Whatever way a reconciliation ends, with success, an error or a panic, every
  condition of the custom resource has a type the documentation names, with the status that goes with it and the reason of its
  writer: only the cycle is \<^verbatim>\<open>Successful\<close> and only components are \<^verbatim>\<open>Ready\<close>; no reason occurs twice. Hypotheses: the
  documented behaviour of polling and of the status update, and that the resource was well typed where it was read.
\<close>

theorem status_well_typed:
  assumes "control_documented c" and "status_documented c"
    and "\<And>inst w. Get_ZooKeeperService c name ns (world s) = (Inr inst, w) \<Longrightarrow>
      conditions_type (status_Conditions (cr_Status inst))"
    and "conditions_type (conditions_of s)" and "Reconcile c name ns s = (r, t)"
  shows "conditions_type (conditions_of t)"
  using assms(5)
proof (cases rule: Reconcile_cases)
  case (failed inst w)
  from assms(3) [OF failed(1)] stays_typed_reconcileBody [OF assms(1,2)] failed(4) show ?thesis
    by (auto simp: stays_def typed_frame_def conditions_of_def)
next
  case (succeeded inst w h u)
  from assms(3) [OF succeeded(1)] staysD [OF stays_typed_reconcileBody [OF assms(1,2)] succeeded(3)] succeeded(4)
  show ?thesis by (simp add: typed_frame_def conditions_of_def)
qed (use assms(4) in \<open>simp_all add: conditions_of_def\<close>)

theorem status_well_typed_witness:
  "Reconcile memory ''zookeeper'' ''zk'' demo_state = (Ok (), demo_done) \<and> conditions_type (conditions_of demo_done)"
proof (rule conjI [OF demo_run status_well_typed [OF memory_control_documented memory_status_documented _ _ demo_run]])
  fix inst w
  assume "Get_ZooKeeperService memory ''zookeeper'' ''zk'' (world demo_state) = (Inr inst, w)"
  then show "conditions_type (status_Conditions (cr_Status inst))"
    by (auto simp: get_by_def named_def demo_state_def demo_cluster_def demo_cr_def demo_status_def)
qed (simp add: conditions_of_def demo_state_def demo_cr_def demo_status_def)

end
