(* ===== verification/Deployed.thy ===== *)
theory Deployed
  imports ZooKeeperProvider BackupDaemonProvider MonitoringProvider MonitoringScripts BackupRuns ZkAssistant
begin

text \<open>
  The parts together: what the scripts of the backup daemon and of the monitoring read in the pods the operator
  builds for them, the storage the daemon shares with the servers, and a backup that a server's assistant takes part in.
\<close>

section \<open>A container at run time\<close>

text \<open>
  What Kubernetes documents. Of several entries of a name in \<^verbatim>\<open>env\<close> the last one counts; a field reference has the value of
  the field; a name without an entry has the value of the image. References \<^verbatim>\<open>$(...)\<close> in a value are expanded, and
  the Vault launcher replaces values that start with \<^verbatim>\<open>vault:\<close>; a value with neither reaches the process as it is.
\<close>

definition last_entry :: "EnvVar list \<Rightarrow> string \<Rightarrow> EnvVar option" where
  "last_entry es name = find (\<lambda>e. ev_Name e = name) (rev es)"

definition process_env :: "(string \<Rightarrow> string) \<Rightarrow> (string \<Rightarrow> string option) \<Rightarrow> EnvVar list \<Rightarrow> string \<Rightarrow> string option" where
  "process_env field img es name = (case last_entry es name of
     None \<Rightarrow> img name
   | Some e \<Rightarrow> Some (case ev_FieldRef e of None \<Rightarrow> ev_Value e | Some path \<Rightarrow> field path))"

definition plain_value :: "string \<Rightarrow> bool" where
  "plain_value v \<longleftrightarrow> CHR ''$'' \<notin> set v \<and> \<not> prefix ''vault:'' v"

definition runs_in ::
  "(string \<Rightarrow> string) \<Rightarrow> (string \<Rightarrow> string option) \<Rightarrow> Container \<Rightarrow> (string \<Rightarrow> string option) \<Rightarrow> bool" where
  "runs_in field img ct env \<longleftrightarrow>
     (\<forall>name. case process_env field img (ct_Env ct) name of
        None \<Rightarrow> env name = None
      | Some v \<Rightarrow> plain_value v \<longrightarrow> env name = Some v)"

text \<open>The volumes a container finds at a path, and the keys of secrets behind a file.\<close>

definition volumes_at :: "PodSpec \<Rightarrow> Container \<Rightarrow> string \<Rightarrow> VolumeSource list" where
  "volumes_at ps ct path =
     concat (map (\<lambda>m. map vol_Source (filter (\<lambda>v. vol_Name v = vm_Name m) (ps_Volumes ps)))
       (filter (\<lambda>m. vm_MountPath m = path) (ct_VolumeMounts ct)))"

fun keys_of_file :: "VolumeSource \<Rightarrow> string \<Rightarrow> (string \<times> string) list" where
  "keys_of_file (SecretVolume secret) file = [(secret, file)]"
| "keys_of_file (ProjectedVolume mode sources) file =
     [(pr_SecretName s, kp_Key item). s \<leftarrow> sources, item \<leftarrow> pr_Items s, kp_Path item = file]"
| "keys_of_file _ file = []"

definition secret_file :: "PodSpec \<Rightarrow> Container \<Rightarrow> string \<Rightarrow> string \<Rightarrow> (string \<times> string) list" where
  "secret_file ps ct dir file = concat (map (\<lambda>src. keys_of_file src file) (volumes_at ps ct dir))"

section \<open>Lemmas\<close>

lemma find_append: "find P (xs @ ys) = (case find P xs of None \<Rightarrow> find P ys | Some x \<Rightarrow> Some x)"
  by (induction xs) auto

lemma last_entry_simps [simp]:
  "last_entry [] n = None"
  "last_entry (e # es) n = (case last_entry es n of None \<Rightarrow> if ev_Name e = n then Some e else None | Some x \<Rightarrow> Some x)"
  "last_entry (es @ fs) n = (case last_entry fs n of None \<Rightarrow> last_entry es n | Some x \<Rightarrow> Some x)"
  by (simp_all add: last_entry_def find_append split: option.splits)

lemma last_entry_None: "last_entry es n = None \<longleftrightarrow> n \<notin> ev_Name ` set es"
  by (auto simp: last_entry_def find_None_iff)

lemma runs_inD:
  "runs_in field img ct env \<Longrightarrow> last_entry (ct_Env ct) n = Some (env_value m v) \<Longrightarrow> plain_value v \<Longrightarrow> env n = Some v"
  "runs_in field img ct env \<Longrightarrow> last_entry (ct_Env ct) n = None \<Longrightarrow> img n = None \<Longrightarrow> env n = None"
  by (auto simp: runs_in_def process_env_def dest!: spec [of _ n])

lemma plain_Itoa: "plain_value (Itoa i)"
proof -
  have "CHR ''$'' \<notin> set (Itoa i)" "CHR ''v'' \<notin> set (Itoa i)"
    by (auto simp: is_digit_def dest!: Itoa_chars)
  then show ?thesis by (cases "Itoa i") (auto simp: plain_value_def)
qed

lemma plain_FormatBool: "plain_value (FormatBool b)"
  by (simp add: plain_value_def FormatBool_def)

lemma str2bool_FormatBool: "str2bool (FormatBool b) = b"
proof -
  have "str2bool ''true''" "\<not> str2bool ''false''" by code_simp+
  then show ?thesis by (cases b) (simp_all add: FormatBool_def)
qed

lemma volumes_at_only:
  assumes ok: "volumes_ok (ps_Volumes ps) (ct_VolumeMounts ct)"
    and m: "m \<in> set (ct_VolumeMounts ct)" "vm_MountPath m = path"
    and v: "v \<in> set (ps_Volumes ps)" "vol_Name v = vm_Name m"
  shows "volumes_at ps ct path = [vol_Source v]"
proof -
  have pick: "filter (\<lambda>y. f y = f x) xs = [x]" if "distinct (map f xs)" "x \<in> set xs" for f :: "'a \<Rightarrow> 'b" and x xs
    using that by (induction xs) (auto simp: filter_empty_conv image_iff)
  have "filter (\<lambda>m'. vm_MountPath m' = vm_MountPath m) (ct_VolumeMounts ct) = [m]"
    using ok m(1) by (intro pick) (simp_all add: volumes_ok_def)
  moreover have "filter (\<lambda>v. vol_Name v = vm_Name m) (ps_Volumes ps) = [v]"
    using pick [of vol_Name "ps_Volumes ps" v] ok v by (simp add: volumes_ok_def)
  ultimately show ?thesis unfolding volumes_at_def m(2) [symmetric] by simp
qed

section \<open>The pod of the backup daemon\<close>

lemma bd_credentials_names:
  assumes "bdrp_getZooKeeperCredentialsEnvs cr = Ok es"
  shows "ev_Name ` set es \<subseteq> {''BACKUP_DAEMON_API_CREDENTIALS_USERNAME'', ''BACKUP_DAEMON_API_CREDENTIALS_PASSWORD'',
    ''ZOOKEEPER_ADMIN_USERNAME'', ''ZOOKEEPER_ADMIN_PASSWORD''}"
  using assms by (auto simp: bdrp_getZooKeeperCredentialsEnvs_def obind_eq_Ok split: if_splits)

lemma vault_names:
  assumes "addVaultParts serviceName cr p = Ok p1"
  shows "\<exists>es. pp_Env p1 = pp_Env p @ es \<and> ev_Name ` set es \<subseteq>
    {''VAULT_SKIP_VERIFY'', ''VAULT_ADDR'', ''VAULT_PATH'', ''VAULT_ROLE'', ''VAULT_IGNORE_MISSING_SECRETS''}"
  using assms by (auto simp: addVaultParts_def getVaultConnectionEnvVars_def obind_eq_Ok split: if_splits)

lemma bd_parts_run:
  assumes "bd_parts mp cr g spec al = Ok p"
  obtains vols credentials p1 where
    "getBackupDaemonVolumes mp cr spec = Ok vols" "bdrp_getZooKeeperCredentialsEnvs cr = Ok credentials"
    "addVaultParts (bdrp_GetServiceName cr) cr (bd_secretParts cr spec
       \<lparr>pp_Env = bd_envVars cr g spec @ credentials, pp_Volumes = vols, pp_Mounts = getBackupDaemonVolumeMounts\<rparr>) = Ok p1"
    "p = bd_aliasParts cr al (bd_s3CertParts spec (bd_sslParts spec (bd_zkSslParts g p1)))"
  using assms by (auto simp: bd_parts_def obind_eq_Ok Let_def)

lemma bd_later_names:
  "\<exists>es. pp_Env (bd_aliasParts cr al (bd_s3CertParts spec (bd_sslParts spec (bd_zkSslParts g p)))) = pp_Env p @ es \<and>
     ev_Name ` set es \<subseteq> {''TLS_ENABLED'', ''CERTS_PATH'', ''S3_CERTS_PATH'', ''S3_ALIASES_USED''}"
  (is "\<exists>es. ?env = _ \<and> _")
proof -
  define tls where "tls = (if bssl_Enabled (bd_BackupDaemonSsl spec) \<and> bssl_SecretName (bd_BackupDaemonSsl spec) \<noteq> ''''
    then [env_value ''TLS_ENABLED'' ''true'', env_value ''CERTS_PATH'' ''/backupTLS''] else [])"
  define s3 where "s3 = (if bd_s3Certs spec then [env_value ''S3_CERTS_PATH'' ''/s3Certs''] else [])"
  define ali where "ali = [env_value ''S3_ALIASES_USED'' (FormatBool al)]"
  have "?env = pp_Env p @ tls @ s3 @ ali"
    by (simp add: bd_aliasParts_def bd_s3CertParts_if bd_sslParts_def bd_zkSslParts_def tls_def s3_def ali_def
        FormatBool_def)
  moreover have "ev_Name ` set tls \<subseteq> {''TLS_ENABLED'', ''CERTS_PATH''}" "ev_Name ` set s3 \<subseteq> {''S3_CERTS_PATH''}"
    "ev_Name ` set ali = {''S3_ALIASES_USED''}"
    by (auto simp: tls_def s3_def ali_def)
  ultimately show ?thesis by (intro exI [of _ "tls @ s3 @ ali"]) auto
qed

lemma bd_secret_env:
  "pp_Env (bd_secretParts cr spec p) = pp_Env p @ (if IsVaultSecretManagementEnabled cr then []
     else [env_value ''BACKUP_DAEMON_SECRETS_DIR'' (GetPodSecretsMountPath ''backup-daemon'')])"
  by (simp add: bd_secretParts_def Let_def)

text \<open>No other entry hides one the scripts read.\<close>

lemma last_entry_hidden:
  "ev_Name ` set fs \<subseteq> N \<Longrightarrow> n \<notin> N \<Longrightarrow> last_entry (es @ fs) n = last_entry es n"
  "ev_Name ` set es \<subseteq> N \<Longrightarrow> n \<notin> N \<Longrightarrow> last_entry (ds @ es @ fs) n = last_entry (ds @ fs) n"
proof -
  have none: "last_entry fs n = None" if "ev_Name ` set fs \<subseteq> N" "n \<notin> N" for fs
    using that unfolding last_entry_None by blast
  show "last_entry (es @ fs) n = last_entry es n" if "ev_Name ` set fs \<subseteq> N" "n \<notin> N" using none [OF that] by simp
  show "last_entry (ds @ es @ fs) n = last_entry (ds @ fs) n" if "ev_Name ` set es \<subseteq> N" "n \<notin> N" using none [OF that] by (simp split: option.split)
qed

definition bd_fixedEnv :: "ZooKeeperService \<Rightarrow> Global \<Rightarrow> BackupDaemon \<Rightarrow> EnvVar list" where
  "bd_fixedEnv cr g spec =
     [env_value ''SERVICE_NAME'' (bdrp_GetServiceName cr),
      env_value ''ZOOKEEPER_HOST'' (bd_ZooKeeperHost spec),
      env_value ''ZOOKEEPER_PORT'' (Itoa (bd_ZooKeeperPort spec)),
      env_value ''PV_TYPE'' (ss_PersistentVolumeType (bd_BackupStorage spec)),
      env_field ''NAMESPACE'' ''metadata.namespace'',
      env_value ''ZOOKEEPER_ENABLE_SSL'' (FormatBool (zssl_Enabled (g_ZooKeeperSsl g))),
      env_value ''PYTHONDONTWRITEBYTECODE'' ''1'']"

lemma bd_optional_names:
  "\<exists>es. bd_envVars cr g spec = bd_fixedEnv cr g spec @ es \<and> ev_Name ` set es \<subseteq>
     {''BACKUP_SCHEDULE'', ''EVICTION_POLICY'', ''BROADCAST_ADDRESS'', ''S3_ENABLED'', ''S3_URL'', ''S3_BUCKET'', ''S3_SSL_VERIFY''}"
  unfolding bd_envVars_def bd_fixedEnv_def
  by (rule exI, rule conjI, rule refl) (auto split: option.splits if_splits)

lemma bd_entries:
  assumes "bd_parts mp cr g spec al = Ok p"
    and "n \<in> {''ZOOKEEPER_HOST'', ''ZOOKEEPER_PORT'', ''PV_TYPE'', ''ZOOKEEPER_ENABLE_SSL'', ''BACKUP_DAEMON_SECRETS_DIR''}"
  shows "last_entry (pp_Env p) n = last_entry (bd_fixedEnv cr g spec @
    (if IsVaultSecretManagementEnabled cr then []
     else [env_value ''BACKUP_DAEMON_SECRETS_DIR'' (GetPodSecretsMountPath ''backup-daemon'')])) n"
  (is "_ = last_entry (_ @ ?secrets) n")
  using assms(1)
proof (rule bd_parts_run)
  fix vols credentials p1
  assume cred: "bdrp_getZooKeeperCredentialsEnvs cr = Ok credentials"
    and p1: "addVaultParts (bdrp_GetServiceName cr) cr (bd_secretParts cr spec
      \<lparr>pp_Env = bd_envVars cr g spec @ credentials, pp_Volumes = vols, pp_Mounts = getBackupDaemonVolumeMounts\<rparr>) = Ok p1"
    and p: "p = bd_aliasParts cr al (bd_s3CertParts spec (bd_sslParts spec (bd_zkSslParts g p1)))"
  from vault_names [OF p1] obtain es where
    env: "pp_Env p1 = bd_envVars cr g spec @ credentials @ ?secrets @ es" and
    es: "ev_Name ` set es \<subseteq> {''VAULT_SKIP_VERIFY'', ''VAULT_ADDR'', ''VAULT_PATH'', ''VAULT_ROLE'', ''VAULT_IGNORE_MISSING_SECRETS''}"
    by (auto simp: bd_secret_env)
  from bd_later_names [of cr al spec g p1] obtain fs where
    fs: "pp_Env p = pp_Env p1 @ fs" "ev_Name ` set fs \<subseteq> {''TLS_ENABLED'', ''CERTS_PATH'', ''S3_CERTS_PATH'', ''S3_ALIASES_USED''}"
    unfolding p by blast
  have "last_entry (pp_Env p) n = last_entry (bd_envVars cr g spec @ credentials @ ?secrets @ es) n"
    unfolding fs(1) env [symmetric] by (rule last_entry_hidden(1) [OF fs(2)]) (use assms(2) in auto)
  also have "\<dots> = last_entry ((bd_envVars cr g spec @ credentials @ ?secrets) @ es) n" by (simp only: append_assoc)
  also have "\<dots> = last_entry (bd_envVars cr g spec @ credentials @ ?secrets) n"
    by (rule last_entry_hidden(1) [OF es]) (use assms(2) in auto)
  also have "\<dots> = last_entry (bd_envVars cr g spec @ ?secrets) n"
    by (rule last_entry_hidden(2) [OF bd_credentials_names [OF cred]]) (use assms(2) in auto)
  also have "\<dots> = last_entry (bd_fixedEnv cr g spec @ ?secrets) n"
  proof -
    obtain os where os: "bd_envVars cr g spec = bd_fixedEnv cr g spec @ os" "ev_Name ` set os \<subseteq>
      {''BACKUP_SCHEDULE'', ''EVICTION_POLICY'', ''BROADCAST_ADDRESS'', ''S3_ENABLED'', ''S3_URL'', ''S3_BUCKET'', ''S3_SSL_VERIFY''}"
      using bd_optional_names by blast
    show ?thesis unfolding os(1) append_assoc by (rule last_entry_hidden(2) [OF os(2)]) (use assms(2) in auto)
  qed
  finally show ?thesis .
qed

text \<open>Each step only adds volumes and mounts.\<close>

definition mounted :: "Volume \<Rightarrow> VolumeMount \<Rightarrow> pod_parts \<Rightarrow> bool" where
  "mounted v m p \<longleftrightarrow> v \<in> set (pp_Volumes p) \<and> m \<in> set (pp_Mounts p)"

lemma mounted_add: "mounted v m p \<Longrightarrow> mounted v m (add_parts es vs ms p)"
  by (simp add: mounted_def)

lemma mounted_vault: "mounted v m p \<Longrightarrow> addVaultParts n cr p = Ok p1 \<Longrightarrow> mounted v m p1"
  by (auto simp: addVaultParts_def obind_eq_Ok mounted_add split: if_splits)

lemma bd_later_mounted:
  "mounted v m p \<Longrightarrow> mounted v m (bd_aliasParts cr al (bd_s3CertParts spec (bd_sslParts spec p)))"
  "mounted v m p \<Longrightarrow> mounted v m (bd_zkSslParts g p)"
  "mounted v m p \<Longrightarrow> mounted v m (bd_secretParts cr spec p)"
  by (simp_all add: bd_aliasParts_def bd_s3CertParts_if bd_sslParts_def bd_zkSslParts_def bd_secretParts_def Let_def
      mounted_add)

definition bd_storage_source :: "ZooKeeperService \<Rightarrow> BackupDaemon \<Rightarrow> VolumeSource" where
  "bd_storage_source cr spec =
     (if ss_PersistentVolumeType (bd_BackupStorage spec) = '''' then EmptyDir None
      else ClaimVolume (if ss_PersistentVolumeClaimName (bd_BackupStorage spec) = ''''
        then SnapshotsPersistentVolumeClaimPattern (cr_Name cr) else ss_PersistentVolumeClaimName (bd_BackupStorage spec)))"

lemma bd_mounted:
  assumes "bd_parts mp cr g spec al = Ok p"
  shows "mounted (volume ''backup-storage'' (bd_storage_source cr spec))
      (mount ''backup-storage'' ''/opt/zookeeper/backup-storage'') p"
    and "zssl_Enabled (g_ZooKeeperSsl g) \<Longrightarrow> zssl_SecretName (g_ZooKeeperSsl g) \<noteq> '''' \<Longrightarrow>
      mounted (volume ''ssl-certs'' (SecretVolume (zssl_SecretName (g_ZooKeeperSsl g)))) (mount ''ssl-certs'' ''/tls'') p"
    and "\<not> IsVaultSecretManagementEnabled cr \<Longrightarrow> bd_projectedSources spec \<noteq> [] \<Longrightarrow>
      mounted (NewPodSecretsProjectedVolume ''backup-daemon-pod-secrets'' (bd_projectedSources spec))
        (NewPodSecretsVolumeMount ''backup-daemon-pod-secrets'' (GetPodSecretsMountPath ''backup-daemon'')) p"
proof -
  from assms obtain vols credentials p1 where
    v: "getBackupDaemonVolumes mp cr spec = Ok vols" and
    p1: "addVaultParts (bdrp_GetServiceName cr) cr (bd_secretParts cr spec
      \<lparr>pp_Env = bd_envVars cr g spec @ credentials, pp_Volumes = vols, pp_Mounts = getBackupDaemonVolumeMounts\<rparr>) = Ok p1" and
    p: "p = bd_aliasParts cr al (bd_s3CertParts spec (bd_sslParts spec (bd_zkSslParts g p1)))"
    by (rule bd_parts_run)
  let ?p0 = "\<lparr>pp_Env = bd_envVars cr g spec @ credentials, pp_Volumes = vols, pp_Mounts = getBackupDaemonVolumeMounts\<rparr>"
  have "mounted (volume ''backup-storage'' (bd_storage_source cr spec))
      (mount ''backup-storage'' ''/opt/zookeeper/backup-storage'') ?p0"
    using v by (auto simp: mounted_def getBackupDaemonVolumes_def getBackupDaemonVolumeMounts_def bd_storage_source_def
        obind_eq_Ok Let_def)
  from mounted_vault [OF bd_later_mounted(3) [OF this] p1] show
    "mounted (volume ''backup-storage'' (bd_storage_source cr spec))
      (mount ''backup-storage'' ''/opt/zookeeper/backup-storage'') p"
    unfolding p by (intro bd_later_mounted)
  show "mounted (volume ''ssl-certs'' (SecretVolume (zssl_SecretName (g_ZooKeeperSsl g)))) (mount ''ssl-certs'' ''/tls'') p"
    if "zssl_Enabled (g_ZooKeeperSsl g)" "zssl_SecretName (g_ZooKeeperSsl g) \<noteq> ''''"
    unfolding p using that by (intro bd_later_mounted(1)) (simp add: bd_zkSslParts_def mounted_def)
  show "mounted (NewPodSecretsProjectedVolume ''backup-daemon-pod-secrets'' (bd_projectedSources spec))
      (NewPodSecretsVolumeMount ''backup-daemon-pod-secrets'' (GetPodSecretsMountPath ''backup-daemon'')) p"
    if "\<not> IsVaultSecretManagementEnabled cr" "bd_projectedSources spec \<noteq> []"
    unfolding p using that p1
    by (intro bd_later_mounted(1,2) mounted_vault [OF _ p1]) (simp add: bd_secretParts_def mounted_def Let_def)
qed

lemma volumes_at_mounted:
  assumes "pod_volumes_ok ps" and "ct \<in> set (ps_Containers ps)"
    and "mounted v m p" and "ps_Volumes ps = pp_Volumes p" and "ct_VolumeMounts ct = pp_Mounts p"
    and "vol_Name v = vm_Name m"
  shows "volumes_at ps ct (vm_MountPath m) = [vol_Source v]"
proof (rule volumes_at_only)
  show "volumes_ok (ps_Volumes ps) (ct_VolumeMounts ct)"
    using assms(1,2) by (auto simp: pod_volumes_ok_def list_all_iff)
qed (use assms in \<open>simp_all add: mounted_def\<close>)

text \<open>What the daemon's container has, by name.\<close>

lemma bd_container_run:
  assumes d: "NewBackupDaemonDeployment mp cr al = Ok d" and ct: "ct \<in> set (ps_Containers (pt_Spec (dp_Template d)))"
    and g: "spec_Global (cr_Spec cr) = Some g" and spec: "spec_BackupDaemon (cr_Spec cr) = Some spec"
  obtains p where "bd_parts mp cr g spec al = Ok p" "ct_Env ct = pp_Env p"
    "\<And>v m. mounted v m p \<Longrightarrow> vol_Name v = vm_Name m \<Longrightarrow>
       volumes_at (pt_Spec (dp_Template d)) ct (vm_MountPath m) = [vol_Source v]"
  using d
proof (rule NewBackupDaemonDeployment_fields)
  fix g' spec' p ics
  assume f: "spec_Global (cr_Spec cr) = Some g'" "spec_BackupDaemon (cr_Spec cr) = Some spec'"
    "bd_parts mp cr g' spec' al = Ok p" "ps_Volumes (pt_Spec (dp_Template d)) = pp_Volumes p"
    "ps_Containers (pt_Spec (dp_Template d)) = [bd_container cr spec' p]"
  show thesis
  proof (rule that)
    show "bd_parts mp cr g spec al = Ok p" "ct_Env ct = pp_Env p"
      using f g spec ct by (simp_all add: bd_container_def)
    show "volumes_at (pt_Spec (dp_Template d)) ct (vm_MountPath m) = [vol_Source v]"
      if "mounted v m p" "vol_Name v = vm_Name m" for v m
      using volumes_at_mounted [OF bd_pod_volumes_ok [OF d] ct that(1) f(4) _ that(2)] ct f(5)
      by (simp add: bd_container_def)
  qed
qed

lemma bd_projected_credentials:
  assumes "bd_SecretName spec \<noteq> ''''"
  shows "(bd_SecretName spec, ''zookeeper-admin-username'') \<in> set (keys_of_file
      (ProjectedVolume mode (projectedSources (bd_projectedSources spec))) ''ZOOKEEPER_ADMIN_USERNAME'')"
    "(bd_SecretName spec, ''zookeeper-admin-password'') \<in> set (keys_of_file
      (ProjectedVolume mode (projectedSources (bd_projectedSources spec))) ''ZOOKEEPER_ADMIN_PASSWORD'')"
  using assms by (simp_all add: bd_projectedSources_def SecretKeyToPath_def)

text \<open>The client the configuration asks for.\<close>

definition configured_client :: "Global \<Rightarrow> BackupDaemon \<Rightarrow> string option \<Rightarrow> string option \<Rightarrow> ZooKeeperClient" where
  "configured_client g spec username password =
     (let tls = (\<lambda>file. if zssl_Enabled (g_ZooKeeperSsl g) then Some (''/tls/'' @ file) else None)
      in \<lparr>zkc_host = bd_ZooKeeperHost spec, zkc_port = Itoa (bd_ZooKeeperPort spec), zkc_username = username,
          zkc_password = password, zkc_ca = tls ''ca.crt'', zkc_certfile = tls ''tls.crt'', zkc_keyfile = tls ''tls.key'',
          zkc_use_ssl = zssl_Enabled (g_ZooKeeperSsl g)\<rparr>)"

lemma bd_environment:
  assumes p: "bd_parts mp cr g spec al = Ok p" and ct: "ct_Env ct = pp_Env p" and run: "runs_in field img ct env"
  shows "plain_value (bd_ZooKeeperHost spec) \<Longrightarrow> env ''ZOOKEEPER_HOST'' = Some (bd_ZooKeeperHost spec)"
    and "env ''ZOOKEEPER_PORT'' = Some (Itoa (bd_ZooKeeperPort spec))"
    and "env ''ZOOKEEPER_ENABLE_SSL'' = Some (FormatBool (zssl_Enabled (g_ZooKeeperSsl g)))"
    and "plain_value (ss_PersistentVolumeType (bd_BackupStorage spec)) \<Longrightarrow>
      env ''PV_TYPE'' = Some (ss_PersistentVolumeType (bd_BackupStorage spec))"
    and "\<not> IsVaultSecretManagementEnabled cr \<Longrightarrow>
      env ''BACKUP_DAEMON_SECRETS_DIR'' = Some (GetPodSecretsMountPath ''backup-daemon'')"
proof -
  note entry = bd_entries [OF p, unfolded ct [symmetric]]
  note read = runs_inD(1) [OF run, OF trans [OF entry]]
  show "plain_value (bd_ZooKeeperHost spec) \<Longrightarrow> env ''ZOOKEEPER_HOST'' = Some (bd_ZooKeeperHost spec)"
    by (rule read [where m = "''ZOOKEEPER_HOST''"]) (simp_all add: bd_fixedEnv_def)
  show "env ''ZOOKEEPER_PORT'' = Some (Itoa (bd_ZooKeeperPort spec))"
    by (rule read [where m = "''ZOOKEEPER_PORT''"]) (simp_all add: bd_fixedEnv_def plain_Itoa)
  show "env ''ZOOKEEPER_ENABLE_SSL'' = Some (FormatBool (zssl_Enabled (g_ZooKeeperSsl g)))"
    by (rule read [where m = "''ZOOKEEPER_ENABLE_SSL''"]) (simp_all add: bd_fixedEnv_def plain_FormatBool)
  show "plain_value (ss_PersistentVolumeType (bd_BackupStorage spec)) \<Longrightarrow>
      env ''PV_TYPE'' = Some (ss_PersistentVolumeType (bd_BackupStorage spec))"
    by (rule read [where m = "''PV_TYPE''"]) (simp_all add: bd_fixedEnv_def)
  show "\<not> IsVaultSecretManagementEnabled cr \<Longrightarrow>
      env ''BACKUP_DAEMON_SECRETS_DIR'' = Some (GetPodSecretsMountPath ''backup-daemon'')"
    by (rule read [where m = "''BACKUP_DAEMON_SECRETS_DIR''"])
       (simp_all add: plain_value_def GetPodSecretsMountPath_def)
qed


section \<open>The pod of the monitoring\<close>

lemma mon_credentials_names:
  assumes "mrp_getZooKeeperCredentialsEnvs cr = Ok es"
  shows "ev_Name ` set es \<subseteq> {''ZOOKEEPER_CLIENT_USERNAME'', ''ZOOKEEPER_CLIENT_PASSWORD''}"
  using assms by (auto simp: mrp_getZooKeeperCredentialsEnvs_def obind_eq_Ok split: if_splits)

definition mon_tlsEnv :: "ZooKeeperService \<Rightarrow> EnvVar list" where
  "mon_tlsEnv cr = (if mon_backupTls cr then [env_value ''BACKUP_DAEMON_TLS_ENABLED'' ''true''] else [])"

lemma mon_secret_env:
  "pp_Env (mon_secretParts cr spec p) = pp_Env p @ (if IsVaultSecretManagementEnabled cr then []
     else [env_value ''MONITORING_SECRETS_DIR'' (GetPodSecretsMountPath ''monitoring'')])"
  by (simp add: mon_secretParts_def Let_def)

lemma mon_parts_run:
  assumes "mon_parts mp cr g spec = Ok p"
  obtains vols credentials p1 where
    "mrp_getZooKeeperCredentialsEnvs cr = Ok credentials"
    "addVaultParts (mrp_GetServiceName cr) cr (mon_secretParts cr spec
       \<lparr>pp_Env = getMonitoringEnvironmentVariables cr g spec @ credentials, pp_Volumes = vols,
        pp_Mounts = getMonitoringVolumeMounts\<rparr>) = Ok p1"
    "p = mon_backupTlsParts cr (mon_zkSslParts g p1)"
  using assms by (auto simp: mon_parts_def obind_eq_Ok Let_def)

lemma mon_entries:
  assumes "mon_parts mp cr g spec = Ok p"
    and "n \<in> {''ZOOKEEPER_HOST'', ''ZOOKEEPER_ENABLE_SSL'', ''ZOOKEEPER_BACKUP_DAEMON_HOST'', ''BACKUP_DAEMON_TLS_ENABLED'',
      ''ZOOKEEPER_BACKUP_DAEMON_USERNAME'', ''ZOOKEEPER_BACKUP_DAEMON_PASSWORD''}"
  shows "last_entry (pp_Env p) n = last_entry (getMonitoringEnvironmentVariables cr g spec @ mon_tlsEnv cr) n"
  using assms(1)
proof (rule mon_parts_run)
  fix vols credentials p1
  let ?secrets = "if IsVaultSecretManagementEnabled cr then []
     else [env_value ''MONITORING_SECRETS_DIR'' (GetPodSecretsMountPath ''monitoring'')]"
  let ?env = "getMonitoringEnvironmentVariables cr g spec"
  assume cred: "mrp_getZooKeeperCredentialsEnvs cr = Ok credentials"
    and p1: "addVaultParts (mrp_GetServiceName cr) cr (mon_secretParts cr spec
       \<lparr>pp_Env = ?env @ credentials, pp_Volumes = vols, pp_Mounts = getMonitoringVolumeMounts\<rparr>) = Ok p1"
    and p: "p = mon_backupTlsParts cr (mon_zkSslParts g p1)"
  from vault_names [OF p1] obtain es where env: "pp_Env p1 = ?env @ credentials @ ?secrets @ es" and
    es: "ev_Name ` set es \<subseteq> {''VAULT_SKIP_VERIFY'', ''VAULT_ADDR'', ''VAULT_PATH'', ''VAULT_ROLE'', ''VAULT_IGNORE_MISSING_SECRETS''}"
    by (auto simp: mon_secret_env)
  have "ev_Name ` set ?secrets \<subseteq> {''MONITORING_SECRETS_DIR''}" by simp
  with es mon_credentials_names [OF cred] have
    names: "ev_Name ` set (credentials @ ?secrets @ es) \<subseteq> {''ZOOKEEPER_CLIENT_USERNAME'', ''ZOOKEEPER_CLIENT_PASSWORD'',
      ''MONITORING_SECRETS_DIR'', ''VAULT_SKIP_VERIFY'', ''VAULT_ADDR'', ''VAULT_PATH'', ''VAULT_ROLE'',
      ''VAULT_IGNORE_MISSING_SECRETS''}"
    unfolding set_append image_Un by blast
  have whole: "pp_Env p = ?env @ (credentials @ ?secrets @ es) @ mon_tlsEnv cr"
    by (simp add: p mon_backupTlsParts_if mon_zkSslParts_def mon_tlsEnv_def env)
  show ?thesis unfolding whole by (rule last_entry_hidden(2) [OF names]) (use assms(2) in auto)
qed

lemma mon_container_run:
  assumes d: "NewMonitoringDeployment mp cr = Ok d" and ct: "ct \<in> set (ps_Containers (pt_Spec (dp_Template d)))"
    and g: "spec_Global (cr_Spec cr) = Some g" and spec: "spec_Monitoring (cr_Spec cr) = Some spec"
  obtains p where "mon_parts mp cr g spec = Ok p" "ct_Env ct = pp_Env p"
    "\<And>v m. mounted v m p \<Longrightarrow> vol_Name v = vm_Name m \<Longrightarrow>
       volumes_at (pt_Spec (dp_Template d)) ct (vm_MountPath m) = [vol_Source v]"
proof -
  from d g spec ct obtain p where p: "mon_parts mp cr g spec = Ok p" and env: "ct_Env ct = pp_Env p"
    and vols: "ps_Volumes (pt_Spec (dp_Template d)) = pp_Volumes p" and mounts: "ct_VolumeMounts ct = pp_Mounts p"
    by (auto simp: NewMonitoringDeployment_def global_def mon_section_def obind_eq_Ok)
  show thesis
    using volumes_at_mounted [OF mon_pod_volumes_ok [OF d] ct _ vols mounts] by (rule that [OF p env])
qed

lemma mon_mounted:
  assumes "mon_parts mp cr g spec = Ok p" and "mon_backupTls cr"
  shows "mounted (volume ''backup-daemon-tls-certs''
      (SecretVolume (bssl_SecretName (bd_BackupDaemonSsl (the (spec_BackupDaemon (cr_Spec cr)))))))
      (mount ''backup-daemon-tls-certs'' ''/tls/backup'') p"
  using assms(1) by (rule mon_parts_run) (simp add: mon_backupTlsParts_if assms(2) mounted_def)

lemma mon_environment:
  assumes p: "mon_parts mp cr g spec = Ok p" and ct: "ct_Env ct = pp_Env p" and run: "runs_in field img ct env"
    and bd: "spec_BackupDaemon (cr_Spec cr) = Some bd"
  shows "plain_value (mon_ZooKeeperHost spec) \<Longrightarrow> env ''ZOOKEEPER_HOST'' = Some (mon_ZooKeeperHost spec)"
    and "env ''ZOOKEEPER_ENABLE_SSL'' = Some (FormatBool (zssl_Enabled (g_ZooKeeperSsl g)))"
    and "plain_value (mon_ZooKeeperBackupDaemonHost spec) \<Longrightarrow>
      env ''ZOOKEEPER_BACKUP_DAEMON_HOST'' = Some (mon_ZooKeeperBackupDaemonHost spec)"
    and "img ''BACKUP_DAEMON_TLS_ENABLED'' = None \<Longrightarrow> env ''BACKUP_DAEMON_TLS_ENABLED'' =
      (if bssl_Enabled (bd_BackupDaemonSsl bd) then Some ''true'' else None)"
proof -
  note entry = mon_entries [OF p, unfolded ct [symmetric]]
  note read = runs_inD(1) [OF run, OF trans [OF entry]]
  note defs = getMonitoringEnvironmentVariables_def mon_tlsEnv_def bd
  show "plain_value (mon_ZooKeeperHost spec) \<Longrightarrow> env ''ZOOKEEPER_HOST'' = Some (mon_ZooKeeperHost spec)"
    by (rule read [where m = "''ZOOKEEPER_HOST''"]) (simp_all add: defs)
  show "env ''ZOOKEEPER_ENABLE_SSL'' = Some (FormatBool (zssl_Enabled (g_ZooKeeperSsl g)))"
    by (rule read [where m = "''ZOOKEEPER_ENABLE_SSL''"]) (simp_all add: defs plain_FormatBool)
  show "plain_value (mon_ZooKeeperBackupDaemonHost spec) \<Longrightarrow>
      env ''ZOOKEEPER_BACKUP_DAEMON_HOST'' = Some (mon_ZooKeeperBackupDaemonHost spec)"
    by (rule read [where m = "''ZOOKEEPER_BACKUP_DAEMON_HOST''"]) (simp_all add: defs)
  assume none: "img ''BACKUP_DAEMON_TLS_ENABLED'' = None"
  show "env ''BACKUP_DAEMON_TLS_ENABLED'' = (if bssl_Enabled (bd_BackupDaemonSsl bd) then Some ''true'' else None)"
  proof (cases "bssl_Enabled (bd_BackupDaemonSsl bd)")
    case True
    then show ?thesis
      by (simp, intro read [where m = "''BACKUP_DAEMON_TLS_ENABLED''"])
         (simp_all add: mon_tlsEnv_def mon_backupTls_def bd plain_value_def)
  next
    case False
    then have "last_entry (ct_Env ct) ''BACKUP_DAEMON_TLS_ENABLED'' = None"
      by (simp add: entry defs mon_backupTls_def)
    with False runs_inD(2) [OF run _ none] show ?thesis by simp
  qed
qed

lemma daemon_url:
  "Itoa (sint (8443 :: int32)) = ''8443''" "Itoa (sint (8080 :: int32)) = ''8080''"
  "ToLower ''HTTPS'' = ''https''" "ToLower ''HTTP'' = ''http''"
proof -
  have "sint (8443 :: int32) = 8443" "sint (8080 :: int32) = 8080" by simp_all
  moreover have "Itoa 8443 = ''8443''" "Itoa 8080 = ''8080''"
    by (simp_all add: Itoa_def nat_digits.simps digit_def char_of_def bit_0)
  ultimately show "Itoa (sint (8443 :: int32)) = ''8443''" "Itoa (sint (8080 :: int32)) = ''8080''" by (simp_all only:)
  show "ToLower ''HTTPS'' = ''https''" "ToLower ''HTTP'' = ''http''" by code_simp+
qed


text \<open>
  The container has no entry with the credentials of the daemon. They are files of the pod's secrets, which are mounted
  only without Vault.
\<close>

lemma monitoring_no_daemon_credentials:
  assumes "NewMonitoringDeployment mp cr = Ok d" and "ct \<in> set (ps_Containers (pt_Spec (dp_Template d)))"
    and "spec_Global (cr_Spec cr) = Some g" and "spec_Monitoring (cr_Spec cr) = Some spec"
    and "runs_in field img ct (m_getenv c)" and "img ''ZOOKEEPER_BACKUP_DAEMON_USERNAME'' = None"
  shows "m_getenv c ''ZOOKEEPER_BACKUP_DAEMON_USERNAME'' = None"
proof -
  from assms(1-4) obtain p where p: "mon_parts mp cr g spec = Ok p" and env: "ct_Env ct = pp_Env p"
    by (rule mon_container_run)
  have "last_entry (ct_Env ct) ''ZOOKEEPER_BACKUP_DAEMON_USERNAME'' = None"
    unfolding env by (subst mon_entries [OF p])
      (simp_all add: getMonitoringEnvironmentVariables_def mon_tlsEnv_def split: option.split)
  from runs_inD(2) [OF assms(5) this assms(6)] show ?thesis .
qed

section \<open>The storage of the backups\<close>

lemma server_mounted:
  assumes "server_parts mp cr g spec i = Ok p"
  shows "mounted (volume ''backup-storage'' (backupVolumeSource cr spec))
    (mount ''backup-storage'' ''/opt/zookeeper/backup-storage'') p" (is "mounted ?v ?m p")
proof -
  from assms obtain p0 p1 where p0: "server_baseParts mp cr spec i = Ok p0" and
    p1: "addVaultParts (zrp_GetServiceName cr) cr
           (server_diagnosticParts cr spec (server_secretParts cr spec p0)) = Ok p1" and
    p: "p = server_sslParts g spec p1"
    by (auto simp: server_parts_def obind_eq_Ok)
  from p0 have "mounted ?v ?m p0" by (auto simp: server_baseParts_def mounted_def obind_eq_Ok)
  then have "mounted ?v ?m (server_diagnosticParts cr spec (server_secretParts cr spec p0))"
    by (simp add: server_diagnosticParts_def server_secretParts_def mounted_add Let_def)
  from mounted_vault [OF this p1] show ?thesis by (simp add: p server_sslParts_def mounted_add)
qed

lemma server_storage:
  assumes d: "NewServerDeploymentForCR mp cr i = Ok d" and ct: "ct \<in> set (ps_Containers (pt_Spec (dp_Template d)))"
    and spec: "spec_ZooKeeper (cr_Spec cr) = Some spec"
  shows "volumes_at (pt_Spec (dp_Template d)) ct ''/opt/zookeeper/backup-storage'' = [backupVolumeSource cr spec]"
proof -
  from NewServerDeployment_fields [OF d] spec ct obtain g p where p: "server_parts mp cr g spec i = Ok p"
    and parts: "ps_Volumes (pt_Spec (dp_Template d)) = pp_Volumes p" "ct_VolumeMounts ct = pp_Mounts p"
    by (auto simp: server_container_def)
  note tab = table_distinct [OF server_table_subseq [of cr g spec]]
  have "volumes_ok (pp_Volumes p) (pp_Mounts p)"
    by (rule parts_table_volumes_ok [OF server_parts_table [OF p]]) (rule tab, simp)+
  with volumes_at_only [of "pt_Spec (dp_Template d)" ct "mount ''backup-storage'' ''/opt/zookeeper/backup-storage''" _
      "volume ''backup-storage'' (backupVolumeSource cr spec)"] server_mounted [OF p] parts
  show ?thesis by (simp add: mounted_def)
qed


section \<open>A backup with the assistant of a server\<close>

text \<open>
  \<^verbatim>\<open>requests.post(...).json()['Status']\<close> when the assistant of a server answers: the field of the body. A body that is no
  JSON object, and a connection that is closed without an answer, are exceptions.
\<close>

definition assistant_post :: "'w sys \<Rightarrow> Data \<Rightarrow> string \<Rightarrow> ('w, string) py" where
  "assistant_post sys data path = (\<lambda>w. case BackupHandlers sys data '''' ''POST'' path w of
     (Ok resp, w') \<Rightarrow>
       (case resp_Body resp of
          ResultBody res \<Rightarrow> Inr (res_Status res)
        | StateBody st \<Rightarrow> Inr (st_Status st)
        | RouterBody _ \<Rightarrow> Inl (Exception ''Expecting value''), w')
   | (_, w') \<Rightarrow> (Inl (Exception ''Connection aborted''), w'))"

text \<open>The files of a server in the directory: it was cleared and made anew, and the source copied into it.\<close>

definition copied_into :: "'w sys \<Rightarrow> Data \<Rightarrow> 'w \<Rightarrow> 'w \<Rightarrow> bool" where
  "copied_into sys data w w' \<longleftrightarrow>
     (\<exists>w1 w2. cleared sys (data_Destination data) w w1 \<and>
        Mkdir sys (data_Destination data) 493 w1 = (Inr (), w2) \<and>
        Run sys [''cp'', ''-rp'', data_Source data @ ''/.'', data_Destination data] w2 = (Inr (), w'))"

lemma assistant_post_Ok:
  assumes "assistant_post sys data ''/store'' w = (Inr ''Ok'', w')"
  shows "copied_into sys data w w'"
proof -
  obtain res w1 where run: "storeZooKeeperFiles sys data w = (Ok res, w1)"
    using storeZooKeeperFiles_total [of sys data w] by blast
  then have "assistant_post sys data ''/store'' w = (Inr (res_Status res), w1)"
    by (simp add: assistant_post_def BackupHandlers_def JsonContentType_def Store_def recovering_def bindM_def)
  with assms storeZooKeeperFiles_status [OF run] have "w1 = w'"
    "res = \<lparr>res_Status = ''Ok'', res_Message = ''The files are copied successfully!''\<rparr>" by auto
  with run storeZooKeeperFiles_Ok_iff [of sys data w w'] show ?thesis by (simp add: copied_into_def)
qed

text \<open>
  C36. A transactional backup from end to end. When the daemon's script succeeds and the assistants of the servers
  answer it, a configured server that said it leads has cleared the exchange directory and copied its data into it right before
  the script chose the snapshot and its logs there; the snapshot was stored and every log filtered into the backup. Hypothesis:
  the requests reach the assistants, started with the exchange directory as their destination.
\<close>

theorem transactional_backup_end_to_end:
  assumes "transactional_backup c b w = (Inr (), w')"
    and "\<And>host. post_status c (''http://'' @ host @ '':8081/store'') =
      assistant_post (assistant host) \<lparr>data_Source = source, data_Destination = ZOOKEEPER_BACKUP_TMP_DIR\<rparr> ''/store''"
  shows "\<exists>v servers v0 leader zk v1 v2 answer v3 v4 v5 snapshot logs v6 v7 v8.
    create_directory c ZOOKEEPER_BACKUP_TMP_DIR w = (Inr (), v) \<and>
    get_zookeeper_servers c b v = (Inr servers, v0) \<and> leader \<in> set servers \<and>
    find_zookeeper_leader c b servers v0 = (Inr (Some leader), v4) \<and>
    connect_to_zookeeper c (bk_client b) (Some leader) v1 = (Inr zk, v2) \<and>
    kazoo_command c zk ''srvr'' v2 = (Inr answer, v3) \<and> contains ''Mode: leader'' answer \<and>
    disconnect_from_zookeeper c zk v3 = (Inr (), v4) \<and>
    copied_into (assistant leader) \<lparr>data_Source = source, data_Destination = ZOOKEEPER_BACKUP_TMP_DIR\<rparr> v4 v5 \<and>
    get_snapshot_and_transaction_logs c ZOOKEEPER_BACKUP_TMP_DIR v5 = (Inr (snapshot, logs), v6) \<and>
    copy2 c snapshot (bk_storage_folder b) v6 = (Inr (), v7) \<and>
    pfor logs (filter_file c (bk_storage_folder b)) v7 = (Inr (), v8) \<and>
    remove_directory_with_content c ZOOKEEPER_BACKUP_TMP_DIR v8 = (Inr (), w')"
proof -
  let ?data = "\<lparr>data_Source = source, data_Destination = ZOOKEEPER_BACKUP_TMP_DIR\<rparr>"
  from assms(1) obtain v8 where steps: "backup_steps c b w = (Inr (), v8)"
    and clean: "remove_directory_with_content c ZOOKEEPER_BACKUP_TMP_DIR v8 = (Inr (), w')"
    by (auto simp: transactional_backup_def pfinally_eq_Inr)
  from backup_steps_Inr [OF steps] obtain v where
    v: "create_directory c ZOOKEEPER_BACKUP_TMP_DIR w = (Inr (), v)" and all: "backed_up c b v v8" by blast
  from all obtain servers v0 leader zk v1 v2 answer v3 v4 v5 v6 v7 snapshot logs where
    chain: "get_zookeeper_servers c b v = (Inr servers, v0)" "leader \<in> set servers"
      "find_zookeeper_leader c b servers v0 = (Inr (Some leader), v4)"
      "connect_to_zookeeper c (bk_client b) (Some leader) v1 = (Inr zk, v2)"
      "kazoo_command c zk ''srvr'' v2 = (Inr answer, v3)" "contains ''Mode: leader'' answer"
      "disconnect_from_zookeeper c zk v3 = (Inr (), v4)" and
    post: "post_status c (''http://'' @ leader @ '':8081/store'') v4 = (Inr ''Ok'', v5)" and
    rest: "get_snapshot_and_transaction_logs c ZOOKEEPER_BACKUP_TMP_DIR v5 = (Inr (snapshot, logs), v6)"
      "copy2 c snapshot (bk_storage_folder b) v6 = (Inr (), v7)"
      "pfor logs (filter_file c (bk_storage_folder b)) v7 = (Inr (), v8)"
    unfolding backed_up_def by blast
  from post have "copied_into (assistant leader) ?data v4 v5" unfolding assms(2) by (rule assistant_post_Ok)
  with v chain rest clean show ?thesis by blast
qed

section \<open>Witnesses\<close>

text \<open>A cluster with TLS, a daemon and servers on the same claim, and monitoring.\<close>

definition deployed_global :: Global where
  "deployed_global = demo_global\<lparr>g_ZooKeeperSsl := \<lparr>zssl_Enabled = True, zssl_SecretName = ''zookeeper-tls''\<rparr>\<rparr>"

definition deployed_zookeeper :: ZooKeeper where
  "deployed_zookeeper = demo_zookeeper\<lparr>zk_SnapshotStorage := demo_storage\<rparr>"

definition deployed_cr :: ZooKeeperService where
  "deployed_cr = demo_full_cr\<lparr>cr_Spec := (cr_Spec demo_full_cr)
     \<lparr>spec_Global := Some deployed_global, spec_ZooKeeper := Some deployed_zookeeper\<rparr>\<rparr>"

abbreviation "some_quantity \<equiv> \<lambda>q :: string. Some (Quantity q)"

lemmas deployed_defs = deployed_cr_def deployed_global_def deployed_zookeeper_def demo_defs

lemma deployed_sections:
  "spec_Global (cr_Spec deployed_cr) = Some deployed_global" "spec_ZooKeeper (cr_Spec deployed_cr) = Some deployed_zookeeper"
  "spec_BackupDaemon (cr_Spec deployed_cr) = Some demo_backupDaemon" "spec_Monitoring (cr_Spec deployed_cr) = Some demo_monitoring"
  by (simp_all add: deployed_defs)

definition pod_env :: "Container \<Rightarrow> string \<Rightarrow> string option" where
  "pod_env ct = process_env (\<lambda>_. ''zk'') (\<lambda>_. None) (ct_Env ct)"

lemma runs_in_pod_env: "runs_in (\<lambda>_. ''zk'') (\<lambda>_. None) ct (pod_env ct)"
  by (simp add: runs_in_def pod_env_def split: option.split)

lemma deployed_daemon:
  "\<exists>d ct. NewBackupDaemonDeployment some_quantity deployed_cr False = Ok d \<and>
     ct \<in> set (ps_Containers (pt_Spec (dp_Template d)))"
proof -
  have "\<exists>d. NewBackupDaemonDeployment some_quantity deployed_cr False = Ok d"
    by (simp add: NewBackupDaemonDeployment_def global_def bd_section_def bd_deploymentLabels_def
      GetBackupDaemonLabels_def GetBackupDaemonCustomLabels_def bd_parts_def getBackupDaemonVolumes_def
      getTmpVolume_def getVarLogVolume_def bdrp_getZooKeeperCredentialsEnvs_def addVaultParts_def
      bdrp_getInitContainers_def vaultInitContainers_def
      IsVaultSecretManagementEnabled_def Let_def deployed_defs)
  then obtain d where d: "NewBackupDaemonDeployment some_quantity deployed_cr False = Ok d" by blast
  from NewBackupDaemonDeployment_fields [OF d] have "\<exists>ct. ct \<in> set (ps_Containers (pt_Spec (dp_Template d)))"
    by (metis list.set_intros(1))
  with d show ?thesis by blast
qed

lemma plain_demo:
  "plain_value (bd_ZooKeeperHost demo_backupDaemon)" "plain_value (ss_PersistentVolumeType (bd_BackupStorage demo_backupDaemon))"
  "plain_value (mon_ZooKeeperHost demo_monitoring)" "plain_value (mon_ZooKeeperBackupDaemonHost demo_monitoring)"
  by (simp_all add: plain_value_def demo_defs)




text \<open>An assistant whose directory does not exist yet.\<close>

definition demo_assistant :: "string list sys" where
  "demo_assistant =
     \<lparr>LookupEnv = (\<lambda>_. None), Stat = (\<lambda>p w. (Inl (OtherError p), w)),
      RemoveAll = (\<lambda>p w. (Inr (), w @ [''remove''])), Mkdir = (\<lambda>p mode w. (Inr (), w @ [''mkdir''])),
      Run = (\<lambda>args w. (Inr (), w @ args)), ReadFile = (\<lambda>p w. (Inl (OtherError p), w)),
      AppendCertsFromPEM = (\<lambda>_. False), LoadX509KeyPair = (\<lambda>f k w. (Inl (OtherError f), w)),
      Connect = (\<lambda>servers t dialer w. (Inl (OtherError ''''), w)), AddAuth = (\<lambda>n s cr w. (Inr (), w)),
      ChildrenW = (\<lambda>n p w. (Inr (), w)), Close = (\<lambda>n w. w),
      Unmatched = (\<lambda>ctype meth path. \<lparr>resp_Code = 404, resp_ContentType = ctype, resp_Body = RouterBody path\<rparr>),
      ListenAndServe = (\<lambda>addr h w. (Inr (), w))\<rparr>"

abbreviation "demo_exchange \<equiv> \<lparr>data_Source = ''/data'', data_Destination = ZOOKEEPER_BACKUP_TMP_DIR\<rparr>"

definition assisted_sys :: "string list py_sys" where
  "assisted_sys = demo_sys\<lparr>post_status := (\<lambda>url. assistant_post demo_assistant demo_exchange ''/store'')\<rparr>"

lemma same_choice:
  assumes "st_mtime c = st_mtime c'" "listdir c = listdir c'" "isfile c = isfile c'"
  shows "get_snapshot_and_transaction_logs c d = get_snapshot_and_transaction_logs c' d"
proof -
  have "newest c ss best = newest c' ss best" for ss best by (induction ss arbitrary: best) (simp_all add: assms(1))
  then have n1: "newest c = newest c'" by (intro ext) simp
  have "newer_than c bound ls = newer_than c' bound ls" for bound ls by (induction ls) (simp_all add: assms(1))
  then have n2: "newer_than c = newer_than c'" by (intro ext) simp
  show ?thesis unfolding get_snapshot_and_transaction_logs_def assms n1 n2 ..
qed

lemma demo_choice:
  "get_snapshot_and_transaction_logs demo_sys ZOOKEEPER_BACKUP_TMP_DIR w =
     (Inr (path_join ZOOKEEPER_BACKUP_TMP_DIR ''snapshot.2'', [path_join ZOOKEEPER_BACKUP_TMP_DIR ''log.2'']), w)"
  using demo_named [of w] demo_mtimes
  by (simp add: get_snapshot_and_transaction_logs_def named_files_def pbind_def demo_listed demo_stat [rule_format])

theorem transactional_backup_end_to_end_witness:
  "\<exists>w' servers v0 leader v4 v5. transactional_backup assisted_sys demo_backup [] = (Inr (), w') \<and>
     find_zookeeper_leader assisted_sys demo_backup servers v0 = (Inr (Some leader), v4) \<and>
     copied_into demo_assistant demo_exchange v4 v5"
proof -
  have choice: "get_snapshot_and_transaction_logs assisted_sys ZOOKEEPER_BACKUP_TMP_DIR w =
      (Inr (path_join ZOOKEEPER_BACKUP_TMP_DIR ''snapshot.2'', [path_join ZOOKEEPER_BACKUP_TMP_DIR ''log.2'']), w)" for w
    using same_choice [of assisted_sys demo_sys] demo_choice by (simp add: assisted_sys_def)
  have answer: "assistant_post demo_assistant demo_exchange ''/store'' w = (Inr ''Ok'',
      w @ [''mkdir''] @ [''cp'', ''-rp'', ''/data/.'', ZOOKEEPER_BACKUP_TMP_DIR])" for w
    by (simp add: assistant_post_def BackupHandlers_def JsonContentType_def Store_def recovering_def
        storeZooKeeperFiles_def bindM_def attempt_def syscall_def demo_assistant_def)
  have "fst (transactional_backup assisted_sys demo_backup []) = Inr ()"
    using demo_servers demo_filtered choice answer
    by (simp add: transactional_backup_def pfinally_def backup_steps_def pbind_def create_directory_def
        get_zookeeper_servers_def backup_from_def copy_logs_from_zookeeper_leader_def copy_snapshot_def
        filter_and_store_transaction_logs_def filter_file_def remove_directory_with_content_def
        connect_to_zookeeper_def disconnect_from_zookeeper_def execute_command_def noted_def contains_def
        assisted_sys_def demo_sys_def)
  then obtain w' where run: "transactional_backup assisted_sys demo_backup [] = (Inr (), w')" by (metis prod.collapse)
  have "post_status assisted_sys (''http://'' @ host @ '':8081/store'') =
      assistant_post ((\<lambda>_. demo_assistant) host) demo_exchange ''/store''" for host
    by (simp add: assisted_sys_def)
  from transactional_backup_end_to_end [OF run this] run show ?thesis by blast
qed

end
