(* ===== verification/IntegrationTools.thy ===== *)
theory IntegrationTools
  imports BackupLogs ZnodeHierarchy MonitoringScripts
begin

text \<open>
  The Python code of the integration tests: the choice of the tests to leave out
  (\<^verbatim>\<open>tags_exclusion.py\<close>), the wait for the deployments (\<^verbatim>\<open>zookeeper_pods_checker.py\<close>) and the keywords over the client of
  ZooKeeper (\<^verbatim>\<open>ZookeeperLibrary.py\<close>). Texts are lists of code points where they are encoded. Logging is left out.
\<close>

section \<open>Calls\<close>

text \<open>The clock counts milliseconds. The access control lists are the client's.\<close>

record ('acl, 'w) it_sys =
  i_getenv :: "string \<Rightarrow> string option"
  i_isfile :: "string \<Rightarrow> 'w \<Rightarrow> bool"
  i_exists :: "string \<Rightarrow> 'w \<Rightarrow> bool"
  getsize :: "string \<Rightarrow> ('w, int) py"
  clock :: "'w \<Rightarrow> int"
  time_sleep :: "int \<Rightarrow> 'w \<Rightarrow> 'w"
  PlatformLibrary :: "string option \<Rightarrow> ('w, unit) py"
  deployments_count :: "string option \<Rightarrow> string option \<Rightarrow> string option \<Rightarrow> ('w, int) py"
  active_deployments_count :: "string option \<Rightarrow> string option \<Rightarrow> string option \<Rightarrow> ('w, int) py"
  KazooClient_start :: "kazoo \<Rightarrow> 'acl list option \<Rightarrow> ('w, int) py"
  zk_stop :: "int \<Rightarrow> ('w, unit) py"
  zk_close :: "int \<Rightarrow> ('w, unit) py"
  make_digest_acl :: "string \<Rightarrow> string option \<Rightarrow> bool list \<Rightarrow> ('w, 'acl) py"
  make_acl :: "string \<Rightarrow> string \<Rightarrow> bool list \<Rightarrow> ('w, 'acl) py"
  zk_set_acls :: "int \<Rightarrow> string \<Rightarrow> 'acl list \<Rightarrow> ('w, unit) py"
  zk_get_acls :: "int \<Rightarrow> string \<Rightarrow> ('w, 'acl list) py"
  zk_create :: "int \<Rightarrow> string \<Rightarrow> bytes option \<Rightarrow> ('w, unit) py"
  zk_get :: "int \<Rightarrow> string \<Rightarrow> ('w, bytes) py"
  zk_set :: "int \<Rightarrow> string \<Rightarrow> bytes \<Rightarrow> ('w, unit) py"
  zk_exists :: "int \<Rightarrow> string \<Rightarrow> ('w, bool) py"
  zk_delete :: "int \<Rightarrow> string \<Rightarrow> ('w, unit) py"
  zk_command :: "int \<Rightarrow> bytes \<Rightarrow> ('w, string) py"

section \<open>The tests to leave out\<close>

definition secrets_dir :: "('acl, 'w) it_sys \<Rightarrow> string" where
  "secrets_dir c = (case i_getenv c ''INTEGRATION_TESTS_SECRETS_DIR'' of
     None \<Rightarrow> ''/etc/secrets/zookeeper-integration-tests-pod-secrets'' | Some d \<Rightarrow> d)"

primrec check_that_parameters_are_presented :: "('acl, 'w) it_sys \<Rightarrow> string list \<Rightarrow> bool" where
  "check_that_parameters_are_presented c [] = True"
| "check_that_parameters_are_presented c (variable # rest) =
     (if \<not> truthy (i_getenv c variable) then False else check_that_parameters_are_presented c rest)"

definition secret_is_present :: "('acl, 'w) it_sys \<Rightarrow> string \<Rightarrow> ('w, bool) py" where
  "secret_is_present c name =
     (let path = path_join (secrets_dir c) name in
      pbind (pgets (i_isfile c path)) (\<lambda>is_file.
      if is_file then pbind (getsize c path) (\<lambda>size. pret (size > 0)) else pret False))"

definition get_excluded_tags :: "('acl, 'w) it_sys \<Rightarrow> ('w, string list) py" where
  "get_excluded_tags c =
     (let daemon = (if \<not> check_that_parameters_are_presented c
              [''ZOOKEEPER_BACKUP_DAEMON_HOST'', ''ZOOKEEPER_BACKUP_DAEMON_PORT''] then [''zookeeper_backup_daemon''] else []);
          pv_type = i_getenv c ''PV_TYPE'';
          transactional = (if \<not> truthy pv_type \<or> ToLower (the pv_type) = ''standalone''
            then [''transactional_backup''] else []);
          tags = i_getenv c ''TAGS'';
          eviction = (if \<not> truthy tags \<or> \<not> contains ''full_eviction_test'' (the tags) then [''full_eviction_test''] else [])
      in
      pbind (secret_is_present c ''ZOOKEEPER_BACKUP_DAEMON_USERNAME'') (\<lambda>username.
      pbind (if username then secret_is_present c ''ZOOKEEPER_BACKUP_DAEMON_PASSWORD'' else pret False) (\<lambda>both.
      let unauthorized = (if \<not> both then [''unauthorized_access''] else []) in
      if \<not> check_that_parameters_are_presented c [''S3_ENABLED''] \<or> i_getenv c ''S3_ENABLED'' \<noteq> Some ''true''
      then pret (daemon @ transactional @ eviction @ unauthorized @ [''backup_v2''])
      else pbind (secret_is_present c ''S3_KEY_SECRET'') (\<lambda>s3.
           pret (daemon @ transactional @ eviction @ unauthorized @ (if \<not> s3 then [''backup_v2''] else []))))))"

text \<open>
  The other suites decide by the same functions. That of the high availability tests falls off its end, with \<^verbatim>\<open>None\<close> for
  a list, when the address of the cluster is given.
\<close>

primrec secrets_are_present :: "('acl, 'w) it_sys \<Rightarrow> string list \<Rightarrow> ('w, bool) py" where
  "secrets_are_present c [] = pret True"
| "secrets_are_present c (name # rest) =
     pbind (secret_is_present c name) (\<lambda>present. if present then secrets_are_present c rest else pret False)"

definition ha_get_excluded_tags :: "('acl, 'w) it_sys \<Rightarrow> string list option" where
  "ha_get_excluded_tags c = (if \<not> check_that_parameters_are_presented c [''OS_URL''] then Some [''zookeeper_ha''] else None)"

definition alerts_get_excluded_tags :: "('acl, 'w) it_sys \<Rightarrow> ('w, string list) py" where
  "alerts_get_excluded_tags c =
     (if \<not> check_that_parameters_are_presented c [''PROMETHEUS_URL''] then pret [''prometheus'']
      else pbind (secrets_are_present c [''PROMETHEUS_USER'', ''PROMETHEUS_PASSWORD'']) (\<lambda>both.
           pret (if \<not> both then [''prometheus''] else [])))"

definition sasl_get_excluded_tags :: "('acl, 'w) it_sys \<Rightarrow> ('w, string list) py" where
  "sasl_get_excluded_tags c =
     pbind (secrets_are_present c
       [''ZOOKEEPER_ADMIN_USERNAME'', ''ZOOKEEPER_ADMIN_PASSWORD'', ''ZOOKEEPER_CLIENT_USERNAME'', ''ZOOKEEPER_CLIENT_PASSWORD'']) (\<lambda>every.
     pret (if \<not> every then [''zookeeper_sasl''] else []))"

section \<open>The wait for the deployments\<close>

text \<open>The four numbers of one round: deployments, ready ones, and the same of the operator.\<close>

definition count_deployments :: "('acl, 'w) it_sys \<Rightarrow> ('w, int \<times> int \<times> int \<times> int) py" where
  "count_deployments c =
     (let namespace = i_getenv c ''ZOOKEEPER_OS_PROJECT'';
          service = i_getenv c ''ZOOKEEPER_HOST'';
          backup_daemon = i_getenv c ''ZOOKEEPER_BACKUP_DAEMON_HOST'';
          operator_name = Some ((case service of None \<Rightarrow> ''None'' | Some s \<Rightarrow> s) @ ''-service-operator'');
          component = Some ''component''
      in
      pbind (deployments_count c namespace service None) (\<lambda>deployments.
      pbind (active_deployments_count c namespace service None) (\<lambda>ready_deployments.
      pbind (if truthy backup_daemon
        then pbind (deployments_count c namespace backup_daemon component) (\<lambda>n.
             pbind (active_deployments_count c namespace backup_daemon component) (\<lambda>m.
             pret (deployments + n, ready_deployments + m)))
        else pret (deployments, ready_deployments)) (\<lambda>(deployments, ready_deployments).
      pbind (deployments_count c namespace operator_name component) (\<lambda>operator_total.
      pbind (active_deployments_count c namespace operator_name component) (\<lambda>operator_ready.
      pret (deployments, ready_deployments, operator_total, operator_ready)))))))"

text \<open>
  The loop, with the code the process exits with. The exceptions of the library are all of class \<^verbatim>\<open>Exception\<close>. Without progress of the
  clock it may not end.
\<close>

partial_function (option) checker_loop :: "('acl, 'w) it_sys \<Rightarrow> int \<Rightarrow> 'w \<Rightarrow> (int \<times> 'w) option" where
  "checker_loop c deadline w =
     (if \<not> clock c w < deadline then Some (1, w)
      else case count_deployments c w of
        (Inl _, w1) \<Rightarrow> checker_loop c deadline (time_sleep c 10 w1)
      | (Inr (deployments, ready_deployments, operator_total, operator_ready), w1) \<Rightarrow>
          (if deployments = ready_deployments \<and> deployments \<noteq> 0 \<and> operator_ready = operator_total \<and> operator_total > 0
           then Some (0, w1)
           else checker_loop c deadline (time_sleep c 10 w1)))"

definition pods_checker :: "('acl, 'w) it_sys \<Rightarrow> 'w \<Rightarrow> (int \<times> 'w) option" where
  "pods_checker c w =
     (case PlatformLibrary c (i_getenv c ''ZOOKEEPER_IS_MANAGED_BY_OPERATOR'') (time_sleep c 20 w) of
        (Inl _, w1) \<Rightarrow> Some (1, w1)
      | (Inr _, w1) \<Rightarrow> checker_loop c (clock c w1 + 500 * 1000) w1)"

section \<open>Text as UTF-8\<close>

text \<open>\<^verbatim>\<open>str.encode()\<close>, which refuses surrogates, and the strict \<^verbatim>\<open>bytes.decode()\<close>.\<close>

definition is_surrogate :: "int \<Rightarrow> bool" where
  "is_surrogate x \<longleftrightarrow> 0xD800 \<le> x \<and> x \<le> 0xDFFF"

definition utf8_char :: "int \<Rightarrow> int list option" where
  "utf8_char x =
     (if x < 0 \<or> 0x110000 \<le> x \<or> is_surrogate x then None
      else if x < 0x80 then Some [x]
      else if x < 0x800 then Some [0xC0 + x div 64, 0x80 + x mod 64]
      else if x < 0x10000 then Some [0xE0 + x div 4096, 0x80 + x div 64 mod 64, 0x80 + x mod 64]
      else Some [0xF0 + x div 262144, 0x80 + x div 4096 mod 64, 0x80 + x div 64 mod 64, 0x80 + x mod 64])"

primrec utf8_codes :: "int list \<Rightarrow> int list option" where
  "utf8_codes [] = Some []"
| "utf8_codes (x # xs) =
     (case utf8_char x of None \<Rightarrow> None | Some bs \<Rightarrow> map_option ((@) bs) (utf8_codes xs))"

definition str_encode :: "int list \<Rightarrow> py_exn + bytes" where
  "str_encode text = (case utf8_codes text of
     None \<Rightarrow> Inl (Exception ''surrogates not allowed'') | Some codes \<Rightarrow> Inr (map word_of_int codes))"

definition cont :: "int \<Rightarrow> bool" where
  "cont b \<longleftrightarrow> 0x80 \<le> b \<and> b < 0xC0"

fun utf8_text :: "int list \<Rightarrow> int list option" where
  "utf8_text [] = Some []"
| "utf8_text (b # bs) =
     (if b < 0x80 then map_option ((#) b) (utf8_text bs)
      else if 0xC2 \<le> b \<and> b < 0xE0 then
        (case bs of
           b1 # r \<Rightarrow> if cont b1 then map_option ((#) ((b - 0xC0) * 64 + (b1 - 0x80))) (utf8_text r) else None
         | _ \<Rightarrow> None)
      else if 0xE0 \<le> b \<and> b < 0xF0 then
        (case bs of
           b1 # b2 # r \<Rightarrow>
             (let x = (b - 0xE0) * 4096 + (b1 - 0x80) * 64 + (b2 - 0x80) in
              if cont b1 \<and> cont b2 \<and> 0x800 \<le> x \<and> \<not> is_surrogate x then map_option ((#) x) (utf8_text r) else None)
         | _ \<Rightarrow> None)
      else if 0xF0 \<le> b \<and> b < 0xF5 then
        (case bs of
           b1 # b2 # b3 # r \<Rightarrow>
             (let x = (b - 0xF0) * 262144 + (b1 - 0x80) * 4096 + (b2 - 0x80) * 64 + (b3 - 0x80) in
              if cont b1 \<and> cont b2 \<and> cont b3 \<and> 0x10000 \<le> x \<and> x < 0x110000
              then map_option ((#) x) (utf8_text r) else None)
         | _ \<Rightarrow> None)
      else None)"

definition bytes_decode :: "bytes \<Rightarrow> py_exn + int list" where
  "bytes_decode bs = (case utf8_text (map uint bs) of
     None \<Rightarrow> Inl (Exception ''invalid start byte'') | Some text \<Rightarrow> Inr text)"

section \<open>The keywords\<close>

record ZookeeperLibrary =
  lib_os_project :: string
  lib_host :: string
  lib_port :: string
  lib_use_ssl :: bool
  lib_cafile :: "string option"
  lib_certfile :: "string option"
  lib_keyfile :: "string option"

definition new_ZookeeperLibrary ::
  "('acl, 'w) it_sys \<Rightarrow> string \<Rightarrow> string \<Rightarrow> string \<Rightarrow> string \<Rightarrow> ('w, ZookeeperLibrary) py" where
  "new_ZookeeperLibrary c os_project host port enable_ssl =
     pbind (pgets (\<lambda>w file. if str2bool enable_ssl \<and> i_exists c file w then Some file else None)) (\<lambda>opt.
     pret \<lparr>lib_os_project = os_project, lib_host = host, lib_port = port, lib_use_ssl = str2bool enable_ssl,
           lib_cafile = opt ''/tls/ca.crt'', lib_certfile = opt ''/tls/tls.crt'', lib_keyfile = opt ''/tls/tls.key''\<rparr>)"

definition get_zookeeper_server :: "ZookeeperLibrary \<Rightarrow> string \<Rightarrow> string" where
  "get_zookeeper_server lib zookeeper_host =
     (if lib_os_project lib \<noteq> [] then zookeeper_host @ ''.'' @ lib_os_project lib @ '':'' @ lib_port lib
      else zookeeper_host @ '':'' @ lib_port lib)"

definition lib_client :: "ZookeeperLibrary \<Rightarrow> string \<Rightarrow> (string \<times> string) list \<Rightarrow> kazoo" where
  "lib_client lib host auth_data =
     \<lparr>k_hosts = get_zookeeper_server lib host, k_keyfile = lib_keyfile lib, k_certfile = lib_certfile lib,
      k_ca = lib_cafile lib, k_use_ssl = lib_use_ssl lib, k_auth_data = auth_data\<rparr>"

definition lib_connect ::
  "('acl, 'w) it_sys \<Rightarrow> ZookeeperLibrary \<Rightarrow> string option \<Rightarrow> string option \<Rightarrow> string option \<Rightarrow> 'acl option \<Rightarrow> ('w, int) py" where
  "lib_connect c lib auth_scheme username password access_control_list =
     (if truthy username \<and> truthy password \<and> truthy auth_scheme
      then KazooClient_start c (lib_client lib (lib_host lib) [(the auth_scheme, the username @ '':'' @ the password)])
             (case access_control_list of None \<Rightarrow> None | Some acl \<Rightarrow> Some [acl])
      else KazooClient_start c (lib_client lib (lib_host lib) []) None)"

definition connect_to_zookeeper_node :: "('acl, 'w) it_sys \<Rightarrow> ZookeeperLibrary \<Rightarrow> string \<Rightarrow> ('w, int) py" where
  "connect_to_zookeeper_node c lib zookeeper_host = KazooClient_start c (lib_client lib zookeeper_host []) None"

definition lib_disconnect :: "('acl, 'w) it_sys \<Rightarrow> int \<Rightarrow> ('w, unit) py" where
  "lib_disconnect c zk = pbind (zk_stop c zk) (\<lambda>_. zk_close c zk)"

text \<open>The permissions in the order read, write, create, delete, admin, all.\<close>

definition create_access_control_list ::
  "('acl, 'w) it_sys \<Rightarrow> string \<Rightarrow> string \<Rightarrow> string option \<Rightarrow> bool list \<Rightarrow> ('w, 'acl) py" where
  "create_access_control_list c acl_scheme username password permissions =
     (if acl_scheme = ''digest'' then make_digest_acl c username password permissions
      else make_acl c acl_scheme username permissions)"

definition set_access_control_lists :: "('acl, 'w) it_sys \<Rightarrow> int \<Rightarrow> string \<Rightarrow> 'acl list \<Rightarrow> ('w, unit) py" where
  "set_access_control_lists c zk node_path acls = zk_set_acls c zk node_path acls"

definition ConnectionLoss :: py_exn where
  "ConnectionLoss = Exception ''ConnectionLoss''"

text \<open>The loop of \<^verbatim>\<open>create_node\<close> and \<^verbatim>\<open>delete_node\<close>, over the numbers of the attempts; \<^verbatim>\<open>BuiltIn().fail\<close> raises. Its message is shortened here.\<close>

primrec retrying ::
  "('acl, 'w) it_sys \<Rightarrow> ('w, unit) py \<Rightarrow> int \<Rightarrow> int \<Rightarrow> string \<Rightarrow> int list \<Rightarrow> ('w, unit) py" where
  "retrying c m retries delay failure [] = pret ()"
| "retrying c m retries delay failure (k # rest) = (\<lambda>w. case m w of
     (Inr _, w1) \<Rightarrow> (Inr (), w1)
   | (Inl e, w1) \<Rightarrow>
       (if e \<noteq> ConnectionLoss then (Inl e, w1)
        else if k = retries then (Inl (Exception failure), w1)
        else retrying c m retries delay failure rest (time_sleep c delay w1)))"

definition create_node ::
  "('acl, 'w) it_sys \<Rightarrow> int \<Rightarrow> string \<Rightarrow> int list option \<Rightarrow> int \<Rightarrow> int \<Rightarrow> ('w, unit) py" where
  "create_node c zk node_path data retries delay =
     retrying c
       (case data of
          Some (x # xs) \<Rightarrow> pbind (plift (str_encode (x # xs))) (\<lambda>value. zk_create c zk node_path (Some value))
        | _ \<Rightarrow> zk_create c zk node_path None)
       retries delay (''Failed to create node '' @ node_path) [1..retries]"

definition create_node_with_children :: "('acl, 'w) it_sys \<Rightarrow> int \<Rightarrow> string \<Rightarrow> int \<Rightarrow> int list \<Rightarrow> ('w, unit) py" where
  "create_node_with_children c zk node_path children_number data =
     pbind (zk_create c zk node_path None) (\<lambda>_.
     pfor [0..children_number - 1] (\<lambda>child_id.
       pbind (plift (str_encode data)) (\<lambda>value. zk_create c zk (node_path @ ''/child'' @ Itoa child_id) (Some value))))"

definition create_byte_node :: "('acl, 'w) it_sys \<Rightarrow> int \<Rightarrow> string \<Rightarrow> int list \<Rightarrow> ('w, unit) py" where
  "create_byte_node c zk node_path data = (case encode_cp437 data of
     None \<Rightarrow> praise (Exception ''character maps to undefined'')
   | Some value \<Rightarrow> zk_create c zk node_path (Some value))"

definition get_node_value :: "('acl, 'w) it_sys \<Rightarrow> int \<Rightarrow> string \<Rightarrow> ('w, int list) py" where
  "get_node_value c zk node_path = pbind (zk_get c zk node_path) (\<lambda>value. plift (bytes_decode value))"

definition get_byte_node_value :: "('acl, 'w) it_sys \<Rightarrow> int \<Rightarrow> string \<Rightarrow> ('w, int list) py" where
  "get_byte_node_value c zk node_path = pbind (zk_get c zk node_path) (\<lambda>value. pret (decode_cp437 value))"

definition lib_get_acls :: "('acl, 'w) it_sys \<Rightarrow> int \<Rightarrow> string \<Rightarrow> ('w, 'acl list) py" where
  "lib_get_acls c zk node_path = zk_get_acls c zk node_path"

definition node_exists :: "('acl, 'w) it_sys \<Rightarrow> int \<Rightarrow> string \<Rightarrow> ('w, bool) py" where
  "node_exists c zk node_path = zk_exists c zk node_path"

definition update_node_value :: "('acl, 'w) it_sys \<Rightarrow> int \<Rightarrow> string \<Rightarrow> int list \<Rightarrow> ('w, unit) py" where
  "update_node_value c zk node_path new_value =
     pbind (plift (str_encode new_value)) (\<lambda>value. zk_set c zk node_path value)"

definition delete_node :: "('acl, 'w) it_sys \<Rightarrow> int \<Rightarrow> string \<Rightarrow> int \<Rightarrow> int \<Rightarrow> ('w, unit) py" where
  "delete_node c zk node_path retries delay =
     retrying c
       (pbind (zk_exists c zk node_path) (\<lambda>there. if there then zk_delete c zk node_path else pret ()))
       retries delay (''Failed to delete node '' @ node_path) [1..retries]"

definition find_minimum :: "int \<Rightarrow> int \<Rightarrow> int" where
  "find_minimum x y = min x y"

definition lib_execute_command :: "('acl, 'w) it_sys \<Rightarrow> int \<Rightarrow> int list \<Rightarrow> ('w, string) py" where
  "lib_execute_command c zk cmd = pbind (plift (str_encode cmd)) (zk_command c zk)"

section \<open>Properties\<close>

subsection \<open>Text\<close>

lemma base64:
  fixes x :: int
  shows "x div 64 * 64 + x mod 64 = x" "x div 4096 * 4096 + x div 64 mod 64 * 64 + x mod 64 = x"
    "x div 262144 * 262144 + x div 4096 mod 64 * 4096 + x div 64 mod 64 * 64 + x mod 64 = x"
proof -
  have div: "x div 4096 = x div 64 div 64" "x div 262144 = x div 4096 div 64"
    using zdiv_zmult2_eq [of 64 x 64] zdiv_zmult2_eq [of 64 x 4096] by simp_all
  show one: "x div 64 * 64 + x mod 64 = x" by simp
  have "x div 64 div 64 * 64 + x div 64 mod 64 = x div 64" by simp
  with one show two: "x div 4096 * 4096 + x div 64 mod 64 * 64 + x mod 64 = x" unfolding div by linarith
  have "x div 4096 div 64 * 64 + x div 4096 mod 64 = x div 4096" by simp
  with two show "x div 262144 * 262144 + x div 4096 mod 64 * 4096 + x div 64 mod 64 * 64 + x mod 64 = x"
    unfolding div(2) by linarith
qed

definition reads :: "int list \<Rightarrow> int \<Rightarrow> bool" where
  "reads bs x \<longleftrightarrow> (\<forall>r. utf8_text (bs @ r) = map_option ((#) x) (utf8_text r)) \<and> (\<forall>b \<in> set bs. 0 \<le> b \<and> b < 256)"

lemma utf8_text_1: "0 \<le> b \<Longrightarrow> b < 0x80 \<Longrightarrow> reads [b] b"
  by (simp add: reads_def)

lemma utf8_text_2:
  assumes "2 \<le> p" "p < 32" "0 \<le> q" "q < 64" "p * 64 + q = x"
  shows "reads [0xC0 + p, 0x80 + q] x"
  using assms by (auto simp: reads_def cont_def)

lemma utf8_text_3:
  assumes "0 \<le> p" "p < 16" "0 \<le> q" "q < 64" "0 \<le> s" "s < 64" "p * 4096 + q * 64 + s = x" "0x800 \<le> x" "\<not> is_surrogate x"
  shows "reads [0xE0 + p, 0x80 + q, 0x80 + s] x"
  using assms by (simp add: reads_def cont_def Let_def)

lemma utf8_text_4:
  assumes "0 \<le> p" "p < 5" "0 \<le> q" "q < 64" "0 \<le> s" "s < 64" "0 \<le> u" "u < 64"
    "p * 262144 + q * 4096 + s * 64 + u = x" "0x10000 \<le> x" "x < 0x110000"
  shows "reads [0xF0 + p, 0x80 + q, 0x80 + s, 0x80 + u] x"
  using assms by (simp add: reads_def cont_def Let_def add.assoc)

lemma utf8_char_text:
  assumes "utf8_char x = Some bs"
  shows "reads bs x"
proof -
  have x: "0 \<le> x" "x < 0x110000" "\<not> is_surrogate x" using assms by (auto simp: utf8_char_def split: if_splits)
  have mods: "0 \<le> y mod 64" "y mod 64 < 64" for y :: int by simp_all
  consider "x < 0x80" | "0x80 \<le> x" "x < 0x800" | "0x800 \<le> x" "x < 0x10000" | "0x10000 \<le> x" by linarith
  then show ?thesis
  proof cases
    case 1
    with assms x have "bs = [x]" by (simp add: utf8_char_def)
    with utf8_text_1 [OF x(1) 1] show ?thesis by simp
  next
    case 2
    have "2 \<le> x div 64" "x div 64 < 32" using 2 by auto
    note utf8_text_2 [OF this mods base64(1)]
    moreover have "bs = [0xC0 + x div 64, 0x80 + x mod 64]" using assms 2 x by (simp add: utf8_char_def)
    ultimately show ?thesis by (simp only:)
  next
    case 3
    have "0 \<le> x div 4096" "x div 4096 < 16" using 3 by auto
    note utf8_text_3 [OF this mods mods base64(2) 3(1) x(3)]
    moreover have "bs = [0xE0 + x div 4096, 0x80 + x div 64 mod 64, 0x80 + x mod 64]" using assms 3 x by (simp add: utf8_char_def)
    ultimately show ?thesis by (simp only:)
  next
    case 4
    have "0 \<le> x div 262144" "x div 262144 < 5" using 4 x by auto
    note utf8_text_4 [OF this mods mods mods base64(3) 4(1) x(2)]
    moreover have "bs = [0xF0 + x div 262144, 0x80 + x div 4096 mod 64, 0x80 + x div 64 mod 64, 0x80 + x mod 64]"
      using assms 4 x by (simp add: utf8_char_def)
    ultimately show ?thesis by (simp only:)
  qed
qed

lemma utf8_codes_text:
  "utf8_codes xs = Some bs \<Longrightarrow> utf8_text bs = Some xs \<and> (\<forall>b \<in> set bs. 0 \<le> b \<and> b < 256)"
proof (induction xs arbitrary: bs)
  case (Cons x xs)
  then obtain b1 b2 where b: "utf8_char x = Some b1" "utf8_codes xs = Some b2" "bs = b1 @ b2"
    by (auto split: option.splits)
  from utf8_char_text [OF b(1)] Cons.IH [OF b(2)] b(3) show ?case by (auto simp: reads_def)
qed simp

text \<open>A text that could be encoded is decoded to itself.\<close>

lemma utf8_round_trip:
  assumes "str_encode text = Inr bs"
  shows "bytes_decode bs = Inr text"
proof -
  from assms obtain codes where codes: "utf8_codes text = Some codes" "bs = map word_of_int codes"
    by (auto simp: str_encode_def split: option.splits)
  from utf8_codes_text [OF codes(1)] have "map uint bs = codes" "utf8_text codes = Some text"
    by (auto simp: codes(2) uint_word_of_int take_bit_int_eq_self intro!: map_idI)
  then show ?thesis by (simp add: bytes_decode_def)
qed

lemma plift_Inr [simp]: "plift r w = (Inr x, w') \<longleftrightarrow> r = Inr x \<and> w' = w"
  by (auto simp: plift_def split: sum.splits)

text \<open>The value a test writes is the value it reads, when the server stores what it is sent.\<close>

lemma node_value_round_trip:
  assumes "\<And>value v v1. zk_set c zk node_path value v = (Inr (), v1) \<Longrightarrow> zk_get c zk node_path v1 = (Inr value, v1)"
    and "update_node_value c zk node_path new_value w = (Inr (), w1)"
  shows "get_node_value c zk node_path w1 = (Inr new_value, w1)"
proof -
  from assms(2) obtain bs where bs: "str_encode new_value = Inr bs" "zk_set c zk node_path bs w = (Inr (), w1)"
    by (auto simp: update_node_value_def pbind_eq_Inr)
  from assms(1) [OF bs(2)] utf8_round_trip [OF bs(1)] show ?thesis
    by (simp add: get_node_value_def pbind_def plift_def)
qed

subsection \<open>Retries\<close>

text \<open>A keyword that retries returns only from an attempt that succeeded; the attempts are as many as asked for at most.\<close>

lemma retrying_run:
  assumes "retrying c m retries delay failure [k..retries] w = (r, w')" and "k \<le> retries"
  shows "(r = Inr () \<and> (\<exists>v. m v = (Inr (), w'))) \<or>
    (\<exists>e v. m v = (Inl e, w') \<and> (e \<noteq> ConnectionLoss \<and> r = Inl e \<or> e = ConnectionLoss \<and> r = Inl (Exception failure)))"
  using assms
proof (induction "[k..retries]" arbitrary: k w)
  case Nil
  then show ?case by simp
next
  case (Cons j js)
  then have j: "j = k" "js = [k + 1..retries]" by (simp_all add: upto_rec1 [of k retries])
  obtain s w1 where m: "m w = (s, w1)" by fastforce
  show ?case
  proof (cases "\<exists>e. s = Inl e \<and> e = ConnectionLoss \<and> k \<noteq> retries")
    case True
    with Cons.prems m have "retrying c m retries delay failure [k + 1..retries] (time_sleep c delay w1) = (r, w')"
      by (auto simp: upto_rec1 [of k retries])
    moreover from True Cons.prems(2) have "k + 1 \<le> retries" by auto
    ultimately show ?thesis using Cons.hyps(1) [OF j(2)] by blast
  next
    case False
    with Cons.prems m show ?thesis
      by (auto simp: upto_rec1 [of k retries] split: sum.splits if_splits)
  qed
qed

lemma retrying_none: "retries < 1 \<Longrightarrow> retrying c m retries delay failure [1..retries] w = (Inr (), w)"
  by simp

subsection \<open>The tests that are left out\<close>

text \<open>
  The tests of transactional backups run only for a storage the scripts of the daemon accept. They compare the type of the storage as it is
  written, the tests without regard to case.
\<close>

text \<open>A size that can be read for every file: a suite then runs exactly when none of its secrets is missing or empty.\<close>

lemma secrets_are_present_iff:
  assumes "\<And>f w. i_isfile c f w \<Longrightarrow> getsize c f w = (Inr (sz f), w)"
  shows "secrets_are_present c names w =
    (Inr (\<forall>n \<in> set names. i_isfile c (path_join (secrets_dir c) n) w \<and> 0 < sz (path_join (secrets_dir c) n)), w)"
  by (induction names) (auto simp: secret_is_present_def Let_def pbind_def assms)

lemma sasl_tests_run_iff:
  assumes "\<And>f w. i_isfile c f w \<Longrightarrow> getsize c f w = (Inr (sz f), w)"
  shows "sasl_get_excluded_tags c w = (Inr [], w) \<longleftrightarrow>
    (\<forall>n \<in> {''ZOOKEEPER_ADMIN_USERNAME'', ''ZOOKEEPER_ADMIN_PASSWORD'', ''ZOOKEEPER_CLIENT_USERNAME'', ''ZOOKEEPER_CLIENT_PASSWORD''}.
       i_isfile c (path_join (secrets_dir c) n) w \<and> 0 < sz (path_join (secrets_dir c) n))"
  unfolding sasl_get_excluded_tags_def by (simp add: pbind_def secrets_are_present_iff [OF assms] del: secrets_are_present.simps)

lemma pret_eq_Inr: "pret x w = (Inr y, w') \<longleftrightarrow> x = y \<and> w = w'"
  by auto

lemma if_split_run: "(if b then m else n) w = (r, w') \<longleftrightarrow> b \<and> m w = (r, w') \<or> \<not> b \<and> n w = (r, w')"
  by simp

lemma transactional_tests_allowed:
  assumes "get_excluded_tags c w = (Inr tags, w')" and "getenv p ''PV_TYPE'' = i_getenv c ''PV_TYPE''"
    and "''transactional_backup'' \<notin> set tags"
  shows "is_file_system_shared p"
proof -
  let ?T = "if \<not> truthy (i_getenv c ''PV_TYPE'') \<or> ToLower (the (i_getenv c ''PV_TYPE'')) = ''standalone''
    then [''transactional_backup''] else []"
  obtain a b where "tags = a @ ?T @ b"
    using assms(1) unfolding get_excluded_tags_def Let_def pbind_eq_Inr if_split_run pret_eq_Inr by blast
  then have "''transactional_backup'' \<in> set tags" if "\<not> truthy (i_getenv c ''PV_TYPE'') \<or> ToLower (the (i_getenv c ''PV_TYPE'')) = ''standalone''"
    using that by simp
  with assms(3) have "truthy (i_getenv c ''PV_TYPE'')" "ToLower (the (i_getenv c ''PV_TYPE'')) \<noteq> ''standalone''" by auto
  moreover have "ToLower ''standalone'' = ''standalone''" by code_simp
  ultimately show ?thesis using assms(2) by (auto simp: is_file_system_shared_def)
qed

subsection \<open>The wait ends\<close>

text \<open>What is documented of the clock: a sleep lasts at least as long as asked for, and no call turns it back.\<close>

definition clock_documented :: "('acl, 'w) it_sys \<Rightarrow> bool" where
  "clock_documented c \<longleftrightarrow>
     (\<forall>d w. clock c w + d * 1000 \<le> clock c (time_sleep c d w)) \<and>
     (\<forall>m w r w'. PlatformLibrary c m w = (r, w') \<longrightarrow> clock c w \<le> clock c w') \<and>
     (\<forall>ns s l w r w'. deployments_count c ns s l w = (r, w') \<longrightarrow> clock c w \<le> clock c w') \<and>
     (\<forall>ns s l w r w'. active_deployments_count c ns s l w = (r, w') \<longrightarrow> clock c w \<le> clock c w')"

definition onward :: "('acl, 'w) it_sys \<Rightarrow> ('w, 'a) py \<Rightarrow> bool" where
  "onward c m \<longleftrightarrow> (\<forall>w r w'. m w = (r, w') \<longrightarrow> clock c w \<le> clock c w')"

lemma onward_pret: "onward c (pret x)"
  by (simp add: onward_def)

lemma onward_pbind:
  assumes "onward c m" and "\<And>x. onward c (f x)"
  shows "onward c (pbind m f)"
  unfolding onward_def
proof (intro allI impI)
  fix w r w'
  assume run: "pbind m f w = (r, w')"
  obtain s w1 where m: "m w = (s, w1)" by fastforce
  with assms(1) have "clock c w \<le> clock c w1" by (auto simp: onward_def)
  with run m assms(2) show "clock c w \<le> clock c w'"
    by (cases s) (auto simp: pbind_def onward_def intro: order_trans)
qed

lemma onward_split: "(\<And>x y. onward c (f x y)) \<Longrightarrow> onward c (case p of (x, y) \<Rightarrow> f x y)"
  by (cases p) simp

lemma onward_if: "onward c m \<Longrightarrow> onward c n \<Longrightarrow> onward c (if b then m else n)"
  by simp

lemma onward_count:
  assumes "clock_documented c"
  shows "onward c (count_deployments c)"
proof -
  have "onward c (deployments_count c ns s l)" "onward c (active_deployments_count c ns s l)" for ns s l
    using assms by (auto simp: clock_documented_def onward_def)
  then show ?thesis
    unfolding count_deployments_def Let_def by (intro onward_pbind onward_pret onward_split onward_if)
qed

definition counts_ready :: "('acl, 'w) it_sys \<Rightarrow> 'w \<Rightarrow> bool" where
  "counts_ready c w' \<longleftrightarrow> (\<exists>v d t. count_deployments c v = (Inr (d, d, t, t), w') \<and> d \<noteq> 0 \<and> 0 < t)"

lemma checker_loop_ends:
  assumes doc: "clock_documented c"
  shows "\<exists>code w'. checker_loop c deadline w = Some (code, w') \<and>
    (code = 0 \<and> counts_ready c w' \<or> code = 1 \<and> deadline \<le> clock c w')"
proof (induction "nat (deadline - clock c w)" arbitrary: w rule: less_induct)
  case less
  show ?case
  proof (cases "clock c w < deadline")
    case False
    then show ?thesis by (subst checker_loop.simps) simp
  next
    case True
    obtain r w1 where m: "count_deployments c w = (r, w1)" by fastforce
    with onward_count [OF doc] have "clock c w \<le> clock c w1" by (auto simp: onward_def)
    moreover have "clock c w1 + 10 * 1000 \<le> clock c (time_sleep c 10 w1)"
      using doc unfolding clock_documented_def by blast
    ultimately have "nat (deadline - clock c (time_sleep c 10 w1)) < nat (deadline - clock c w)"
      using True by linarith
    note again = less.hyps [OF this]
    show ?thesis
    proof (cases r)
      case (Inl e)
      with True m again show ?thesis by (subst checker_loop.simps) simp
    next
      case (Inr q)
      obtain d rd t rt where q: "q = (d, rd, t, rt)" by (cases q)
      show ?thesis
      proof (cases "d = rd \<and> d \<noteq> 0 \<and> rt = t \<and> t > 0")
        case ready: True
        with m Inr q have "counts_ready c w1" by (auto simp: counts_ready_def)
        with True m Inr q ready show ?thesis by (subst checker_loop.simps) simp
      next
        case False
        with True m Inr q again show ?thesis by (subst checker_loop.simps) auto
      qed
    qed
  qed
qed

text \<open>
  C40. The check of the pods before the integration tests always ends, whatever the cluster answers and however often its library
  fails, as long as the clock follows the sleeps and never goes back. It exits with 0 only when the very last count it made found as
  many ready deployments as deployments, at least one of them, and every operator deployment, of which there is one at least, ready.
  It exits with 1 only when the library could not be created, or not before 500 seconds after its creation.
\<close>

theorem pods_checker_ends:
  assumes "clock_documented c"
    and "PlatformLibrary c (i_getenv c ''ZOOKEEPER_IS_MANAGED_BY_OPERATOR'') (time_sleep c 20 w) = (r, w1)"
  shows "\<exists>code w'. pods_checker c w = Some (code, w') \<and>
    (code = 0 \<and> counts_ready c w' \<or> code = 1 \<and> (\<not> isl r \<longrightarrow> clock c w1 + 500 * 1000 \<le> clock c w'))"
proof (cases r)
  case (Inl e)
  with assms(2) show ?thesis by (simp add: pods_checker_def)
next
  case (Inr l)
  with assms(2) checker_loop_ends [OF assms(1), of "clock c w1 + 500 * 1000" w1] show ?thesis
    by (auto simp: pods_checker_def)
qed

text \<open>A cluster whose deployments become ready half a minute after its start.\<close>

definition lab :: "(unit, int) it_sys" where
  "lab = \<lparr>
     i_getenv = map_of [(''ZOOKEEPER_OS_PROJECT'', ''zookeeper-service''), (''ZOOKEEPER_HOST'', ''zookeeper'')],
     i_isfile = (\<lambda>_ _. False), i_exists = (\<lambda>_ _. False), getsize = (\<lambda>_. praise (Exception ''no such file'')),
     clock = (\<lambda>w. w), time_sleep = (\<lambda>d w. if d < 0 then w else w + d * 1000),
     PlatformLibrary = (\<lambda>_. pret ()),
     deployments_count = (\<lambda>_ _ _. pret 1),
     active_deployments_count = (\<lambda>_ _ _ w. (Inr (if 30000 \<le> w then 1 else 0), w)),
     KazooClient_start = (\<lambda>_ _. pret 0), zk_stop = (\<lambda>_. pret ()), zk_close = (\<lambda>_. pret ()),
     make_digest_acl = (\<lambda>_ _ _. pret ()), make_acl = (\<lambda>_ _ _. pret ()),
     zk_set_acls = (\<lambda>_ _ _. pret ()), zk_get_acls = (\<lambda>_ _. pret []),
     zk_create = (\<lambda>_ _ _. pret ()), zk_get = (\<lambda>_ _. pret []), zk_set = (\<lambda>_ _ _. pret ()),
     zk_exists = (\<lambda>_ _. pret False), zk_delete = (\<lambda>_ _. pret ()), zk_command = (\<lambda>_ _. pret '''') \<rparr>"

theorem pods_checker_ends_witness:
  "clock_documented lab \<and> PlatformLibrary lab (i_getenv lab ''ZOOKEEPER_IS_MANAGED_BY_OPERATOR'') (time_sleep lab 20 0) = (Inr (), 20000) \<and>
   (\<exists>code w'. pods_checker lab 0 = Some (code, w') \<and>
      (code = 0 \<and> counts_ready lab w' \<or> code = 1 \<and> clock lab 20000 + 500 * 1000 \<le> clock lab w'))"
proof -
  have doc: "clock_documented lab" by (simp add: clock_documented_def lab_def)
  have lib: "PlatformLibrary lab (i_getenv lab ''ZOOKEEPER_IS_MANAGED_BY_OPERATOR'') (time_sleep lab 20 0) = (Inr (), 20000)"
    by (simp add: lab_def)
  from pods_checker_ends [OF doc lib] doc lib show ?thesis by simp
qed

lemma lab_ready: "pods_checker lab 0 = Some (0, 30000)"
proof -
  have count: "count_deployments lab w = (Inr (1, if 30000 \<le> w then 1 else 0, 1, if 30000 \<le> w then 1 else 0), w)" for w
    by (simp add: count_deployments_def lab_def pbind_def Let_def truthy_def)
  have lab: "clock lab w = w" "time_sleep lab 10 w = w + 10000" "time_sleep lab 20 w = w + 20000" "PlatformLibrary lab m w = (Inr (), w)" for w m
    by (simp_all add: lab_def)
  show ?thesis by (simp add: pods_checker_def checker_loop.simps count lab)
qed

end
