(* ===== verification/Spec2Isabelle.thy ===== *)
theory Spec2Isabelle
  imports Controller ClusterOperations VaultOperations OperatorRuns ZkAssistant HashVector
    BackupRuns MonitoringScripts DeepCopyV1 DeepCopyAlpha OperatorMain StatusTypes Deployed IntegrationTools
begin

text \<open>
  \<^bold>\<open>Verification of the ZooKeeper operator, its assistant, the backup daemon, the monitoring and the test tools.\<close>

  \<^bold>\<open>The program.\<close> A Kubernetes operator in Go (\<^verbatim>\<open>src/operator\<close>) watches custom resources of kind
  \<^verbatim>\<open>ZooKeeperService\<close>. For each it builds the Kubernetes objects of up to four components (the ZooKeeper
  servers, the backup daemon, the monitoring, the integration tests), applies them through the
  API server, keeps credentials in Vault when asked to, waits for the pods and writes its verdict to
  the status. It remembers hashes of what it has reconciled in memory, so that an unchanged section
  is not applied again. A small server and health check in Go (\<^verbatim>\<open>src/docker-zookeeper/main.go\<close>) runs beside each ZooKeeper
  server. Python scripts make and restore backups in the backup daemon (\<^verbatim>\<open>src/backup-daemon/scripts\<close>): either the newest
  snapshot and the filtered transaction logs of the leader, which the assistant copies on request, or the hierarchy of
  znodes read through a client. Four more (\<^verbatim>\<open>src/monitoring/exec-scripts\<close>) print metrics. The integration tests
  (\<^verbatim>\<open>src/integration-tests\<close>) have Python code that waits for the deployments, chooses tests and drives a client of ZooKeeper.

  \<^bold>\<open>How code becomes definitions.\<close> A Go function that returns a value is a HOL function; one that can
  panic returns an \<open>outcome\<close> (\<open>Ok\<close>, \<open>Err\<close>, \<open>Panic\<close>: a nil dereference, an index out of range and a write
  to a nil map are values). A method of the operator is a computation over \<open>opstate\<close> (theory
  \<open>Environment\<close>): the custom resource it works on, the two tables and the package variables of the
  operator, and the world outside. Everything outside the source (the API server, Vault, the clock, the
  JSON encoder, the password generator, the parser of quantities) is a field of the record \<open>env\<close>, an argument of the
  definitions, over an arbitrary type of worlds. What the proofs rely on is a named hypothesis
  that states documented behaviour: \<open>control_documented\<close> (\<^verbatim>\<open>RetryOnConflict\<close> repeats its function on
  conflicts, \<^verbatim>\<open>PollUntilContextTimeout\<close> its condition), \<open>status_documented\<close> (\<^verbatim>\<open>Status().Update\<close> answers with
  the object sent), \<open>secret_update_documented\<close> and \<open>owner_documented\<close>. Theory \<open>Cluster\<close> has an environment in
  memory that satisfies all of them; the witnesses run on it. Replica counts are 32-bit words;
  server numbers and lengths are integers that the code never brings near their bounds.
  A Python function that can raise is a function to a sum: over the bytes left of a stream
  (\<open>reader\<close>, theory \<open>TransactionLogs\<close>) or over the world (\<open>py\<close>, theory \<open>PyRuntime\<close>), where \<open>pfinally\<close> is
  \<^verbatim>\<open>try ... finally\<close>. Files, processes, requests and the kazoo client are fields of \<open>py_sys\<close> and \<open>mon_sys\<close>. What their
  claims assume is that modification times, znodes or answers do not change during the run; the machine in
  \<open>BackupRuns\<close> and the one at the end of \<open>MonitoringScripts\<close> satisfy it.

  \<^bold>\<open>The theories.\<close>
  \<^item> \<open>Prelude\<close>: outcomes, computations, the frame calculus (\<open>stays R m\<close>: every run of \<open>m\<close> relates its
    states by \<open>R\<close>; locale \<open>frame_rel\<close>), maps. \<open>GoStrings\<close>: the functions of \<^verbatim>\<open>strings\<close>, \<^verbatim>\<open>strconv\<close> and \<^verbatim>\<open>fmt\<close> the code uses.
  \<^item> \<open>KubeTypes\<close>, \<open>ApiTypes\<close>: the Kubernetes objects as far as the code fills them, and the custom
    resource (\<^verbatim>\<open>api/v1/zookeeperservice_types.go\<close>). \<open>Samples\<close>: values for the witnesses.
  \<^item> \<open>GoMemory\<close>, \<open>DeepCopyV1\<close>, \<open>DeepCopyAlpha\<close>: \<^verbatim>\<open>zz_generated.deepcopy.go\<close> of both API versions and the structs of
    \<^verbatim>\<open>v1alpha1\<close>. The other theories take a struct for its value; here a pointer, slice or map is a reference to a block of a
    memory, the generated functions allocate and copy blocks, and locale \<open>deep_copier\<close>
    says what a deep copy is: it returns, reads as the same value and shares no block. Every generated function is an
    instance; C13 for the custom resource.
  \<^item> \<open>Hash\<close>, \<open>HashVector\<close>, \<open>Util\<close>: \<^verbatim>\<open>operator/util\<close>. SHA-256 is written out over 32-bit words, its constants
    derived from the roots of primes that define them, and checked on a published vector (C12).
  \<^item> \<open>ServiceProvider\<close>, \<open>ZooKeeperProvider\<close>, \<open>BackupDaemonProvider\<close>, \<open>MonitoringProvider\<close>: the builders of
    \<^verbatim>\<open>controllers/provider\<close>. Lemmas: selectors match exactly their own pods; the volumes and mounts of every
    pod are well formed (locale \<open>workload\<close>); ports and probes agree; claims and volumes agree; when a builder panics; parsed environment variables. C7 to C10.
  \<^item> \<open>Environment\<close>: the operator's state and the world, retries and polls as inductive relations
    (\<open>retried\<close>, \<open>polled\<close>), locale \<open>world_frame\<close>.
  \<^item> \<open>Conditions\<close>: \<^verbatim>\<open>condition.go\<close>; the list of conditions refines a table indexed by reason (C14).
  \<^item> \<open>ServiceReconciler\<close>: \<^verbatim>\<open>zookeeperservice_reconciler.go\<close> and \<^verbatim>\<open>deployment_secret_restart.go\<close>; locale
    \<open>applied_object\<close> for create-or-update.
  \<^item> \<open>VaultClient\<close>, \<open>ZooKeeperVault\<close>: \<^verbatim>\<open>vault_client.go\<close>, \<^verbatim>\<open>zookeeper_vault.go\<close>; locale \<open>password_source\<close>.
  \<^item> \<open>ReconcilerBase\<close>, \<open>ZooKeeperReconciler\<close>, \<open>BackupDaemonReconciler\<close>, \<open>MonitoringReconciler\<close>: the component
    reconcilers, each an interpretation of the locale \<open>reconcile_service\<close>: it commits the hash of its section
    exactly when it succeeds, touches no other entry and no condition.
  \<^item> \<open>Controller\<close>: \<^verbatim>\<open>zookeeperservice_controller.go\<close>, the whole \<^verbatim>\<open>Reconcile\<close>. C1 to C6.
  \<^item> \<open>Cluster\<close>: the environment in memory. \<open>ClusterOperations\<close>, \<open>VaultOperations\<close>: what the operations on the
    cluster and on Vault promise, C15 to C20.
  \<^item> \<open>OperatorRuns\<close>: readiness and downscaling (C23, C24), and the operator over time as a step relation
    (start, request with any outcome, change of the cluster, restart): C25 to C27.
  \<^item> \<open>StatusTypes\<close>: the types of conditions as a predicate, which every way a reconciliation can end preserves (C32).
  \<^item> \<open>OperatorMain\<close>: \<^verbatim>\<open>main.go\<close> and \<^verbatim>\<open>SetupWithManager\<close>; the grammar of the package \<^verbatim>\<open>flag\<close> with a printer as its
    specification, and how the process ends (C33).
  \<^item> \<open>ZkAssistant\<close>: \<^verbatim>\<open>docker-zookeeper/main.go\<close>, C28 and C29.
  \<^item> \<open>TransactionLogs\<close>: \<^verbatim>\<open>parse_transaction_logs.py\<close> and the filter of \<^verbatim>\<open>process_zookeeper_logs.py\<close>, with an encoder of the
    format ZooKeeper writes as the specification (locale \<open>wire_codec\<close>): what the filter keeps, drops and cannot read. C30, C31 and C34.
  \<^item> \<open>PyRuntime\<close>: computations of Python, its strings and paths, \<^verbatim>\<open>zookeeper_client.py\<close>. \<open>BackupLogs\<close>: the rest of
    \<^verbatim>\<open>process_zookeeper_logs.py\<close>, the transactional modes of \<^verbatim>\<open>backup.py\<close> and \<^verbatim>\<open>restore.py\<close>, C35. \<open>ZnodeHierarchy\<close>:
    \<^verbatim>\<open>process_znode_hierarchy.py\<close>, C37 and C38. \<open>BackupRuns\<close>: the two commands, and a machine to run them on.
  \<^item> \<open>MonitoringScripts\<close>: \<^verbatim>\<open>health_metric.py\<close>, \<^verbatim>\<open>zk_project_info.py\<close>, \<^verbatim>\<open>version_info.py\<close>, \<^verbatim>\<open>backup_metric.py\<close>, C39.
  \<^item> \<open>Deployed\<close>: the parts together. The environment and the files of a container are derived from the deployment the operator
    builds, by the documented rules of Kubernetes (a later entry of a variable wins, \<^verbatim>\<open>$(NAME)\<close> is expanded, a mount shows the
    volume of its name), and the scripts run in it: the backup daemon finds its settings (C11), the monitoring finds the servers and
    the daemon (C21), servers and daemon share the storage transactional backups need (C22), and a
    transactional backup with the assistants as the servers that answer it (C36).
  \<^item> \<open>IntegrationTools\<close>: \<^verbatim>\<open>zookeeper_pods_checker.py\<close>, the four \<^verbatim>\<open>tags_exclusion.py\<close> and \<^verbatim>\<open>ZookeeperLibrary.py\<close>. The wait for the
    deployments ends (C40); text survives UTF-8; what a retried keyword returns.

  \<^bold>\<open>Loops.\<close> Loops over slices are structural recursions (\<open>forM\<close>, \<open>foldMc\<close>, \<open>fun\<close>) and total; no definition
  uses fuel. The loop over a transaction log ends because every record takes bytes of it. The visit of the znodes follows what the server
  answers and is a partial function; C37 shows that it returns on every finite tree. The wait for the
  deployments follows the clock and is a partial function too; C40 shows that it returns when the clock advances with the sleeps. The two loops the code leaves to its libraries, retrying and polling, are relations that
  hold of every finite run, whatever the number of rounds; what happens between the rounds is any change
  of the world.

  \<^bold>\<open>Not modelled.\<close> Logging, and the texts of messages nothing reads. What the manager of the controller library does once it is
  started: \<open>OperatorRuns\<close> takes its requests in any order. The scripts of the images in shell, Helm charts and the tests
  written for Robot Framework or as unit tests: they are no code of the modelled programs, and the charts are templates whose
  values reach the operator only through the custom resource. In the Python scripts: the configuration
  of logging, the parsing of arguments, the recursion limit of the interpreter; JSON numbers are integers and
  regular expressions are read over ASCII text.
\<close>

end
